(* ===== verification/Ks_Prelude.thy ===== *)
theory Ks_Prelude
  imports Main "HOL-Library.Word"
begin

text \<open>
  Shared vocabulary of the development: the widths of the Rust integers that are kept as
  machine words, byte strings, the sequencing combinator of Rust's \<open>Result\<close>
  (\<open>and_then\<close>, which is also what the \<open>?\<close> operator does), the combinators on
  lists that the SQL statements are translated to (rows selected, updated and deleted by a
  predicate), and the generic lemmas about them.  The collection \<open>res_simps\<close> holds the
  rewrite rules for results, \<open>row_simps\<close> those for tables.
\<close>

named_theorems res_simps \<open>rewrite rules for results\<close>
named_theorems row_simps \<open>rewrite rules for tables of rows\<close>

type_synonym u8 = "8 word"
type_synonym i32 = "32 word"
type_synonym i64 = "64 word"
type_synonym bytes = "u8 list"

section \<open>Results\<close>

text \<open>Rust's \<open>Result::and_then\<close>: the first error wins, a value is passed on.\<close>

definition and_then :: "'e + 'a \<Rightarrow> ('a \<Rightarrow> 'e + 'b) \<Rightarrow> 'e + 'b" where
  "and_then r f = (case r of Inl e \<Rightarrow> Inl e | Inr v \<Rightarrow> f v)"

definition map_res :: "('a \<Rightarrow> 'b) \<Rightarrow> 'e + 'a \<Rightarrow> 'e + 'b" where
  "map_res f r = (case r of Inl e \<Rightarrow> Inl e | Inr v \<Rightarrow> Inr (f v))"

definition ok_or :: "'a option \<Rightarrow> 'e \<Rightarrow> 'e + 'a" where
  "ok_or x e = (case x of None \<Rightarrow> Inl e | Some v \<Rightarrow> Inr v)"

definition is_ok :: "'e + 'a \<Rightarrow> bool" where
  "is_ok r = (case r of Inl _ \<Rightarrow> False | Inr _ \<Rightarrow> True)"

lemma and_then_simps [simp, res_simps]:
  "and_then (Inl e) f = Inl e"
  "and_then (Inr v) f = f v"
  by (simp_all add: and_then_def)

lemma map_res_simps [simp, res_simps]:
  "map_res f (Inl e) = Inl e"
  "map_res f (Inr v) = Inr (f v)"
  by (simp_all add: map_res_def)

lemma ok_or_simps [simp, res_simps]:
  "ok_or None e = Inl e"
  "ok_or (Some v) e = Inr v"
  by (simp_all add: ok_or_def)

lemma is_ok_simps [simp, res_simps]:
  "\<not> is_ok (Inl e)"
  "is_ok (Inr v)"
  by (simp_all add: is_ok_def)

lemma and_then_Inr_iff:
  "and_then r f = Inr w \<longleftrightarrow> (\<exists>v. r = Inr v \<and> f v = Inr w)"
  by (cases r) auto

lemma and_then_Inl_iff:
  "and_then r f = Inl e \<longleftrightarrow> r = Inl e \<or> (\<exists>v. r = Inr v \<and> f v = Inl e)"
  by (cases r) auto

lemma map_res_Inr_iff: "map_res f r = Inr w \<longleftrightarrow> (\<exists>v. r = Inr v \<and> w = f v)"
  by (cases r) auto

lemma ok_or_Inr_iff: "ok_or x e = Inr v \<longleftrightarrow> x = Some v"
  by (cases x) auto

lemma map_res_Inl_iff: "map_res f r = Inl e \<longleftrightarrow> r = Inl e"
  by (cases r) auto

lemma ok_or_Inl_iff: "ok_or x e = Inl e' \<longleftrightarrow> x = None \<and> e' = e"
  by (cases x) auto

lemma is_ok_iff: "is_ok r \<longleftrightarrow> (\<exists>v. r = Inr v)"
  by (cases r) auto

lemma is_ok_and_then [simp]: "is_ok (and_then r f) \<longleftrightarrow> (\<exists>v. r = Inr v \<and> is_ok (f v))"
  by (cases r) auto

lemmas res_iffs = and_then_Inr_iff and_then_Inl_iff map_res_Inr_iff ok_or_Inr_iff

lemmas res_errors = and_then_Inl_iff map_res_Inl_iff ok_or_Inl_iff

text \<open>A loop over a slice whose body may fail stops at the first error.\<close>

fun for_each_res :: "('a \<Rightarrow> 'e + unit) \<Rightarrow> 'a list \<Rightarrow> 'e + unit" where
  "for_each_res f [] = Inr ()"
| "for_each_res f (x # xs) = and_then (f x) (\<lambda>_. for_each_res f xs)"

lemma for_each_res_ok: "for_each_res f xs = Inr () \<longleftrightarrow> (\<forall>x\<in>set xs. f x = Inr ())"
  by (induction xs) (auto simp: and_then_Inr_iff)

lemma for_each_res_error:
  "for_each_res f xs = Inl e \<Longrightarrow> \<exists>x\<in>set xs. f x = Inl e"
  by (induction xs) (auto simp: and_then_Inl_iff)

fun map_res_list :: "('a \<Rightarrow> 'e + 'b) \<Rightarrow> 'a list \<Rightarrow> 'e + 'b list" where
  "map_res_list f [] = Inr []"
| "map_res_list f (x # xs) = and_then (f x) (\<lambda>y. map_res (\<lambda>ys. y # ys) (map_res_list f xs))"

lemma map_res_list_Inr_mem:
  assumes "map_res_list f xs = Inr ys" and "y \<in> set ys"
  obtains x where "x \<in> set xs" and "f x = Inr y"
proof -
  from assms have "\<exists>x\<in>set xs. f x = Inr y"
    by (induction xs arbitrary: ys) (auto simp: res_iffs)
  with that show thesis by blast
qed

lemma map_res_list_total:
  "(\<And>x. x \<in> set xs \<Longrightarrow> f x = Inr (g x)) \<Longrightarrow> map_res_list f xs = Inr (map g xs)"
  by (induction xs) simp_all

section \<open>Tables\<close>

text \<open>
  A table is the list of its rows in rowid order.  \<open>delete_where\<close> is SQL's
  \<open>DELETE ... WHERE\<close>; \<open>update_where\<close> is \<open>UPDATE ... SET ... WHERE\<close> together with
  the number of rows it changed; a \<open>SELECT\<close> is a \<open>filter\<close>.
\<close>

definition delete_where :: "('r \<Rightarrow> bool) \<Rightarrow> 'r list \<Rightarrow> 'r list" where
  "delete_where p t = filter (\<lambda>r. \<not> p r) t"

definition update_where :: "('r \<Rightarrow> bool) \<Rightarrow> ('r \<Rightarrow> 'r) \<Rightarrow> 'r list \<Rightarrow> 'r list" where
  "update_where p f t = map (\<lambda>r. if p r then f r else r) t"

definition count_where :: "('r \<Rightarrow> bool) \<Rightarrow> 'r list \<Rightarrow> nat" where
  "count_where p t = length (filter p t)"

lemma set_delete_where [simp, row_simps]: "set (delete_where p t) = {r \<in> set t. \<not> p r}"
  by (auto simp: delete_where_def)

lemma delete_where_Nil [simp]: "delete_where p [] = []"
  by (simp add: delete_where_def)

lemma filter_delete_where [row_simps]:
  "filter q (delete_where p t) = filter (\<lambda>r. q r \<and> \<not> p r) t"
  by (simp add: delete_where_def conj_commute)

lemma delete_where_id: "(\<And>r. r \<in> set t \<Longrightarrow> \<not> p r) \<Longrightarrow> delete_where p t = t"
  by (simp add: delete_where_def)

lemma set_update_where [simp, row_simps]:
  "set (update_where p f t) = {r \<in> set t. \<not> p r} \<union> f ` {r \<in> set t. p r}"
  by (auto simp: update_where_def)

lemma length_update_where [simp]: "length (update_where p f t) = length t"
  by (simp add: update_where_def)

lemma update_where_Nil [simp]: "update_where p f [] = []"
  by (simp add: update_where_def)

lemma map_update_where:
  "(\<And>r. r \<in> set t \<Longrightarrow> p r \<Longrightarrow> g (f r) = g r) \<Longrightarrow> map g (update_where p f t) = map g t"
  by (simp add: update_where_def)

lemma distinct_map_delete_where:
  "distinct (map g t) \<Longrightarrow> distinct (map g (delete_where p t))"
  by (simp add: delete_where_def distinct_map_filter)

lemma count_where_0_iff: "count_where p t = 0 \<longleftrightarrow> (\<forall>r\<in>set t. \<not> p r)"
  by (auto simp: count_where_def filter_empty_conv)

lemma distinct_map_inj:
  "distinct (map g t) \<Longrightarrow> x \<in> set t \<Longrightarrow> y \<in> set t \<Longrightarrow> g x = g y \<Longrightarrow> x = y"
  by (auto simp: distinct_map dest: inj_onD)

text \<open>A query on a unique column finds at most one row.\<close>

lemma filter_unique_key:
  assumes "distinct (map g t)" and "r \<in> set t"
  shows "filter (\<lambda>x. g x = g r) t = [r]"
  using assms
proof (induction t)
  case Nil
  then show ?case by simp
next
  case (Cons a t)
  show ?case
  proof (cases "a = r")
    case True
    with Cons.prems have "filter (\<lambda>x. g x = g r) t = []"
      by (simp add: filter_empty_conv) (metis image_eqI)
    with True show ?thesis by simp
  next
    case False
    with Cons.prems have "r \<in> set t" and "g a \<noteq> g r" by auto
    with Cons show ?thesis by simp
  qed
qed

lemma count_where_unique:
  assumes "distinct (map g t)" and "r \<in> set t" and "p r"
    and "\<And>x. p x \<Longrightarrow> g x = g r"
  shows "count_where p t = 1"
proof -
  have "filter p t = filter p (filter (\<lambda>x. g x = g r) t)"
    using assms(4) by (auto simp: filter_filter intro: filter_cong)
  also have "\<dots> = [r]"
    using filter_unique_key [OF assms(1,2)] assms(3) by simp
  finally show ?thesis by (simp add: count_where_def)
qed

section \<open>Transition systems\<close>

text \<open>
  Components with state are transition systems: a set of initial states and one step per
  operation.  A predicate that holds initially and is kept by every step holds in every
  reachable state.
\<close>

locale transition_system =
  fixes init :: "'s \<Rightarrow> bool"
    and step :: "'s \<Rightarrow> 's \<Rightarrow> bool"
    and invariant :: "'s \<Rightarrow> bool"
  assumes invariant_init: "init s \<Longrightarrow> invariant s"
    and invariant_step: "invariant s \<Longrightarrow> step s s' \<Longrightarrow> invariant s'"
begin

lemma invariant_steps: "step\<^sup>*\<^sup>* s s' \<Longrightarrow> invariant s \<Longrightarrow> invariant s'"
  by (induction rule: rtranclp_induct) (auto intro: invariant_step)

lemma invariant_reachable: "init s \<Longrightarrow> step\<^sup>*\<^sup>* s s' \<Longrightarrow> invariant s'"
  by (blast intro: invariant_steps invariant_init)

end

end
