(* ===== verification/Ks_Error.thy ===== *)
theory Ks_Error
  imports Ks_Prelude
begin

text \<open>
  The error component (\<open>src/keystore2/src/error.rs\<close>): Keystore's own error type, the
  root causes an \<open>anyhow::Error\<close> can carry, and the functions that translate between
  binder statuses and Keystore errors in both directions.

  The AIDL enumerations \<open>ErrorCode\<close> and \<open>ResponseCode\<close> are declared outside this
  repository.  Their variants are constructors here (with one constructor for the values the
  sources never name), and the numbers they stand for are a parameter, the record
  \<open>aidl_codes\<close>.  What error.rs states about those numbers in its comments (KeyMint codes
  are negative, response codes are positive) is the predicate \<open>wf_codes\<close>.
\<close>

section \<open>Error values\<close>

datatype error_code =
    EC_BOOT_LEVEL_EXCEEDED | EC_CALLER_NONCE_PROHIBITED | EC_DEVICE_LOCKED
  | EC_INCOMPATIBLE_PURPOSE | EC_INVALID_KEY_BLOB | EC_KEY_EXPIRED | EC_KEY_NOT_YET_VALID
  | EC_KEY_USER_NOT_AUTHENTICATED | EC_UNSUPPORTED_PURPOSE | EC_CANNOT_ATTEST_IDS
  | EC_HARDWARE_TYPE_UNAVAILABLE | EC_INVALID_ARGUMENT | EC_INVALID_OPERATION_HANDLE
  | EC_KEY_REQUIRES_UPGRADE | EC_ROOT_OF_TRUST_ALREADY_SET | EC_TOO_MANY_OPERATIONS
  | EC_UNIMPLEMENTED | EC_UNKNOWN_ERROR | EC_other int

datatype response_code =
    RC_BACKEND_BUSY | RC_INVALID_ARGUMENT | RC_KEY_NOT_FOUND | RC_LOCKED | RC_OPERATION_BUSY
  | RC_OUT_OF_KEYS | RC_PERMISSION_DENIED | RC_SYSTEM_ERROR | RC_TOO_MUCH_DATA
  | RC_UNINITIALIZED | RC_VALUE_CORRUPTED | RC_UNIMPLEMENTED | RC_other int

datatype exception_code = SERVICE_SPECIFIC | TRANSACTION_FAILED | OtherException int

datatype ks_error =
    Rc response_code
  | Km error_code
  | Binder exception_code int
  | BinderTransaction int
  | Rp error_code

datatype selinux_error = PermissionDenied | SystemError string

text \<open>
  The error types of the other modules: the response codes of \<open>android.security.authorization\<close>,
  \<open>android.security.apc\<close> and \<open>android.security.legacykeystore\<close> that the sources name,
  and the errors of legacy\_blob.rs.
\<close>

datatype authz_response_code =
    AZ_SYSTEM_ERROR | AZ_KEY_NOT_FOUND | AZ_VALUE_CORRUPTED | AZ_INVALID_ARGUMENT
  | AZ_PERMISSION_DENIED | AZ_NO_AUTH_TOKEN_FOUND

datatype apc_response_code =
    APC_OK | APC_CANCELLED | APC_ABORTED | APC_OPERATION_PENDING | APC_IGNORED
  | APC_SYSTEM_ERROR | APC_UNIMPLEMENTED | APC_PERMISSION_DENIED

datatype legacy_keystore_code = LK_SYSTEM_ERROR | LK_ENTRY_NOT_FOUND | LK_PERMISSION_DENIED

datatype legacy_blob_error = BadLen | BadEncoding

text \<open>
  The root cause of an \<open>anyhow::Error\<close>.  Two values are not errors of the program.
  \<open>Blocked\<close> is the value of a call that does not return in the given state, because it
  waits for a lock that another guard holds or for a message nobody has sent, or because its
  retry loop has used up the random numbers it was given; a theorem that a call returns says
  that its value is not \<open>Blocked\<close>.  \<open>Panicked\<close> is the value of a call that panics
  (\<open>panic!\<close>, \<open>unwrap\<close> or \<open>expect\<close> on the wrong variant, an index out of range).
\<close>

datatype err =
    Ks ks_error
  | Selinux selinux_error
  | IoError
  | OtherErr string
  | Authz authz_response_code
  | Apc apc_response_code
  | LegacyKs legacy_keystore_code
  | LegacyBlob legacy_blob_error
  | Blocked
  | Panicked

type_synonym 'a res = "err + 'a"

abbreviation sys :: err where
  "sys \<equiv> Ks (Rc RC_SYSTEM_ERROR)"

abbreviation perm_denied :: err where
  "perm_denied \<equiv> Ks (Rc RC_PERMISSION_DENIED)"

abbreviation selinux_perm :: err where
  "selinux_perm \<equiv> Selinux PermissionDenied"

section \<open>Binder statuses\<close>

record aidl_codes =
  ec_value :: "error_code \<Rightarrow> int"
  ec_make :: "int \<Rightarrow> error_code"
  rc_value :: "response_code \<Rightarrow> int"

record binder_status =
  bs_exception :: exception_code
  bs_service_specific :: int
  bs_transaction :: int

type_synonym 'a binder_result = "binder_status + 'a"

definition new_service_specific_error :: "int \<Rightarrow> binder_status" where
  "new_service_specific_error c =
     \<lparr>bs_exception = SERVICE_SPECIFIC, bs_service_specific = c, bs_transaction = 0\<rparr>"

definition map_km_error :: "aidl_codes \<Rightarrow> 'a binder_result \<Rightarrow> ks_error + 'a" where
  "map_km_error A r =
     (case r of
        Inr v \<Rightarrow> Inr v
      | Inl s \<Rightarrow> Inl
          (case bs_exception s of
             SERVICE_SPECIFIC \<Rightarrow>
               (let se = bs_service_specific s
                in if se < 0 then Km (ec_make A (bs_service_specific s))
                   else Binder SERVICE_SPECIFIC se)
           | e_code \<Rightarrow> Binder e_code 0))"

definition map_rem_prov_error :: "aidl_codes \<Rightarrow> 'a binder_result \<Rightarrow> ks_error + 'a" where
  "map_rem_prov_error A r =
     (case r of
        Inr v \<Rightarrow> Inr v
      | Inl s \<Rightarrow> Inl
          (case bs_exception s of
             SERVICE_SPECIFIC \<Rightarrow> Rp (ec_make A (bs_service_specific s))
           | e_code \<Rightarrow> Binder e_code 0))"

definition map_binder_status :: "'a binder_result \<Rightarrow> ks_error + 'a" where
  "map_binder_status r =
     (case r of
        Inr v \<Rightarrow> Inr v
      | Inl s \<Rightarrow> Inl
          (case bs_exception s of
             SERVICE_SPECIFIC \<Rightarrow> Binder SERVICE_SPECIFIC (bs_service_specific s)
           | TRANSACTION_FAILED \<Rightarrow> BinderTransaction (bs_transaction s)
           | e_code \<Rightarrow> Binder e_code 0))"

definition map_binder_status_code :: "int + 'a \<Rightarrow> ks_error + 'a" where
  "map_binder_status_code r = (case r of Inl e \<Rightarrow> Inl (BinderTransaction e) | Inr v \<Rightarrow> Inr v)"

section \<open>Service specific error codes\<close>

definition get_error_code :: "aidl_codes \<Rightarrow> err \<Rightarrow> int" where
  "get_error_code A root_cause =
     (case root_cause of
        Ks (Rc rcode) \<Rightarrow> rc_value A rcode
      | Ks (Km ec) \<Rightarrow> ec_value A ec
      | Ks (Rp _) \<Rightarrow> rc_value A RC_SYSTEM_ERROR
      | Ks (Binder _ _) \<Rightarrow> rc_value A RC_SYSTEM_ERROR
      | Ks (BinderTransaction _) \<Rightarrow> rc_value A RC_SYSTEM_ERROR
      | Selinux PermissionDenied \<Rightarrow> rc_value A RC_PERMISSION_DENIED
      | _ \<Rightarrow> rc_value A RC_SYSTEM_ERROR)"

definition map_err_with ::
    "aidl_codes \<Rightarrow> 'u res \<Rightarrow> (err \<Rightarrow> err) \<Rightarrow> ('u \<Rightarrow> 't binder_result) \<Rightarrow> 't binder_result" where
  "map_err_with A result map_err handle_ok =
     (case result of
        Inl e \<Rightarrow>
          (let e' = map_err e;
               rc = get_error_code A e'
           in Inl (new_service_specific_error rc))
      | Inr v \<Rightarrow> handle_ok v)"

text \<open>
  \<open>map_or_log_err\<close> returns what \<open>map_err_with\<close> returns on the unchanged error, and
  whether it wrote the error to the log.
\<close>

definition map_or_log_err ::
    "aidl_codes \<Rightarrow> 'u res \<Rightarrow> ('u \<Rightarrow> 't binder_result) \<Rightarrow> bool \<times> 't binder_result" where
  "map_or_log_err A result handle_ok =
     ((case result of Inl e \<Rightarrow> e \<noteq> Ks (Rc RC_KEY_NOT_FOUND) | Inr _ \<Rightarrow> False),
      map_err_with A result (\<lambda>e. e) handle_ok)"

section \<open>What the callers rely on\<close>

definition wf_codes :: "aidl_codes \<Rightarrow> bool" where
  "wf_codes A \<longleftrightarrow>
     (\<forall>c. ec_value A c < 0 \<and> ec_make A (ec_value A c) = c) \<and>
     (\<forall>c. 0 < rc_value A c) \<and> inj (rc_value A)"

lemma map_km_error_Inr_iff [simp, res_simps]: "map_km_error A r = Inr v \<longleftrightarrow> r = Inr v"
  by (cases r) (simp_all add: map_km_error_def)

lemma map_km_error_ok [simp]: "map_km_error A (Inr v) = Inr v"
  by (simp add: map_km_error_def)

lemma map_binder_status_Inr_iff [simp, res_simps]: "map_binder_status r = Inr v \<longleftrightarrow> r = Inr v"
  by (cases r) (simp_all add: map_binder_status_def)

lemma wf_codesD:
  assumes "wf_codes A"
  shows "ec_value A c < 0" and "ec_make A (ec_value A c) = c" and "0 < rc_value A d"
    and "rc_value A d = rc_value A d' \<longleftrightarrow> d = d'"
  using assms by (auto simp: wf_codes_def inj_eq)

lemma get_error_code_negative_iff:
  assumes "wf_codes A"
  shows "get_error_code A e < 0 \<longleftrightarrow> (\<exists>c. e = Ks (Km c))"
proof -
  have "\<not> rc_value A d < 0" for d
    using wf_codesD(3) [OF assms, of d] by simp
  then show ?thesis
    using wf_codesD(1) [OF assms]
    by (auto simp: get_error_code_def split: err.splits ks_error.splits selinux_error.splits)
qed

lemma get_error_code_positive:
  assumes "wf_codes A" and "\<And>c. e \<noteq> Ks (Km c)"
  shows "0 < get_error_code A e"
  using wf_codesD(3) [OF assms(1)] assms(2)
  by (auto simp: get_error_code_def split: err.splits ks_error.splits selinux_error.splits)

text \<open>
  A concrete numbering for the witnesses: KeyMint codes are numbered below zero, response
  codes above zero, the unnamed values beyond the named ones.
\<close>

definition ex_ec_list :: "error_code list" where
  "ex_ec_list = [EC_BOOT_LEVEL_EXCEEDED, EC_CALLER_NONCE_PROHIBITED, EC_DEVICE_LOCKED,
     EC_INCOMPATIBLE_PURPOSE, EC_INVALID_KEY_BLOB, EC_KEY_EXPIRED, EC_KEY_NOT_YET_VALID,
     EC_KEY_USER_NOT_AUTHENTICATED, EC_UNSUPPORTED_PURPOSE, EC_CANNOT_ATTEST_IDS,
     EC_HARDWARE_TYPE_UNAVAILABLE, EC_INVALID_ARGUMENT, EC_INVALID_OPERATION_HANDLE,
     EC_KEY_REQUIRES_UPGRADE, EC_ROOT_OF_TRUST_ALREADY_SET, EC_TOO_MANY_OPERATIONS,
     EC_UNIMPLEMENTED, EC_UNKNOWN_ERROR]"

fun ex_ec_value :: "error_code \<Rightarrow> int" where
  "ex_ec_value (EC_other n) = (if 0 \<le> n then - 20 - 2 * n else - 19 + 2 * n)"
| "ex_ec_value c = - 1 - int (length (takeWhile (\<lambda>d. d \<noteq> c) ex_ec_list))"

definition ex_ec_make :: "int \<Rightarrow> error_code" where
  "ex_ec_make n =
     (if - 19 < n \<and> n < 0 then ex_ec_list ! nat (- 1 - n)
      else if even n then EC_other ((- 20 - n) div 2) else EC_other ((n + 19) div 2))"

fun ex_rc_value :: "response_code \<Rightarrow> int" where
  "ex_rc_value RC_BACKEND_BUSY = 1"
| "ex_rc_value RC_INVALID_ARGUMENT = 2"
| "ex_rc_value RC_KEY_NOT_FOUND = 3"
| "ex_rc_value RC_LOCKED = 4"
| "ex_rc_value RC_OPERATION_BUSY = 5"
| "ex_rc_value RC_OUT_OF_KEYS = 6"
| "ex_rc_value RC_PERMISSION_DENIED = 7"
| "ex_rc_value RC_SYSTEM_ERROR = 8"
| "ex_rc_value RC_TOO_MUCH_DATA = 9"
| "ex_rc_value RC_UNINITIALIZED = 10"
| "ex_rc_value RC_VALUE_CORRUPTED = 11"
| "ex_rc_value RC_UNIMPLEMENTED = 12"
| "ex_rc_value (RC_other n) = (if 0 \<le> n then 20 + 2 * n else 19 - 2 * n)"

definition ex_codes :: aidl_codes where
  "ex_codes = \<lparr>ec_value = ex_ec_value, ec_make = ex_ec_make, rc_value = ex_rc_value\<rparr>"

lemma ex_ec_roundtrip: "ex_ec_value c < 0 \<and> ex_ec_make (ex_ec_value c) = c"
proof (cases c)
  case (EC_other n)
  show ?thesis
  proof (cases "0 \<le> n")
    case True
    with EC_other show ?thesis by (auto simp: ex_ec_make_def)
  next
    case False
    then have "odd (- 19 + 2 * n)" by simp
    with False EC_other show ?thesis by (auto simp: ex_ec_make_def)
  qed
qed (simp_all add: ex_ec_list_def ex_ec_make_def)

lemma ex_rc_inj: "inj ex_rc_value"
proof (rule injI)
  fix c d assume "ex_rc_value c = ex_rc_value d"
  then show "c = d"
    by (cases c; cases d) (auto split: if_splits, presburger+)
qed

lemma wf_ex_codes: "wf_codes ex_codes"
proof -
  have "0 < ex_rc_value c" for c by (cases c) auto
  then show ?thesis
    using ex_ec_roundtrip ex_rc_inj by (simp add: wf_codes_def ex_codes_def)
qed

section \<open>Properties\<close>

text \<open>The sign of a service specific error tells a client which interface the error
  comes from: for every root cause, the code a Keystore call reports is negative exactly when
  the cause is a KeyMint error code, and positive otherwise, so the two numberings never
  collide.\<close>

theorem error_code_sign:
  assumes "wf_codes A"
  shows "if (\<exists>c. e = Ks (Km c)) then get_error_code A e < 0 else 0 < get_error_code A e"
  using get_error_code_negative_iff [OF assms, of e] get_error_code_positive [OF assms, of e]
  by auto

theorem error_code_sign_witness:
  "get_error_code ex_codes (Ks (Km EC_DEVICE_LOCKED)) < 0 \<and> 0 < get_error_code ex_codes (Ks (Rc RC_LOCKED))"
  using error_code_sign [OF wf_ex_codes, of "Ks (Km EC_DEVICE_LOCKED)"]
    error_code_sign [OF wf_ex_codes, of "Ks (Rc RC_LOCKED)"]
  by simp

text \<open>A KeyMint error survives the trip through the binder interface: when a Keystore
  call fails with \<open>Error::Km(c)\<close>, the status that \<open>map_or_log_err\<close> returns is
  translated by \<open>map_km_error\<close> back to exactly \<open>Error::Km(c)\<close>, and any other failure
  is never mistaken for a KeyMint error.\<close>

theorem km_error_roundtrip:
  assumes "wf_codes A" and "snd (map_or_log_err A (Inl e) handle_ok) = Inl s"
  shows "map_km_error A (Inl s :: 'a binder_result) =
           Inl (case e of Ks (Km c) \<Rightarrow> Km c | _ \<Rightarrow> Binder SERVICE_SPECIFIC (get_error_code A e))"
proof -
  have s: "s = new_service_specific_error (get_error_code A e)"
    using assms(2) by (simp add: map_or_log_err_def map_err_with_def Let_def)
  show ?thesis
  proof (cases "\<exists>c. e = Ks (Km c)")
    case True
    then show ?thesis
      using wf_codesD(1,2) [OF assms(1)]
      by (auto simp: s map_km_error_def new_service_specific_error_def get_error_code_def Let_def)
  next
    case False
    then have "0 < get_error_code A e"
      using get_error_code_positive [OF assms(1)] by blast
    with False show ?thesis
      by (auto simp: s map_km_error_def new_service_specific_error_def Let_def
          split: err.splits ks_error.splits)
  qed
qed

theorem km_error_roundtrip_witness:
  "map_km_error ex_codes (snd (map_or_log_err ex_codes (Inl (Ks (Km EC_KEY_EXPIRED)) :: unit res) Inr))
     = Inl (Km EC_KEY_EXPIRED)"
proof -
  let ?s = "new_service_specific_error (get_error_code ex_codes (Ks (Km EC_KEY_EXPIRED)))"
  have "snd (map_or_log_err ex_codes (Inl (Ks (Km EC_KEY_EXPIRED)) :: unit res) Inr)
          = (Inl ?s :: unit binder_result)"
    by (simp add: map_or_log_err_def map_err_with_def Let_def)
  from km_error_roundtrip [OF wf_ex_codes this, where 'a = unit] this show ?thesis by simp
qed

end
