(* ===== verification/Ks_Types.thy ===== *)
theory Ks_Types
  imports Ks_Error
begin

text \<open>
  The AIDL data every component passes around: the domain of a key and the key descriptor
  (\<open>android.system.keystore2\<close>, declared outside this repository; the fields are the ones
  the sources read).  The i32 an AIDL enumeration wraps is never computed with here, so a
  domain is one of its named variants or some other value.  Also decimal printing, which
  \<open>namespace.to_string()\<close> uses.
\<close>

datatype domain = APP | GRANT | SELINUX | BLOB | KEY_ID | OtherDomain int

record key_descriptor =
  kd_domain :: domain
  kd_nspace :: int
  kd_alias :: "string option"
  kd_blob :: "bytes option"

fun digit_char :: "nat \<Rightarrow> char" where
  "digit_char n = char_of (48 + n)"

fun nat_to_string :: "nat \<Rightarrow> string" where
  "nat_to_string n =
     (if n < 10 then [digit_char n] else nat_to_string (n div 10) @ [digit_char (n mod 10)])"

declare nat_to_string.simps [simp del]

definition int_to_string :: "int \<Rightarrow> string" where
  "int_to_string i = (if i < 0 then CHR ''-'' # nat_to_string (nat (- i)) else nat_to_string (nat i))"

fun string_to_nat_acc :: "nat \<Rightarrow> string \<Rightarrow> nat" where
  "string_to_nat_acc a [] = a"
| "string_to_nat_acc a (c # cs) = string_to_nat_acc (10 * a + (of_char c - 48)) cs"

lemma string_to_nat_acc_append:
  "string_to_nat_acc a (xs @ ys) = string_to_nat_acc (string_to_nat_acc a xs) ys"
  by (induction xs arbitrary: a) simp_all

lemma of_char_digit: "n < 10 \<Longrightarrow> of_char (digit_char n) - 48 = n"
  by simp

lemma string_to_nat_nat_to_string: "string_to_nat_acc 0 (nat_to_string n) = n"
proof (induction n rule: nat_to_string.induct)
  case (1 n)
  show ?case
  proof (cases "n < 10")
    case True
    then show ?thesis by (subst nat_to_string.simps) simp
  next
    case False
    with 1 have "string_to_nat_acc 0 (nat_to_string (n div 10)) = n div 10" by simp
    with False show ?thesis
      by (subst nat_to_string.simps) (simp add: string_to_nat_acc_append)
  qed
qed

lemma nat_to_string_inj: "nat_to_string m = nat_to_string n \<longleftrightarrow> m = n"
  by (metis string_to_nat_nat_to_string)

lemma set_nat_to_string: "set (nat_to_string n) \<subseteq> digit_char ` {..9}"
proof (induction n rule: nat_to_string.induct)
  case (1 n)
  show ?case
  proof (cases "n < 10")
    case True
    then show ?thesis by (subst nat_to_string.simps) auto
  next
    case False
    moreover have "n mod 10 \<le> 9" by simp
    ultimately show ?thesis using 1 by (subst nat_to_string.simps) (auto simp del: digit_char.simps)
  qed
qed

lemma digit_char_plain: "n \<le> 9 \<Longrightarrow> digit_char n \<noteq> CHR ''-'' \<and> digit_char n \<noteq> CHR 0x00"
proof -
  assume "n \<le> 9"
  then have "of_char (digit_char n) = 48 + n" by simp
  moreover have "of_char CHR ''-'' = (45 :: nat)" and "of_char CHR 0x00 = (0 :: nat)" by simp_all
  ultimately have "of_char (digit_char n) \<noteq> (of_char CHR ''-'' :: nat)"
    and "of_char (digit_char n) \<noteq> (of_char CHR 0x00 :: nat)"
    by linarith+
  then show ?thesis by metis
qed

lemma nat_to_string_plain:
  "CHR ''-'' \<notin> set (nat_to_string n)" "CHR 0x00 \<notin> set (nat_to_string n)"
proof -
  have "c \<noteq> CHR ''-'' \<and> c \<noteq> CHR 0x00" if "c \<in> set (nat_to_string n)" for c
  proof -
    from that have "c \<in> digit_char ` {..9}" using set_nat_to_string [of n] by (rule rev_subsetD)
    then obtain k where "k \<le> 9" and c: "c = digit_char k" by (auto simp del: digit_char.simps)
    show ?thesis unfolding c by (rule digit_char_plain [OF \<open>k \<le> 9\<close>])
  qed
  then show "CHR ''-'' \<notin> set (nat_to_string n)" "CHR 0x00 \<notin> set (nat_to_string n)" by blast+
qed

lemma int_to_string_inj: "int_to_string i = int_to_string j \<longleftrightarrow> i = j"
proof
  assume eq: "int_to_string i = int_to_string j"
  have sign: "(CHR ''-'' \<in> set (int_to_string k)) = (k < 0)" for k
    by (simp add: int_to_string_def nat_to_string_plain)
  from sign [of i] sign [of j] eq have "i < 0 \<longleftrightarrow> j < 0" by simp
  with eq show "i = j"
    by (cases "i < 0") (simp_all add: int_to_string_def nat_to_string_inj)
qed simp

lemma int_to_string_no_nul: "CHR 0x00 \<notin> set (int_to_string i)"
  by (simp add: int_to_string_def nat_to_string_plain)

end
