(* ===== verification/Ks_KeyParameter.thy ===== *)
theory Ks_KeyParameter
  imports Ks_Types
begin

text \<open>
  Key parameters (\<open>src/keystore2/src/key_parameter.rs\<close>).  The source declares the
  variants of \<open>KeyParameterValue\<close> once, each with its KeyMint tag and the field of the
  KeyMint value union that carries it, and a set of macros expands that list into the
  enumeration, \<open>get_tag\<close>, the conversions from and to database cells, from and to KeyMint
  parameters, and from a tag and a primitive value.  The expansions are written out here.

  The AIDL enumerations (\<open>KeyPurpose\<close>, \<open>Algorithm\<close>, \<open>Digest\<close>, ...) are tuple
  structs around an i32 and are that i32 here.  i32 and i64 are kept at their width; a database
  cell holds the signed value.  A tag is one of the named tags or some other number; the number
  of a named tag is only ever stored and compared.
\<close>

section \<open>Data\<close>


datatype (plugins only: code size) tag =
    T_INVALID
  | T_PURPOSE
  | T_ALGORITHM
  | T_KEY_SIZE
  | T_BLOCK_MODE
  | T_DIGEST
  | T_PADDING
  | T_CALLER_NONCE
  | T_MIN_MAC_LENGTH
  | T_EC_CURVE
  | T_RSA_PUBLIC_EXPONENT
  | T_INCLUDE_UNIQUE_ID
  | T_BOOTLOADER_ONLY
  | T_ROLLBACK_RESISTANCE
  | T_EARLY_BOOT_ONLY
  | T_ACTIVE_DATETIME
  | T_ORIGINATION_EXPIRE_DATETIME
  | T_USAGE_EXPIRE_DATETIME
  | T_MIN_SECONDS_BETWEEN_OPS
  | T_MAX_USES_PER_BOOT
  | T_USAGE_COUNT_LIMIT
  | T_USER_ID
  | T_USER_SECURE_ID
  | T_NO_AUTH_REQUIRED
  | T_USER_AUTH_TYPE
  | T_AUTH_TIMEOUT
  | T_ALLOW_WHILE_ON_BODY
  | T_TRUSTED_USER_PRESENCE_REQUIRED
  | T_TRUSTED_CONFIRMATION_REQUIRED
  | T_UNLOCKED_DEVICE_REQUIRED
  | T_APPLICATION_ID
  | T_APPLICATION_DATA
  | T_CREATION_DATETIME
  | T_ORIGIN
  | T_ROOT_OF_TRUST
  | T_OS_VERSION
  | T_OS_PATCHLEVEL
  | T_UNIQUE_ID
  | T_ATTESTATION_CHALLENGE
  | T_ATTESTATION_APPLICATION_ID
  | T_ATTESTATION_ID_BRAND
  | T_ATTESTATION_ID_DEVICE
  | T_ATTESTATION_ID_PRODUCT
  | T_ATTESTATION_ID_SERIAL
  | T_ATTESTATION_ID_IMEI
  | T_ATTESTATION_ID_MEID
  | T_ATTESTATION_ID_MANUFACTURER
  | T_ATTESTATION_ID_MODEL
  | T_VENDOR_PATCHLEVEL
  | T_BOOT_PATCHLEVEL
  | T_ASSOCIATED_DATA
  | T_NONCE
  | T_MAC_LENGTH
  | T_RESET_SINCE_ID_ROTATION
  | T_CONFIRMATION_TOKEN
  | T_CERTIFICATE_SERIAL
  | T_CERTIFICATE_SUBJECT
  | T_CERTIFICATE_NOT_BEFORE
  | T_CERTIFICATE_NOT_AFTER
  | T_MAX_BOOT_LEVEL
  | T_other i32

datatype (plugins only: code size) key_parameter_value =
    KpInvalid
  | KpKeyPurpose i32
  | KpAlgorithm i32
  | KpKeySize i32
  | KpBlockMode i32
  | KpDigest i32
  | KpPaddingMode i32
  | KpCallerNonce
  | KpMinMacLength i32
  | KpEcCurve i32
  | KpRSAPublicExponent i64
  | KpIncludeUniqueID
  | KpBootLoaderOnly
  | KpRollbackResistance
  | KpEarlyBootOnly
  | KpActiveDateTime i64
  | KpOriginationExpireDateTime i64
  | KpUsageExpireDateTime i64
  | KpMinSecondsBetweenOps i32
  | KpMaxUsesPerBoot i32
  | KpUsageCountLimit i32
  | KpUserID i32
  | KpUserSecureID i64
  | KpNoAuthRequired
  | KpHardwareAuthenticatorType i32
  | KpAuthTimeout i32
  | KpAllowWhileOnBody
  | KpTrustedUserPresenceRequired
  | KpTrustedConfirmationRequired
  | KpUnlockedDeviceRequired
  | KpApplicationID bytes
  | KpApplicationData bytes
  | KpCreationDateTime i64
  | KpKeyOrigin i32
  | KpRootOfTrust bytes
  | KpOSVersion i32
  | KpOSPatchLevel i32
  | KpUniqueID bytes
  | KpAttestationChallenge bytes
  | KpAttestationApplicationID bytes
  | KpAttestationIdBrand bytes
  | KpAttestationIdDevice bytes
  | KpAttestationIdProduct bytes
  | KpAttestationIdSerial bytes
  | KpAttestationIdIMEI bytes
  | KpAttestationIdMEID bytes
  | KpAttestationIdManufacturer bytes
  | KpAttestationIdModel bytes
  | KpVendorPatchLevel i32
  | KpBootPatchLevel i32
  | KpAssociatedData bytes
  | KpNonce bytes
  | KpMacLength i32
  | KpResetSinceIdRotation
  | KpConfirmationToken bytes
  | KpCertificateSerial bytes
  | KpCertificateSubject bytes
  | KpCertificateNotBefore i64
  | KpCertificateNotAfter i64
  | KpMaxBootLevel i32

text \<open>The KeyMint side: a tag and a value union.\<close>

datatype km_value =
    KmInvalid i32
  | KmKeyPurpose i32
  | KmAlgorithm i32
  | KmInteger i32
  | KmBlockMode i32
  | KmDigest i32
  | KmPaddingMode i32
  | KmBoolValue bool
  | KmEcCurve i32
  | KmLongInteger i64
  | KmDateTime i64
  | KmHardwareAuthenticatorType i32
  | KmBlob bytes
  | KmOrigin i32
  | KmOtherField

record km_key_parameter =
  km_tag :: tag
  km_val :: km_value

record key_parameter =
  kp_value :: key_parameter_value
  kp_security_level :: i32

record authorization =
  au_security_level :: i32
  au_key_parameter :: km_key_parameter

text \<open>A database cell.\<close>

datatype sql_value = SqlNull | SqlInteger int | SqlBlob bytes

datatype primitive = PrimI64 i64 | PrimI32 i32 | PrimVec bytes

datatype primitive_error = TypeMismatch | UnknownTag

section \<open>Primitives\<close>

definition Primitive_try_into_i64 :: "primitive \<Rightarrow> primitive_error + i64" where
  "Primitive_try_into_i64 p = (case p of PrimI64 v \<Rightarrow> Inr v | _ \<Rightarrow> Inl TypeMismatch)"

definition Primitive_try_into_i32 :: "primitive \<Rightarrow> primitive_error + i32" where
  "Primitive_try_into_i32 p = (case p of PrimI32 v \<Rightarrow> Inr v | _ \<Rightarrow> Inl TypeMismatch)"

definition Primitive_try_into_vec :: "primitive \<Rightarrow> primitive_error + bytes" where
  "Primitive_try_into_vec p = (case p of PrimVec v \<Rightarrow> Inr v | _ \<Rightarrow> Inl TypeMismatch)"

text \<open>
  Reading a cell as an i32, an i64 or a byte vector (rusqlite): the cell must have the right
  storage class and the integer must fit the width.
\<close>

definition sql_get_i32 :: "sql_value \<Rightarrow> i32 option" where
  "sql_get_i32 c =
     (case c of SqlInteger n \<Rightarrow> if - (2 ^ 31) \<le> n \<and> n < 2 ^ 31 then Some (word_of_int n) else None
      | _ \<Rightarrow> None)"

definition sql_get_i64 :: "sql_value \<Rightarrow> i64 option" where
  "sql_get_i64 c =
     (case c of SqlInteger n \<Rightarrow> if - (2 ^ 63) \<le> n \<and> n < 2 ^ 63 then Some (word_of_int n) else None
      | _ \<Rightarrow> None)"

definition sql_get_vec :: "sql_value \<Rightarrow> bytes option" where
  "sql_get_vec c = (case c of SqlBlob b \<Rightarrow> Some b | _ \<Rightarrow> None)"

section \<open>The generated functions\<close>

primrec KeyParameterValue_get_tag :: "key_parameter_value \<Rightarrow> tag" where
  "KeyParameterValue_get_tag KpInvalid = T_INVALID"
| "KeyParameterValue_get_tag (KpKeyPurpose _) = T_PURPOSE"
| "KeyParameterValue_get_tag (KpAlgorithm _) = T_ALGORITHM"
| "KeyParameterValue_get_tag (KpKeySize _) = T_KEY_SIZE"
| "KeyParameterValue_get_tag (KpBlockMode _) = T_BLOCK_MODE"
| "KeyParameterValue_get_tag (KpDigest _) = T_DIGEST"
| "KeyParameterValue_get_tag (KpPaddingMode _) = T_PADDING"
| "KeyParameterValue_get_tag KpCallerNonce = T_CALLER_NONCE"
| "KeyParameterValue_get_tag (KpMinMacLength _) = T_MIN_MAC_LENGTH"
| "KeyParameterValue_get_tag (KpEcCurve _) = T_EC_CURVE"
| "KeyParameterValue_get_tag (KpRSAPublicExponent _) = T_RSA_PUBLIC_EXPONENT"
| "KeyParameterValue_get_tag KpIncludeUniqueID = T_INCLUDE_UNIQUE_ID"
| "KeyParameterValue_get_tag KpBootLoaderOnly = T_BOOTLOADER_ONLY"
| "KeyParameterValue_get_tag KpRollbackResistance = T_ROLLBACK_RESISTANCE"
| "KeyParameterValue_get_tag KpEarlyBootOnly = T_EARLY_BOOT_ONLY"
| "KeyParameterValue_get_tag (KpActiveDateTime _) = T_ACTIVE_DATETIME"
| "KeyParameterValue_get_tag (KpOriginationExpireDateTime _) = T_ORIGINATION_EXPIRE_DATETIME"
| "KeyParameterValue_get_tag (KpUsageExpireDateTime _) = T_USAGE_EXPIRE_DATETIME"
| "KeyParameterValue_get_tag (KpMinSecondsBetweenOps _) = T_MIN_SECONDS_BETWEEN_OPS"
| "KeyParameterValue_get_tag (KpMaxUsesPerBoot _) = T_MAX_USES_PER_BOOT"
| "KeyParameterValue_get_tag (KpUsageCountLimit _) = T_USAGE_COUNT_LIMIT"
| "KeyParameterValue_get_tag (KpUserID _) = T_USER_ID"
| "KeyParameterValue_get_tag (KpUserSecureID _) = T_USER_SECURE_ID"
| "KeyParameterValue_get_tag KpNoAuthRequired = T_NO_AUTH_REQUIRED"
| "KeyParameterValue_get_tag (KpHardwareAuthenticatorType _) = T_USER_AUTH_TYPE"
| "KeyParameterValue_get_tag (KpAuthTimeout _) = T_AUTH_TIMEOUT"
| "KeyParameterValue_get_tag KpAllowWhileOnBody = T_ALLOW_WHILE_ON_BODY"
| "KeyParameterValue_get_tag KpTrustedUserPresenceRequired = T_TRUSTED_USER_PRESENCE_REQUIRED"
| "KeyParameterValue_get_tag KpTrustedConfirmationRequired = T_TRUSTED_CONFIRMATION_REQUIRED"
| "KeyParameterValue_get_tag KpUnlockedDeviceRequired = T_UNLOCKED_DEVICE_REQUIRED"
| "KeyParameterValue_get_tag (KpApplicationID _) = T_APPLICATION_ID"
| "KeyParameterValue_get_tag (KpApplicationData _) = T_APPLICATION_DATA"
| "KeyParameterValue_get_tag (KpCreationDateTime _) = T_CREATION_DATETIME"
| "KeyParameterValue_get_tag (KpKeyOrigin _) = T_ORIGIN"
| "KeyParameterValue_get_tag (KpRootOfTrust _) = T_ROOT_OF_TRUST"
| "KeyParameterValue_get_tag (KpOSVersion _) = T_OS_VERSION"
| "KeyParameterValue_get_tag (KpOSPatchLevel _) = T_OS_PATCHLEVEL"
| "KeyParameterValue_get_tag (KpUniqueID _) = T_UNIQUE_ID"
| "KeyParameterValue_get_tag (KpAttestationChallenge _) = T_ATTESTATION_CHALLENGE"
| "KeyParameterValue_get_tag (KpAttestationApplicationID _) = T_ATTESTATION_APPLICATION_ID"
| "KeyParameterValue_get_tag (KpAttestationIdBrand _) = T_ATTESTATION_ID_BRAND"
| "KeyParameterValue_get_tag (KpAttestationIdDevice _) = T_ATTESTATION_ID_DEVICE"
| "KeyParameterValue_get_tag (KpAttestationIdProduct _) = T_ATTESTATION_ID_PRODUCT"
| "KeyParameterValue_get_tag (KpAttestationIdSerial _) = T_ATTESTATION_ID_SERIAL"
| "KeyParameterValue_get_tag (KpAttestationIdIMEI _) = T_ATTESTATION_ID_IMEI"
| "KeyParameterValue_get_tag (KpAttestationIdMEID _) = T_ATTESTATION_ID_MEID"
| "KeyParameterValue_get_tag (KpAttestationIdManufacturer _) = T_ATTESTATION_ID_MANUFACTURER"
| "KeyParameterValue_get_tag (KpAttestationIdModel _) = T_ATTESTATION_ID_MODEL"
| "KeyParameterValue_get_tag (KpVendorPatchLevel _) = T_VENDOR_PATCHLEVEL"
| "KeyParameterValue_get_tag (KpBootPatchLevel _) = T_BOOT_PATCHLEVEL"
| "KeyParameterValue_get_tag (KpAssociatedData _) = T_ASSOCIATED_DATA"
| "KeyParameterValue_get_tag (KpNonce _) = T_NONCE"
| "KeyParameterValue_get_tag (KpMacLength _) = T_MAC_LENGTH"
| "KeyParameterValue_get_tag KpResetSinceIdRotation = T_RESET_SINCE_ID_ROTATION"
| "KeyParameterValue_get_tag (KpConfirmationToken _) = T_CONFIRMATION_TOKEN"
| "KeyParameterValue_get_tag (KpCertificateSerial _) = T_CERTIFICATE_SERIAL"
| "KeyParameterValue_get_tag (KpCertificateSubject _) = T_CERTIFICATE_SUBJECT"
| "KeyParameterValue_get_tag (KpCertificateNotBefore _) = T_CERTIFICATE_NOT_BEFORE"
| "KeyParameterValue_get_tag (KpCertificateNotAfter _) = T_CERTIFICATE_NOT_AFTER"
| "KeyParameterValue_get_tag (KpMaxBootLevel _) = T_MAX_BOOT_LEVEL"

primrec KeyParameterValue_to_sql :: "key_parameter_value \<Rightarrow> sql_value" where
  "KeyParameterValue_to_sql KpInvalid = SqlNull"
| "KeyParameterValue_to_sql (KpKeyPurpose v) = SqlInteger (sint v)"
| "KeyParameterValue_to_sql (KpAlgorithm v) = SqlInteger (sint v)"
| "KeyParameterValue_to_sql (KpKeySize v) = SqlInteger (sint v)"
| "KeyParameterValue_to_sql (KpBlockMode v) = SqlInteger (sint v)"
| "KeyParameterValue_to_sql (KpDigest v) = SqlInteger (sint v)"
| "KeyParameterValue_to_sql (KpPaddingMode v) = SqlInteger (sint v)"
| "KeyParameterValue_to_sql KpCallerNonce = SqlNull"
| "KeyParameterValue_to_sql (KpMinMacLength v) = SqlInteger (sint v)"
| "KeyParameterValue_to_sql (KpEcCurve v) = SqlInteger (sint v)"
| "KeyParameterValue_to_sql (KpRSAPublicExponent v) = SqlInteger (sint v)"
| "KeyParameterValue_to_sql KpIncludeUniqueID = SqlNull"
| "KeyParameterValue_to_sql KpBootLoaderOnly = SqlNull"
| "KeyParameterValue_to_sql KpRollbackResistance = SqlNull"
| "KeyParameterValue_to_sql KpEarlyBootOnly = SqlNull"
| "KeyParameterValue_to_sql (KpActiveDateTime v) = SqlInteger (sint v)"
| "KeyParameterValue_to_sql (KpOriginationExpireDateTime v) = SqlInteger (sint v)"
| "KeyParameterValue_to_sql (KpUsageExpireDateTime v) = SqlInteger (sint v)"
| "KeyParameterValue_to_sql (KpMinSecondsBetweenOps v) = SqlInteger (sint v)"
| "KeyParameterValue_to_sql (KpMaxUsesPerBoot v) = SqlInteger (sint v)"
| "KeyParameterValue_to_sql (KpUsageCountLimit v) = SqlInteger (sint v)"
| "KeyParameterValue_to_sql (KpUserID v) = SqlInteger (sint v)"
| "KeyParameterValue_to_sql (KpUserSecureID v) = SqlInteger (sint v)"
| "KeyParameterValue_to_sql KpNoAuthRequired = SqlNull"
| "KeyParameterValue_to_sql (KpHardwareAuthenticatorType v) = SqlInteger (sint v)"
| "KeyParameterValue_to_sql (KpAuthTimeout v) = SqlInteger (sint v)"
| "KeyParameterValue_to_sql KpAllowWhileOnBody = SqlNull"
| "KeyParameterValue_to_sql KpTrustedUserPresenceRequired = SqlNull"
| "KeyParameterValue_to_sql KpTrustedConfirmationRequired = SqlNull"
| "KeyParameterValue_to_sql KpUnlockedDeviceRequired = SqlNull"
| "KeyParameterValue_to_sql (KpApplicationID v) = SqlBlob v"
| "KeyParameterValue_to_sql (KpApplicationData v) = SqlBlob v"
| "KeyParameterValue_to_sql (KpCreationDateTime v) = SqlInteger (sint v)"
| "KeyParameterValue_to_sql (KpKeyOrigin v) = SqlInteger (sint v)"
| "KeyParameterValue_to_sql (KpRootOfTrust v) = SqlBlob v"
| "KeyParameterValue_to_sql (KpOSVersion v) = SqlInteger (sint v)"
| "KeyParameterValue_to_sql (KpOSPatchLevel v) = SqlInteger (sint v)"
| "KeyParameterValue_to_sql (KpUniqueID v) = SqlBlob v"
| "KeyParameterValue_to_sql (KpAttestationChallenge v) = SqlBlob v"
| "KeyParameterValue_to_sql (KpAttestationApplicationID v) = SqlBlob v"
| "KeyParameterValue_to_sql (KpAttestationIdBrand v) = SqlBlob v"
| "KeyParameterValue_to_sql (KpAttestationIdDevice v) = SqlBlob v"
| "KeyParameterValue_to_sql (KpAttestationIdProduct v) = SqlBlob v"
| "KeyParameterValue_to_sql (KpAttestationIdSerial v) = SqlBlob v"
| "KeyParameterValue_to_sql (KpAttestationIdIMEI v) = SqlBlob v"
| "KeyParameterValue_to_sql (KpAttestationIdMEID v) = SqlBlob v"
| "KeyParameterValue_to_sql (KpAttestationIdManufacturer v) = SqlBlob v"
| "KeyParameterValue_to_sql (KpAttestationIdModel v) = SqlBlob v"
| "KeyParameterValue_to_sql (KpVendorPatchLevel v) = SqlInteger (sint v)"
| "KeyParameterValue_to_sql (KpBootPatchLevel v) = SqlInteger (sint v)"
| "KeyParameterValue_to_sql (KpAssociatedData v) = SqlBlob v"
| "KeyParameterValue_to_sql (KpNonce v) = SqlBlob v"
| "KeyParameterValue_to_sql (KpMacLength v) = SqlInteger (sint v)"
| "KeyParameterValue_to_sql KpResetSinceIdRotation = SqlNull"
| "KeyParameterValue_to_sql (KpConfirmationToken v) = SqlBlob v"
| "KeyParameterValue_to_sql (KpCertificateSerial v) = SqlBlob v"
| "KeyParameterValue_to_sql (KpCertificateSubject v) = SqlBlob v"
| "KeyParameterValue_to_sql (KpCertificateNotBefore v) = SqlInteger (sint v)"
| "KeyParameterValue_to_sql (KpCertificateNotAfter v) = SqlInteger (sint v)"
| "KeyParameterValue_to_sql (KpMaxBootLevel v) = SqlInteger (sint v)"

definition sql_read :: "'a option \<Rightarrow> 'a res" where
  "sql_read x = ok_or x (Ks (Rc RC_VALUE_CORRUPTED))"

primrec KeyParameterValue_new_from_sql :: "tag \<Rightarrow> sql_value \<Rightarrow> key_parameter_value res" where
  "KeyParameterValue_new_from_sql T_INVALID d = Inr KpInvalid"
| "KeyParameterValue_new_from_sql T_PURPOSE d = map_res KpKeyPurpose (sql_read (sql_get_i32 d))"
| "KeyParameterValue_new_from_sql T_ALGORITHM d = map_res KpAlgorithm (sql_read (sql_get_i32 d))"
| "KeyParameterValue_new_from_sql T_KEY_SIZE d = map_res KpKeySize (sql_read (sql_get_i32 d))"
| "KeyParameterValue_new_from_sql T_BLOCK_MODE d = map_res KpBlockMode (sql_read (sql_get_i32 d))"
| "KeyParameterValue_new_from_sql T_DIGEST d = map_res KpDigest (sql_read (sql_get_i32 d))"
| "KeyParameterValue_new_from_sql T_PADDING d = map_res KpPaddingMode (sql_read (sql_get_i32 d))"
| "KeyParameterValue_new_from_sql T_CALLER_NONCE d = Inr KpCallerNonce"
| "KeyParameterValue_new_from_sql T_MIN_MAC_LENGTH d = map_res KpMinMacLength (sql_read (sql_get_i32 d))"
| "KeyParameterValue_new_from_sql T_EC_CURVE d = map_res KpEcCurve (sql_read (sql_get_i32 d))"
| "KeyParameterValue_new_from_sql T_RSA_PUBLIC_EXPONENT d = map_res KpRSAPublicExponent (sql_read (sql_get_i64 d))"
| "KeyParameterValue_new_from_sql T_INCLUDE_UNIQUE_ID d = Inr KpIncludeUniqueID"
| "KeyParameterValue_new_from_sql T_BOOTLOADER_ONLY d = Inr KpBootLoaderOnly"
| "KeyParameterValue_new_from_sql T_ROLLBACK_RESISTANCE d = Inr KpRollbackResistance"
| "KeyParameterValue_new_from_sql T_EARLY_BOOT_ONLY d = Inr KpEarlyBootOnly"
| "KeyParameterValue_new_from_sql T_ACTIVE_DATETIME d = map_res KpActiveDateTime (sql_read (sql_get_i64 d))"
| "KeyParameterValue_new_from_sql T_ORIGINATION_EXPIRE_DATETIME d = map_res KpOriginationExpireDateTime (sql_read (sql_get_i64 d))"
| "KeyParameterValue_new_from_sql T_USAGE_EXPIRE_DATETIME d = map_res KpUsageExpireDateTime (sql_read (sql_get_i64 d))"
| "KeyParameterValue_new_from_sql T_MIN_SECONDS_BETWEEN_OPS d = map_res KpMinSecondsBetweenOps (sql_read (sql_get_i32 d))"
| "KeyParameterValue_new_from_sql T_MAX_USES_PER_BOOT d = map_res KpMaxUsesPerBoot (sql_read (sql_get_i32 d))"
| "KeyParameterValue_new_from_sql T_USAGE_COUNT_LIMIT d = map_res KpUsageCountLimit (sql_read (sql_get_i32 d))"
| "KeyParameterValue_new_from_sql T_USER_ID d = map_res KpUserID (sql_read (sql_get_i32 d))"
| "KeyParameterValue_new_from_sql T_USER_SECURE_ID d = map_res KpUserSecureID (sql_read (sql_get_i64 d))"
| "KeyParameterValue_new_from_sql T_NO_AUTH_REQUIRED d = Inr KpNoAuthRequired"
| "KeyParameterValue_new_from_sql T_USER_AUTH_TYPE d = map_res KpHardwareAuthenticatorType (sql_read (sql_get_i32 d))"
| "KeyParameterValue_new_from_sql T_AUTH_TIMEOUT d = map_res KpAuthTimeout (sql_read (sql_get_i32 d))"
| "KeyParameterValue_new_from_sql T_ALLOW_WHILE_ON_BODY d = Inr KpAllowWhileOnBody"
| "KeyParameterValue_new_from_sql T_TRUSTED_USER_PRESENCE_REQUIRED d = Inr KpTrustedUserPresenceRequired"
| "KeyParameterValue_new_from_sql T_TRUSTED_CONFIRMATION_REQUIRED d = Inr KpTrustedConfirmationRequired"
| "KeyParameterValue_new_from_sql T_UNLOCKED_DEVICE_REQUIRED d = Inr KpUnlockedDeviceRequired"
| "KeyParameterValue_new_from_sql T_APPLICATION_ID d = map_res KpApplicationID (sql_read (sql_get_vec d))"
| "KeyParameterValue_new_from_sql T_APPLICATION_DATA d = map_res KpApplicationData (sql_read (sql_get_vec d))"
| "KeyParameterValue_new_from_sql T_CREATION_DATETIME d = map_res KpCreationDateTime (sql_read (sql_get_i64 d))"
| "KeyParameterValue_new_from_sql T_ORIGIN d = map_res KpKeyOrigin (sql_read (sql_get_i32 d))"
| "KeyParameterValue_new_from_sql T_ROOT_OF_TRUST d = map_res KpRootOfTrust (sql_read (sql_get_vec d))"
| "KeyParameterValue_new_from_sql T_OS_VERSION d = map_res KpOSVersion (sql_read (sql_get_i32 d))"
| "KeyParameterValue_new_from_sql T_OS_PATCHLEVEL d = map_res KpOSPatchLevel (sql_read (sql_get_i32 d))"
| "KeyParameterValue_new_from_sql T_UNIQUE_ID d = map_res KpUniqueID (sql_read (sql_get_vec d))"
| "KeyParameterValue_new_from_sql T_ATTESTATION_CHALLENGE d = map_res KpAttestationChallenge (sql_read (sql_get_vec d))"
| "KeyParameterValue_new_from_sql T_ATTESTATION_APPLICATION_ID d = map_res KpAttestationApplicationID (sql_read (sql_get_vec d))"
| "KeyParameterValue_new_from_sql T_ATTESTATION_ID_BRAND d = map_res KpAttestationIdBrand (sql_read (sql_get_vec d))"
| "KeyParameterValue_new_from_sql T_ATTESTATION_ID_DEVICE d = map_res KpAttestationIdDevice (sql_read (sql_get_vec d))"
| "KeyParameterValue_new_from_sql T_ATTESTATION_ID_PRODUCT d = map_res KpAttestationIdProduct (sql_read (sql_get_vec d))"
| "KeyParameterValue_new_from_sql T_ATTESTATION_ID_SERIAL d = map_res KpAttestationIdSerial (sql_read (sql_get_vec d))"
| "KeyParameterValue_new_from_sql T_ATTESTATION_ID_IMEI d = map_res KpAttestationIdIMEI (sql_read (sql_get_vec d))"
| "KeyParameterValue_new_from_sql T_ATTESTATION_ID_MEID d = map_res KpAttestationIdMEID (sql_read (sql_get_vec d))"
| "KeyParameterValue_new_from_sql T_ATTESTATION_ID_MANUFACTURER d = map_res KpAttestationIdManufacturer (sql_read (sql_get_vec d))"
| "KeyParameterValue_new_from_sql T_ATTESTATION_ID_MODEL d = map_res KpAttestationIdModel (sql_read (sql_get_vec d))"
| "KeyParameterValue_new_from_sql T_VENDOR_PATCHLEVEL d = map_res KpVendorPatchLevel (sql_read (sql_get_i32 d))"
| "KeyParameterValue_new_from_sql T_BOOT_PATCHLEVEL d = map_res KpBootPatchLevel (sql_read (sql_get_i32 d))"
| "KeyParameterValue_new_from_sql T_ASSOCIATED_DATA d = map_res KpAssociatedData (sql_read (sql_get_vec d))"
| "KeyParameterValue_new_from_sql T_NONCE d = map_res KpNonce (sql_read (sql_get_vec d))"
| "KeyParameterValue_new_from_sql T_MAC_LENGTH d = map_res KpMacLength (sql_read (sql_get_i32 d))"
| "KeyParameterValue_new_from_sql T_RESET_SINCE_ID_ROTATION d = Inr KpResetSinceIdRotation"
| "KeyParameterValue_new_from_sql T_CONFIRMATION_TOKEN d = map_res KpConfirmationToken (sql_read (sql_get_vec d))"
| "KeyParameterValue_new_from_sql T_CERTIFICATE_SERIAL d = map_res KpCertificateSerial (sql_read (sql_get_vec d))"
| "KeyParameterValue_new_from_sql T_CERTIFICATE_SUBJECT d = map_res KpCertificateSubject (sql_read (sql_get_vec d))"
| "KeyParameterValue_new_from_sql T_CERTIFICATE_NOT_BEFORE d = map_res KpCertificateNotBefore (sql_read (sql_get_i64 d))"
| "KeyParameterValue_new_from_sql T_CERTIFICATE_NOT_AFTER d = map_res KpCertificateNotAfter (sql_read (sql_get_i64 d))"
| "KeyParameterValue_new_from_sql T_MAX_BOOT_LEVEL d = map_res KpMaxBootLevel (sql_read (sql_get_i32 d))"
| "KeyParameterValue_new_from_sql (T_other _) d = Inr KpInvalid"

primrec new_from_tag_primitive_pair ::
    "tag \<Rightarrow> primitive \<Rightarrow> primitive_error + key_parameter_value" where
  "new_from_tag_primitive_pair T_INVALID p = Inr KpInvalid"
| "new_from_tag_primitive_pair T_PURPOSE p = map_res KpKeyPurpose (Primitive_try_into_i32 p)"
| "new_from_tag_primitive_pair T_ALGORITHM p = map_res KpAlgorithm (Primitive_try_into_i32 p)"
| "new_from_tag_primitive_pair T_KEY_SIZE p = map_res KpKeySize (Primitive_try_into_i32 p)"
| "new_from_tag_primitive_pair T_BLOCK_MODE p = map_res KpBlockMode (Primitive_try_into_i32 p)"
| "new_from_tag_primitive_pair T_DIGEST p = map_res KpDigest (Primitive_try_into_i32 p)"
| "new_from_tag_primitive_pair T_PADDING p = map_res KpPaddingMode (Primitive_try_into_i32 p)"
| "new_from_tag_primitive_pair T_CALLER_NONCE p = Inr KpCallerNonce"
| "new_from_tag_primitive_pair T_MIN_MAC_LENGTH p = map_res KpMinMacLength (Primitive_try_into_i32 p)"
| "new_from_tag_primitive_pair T_EC_CURVE p = map_res KpEcCurve (Primitive_try_into_i32 p)"
| "new_from_tag_primitive_pair T_RSA_PUBLIC_EXPONENT p = map_res KpRSAPublicExponent (Primitive_try_into_i64 p)"
| "new_from_tag_primitive_pair T_INCLUDE_UNIQUE_ID p = Inr KpIncludeUniqueID"
| "new_from_tag_primitive_pair T_BOOTLOADER_ONLY p = Inr KpBootLoaderOnly"
| "new_from_tag_primitive_pair T_ROLLBACK_RESISTANCE p = Inr KpRollbackResistance"
| "new_from_tag_primitive_pair T_EARLY_BOOT_ONLY p = Inr KpEarlyBootOnly"
| "new_from_tag_primitive_pair T_ACTIVE_DATETIME p = map_res KpActiveDateTime (Primitive_try_into_i64 p)"
| "new_from_tag_primitive_pair T_ORIGINATION_EXPIRE_DATETIME p = map_res KpOriginationExpireDateTime (Primitive_try_into_i64 p)"
| "new_from_tag_primitive_pair T_USAGE_EXPIRE_DATETIME p = map_res KpUsageExpireDateTime (Primitive_try_into_i64 p)"
| "new_from_tag_primitive_pair T_MIN_SECONDS_BETWEEN_OPS p = map_res KpMinSecondsBetweenOps (Primitive_try_into_i32 p)"
| "new_from_tag_primitive_pair T_MAX_USES_PER_BOOT p = map_res KpMaxUsesPerBoot (Primitive_try_into_i32 p)"
| "new_from_tag_primitive_pair T_USAGE_COUNT_LIMIT p = map_res KpUsageCountLimit (Primitive_try_into_i32 p)"
| "new_from_tag_primitive_pair T_USER_ID p = map_res KpUserID (Primitive_try_into_i32 p)"
| "new_from_tag_primitive_pair T_USER_SECURE_ID p = map_res KpUserSecureID (Primitive_try_into_i64 p)"
| "new_from_tag_primitive_pair T_NO_AUTH_REQUIRED p = Inr KpNoAuthRequired"
| "new_from_tag_primitive_pair T_USER_AUTH_TYPE p = map_res KpHardwareAuthenticatorType (Primitive_try_into_i32 p)"
| "new_from_tag_primitive_pair T_AUTH_TIMEOUT p = map_res KpAuthTimeout (Primitive_try_into_i32 p)"
| "new_from_tag_primitive_pair T_ALLOW_WHILE_ON_BODY p = Inr KpAllowWhileOnBody"
| "new_from_tag_primitive_pair T_TRUSTED_USER_PRESENCE_REQUIRED p = Inr KpTrustedUserPresenceRequired"
| "new_from_tag_primitive_pair T_TRUSTED_CONFIRMATION_REQUIRED p = Inr KpTrustedConfirmationRequired"
| "new_from_tag_primitive_pair T_UNLOCKED_DEVICE_REQUIRED p = Inr KpUnlockedDeviceRequired"
| "new_from_tag_primitive_pair T_APPLICATION_ID p = map_res KpApplicationID (Primitive_try_into_vec p)"
| "new_from_tag_primitive_pair T_APPLICATION_DATA p = map_res KpApplicationData (Primitive_try_into_vec p)"
| "new_from_tag_primitive_pair T_CREATION_DATETIME p = map_res KpCreationDateTime (Primitive_try_into_i64 p)"
| "new_from_tag_primitive_pair T_ORIGIN p = map_res KpKeyOrigin (Primitive_try_into_i32 p)"
| "new_from_tag_primitive_pair T_ROOT_OF_TRUST p = map_res KpRootOfTrust (Primitive_try_into_vec p)"
| "new_from_tag_primitive_pair T_OS_VERSION p = map_res KpOSVersion (Primitive_try_into_i32 p)"
| "new_from_tag_primitive_pair T_OS_PATCHLEVEL p = map_res KpOSPatchLevel (Primitive_try_into_i32 p)"
| "new_from_tag_primitive_pair T_UNIQUE_ID p = map_res KpUniqueID (Primitive_try_into_vec p)"
| "new_from_tag_primitive_pair T_ATTESTATION_CHALLENGE p = map_res KpAttestationChallenge (Primitive_try_into_vec p)"
| "new_from_tag_primitive_pair T_ATTESTATION_APPLICATION_ID p = map_res KpAttestationApplicationID (Primitive_try_into_vec p)"
| "new_from_tag_primitive_pair T_ATTESTATION_ID_BRAND p = map_res KpAttestationIdBrand (Primitive_try_into_vec p)"
| "new_from_tag_primitive_pair T_ATTESTATION_ID_DEVICE p = map_res KpAttestationIdDevice (Primitive_try_into_vec p)"
| "new_from_tag_primitive_pair T_ATTESTATION_ID_PRODUCT p = map_res KpAttestationIdProduct (Primitive_try_into_vec p)"
| "new_from_tag_primitive_pair T_ATTESTATION_ID_SERIAL p = map_res KpAttestationIdSerial (Primitive_try_into_vec p)"
| "new_from_tag_primitive_pair T_ATTESTATION_ID_IMEI p = map_res KpAttestationIdIMEI (Primitive_try_into_vec p)"
| "new_from_tag_primitive_pair T_ATTESTATION_ID_MEID p = map_res KpAttestationIdMEID (Primitive_try_into_vec p)"
| "new_from_tag_primitive_pair T_ATTESTATION_ID_MANUFACTURER p = map_res KpAttestationIdManufacturer (Primitive_try_into_vec p)"
| "new_from_tag_primitive_pair T_ATTESTATION_ID_MODEL p = map_res KpAttestationIdModel (Primitive_try_into_vec p)"
| "new_from_tag_primitive_pair T_VENDOR_PATCHLEVEL p = map_res KpVendorPatchLevel (Primitive_try_into_i32 p)"
| "new_from_tag_primitive_pair T_BOOT_PATCHLEVEL p = map_res KpBootPatchLevel (Primitive_try_into_i32 p)"
| "new_from_tag_primitive_pair T_ASSOCIATED_DATA p = map_res KpAssociatedData (Primitive_try_into_vec p)"
| "new_from_tag_primitive_pair T_NONCE p = map_res KpNonce (Primitive_try_into_vec p)"
| "new_from_tag_primitive_pair T_MAC_LENGTH p = map_res KpMacLength (Primitive_try_into_i32 p)"
| "new_from_tag_primitive_pair T_RESET_SINCE_ID_ROTATION p = Inr KpResetSinceIdRotation"
| "new_from_tag_primitive_pair T_CONFIRMATION_TOKEN p = map_res KpConfirmationToken (Primitive_try_into_vec p)"
| "new_from_tag_primitive_pair T_CERTIFICATE_SERIAL p = map_res KpCertificateSerial (Primitive_try_into_vec p)"
| "new_from_tag_primitive_pair T_CERTIFICATE_SUBJECT p = map_res KpCertificateSubject (Primitive_try_into_vec p)"
| "new_from_tag_primitive_pair T_CERTIFICATE_NOT_BEFORE p = map_res KpCertificateNotBefore (Primitive_try_into_i64 p)"
| "new_from_tag_primitive_pair T_CERTIFICATE_NOT_AFTER p = map_res KpCertificateNotAfter (Primitive_try_into_i64 p)"
| "new_from_tag_primitive_pair T_MAX_BOOT_LEVEL p = map_res KpMaxBootLevel (Primitive_try_into_i32 p)"
| "new_from_tag_primitive_pair (T_other _) p = Inl UnknownTag"

primrec from_km_tag_value :: "tag \<Rightarrow> km_value \<Rightarrow> key_parameter_value" where
  "from_km_tag_value T_INVALID v = (case v of KmInvalid _ \<Rightarrow> KpInvalid | _ \<Rightarrow> KpInvalid)"
| "from_km_tag_value T_PURPOSE v = (case v of KmKeyPurpose x \<Rightarrow> KpKeyPurpose x | _ \<Rightarrow> KpInvalid)"
| "from_km_tag_value T_ALGORITHM v = (case v of KmAlgorithm x \<Rightarrow> KpAlgorithm x | _ \<Rightarrow> KpInvalid)"
| "from_km_tag_value T_KEY_SIZE v = (case v of KmInteger x \<Rightarrow> KpKeySize x | _ \<Rightarrow> KpInvalid)"
| "from_km_tag_value T_BLOCK_MODE v = (case v of KmBlockMode x \<Rightarrow> KpBlockMode x | _ \<Rightarrow> KpInvalid)"
| "from_km_tag_value T_DIGEST v = (case v of KmDigest x \<Rightarrow> KpDigest x | _ \<Rightarrow> KpInvalid)"
| "from_km_tag_value T_PADDING v = (case v of KmPaddingMode x \<Rightarrow> KpPaddingMode x | _ \<Rightarrow> KpInvalid)"
| "from_km_tag_value T_CALLER_NONCE v = (case v of KmBoolValue _ \<Rightarrow> KpCallerNonce | _ \<Rightarrow> KpInvalid)"
| "from_km_tag_value T_MIN_MAC_LENGTH v = (case v of KmInteger x \<Rightarrow> KpMinMacLength x | _ \<Rightarrow> KpInvalid)"
| "from_km_tag_value T_EC_CURVE v = (case v of KmEcCurve x \<Rightarrow> KpEcCurve x | _ \<Rightarrow> KpInvalid)"
| "from_km_tag_value T_RSA_PUBLIC_EXPONENT v = (case v of KmLongInteger x \<Rightarrow> KpRSAPublicExponent x | _ \<Rightarrow> KpInvalid)"
| "from_km_tag_value T_INCLUDE_UNIQUE_ID v = (case v of KmBoolValue _ \<Rightarrow> KpIncludeUniqueID | _ \<Rightarrow> KpInvalid)"
| "from_km_tag_value T_BOOTLOADER_ONLY v = (case v of KmBoolValue _ \<Rightarrow> KpBootLoaderOnly | _ \<Rightarrow> KpInvalid)"
| "from_km_tag_value T_ROLLBACK_RESISTANCE v = (case v of KmBoolValue _ \<Rightarrow> KpRollbackResistance | _ \<Rightarrow> KpInvalid)"
| "from_km_tag_value T_EARLY_BOOT_ONLY v = (case v of KmBoolValue _ \<Rightarrow> KpEarlyBootOnly | _ \<Rightarrow> KpInvalid)"
| "from_km_tag_value T_ACTIVE_DATETIME v = (case v of KmDateTime x \<Rightarrow> KpActiveDateTime x | _ \<Rightarrow> KpInvalid)"
| "from_km_tag_value T_ORIGINATION_EXPIRE_DATETIME v = (case v of KmDateTime x \<Rightarrow> KpOriginationExpireDateTime x | _ \<Rightarrow> KpInvalid)"
| "from_km_tag_value T_USAGE_EXPIRE_DATETIME v = (case v of KmDateTime x \<Rightarrow> KpUsageExpireDateTime x | _ \<Rightarrow> KpInvalid)"
| "from_km_tag_value T_MIN_SECONDS_BETWEEN_OPS v = (case v of KmInteger x \<Rightarrow> KpMinSecondsBetweenOps x | _ \<Rightarrow> KpInvalid)"
| "from_km_tag_value T_MAX_USES_PER_BOOT v = (case v of KmInteger x \<Rightarrow> KpMaxUsesPerBoot x | _ \<Rightarrow> KpInvalid)"
| "from_km_tag_value T_USAGE_COUNT_LIMIT v = (case v of KmInteger x \<Rightarrow> KpUsageCountLimit x | _ \<Rightarrow> KpInvalid)"
| "from_km_tag_value T_USER_ID v = (case v of KmInteger x \<Rightarrow> KpUserID x | _ \<Rightarrow> KpInvalid)"
| "from_km_tag_value T_USER_SECURE_ID v = (case v of KmLongInteger x \<Rightarrow> KpUserSecureID x | _ \<Rightarrow> KpInvalid)"
| "from_km_tag_value T_NO_AUTH_REQUIRED v = (case v of KmBoolValue _ \<Rightarrow> KpNoAuthRequired | _ \<Rightarrow> KpInvalid)"
| "from_km_tag_value T_USER_AUTH_TYPE v = (case v of KmHardwareAuthenticatorType x \<Rightarrow> KpHardwareAuthenticatorType x | _ \<Rightarrow> KpInvalid)"
| "from_km_tag_value T_AUTH_TIMEOUT v = (case v of KmInteger x \<Rightarrow> KpAuthTimeout x | _ \<Rightarrow> KpInvalid)"
| "from_km_tag_value T_ALLOW_WHILE_ON_BODY v = (case v of KmBoolValue _ \<Rightarrow> KpAllowWhileOnBody | _ \<Rightarrow> KpInvalid)"
| "from_km_tag_value T_TRUSTED_USER_PRESENCE_REQUIRED v = (case v of KmBoolValue _ \<Rightarrow> KpTrustedUserPresenceRequired | _ \<Rightarrow> KpInvalid)"
| "from_km_tag_value T_TRUSTED_CONFIRMATION_REQUIRED v = (case v of KmBoolValue _ \<Rightarrow> KpTrustedConfirmationRequired | _ \<Rightarrow> KpInvalid)"
| "from_km_tag_value T_UNLOCKED_DEVICE_REQUIRED v = (case v of KmBoolValue _ \<Rightarrow> KpUnlockedDeviceRequired | _ \<Rightarrow> KpInvalid)"
| "from_km_tag_value T_APPLICATION_ID v = (case v of KmBlob x \<Rightarrow> KpApplicationID x | _ \<Rightarrow> KpInvalid)"
| "from_km_tag_value T_APPLICATION_DATA v = (case v of KmBlob x \<Rightarrow> KpApplicationData x | _ \<Rightarrow> KpInvalid)"
| "from_km_tag_value T_CREATION_DATETIME v = (case v of KmDateTime x \<Rightarrow> KpCreationDateTime x | _ \<Rightarrow> KpInvalid)"
| "from_km_tag_value T_ORIGIN v = (case v of KmOrigin x \<Rightarrow> KpKeyOrigin x | _ \<Rightarrow> KpInvalid)"
| "from_km_tag_value T_ROOT_OF_TRUST v = (case v of KmBlob x \<Rightarrow> KpRootOfTrust x | _ \<Rightarrow> KpInvalid)"
| "from_km_tag_value T_OS_VERSION v = (case v of KmInteger x \<Rightarrow> KpOSVersion x | _ \<Rightarrow> KpInvalid)"
| "from_km_tag_value T_OS_PATCHLEVEL v = (case v of KmInteger x \<Rightarrow> KpOSPatchLevel x | _ \<Rightarrow> KpInvalid)"
| "from_km_tag_value T_UNIQUE_ID v = (case v of KmBlob x \<Rightarrow> KpUniqueID x | _ \<Rightarrow> KpInvalid)"
| "from_km_tag_value T_ATTESTATION_CHALLENGE v = (case v of KmBlob x \<Rightarrow> KpAttestationChallenge x | _ \<Rightarrow> KpInvalid)"
| "from_km_tag_value T_ATTESTATION_APPLICATION_ID v = (case v of KmBlob x \<Rightarrow> KpAttestationApplicationID x | _ \<Rightarrow> KpInvalid)"
| "from_km_tag_value T_ATTESTATION_ID_BRAND v = (case v of KmBlob x \<Rightarrow> KpAttestationIdBrand x | _ \<Rightarrow> KpInvalid)"
| "from_km_tag_value T_ATTESTATION_ID_DEVICE v = (case v of KmBlob x \<Rightarrow> KpAttestationIdDevice x | _ \<Rightarrow> KpInvalid)"
| "from_km_tag_value T_ATTESTATION_ID_PRODUCT v = (case v of KmBlob x \<Rightarrow> KpAttestationIdProduct x | _ \<Rightarrow> KpInvalid)"
| "from_km_tag_value T_ATTESTATION_ID_SERIAL v = (case v of KmBlob x \<Rightarrow> KpAttestationIdSerial x | _ \<Rightarrow> KpInvalid)"
| "from_km_tag_value T_ATTESTATION_ID_IMEI v = (case v of KmBlob x \<Rightarrow> KpAttestationIdIMEI x | _ \<Rightarrow> KpInvalid)"
| "from_km_tag_value T_ATTESTATION_ID_MEID v = (case v of KmBlob x \<Rightarrow> KpAttestationIdMEID x | _ \<Rightarrow> KpInvalid)"
| "from_km_tag_value T_ATTESTATION_ID_MANUFACTURER v = (case v of KmBlob x \<Rightarrow> KpAttestationIdManufacturer x | _ \<Rightarrow> KpInvalid)"
| "from_km_tag_value T_ATTESTATION_ID_MODEL v = (case v of KmBlob x \<Rightarrow> KpAttestationIdModel x | _ \<Rightarrow> KpInvalid)"
| "from_km_tag_value T_VENDOR_PATCHLEVEL v = (case v of KmInteger x \<Rightarrow> KpVendorPatchLevel x | _ \<Rightarrow> KpInvalid)"
| "from_km_tag_value T_BOOT_PATCHLEVEL v = (case v of KmInteger x \<Rightarrow> KpBootPatchLevel x | _ \<Rightarrow> KpInvalid)"
| "from_km_tag_value T_ASSOCIATED_DATA v = (case v of KmBlob x \<Rightarrow> KpAssociatedData x | _ \<Rightarrow> KpInvalid)"
| "from_km_tag_value T_NONCE v = (case v of KmBlob x \<Rightarrow> KpNonce x | _ \<Rightarrow> KpInvalid)"
| "from_km_tag_value T_MAC_LENGTH v = (case v of KmInteger x \<Rightarrow> KpMacLength x | _ \<Rightarrow> KpInvalid)"
| "from_km_tag_value T_RESET_SINCE_ID_ROTATION v = (case v of KmBoolValue _ \<Rightarrow> KpResetSinceIdRotation | _ \<Rightarrow> KpInvalid)"
| "from_km_tag_value T_CONFIRMATION_TOKEN v = (case v of KmBlob x \<Rightarrow> KpConfirmationToken x | _ \<Rightarrow> KpInvalid)"
| "from_km_tag_value T_CERTIFICATE_SERIAL v = (case v of KmBlob x \<Rightarrow> KpCertificateSerial x | _ \<Rightarrow> KpInvalid)"
| "from_km_tag_value T_CERTIFICATE_SUBJECT v = (case v of KmBlob x \<Rightarrow> KpCertificateSubject x | _ \<Rightarrow> KpInvalid)"
| "from_km_tag_value T_CERTIFICATE_NOT_BEFORE v = (case v of KmDateTime x \<Rightarrow> KpCertificateNotBefore x | _ \<Rightarrow> KpInvalid)"
| "from_km_tag_value T_CERTIFICATE_NOT_AFTER v = (case v of KmDateTime x \<Rightarrow> KpCertificateNotAfter x | _ \<Rightarrow> KpInvalid)"
| "from_km_tag_value T_MAX_BOOT_LEVEL v = (case v of KmInteger x \<Rightarrow> KpMaxBootLevel x | _ \<Rightarrow> KpInvalid)"
| "from_km_tag_value (T_other _) v = KpInvalid"

definition KeyParameterValue_from_km :: "km_key_parameter \<Rightarrow> key_parameter_value" where
  "KeyParameterValue_from_km kp = from_km_tag_value (km_tag kp) (km_val kp)"

primrec KeyParameterValue_into_km :: "key_parameter_value \<Rightarrow> km_key_parameter" where
  "KeyParameterValue_into_km KpInvalid = \<lparr>km_tag = T_INVALID, km_val = KmInvalid 0\<rparr>"
| "KeyParameterValue_into_km (KpKeyPurpose v) = \<lparr>km_tag = T_PURPOSE, km_val = KmKeyPurpose v\<rparr>"
| "KeyParameterValue_into_km (KpAlgorithm v) = \<lparr>km_tag = T_ALGORITHM, km_val = KmAlgorithm v\<rparr>"
| "KeyParameterValue_into_km (KpKeySize v) = \<lparr>km_tag = T_KEY_SIZE, km_val = KmInteger v\<rparr>"
| "KeyParameterValue_into_km (KpBlockMode v) = \<lparr>km_tag = T_BLOCK_MODE, km_val = KmBlockMode v\<rparr>"
| "KeyParameterValue_into_km (KpDigest v) = \<lparr>km_tag = T_DIGEST, km_val = KmDigest v\<rparr>"
| "KeyParameterValue_into_km (KpPaddingMode v) = \<lparr>km_tag = T_PADDING, km_val = KmPaddingMode v\<rparr>"
| "KeyParameterValue_into_km KpCallerNonce = \<lparr>km_tag = T_CALLER_NONCE, km_val = KmBoolValue True\<rparr>"
| "KeyParameterValue_into_km (KpMinMacLength v) = \<lparr>km_tag = T_MIN_MAC_LENGTH, km_val = KmInteger v\<rparr>"
| "KeyParameterValue_into_km (KpEcCurve v) = \<lparr>km_tag = T_EC_CURVE, km_val = KmEcCurve v\<rparr>"
| "KeyParameterValue_into_km (KpRSAPublicExponent v) = \<lparr>km_tag = T_RSA_PUBLIC_EXPONENT, km_val = KmLongInteger v\<rparr>"
| "KeyParameterValue_into_km KpIncludeUniqueID = \<lparr>km_tag = T_INCLUDE_UNIQUE_ID, km_val = KmBoolValue True\<rparr>"
| "KeyParameterValue_into_km KpBootLoaderOnly = \<lparr>km_tag = T_BOOTLOADER_ONLY, km_val = KmBoolValue True\<rparr>"
| "KeyParameterValue_into_km KpRollbackResistance = \<lparr>km_tag = T_ROLLBACK_RESISTANCE, km_val = KmBoolValue True\<rparr>"
| "KeyParameterValue_into_km KpEarlyBootOnly = \<lparr>km_tag = T_EARLY_BOOT_ONLY, km_val = KmBoolValue True\<rparr>"
| "KeyParameterValue_into_km (KpActiveDateTime v) = \<lparr>km_tag = T_ACTIVE_DATETIME, km_val = KmDateTime v\<rparr>"
| "KeyParameterValue_into_km (KpOriginationExpireDateTime v) = \<lparr>km_tag = T_ORIGINATION_EXPIRE_DATETIME, km_val = KmDateTime v\<rparr>"
| "KeyParameterValue_into_km (KpUsageExpireDateTime v) = \<lparr>km_tag = T_USAGE_EXPIRE_DATETIME, km_val = KmDateTime v\<rparr>"
| "KeyParameterValue_into_km (KpMinSecondsBetweenOps v) = \<lparr>km_tag = T_MIN_SECONDS_BETWEEN_OPS, km_val = KmInteger v\<rparr>"
| "KeyParameterValue_into_km (KpMaxUsesPerBoot v) = \<lparr>km_tag = T_MAX_USES_PER_BOOT, km_val = KmInteger v\<rparr>"
| "KeyParameterValue_into_km (KpUsageCountLimit v) = \<lparr>km_tag = T_USAGE_COUNT_LIMIT, km_val = KmInteger v\<rparr>"
| "KeyParameterValue_into_km (KpUserID v) = \<lparr>km_tag = T_USER_ID, km_val = KmInteger v\<rparr>"
| "KeyParameterValue_into_km (KpUserSecureID v) = \<lparr>km_tag = T_USER_SECURE_ID, km_val = KmLongInteger v\<rparr>"
| "KeyParameterValue_into_km KpNoAuthRequired = \<lparr>km_tag = T_NO_AUTH_REQUIRED, km_val = KmBoolValue True\<rparr>"
| "KeyParameterValue_into_km (KpHardwareAuthenticatorType v) = \<lparr>km_tag = T_USER_AUTH_TYPE, km_val = KmHardwareAuthenticatorType v\<rparr>"
| "KeyParameterValue_into_km (KpAuthTimeout v) = \<lparr>km_tag = T_AUTH_TIMEOUT, km_val = KmInteger v\<rparr>"
| "KeyParameterValue_into_km KpAllowWhileOnBody = \<lparr>km_tag = T_ALLOW_WHILE_ON_BODY, km_val = KmBoolValue True\<rparr>"
| "KeyParameterValue_into_km KpTrustedUserPresenceRequired = \<lparr>km_tag = T_TRUSTED_USER_PRESENCE_REQUIRED, km_val = KmBoolValue True\<rparr>"
| "KeyParameterValue_into_km KpTrustedConfirmationRequired = \<lparr>km_tag = T_TRUSTED_CONFIRMATION_REQUIRED, km_val = KmBoolValue True\<rparr>"
| "KeyParameterValue_into_km KpUnlockedDeviceRequired = \<lparr>km_tag = T_UNLOCKED_DEVICE_REQUIRED, km_val = KmBoolValue True\<rparr>"
| "KeyParameterValue_into_km (KpApplicationID v) = \<lparr>km_tag = T_APPLICATION_ID, km_val = KmBlob v\<rparr>"
| "KeyParameterValue_into_km (KpApplicationData v) = \<lparr>km_tag = T_APPLICATION_DATA, km_val = KmBlob v\<rparr>"
| "KeyParameterValue_into_km (KpCreationDateTime v) = \<lparr>km_tag = T_CREATION_DATETIME, km_val = KmDateTime v\<rparr>"
| "KeyParameterValue_into_km (KpKeyOrigin v) = \<lparr>km_tag = T_ORIGIN, km_val = KmOrigin v\<rparr>"
| "KeyParameterValue_into_km (KpRootOfTrust v) = \<lparr>km_tag = T_ROOT_OF_TRUST, km_val = KmBlob v\<rparr>"
| "KeyParameterValue_into_km (KpOSVersion v) = \<lparr>km_tag = T_OS_VERSION, km_val = KmInteger v\<rparr>"
| "KeyParameterValue_into_km (KpOSPatchLevel v) = \<lparr>km_tag = T_OS_PATCHLEVEL, km_val = KmInteger v\<rparr>"
| "KeyParameterValue_into_km (KpUniqueID v) = \<lparr>km_tag = T_UNIQUE_ID, km_val = KmBlob v\<rparr>"
| "KeyParameterValue_into_km (KpAttestationChallenge v) = \<lparr>km_tag = T_ATTESTATION_CHALLENGE, km_val = KmBlob v\<rparr>"
| "KeyParameterValue_into_km (KpAttestationApplicationID v) = \<lparr>km_tag = T_ATTESTATION_APPLICATION_ID, km_val = KmBlob v\<rparr>"
| "KeyParameterValue_into_km (KpAttestationIdBrand v) = \<lparr>km_tag = T_ATTESTATION_ID_BRAND, km_val = KmBlob v\<rparr>"
| "KeyParameterValue_into_km (KpAttestationIdDevice v) = \<lparr>km_tag = T_ATTESTATION_ID_DEVICE, km_val = KmBlob v\<rparr>"
| "KeyParameterValue_into_km (KpAttestationIdProduct v) = \<lparr>km_tag = T_ATTESTATION_ID_PRODUCT, km_val = KmBlob v\<rparr>"
| "KeyParameterValue_into_km (KpAttestationIdSerial v) = \<lparr>km_tag = T_ATTESTATION_ID_SERIAL, km_val = KmBlob v\<rparr>"
| "KeyParameterValue_into_km (KpAttestationIdIMEI v) = \<lparr>km_tag = T_ATTESTATION_ID_IMEI, km_val = KmBlob v\<rparr>"
| "KeyParameterValue_into_km (KpAttestationIdMEID v) = \<lparr>km_tag = T_ATTESTATION_ID_MEID, km_val = KmBlob v\<rparr>"
| "KeyParameterValue_into_km (KpAttestationIdManufacturer v) = \<lparr>km_tag = T_ATTESTATION_ID_MANUFACTURER, km_val = KmBlob v\<rparr>"
| "KeyParameterValue_into_km (KpAttestationIdModel v) = \<lparr>km_tag = T_ATTESTATION_ID_MODEL, km_val = KmBlob v\<rparr>"
| "KeyParameterValue_into_km (KpVendorPatchLevel v) = \<lparr>km_tag = T_VENDOR_PATCHLEVEL, km_val = KmInteger v\<rparr>"
| "KeyParameterValue_into_km (KpBootPatchLevel v) = \<lparr>km_tag = T_BOOT_PATCHLEVEL, km_val = KmInteger v\<rparr>"
| "KeyParameterValue_into_km (KpAssociatedData v) = \<lparr>km_tag = T_ASSOCIATED_DATA, km_val = KmBlob v\<rparr>"
| "KeyParameterValue_into_km (KpNonce v) = \<lparr>km_tag = T_NONCE, km_val = KmBlob v\<rparr>"
| "KeyParameterValue_into_km (KpMacLength v) = \<lparr>km_tag = T_MAC_LENGTH, km_val = KmInteger v\<rparr>"
| "KeyParameterValue_into_km KpResetSinceIdRotation = \<lparr>km_tag = T_RESET_SINCE_ID_ROTATION, km_val = KmBoolValue True\<rparr>"
| "KeyParameterValue_into_km (KpConfirmationToken v) = \<lparr>km_tag = T_CONFIRMATION_TOKEN, km_val = KmBlob v\<rparr>"
| "KeyParameterValue_into_km (KpCertificateSerial v) = \<lparr>km_tag = T_CERTIFICATE_SERIAL, km_val = KmBlob v\<rparr>"
| "KeyParameterValue_into_km (KpCertificateSubject v) = \<lparr>km_tag = T_CERTIFICATE_SUBJECT, km_val = KmBlob v\<rparr>"
| "KeyParameterValue_into_km (KpCertificateNotBefore v) = \<lparr>km_tag = T_CERTIFICATE_NOT_BEFORE, km_val = KmDateTime v\<rparr>"
| "KeyParameterValue_into_km (KpCertificateNotAfter v) = \<lparr>km_tag = T_CERTIFICATE_NOT_AFTER, km_val = KmDateTime v\<rparr>"
| "KeyParameterValue_into_km (KpMaxBootLevel v) = \<lparr>km_tag = T_MAX_BOOT_LEVEL, km_val = KmInteger v\<rparr>"

section \<open>KeyParameter\<close>

definition KeyParameter_new :: "key_parameter_value \<Rightarrow> i32 \<Rightarrow> key_parameter" where
  "KeyParameter_new value security_level = \<lparr>kp_value = value, kp_security_level = security_level\<rparr>"

definition KeyParameter_new_from_sql :: "tag \<Rightarrow> sql_value \<Rightarrow> i32 \<Rightarrow> key_parameter res" where
  "KeyParameter_new_from_sql tag_val data security_level_val =
     and_then (KeyParameterValue_new_from_sql tag_val data) (\<lambda>v.
       Inr \<lparr>kp_value = v, kp_security_level = security_level_val\<rparr>)"

definition KeyParameter_get_tag :: "key_parameter \<Rightarrow> tag" where
  "KeyParameter_get_tag kp = KeyParameterValue_get_tag (kp_value kp)"

definition KeyParameter_into_authorization :: "key_parameter \<Rightarrow> authorization" where
  "KeyParameter_into_authorization kp =
     \<lparr>au_security_level = kp_security_level kp,
      au_key_parameter = KeyParameterValue_into_km (kp_value kp)\<rparr>"

text \<open>\<open>key_characteristics_to_internal\<close> and \<open>key_parameters_to_authorizations\<close> of utils.rs.\<close>

record key_characteristics =
  kc_security_level :: i32
  kc_authorizations :: "km_key_parameter list"

definition key_characteristics_to_internal :: "key_characteristics list \<Rightarrow> key_parameter list" where
  "key_characteristics_to_internal cs =
     concat (map (\<lambda>c. map (\<lambda>kp. KeyParameter_new (KeyParameterValue_from_km kp) (kc_security_level c))
                        (kc_authorizations c)) cs)"

definition key_parameters_to_authorizations :: "key_parameter list \<Rightarrow> authorization list" where
  "key_parameters_to_authorizations ps = map KeyParameter_into_authorization ps"

section \<open>Lemmas\<close>

lemma sql_get_i32_sint [simp]: "sql_get_i32 (SqlInteger (sint v)) = Some v"
  using sint_range_size [of v] by (simp add: sql_get_i32_def word_size)

lemma sql_get_i64_sint [simp]: "sql_get_i64 (SqlInteger (sint v)) = Some v"
  using sint_range_size [of v] by (simp add: sql_get_i64_def word_size)

lemma sql_get_vec_blob [simp]: "sql_get_vec (SqlBlob v) = Some v"
  by (simp add: sql_get_vec_def)

lemma sql_read_Some [simp]: "sql_read (Some v) = Inr v"
  by (simp add: sql_read_def)

lemma KeyParameterValue_sql_roundtrip:
  "KeyParameterValue_new_from_sql (KeyParameterValue_get_tag v) (KeyParameterValue_to_sql v) = Inr v"
  by (cases v) simp_all

lemma KeyParameterValue_km_roundtrip:
  "KeyParameterValue_from_km (KeyParameterValue_into_km v) = v"
  by (cases v) (simp_all add: KeyParameterValue_from_km_def)

lemma into_km_tag: "km_tag (KeyParameterValue_into_km v) = KeyParameterValue_get_tag v"
  by (cases v) simp_all

lemma from_km_tag_value_tag:
  "from_km_tag_value tg v \<noteq> KpInvalid \<Longrightarrow> KeyParameterValue_get_tag (from_km_tag_value tg v) = tg"
  by (cases tg) (simp_all split: km_value.splits)

lemma new_from_sql_tag:
  "KeyParameterValue_new_from_sql tg d = Inr v \<Longrightarrow> v = KpInvalid \<or> KeyParameterValue_get_tag v = tg"
  by (cases tg) (auto simp: map_res_Inr_iff)

lemma new_from_sql_error:
  "KeyParameterValue_new_from_sql tg d = Inl e \<Longrightarrow> e = Ks (Rc RC_VALUE_CORRUPTED)"
  by (cases tg) (auto simp: map_res_def sql_read_def ok_or_def split: option.splits)

section \<open>Properties\<close>

text \<open>A key parameter survives the database: storing its tag, its value and its security
  level in a row and reading the row back yields the same parameter, and reading any cell
  either fails with VALUE_CORRUPTED or yields a value whose tag is the stored tag (or the
  value Invalid).\<close>

theorem key_parameter_sql_roundtrip:
  "KeyParameter_new_from_sql (KeyParameter_get_tag kp) (KeyParameterValue_to_sql (kp_value kp))
     (kp_security_level kp) = Inr kp
   \<and> (case KeyParameter_new_from_sql tg d l of
        Inl e \<Rightarrow> e = Ks (Rc RC_VALUE_CORRUPTED)
      | Inr kp' \<Rightarrow> kp_security_level kp' = l \<and>
                  (kp_value kp' = KpInvalid \<or> KeyParameter_get_tag kp' = tg))"
  by (auto simp: KeyParameter_new_from_sql_def KeyParameter_get_tag_def res_iffs
      KeyParameterValue_sql_roundtrip new_from_sql_error dest: new_from_sql_tag split: sum.splits)

text \<open>Key characteristics survive the trip to a client and back: turning internal
  parameters into authorizations and reading the authorizations as key characteristics of the
  same security level yields the original parameters in the original order.\<close>

theorem key_parameter_authorization_roundtrip:
  "key_characteristics_to_internal
     (map (\<lambda>a. \<lparr>kc_security_level = au_security_level a, kc_authorizations = [au_key_parameter a]\<rparr>)
          (key_parameters_to_authorizations ps)) = ps"
  by (induction ps)
    (simp_all add: key_characteristics_to_internal_def key_parameters_to_authorizations_def
      KeyParameter_into_authorization_def KeyParameter_new_def KeyParameterValue_km_roundtrip)

end
