(* ===== verification/Ks_Selinux.thy ===== *)
theory Ks_Selinux
  imports Ks_Types
begin

text \<open>
  The safe wrapper around libselinux (\<open>src/keystore2/selinux/src/lib.rs\<close>).  libselinux
  itself is outside the repository and enters as the record \<open>libselinux\<close>: what
  \<open>getcon\<close>, \<open>selabel_lookup\<close> and \<open>selinux_check_access\<close> answer.  A C call
  either returns 0, possibly with a NULL context, or fails with an \<open>io::Error\<close> of which
  only the kind matters.
\<close>

datatype io_error_kind = IoPermissionDenied | IoOtherKind

record libselinux =
  c_getcon :: "io_error_kind + string option"
  c_selabel_lookup :: "string \<Rightarrow> io_error_kind + string option"
  c_selinux_check_access :: "string \<Rightarrow> string \<Rightarrow> string \<Rightarrow> string \<Rightarrow> io_error_kind option"

text \<open>\<open>CString::new\<close> refuses strings with an interior NUL byte.\<close>

definition CString_new :: "string \<Rightarrow> string res" where
  "CString_new s = (if CHR 0x00 \<in> set s then Inl (OtherErr ''NulError'') else Inr s)"

definition Backend_lookup :: "libselinux \<Rightarrow> string \<Rightarrow> string res" where
  "Backend_lookup L key =
     and_then (CString_new key) (\<lambda>c_key.
       case c_selabel_lookup L c_key of
         Inr (Some con) \<Rightarrow> Inr con
       | Inr None \<Rightarrow> Inl (Selinux (SystemError ''selabel_lookup returned a NULL context''))
       | Inl e \<Rightarrow> Inl IoError)"

definition getcon :: "libselinux \<Rightarrow> string res" where
  "getcon L =
     (case c_getcon L of
        Inr (Some con) \<Rightarrow> Inr con
      | Inr None \<Rightarrow> Inl (Selinux (SystemError ''getcon returned a NULL context''))
      | Inl e \<Rightarrow> Inl IoError)"

definition check_access :: "libselinux \<Rightarrow> string \<Rightarrow> string \<Rightarrow> string \<Rightarrow> string \<Rightarrow> unit res" where
  "check_access L source target tclass perm =
     and_then (CString_new tclass) (\<lambda>c_tclass.
     and_then (CString_new perm) (\<lambda>c_perm.
       case c_selinux_check_access L source target c_tclass c_perm of
         None \<Rightarrow> Inr ()
       | Some IoPermissionDenied \<Rightarrow> Inl selinux_perm
       | Some IoOtherKind \<Rightarrow> Inl IoError))"

lemma CString_new_Inr_iff [res_simps]: "CString_new s = Inr t \<longleftrightarrow> CHR 0x00 \<notin> set s \<and> t = s"
  by (auto simp: CString_new_def)

lemma check_access_ok_iff:
  "check_access L s t c p = Inr () \<longleftrightarrow>
     CHR 0x00 \<notin> set c \<and> CHR 0x00 \<notin> set p \<and> c_selinux_check_access L s t c p = None"
  by (auto simp: check_access_def res_iffs CString_new_def
      split: option.splits io_error_kind.splits)

end
