(* ===== verification/Ks_Permission.thy ===== *)
theory Ks_Permission
  imports Ks_Selinux
begin

unbundle bit_operations_syntax

text \<open>
  The permission component (\<open>src/keystore2/src/permission.rs\<close>): the permissions of the
  two SELinux classes \<open>keystore2\<close> and \<open>keystore2_key\<close>, sets of key permissions as
  bit vectors with their iterator, and the three access checks.

  \<open>KeyPermission\<close> is an AIDL enumeration declared outside the repository: an i32 per
  permission.  The values are the parameter \<open>key_permission\<close>; that they are pairwise
  different single bits, which the representation of a set as one i32 relies on, is the
  predicate \<open>wf_key_permission\<close>.
\<close>

section \<open>KeyPerm\<close>

record key_permission =
  KP_NONE :: i32
  KP_CONVERT_STORAGE_KEY_TO_EPHEMERAL :: i32
  KP_DELETE :: i32
  KP_GEN_UNIQUE_ID :: i32
  KP_GET_INFO :: i32
  KP_GRANT :: i32
  KP_MANAGE_BLOB :: i32
  KP_REBIND :: i32
  KP_REQ_FORCED_OP :: i32
  KP_UPDATE :: i32
  KP_USE :: i32
  KP_USE_DEV_ID :: i32

text \<open>The element list of the \<open>implement_permission_aidl!\<close> invocation for \<open>KeyPerm\<close>.\<close>

definition key_perm_elements :: "key_permission \<Rightarrow> (i32 \<times> string) list" where
  "key_perm_elements K =
     [(KP_CONVERT_STORAGE_KEY_TO_EPHEMERAL K, ''convert_storage_key_to_ephemeral''),
      (KP_DELETE K, ''delete''),
      (KP_GEN_UNIQUE_ID K, ''gen_unique_id''),
      (KP_GET_INFO K, ''get_info''),
      (KP_GRANT K, ''grant''),
      (KP_MANAGE_BLOB K, ''manage_blob''),
      (KP_REBIND K, ''rebind''),
      (KP_REQ_FORCED_OP K, ''req_forced_op''),
      (KP_UPDATE K, ''update''),
      (KP_USE K, ''use''),
      (KP_USE_DEV_ID K, ''use_dev_id'')]"

text \<open>\<open>From<KeyPermission> for KeyPerm\<close>: a value that is not listed becomes the default.\<close>

definition KeyPerm_from :: "key_permission \<Rightarrow> i32 \<Rightarrow> i32" where
  "KeyPerm_from K p =
     (if p = KP_NONE K then KP_NONE K
      else if p \<in> set (map fst (key_perm_elements K)) then p
      else KP_NONE K)"

definition KeyPerm_to_selinux :: "key_permission \<Rightarrow> i32 \<Rightarrow> string" where
  "KeyPerm_to_selinux K p =
     (if p = KP_NONE K then ''none''
      else case map_of (key_perm_elements K) p of Some s \<Rightarrow> s | None \<Rightarrow> ''none'')"

section \<open>KeystorePerm\<close>

datatype keystore_perm =
    KsNone | AddAuth | ClearNs | GetState | List | Lock | Reset | Unlock | ChangeUser
  | ChangePassword | ClearUID | GetAuthToken | EarlyBootEnded | ReportOffBody | PullMetrics
  | DeleteAllKeys

fun KeystorePerm_into :: "keystore_perm \<Rightarrow> i32" where
  "KeystorePerm_into KsNone = 0"
| "KeystorePerm_into AddAuth = 1"
| "KeystorePerm_into ClearNs = 2"
| "KeystorePerm_into GetState = 4"
| "KeystorePerm_into List = 8"
| "KeystorePerm_into Lock = 0x10"
| "KeystorePerm_into Reset = 0x20"
| "KeystorePerm_into Unlock = 0x40"
| "KeystorePerm_into ChangeUser = 0x80"
| "KeystorePerm_into ChangePassword = 0x100"
| "KeystorePerm_into ClearUID = 0x200"
| "KeystorePerm_into GetAuthToken = 0x400"
| "KeystorePerm_into EarlyBootEnded = 0x800"
| "KeystorePerm_into ReportOffBody = 0x1000"
| "KeystorePerm_into PullMetrics = 0x2000"
| "KeystorePerm_into DeleteAllKeys = 0x4000"

definition KeystorePerm_from :: "i32 \<Rightarrow> keystore_perm" where
  "KeystorePerm_from p =
     (if p = 0 then KsNone
      else if p = 1 then AddAuth
      else if p = 2 then ClearNs
      else if p = 4 then GetState
      else if p = 8 then List
      else if p = 0x10 then Lock
      else if p = 0x20 then Reset
      else if p = 0x40 then Unlock
      else if p = 0x80 then ChangeUser
      else if p = 0x100 then ChangePassword
      else if p = 0x200 then ClearUID
      else if p = 0x400 then GetAuthToken
      else if p = 0x800 then EarlyBootEnded
      else if p = 0x1000 then ReportOffBody
      else if p = 0x2000 then PullMetrics
      else if p = 0x4000 then DeleteAllKeys
      else KsNone)"

fun KeystorePerm_to_selinux :: "keystore_perm \<Rightarrow> string" where
  "KeystorePerm_to_selinux KsNone = ''none''"
| "KeystorePerm_to_selinux AddAuth = ''add_auth''"
| "KeystorePerm_to_selinux ClearNs = ''clear_ns''"
| "KeystorePerm_to_selinux GetState = ''get_state''"
| "KeystorePerm_to_selinux List = ''list''"
| "KeystorePerm_to_selinux Lock = ''lock''"
| "KeystorePerm_to_selinux Reset = ''reset''"
| "KeystorePerm_to_selinux Unlock = ''unlock''"
| "KeystorePerm_to_selinux ChangeUser = ''change_user''"
| "KeystorePerm_to_selinux ChangePassword = ''change_password''"
| "KeystorePerm_to_selinux ClearUID = ''clear_uid''"
| "KeystorePerm_to_selinux GetAuthToken = ''get_auth_token''"
| "KeystorePerm_to_selinux EarlyBootEnded = ''early_boot_ended''"
| "KeystorePerm_to_selinux ReportOffBody = ''report_off_body''"
| "KeystorePerm_to_selinux PullMetrics = ''pull_metrics''"
| "KeystorePerm_to_selinux DeleteAllKeys = ''delete_all_keys''"

section \<open>Sets of key permissions\<close>

text \<open>
  A \<open>KeyPermSet\<close> is the i32 that holds the bits.  The iterator keeps the set and a
  position; \<open>next\<close> advances to the next set bit.  The position only ever runs from 0 to
  32, so the code's test \<open>pos == 32\<close> is written as \<open>32 \<le> pos\<close>.
\<close>

type_synonym key_perm_set = i32

record into_iter =
  it_vec :: key_perm_set
  it_pos :: nat

definition IntoIter_new :: "key_perm_set \<Rightarrow> into_iter" where
  "IntoIter_new v = \<lparr>it_vec = v, it_pos = 0\<rparr>"

function IntoIter_next :: "key_permission \<Rightarrow> into_iter \<Rightarrow> i32 option \<times> into_iter" where
  "IntoIter_next K it =
     (if 32 \<le> it_pos it then (None, it)
      else let p = it_vec it AND push_bit (it_pos it) 1;
               it' = it\<lparr>it_pos := it_pos it + 1\<rparr>
           in if p \<noteq> 0 then (Some (KeyPerm_from K p), it') else IntoIter_next K it')"
  by pat_completeness auto
termination
  by (relation "measure (\<lambda>(K, it). 32 - it_pos it)") auto

declare IntoIter_next.simps [simp del]

lemma IntoIter_next_progress:
  "IntoIter_next K it = (Some p, it') \<Longrightarrow> it_pos it < it_pos it' \<and> it_pos it' \<le> 32 \<and> it_vec it' = it_vec it"
proof (induction K it rule: IntoIter_next.induct)
  case (1 K it)
  then show ?case
    by (subst (asm) (2) IntoIter_next.simps) (fastforce simp: Let_def split: if_splits)
qed

text \<open>A \<open>for\<close> loop over the set: the items \<open>next\<close> yields until it returns \<open>None\<close>.\<close>

function IntoIter_collect :: "key_permission \<Rightarrow> into_iter \<Rightarrow> i32 list" where
  "IntoIter_collect K it =
     (case IntoIter_next K it of
        (None, _) \<Rightarrow> []
      | (Some p, it') \<Rightarrow> p # IntoIter_collect K it')"
  by pat_completeness auto
termination
proof (relation "measure (\<lambda>(K, it). 32 - it_pos it)", goal_cases)
  case 1
  then show ?case by simp
next
  case (2 K it x y p)
  then have "it_pos it < it_pos y \<and> it_pos y \<le> 32"
    using IntoIter_next_progress [of K it p y] by simp
  then show ?case by auto
qed

declare IntoIter_collect.simps [simp del]

definition KeyPermSet_into_iter :: "key_permission \<Rightarrow> key_perm_set \<Rightarrow> i32 list" where
  "KeyPermSet_into_iter K v = IntoIter_collect K (IntoIter_new v)"

definition KeyPermSet_includes :: "key_perm_set \<Rightarrow> key_perm_set \<Rightarrow> bool" where
  "KeyPermSet_includes self other \<longleftrightarrow> self AND other = other"

text \<open>The macro \<open>key_perm_set!\<close>.\<close>

fun key_perm_set_of :: "i32 list \<Rightarrow> key_perm_set" where
  "key_perm_set_of [] = 0"
| "key_perm_set_of (p # ps) = p OR key_perm_set_of ps"

section \<open>Access checks\<close>

definition lookup_keystore2_key_context :: "libselinux \<Rightarrow> int \<Rightarrow> string res" where
  "lookup_keystore2_key_context L nspace = Backend_lookup L (int_to_string nspace)"

definition check_keystore_permission :: "libselinux \<Rightarrow> string \<Rightarrow> keystore_perm \<Rightarrow> unit res" where
  "check_keystore_permission L caller_ctx perm =
     and_then (getcon L) (\<lambda>target_context.
       check_access L caller_ctx target_context ''keystore2'' (KeystorePerm_to_selinux perm))"

definition check_grant_permission ::
    "libselinux \<Rightarrow> key_permission \<Rightarrow> string \<Rightarrow> key_perm_set \<Rightarrow> key_descriptor \<Rightarrow> unit res" where
  "check_grant_permission L K caller_ctx access_vec key =
     and_then
       (case kd_domain key of
          APP \<Rightarrow> getcon L
        | SELINUX \<Rightarrow> lookup_keystore2_key_context L (kd_nspace key)
        | _ \<Rightarrow> Inl sys)
       (\<lambda>target_context.
     and_then (check_access L caller_ctx target_context ''keystore2_key'' ''grant'') (\<lambda>_.
       if KeyPermSet_includes access_vec (KP_GRANT K) then Inl selinux_perm
       else for_each_res
              (\<lambda>p. check_access L caller_ctx target_context ''keystore2_key'' (KeyPerm_to_selinux K p))
              (KeyPermSet_into_iter K access_vec)))"

definition check_key_permission ::
    "libselinux \<Rightarrow> key_permission \<Rightarrow> nat \<Rightarrow> string \<Rightarrow> i32 \<Rightarrow> key_descriptor \<Rightarrow>
     key_perm_set option \<Rightarrow> unit res" where
  "check_key_permission L K caller_uid caller_ctx perm key access_vector =
     (if (case access_vector of Some av \<Rightarrow> KeyPermSet_includes av perm | None \<Rightarrow> False) then Inr ()
      else
        and_then
          (case kd_domain key of
             APP \<Rightarrow> if int caller_uid \<noteq> kd_nspace key then Inl selinux_perm else getcon L
           | SELINUX \<Rightarrow> lookup_keystore2_key_context L (kd_nspace key)
           | GRANT \<Rightarrow> (case access_vector of Some _ \<Rightarrow> Inl selinux_perm | None \<Rightarrow> Inl sys)
           | KEY_ID \<Rightarrow> Inl sys
           | BLOB \<Rightarrow>
               and_then (lookup_keystore2_key_context L (kd_nspace key)) (\<lambda>tctx.
               and_then (check_access L caller_ctx tctx ''keystore2_key''
                           (KeyPerm_to_selinux K (KP_MANAGE_BLOB K))) (\<lambda>_. Inr tctx))
           | _ \<Rightarrow> Inl sys)
          (\<lambda>target_context.
             check_access L caller_ctx target_context ''keystore2_key'' (KeyPerm_to_selinux K perm)))"

text \<open>
  The wrappers in \<open>src/keystore2/src/utils.rs\<close> take the security context and the uid of
  the calling thread from binder; a call without a security context is a system error.
\<close>

record caller =
  calling_sid :: "string option"
  calling_uid :: nat

definition utils_check_keystore_permission :: "libselinux \<Rightarrow> caller \<Rightarrow> keystore_perm \<Rightarrow> unit res" where
  "utils_check_keystore_permission L c perm =
     and_then (ok_or (calling_sid c) sys) (\<lambda>sid. check_keystore_permission L sid perm)"

definition utils_check_grant_permission ::
    "libselinux \<Rightarrow> key_permission \<Rightarrow> caller \<Rightarrow> key_perm_set \<Rightarrow> key_descriptor \<Rightarrow> unit res" where
  "utils_check_grant_permission L K c access_vec key =
     and_then (ok_or (calling_sid c) sys) (\<lambda>sid. check_grant_permission L K sid access_vec key)"

definition utils_check_key_permission ::
    "libselinux \<Rightarrow> key_permission \<Rightarrow> caller \<Rightarrow> i32 \<Rightarrow> key_descriptor \<Rightarrow> key_perm_set option \<Rightarrow> unit res" where
  "utils_check_key_permission L K c perm key access_vector =
     and_then (ok_or (calling_sid c) sys) (\<lambda>sid.
       check_key_permission L K (calling_uid c) sid perm key access_vector)"

section \<open>Lemmas\<close>

definition wf_key_permission :: "key_permission \<Rightarrow> bool" where
  "wf_key_permission K \<longleftrightarrow>
     KP_NONE K = 0 \<and> distinct (map fst (key_perm_elements K)) \<and>
     (\<forall>p \<in> set (map fst (key_perm_elements K)). \<exists>i<32. p = push_bit i 1)"

text \<open>Whether SELinux lets \<open>ctx\<close> use the permission named \<open>perm\<close> on keys labelled \<open>t\<close>.\<close>

definition key_access_allowed :: "libselinux \<Rightarrow> string \<Rightarrow> string \<Rightarrow> string \<Rightarrow> bool" where
  "key_access_allowed L ctx t perm \<longleftrightarrow> check_access L ctx t ''keystore2_key'' perm = Inr ()"

lemma and_push_bit_1:
  fixes v :: i32
  assumes "i < 32"
  shows "v AND push_bit i 1 = (if bit v i then push_bit i 1 else 0)"
  by (rule bit_word_eqI) (use assms in \<open>auto simp: bit_simps\<close>)

lemma push_bit_1_neq_0: "i < 32 \<Longrightarrow> push_bit i 1 \<noteq> (0 :: i32)"
  by simp

lemma KeyPermSet_includes_bit:
  assumes "i < 32"
  shows "KeyPermSet_includes v (push_bit i 1) \<longleftrightarrow> bit v i"
  using and_push_bit_1 [OF assms, of v] push_bit_1_neq_0 [OF assms]
  by (auto simp: KeyPermSet_includes_def simp del: push_bit_of_1)

lemma KeyPerm_to_selinux_from [simp]:
  "KeyPerm_to_selinux K (KeyPerm_from K p) = KeyPerm_to_selinux K p"
proof -
  have "map_of (key_perm_elements K) p = None" if "p \<notin> set (map fst (key_perm_elements K))"
    using that by (simp add: map_of_eq_None_iff)
  then show ?thesis by (auto simp: KeyPerm_from_def KeyPerm_to_selinux_def)
qed

lemma KeyPerm_to_selinux_no_nul: "CHR 0x00 \<notin> set (KeyPerm_to_selinux K p)"
proof -
  have "CHR 0x00 \<notin> set name" if "(q, name) \<in> set (key_perm_elements K)" for q name
    using that by (auto simp: key_perm_elements_def)
  then show ?thesis
    by (auto simp: KeyPerm_to_selinux_def split: option.splits dest: map_of_SomeD)
qed

lemma upt_filter_Cons: "i < n \<Longrightarrow> filter P [i..<n] = (if P i then [i] else []) @ filter P [Suc i..<n]"
  by (simp add: upt_conv_Cons)

text \<open>One call of \<open>next\<close>, in terms of the bits at or above the position.\<close>

lemma IntoIter_next_filter:
  "it_pos it \<le> 32 \<Longrightarrow>
   IntoIter_next K it =
     (case filter (bit (it_vec it)) [it_pos it..<32] of
        [] \<Rightarrow> (None, it\<lparr>it_pos := 32\<rparr>)
      | i # _ \<Rightarrow> (Some (KeyPerm_from K (push_bit i 1)), it\<lparr>it_pos := i + 1\<rparr>))"
proof (induction K it rule: IntoIter_next.induct)
  case (1 K it)
  show ?case
  proof (cases "it_pos it = 32")
    case True
    then show ?thesis by (subst IntoIter_next.simps) simp
  next
    case False
    with "1.prems" have lt: "it_pos it < 32" by simp
    show ?thesis
    proof (cases "bit (it_vec it) (it_pos it)")
      case True
      with lt show ?thesis
        by (subst IntoIter_next.simps)
          (simp add: and_push_bit_1 push_bit_1_neq_0 upt_filter_Cons Let_def del: push_bit_of_1)
    next
      case no: False
      let ?it = "it\<lparr>it_pos := it_pos it + 1\<rparr>"
      have "IntoIter_next K it = IntoIter_next K ?it"
        using lt no by (subst IntoIter_next.simps) (simp add: and_push_bit_1 Let_def del: push_bit_of_1)
      also have "\<dots> = (case filter (bit (it_vec ?it)) [it_pos ?it..<32] of
          [] \<Rightarrow> (None, ?it\<lparr>it_pos := 32\<rparr>)
        | i # _ \<Rightarrow> (Some (KeyPerm_from K (push_bit i 1)), ?it\<lparr>it_pos := i + 1\<rparr>))"
        by (rule "1.IH") (use lt no in \<open>auto simp: and_push_bit_1 simp del: push_bit_of_1\<close>)
      finally show ?thesis
        using lt no by (simp add: upt_filter_Cons split: list.splits)
    qed
  qed
qed

lemma filter_upt_split:
  assumes "filter P [i..<n] = j # js"
  shows "i \<le> j" and "j < n" and "js = filter P [Suc j..<n]"
proof -
  have "\<exists>k. j = i + k \<and> j < n \<and> js = filter P [Suc j..<n]"
    using assms
  proof (induction "n - i" arbitrary: i)
    case 0
    then show ?case by simp
  next
    case (Suc d)
    then have "i < n" by simp
    show ?case
    proof (cases "P i")
      case True
      with Suc.prems \<open>i < n\<close> show ?thesis by (auto simp: upt_conv_Cons)
    next
      case False
      with Suc.prems \<open>i < n\<close> have "filter P [Suc i..<n] = j # js" by (simp add: upt_conv_Cons)
      moreover have "d = n - Suc i" using Suc.hyps(2) by simp
      ultimately obtain k where "j = Suc i + k \<and> j < n \<and> js = filter P [Suc j..<n]"
        using Suc.hyps(1) by blast
      then have "j = i + Suc k \<and> j < n \<and> js = filter P [Suc j..<n]" by simp
      then show ?thesis by blast
    qed
  qed
  then show "i \<le> j" and "j < n" and "js = filter P [Suc j..<n]" by auto
qed

lemma IntoIter_collect_filter:
  "it_pos it \<le> 32 \<Longrightarrow>
   IntoIter_collect K it =
     map (\<lambda>i. KeyPerm_from K (push_bit i 1)) (filter (bit (it_vec it)) [it_pos it..<32])"
proof (induction K it rule: IntoIter_collect.induct)
  case (1 K it)
  show ?case
  proof (cases "filter (bit (it_vec it)) [it_pos it..<32]")
    case Nil
    then show ?thesis
      by (subst IntoIter_collect.simps) (simp add: IntoIter_next_filter [OF "1.prems"])
  next
    case (Cons i js)
    note split = filter_upt_split [OF Cons]
    let ?it = "it\<lparr>it_pos := i + 1\<rparr>"
    have nxt: "IntoIter_next K it = (Some (KeyPerm_from K (push_bit i 1)), ?it)"
      using Cons by (simp add: IntoIter_next_filter [OF "1.prems"])
    have "IntoIter_collect K ?it =
        map (\<lambda>i. KeyPerm_from K (push_bit i 1)) (filter (bit (it_vec ?it)) [it_pos ?it..<32])"
      by (rule "1.IH" [OF nxt [symmetric] refl]) (use split(2) in simp)
    with Cons split(3) show ?thesis
      by (subst IntoIter_collect.simps) (simp add: nxt del: push_bit_of_1)
  qed
qed

lemma KeyPermSet_into_iter_bits:
  "KeyPermSet_into_iter K v =
     map (\<lambda>i. KeyPerm_from K (push_bit i 1)) (filter (bit v) [0..<32])"
  by (simp add: KeyPermSet_into_iter_def IntoIter_new_def IntoIter_collect_filter del: push_bit_of_1)

lemma for_each_key_perm:
  "for_each_res (\<lambda>p. check_access L ctx t c (KeyPerm_to_selinux K p)) (KeyPermSet_into_iter K v) = Inr ()
   \<longleftrightarrow> (\<forall>i<32. bit v i \<longrightarrow> check_access L ctx t c (KeyPerm_to_selinux K (push_bit i 1)) = Inr ())"
  by (auto simp: for_each_res_ok KeyPermSet_into_iter_bits simp del: push_bit_of_1)

lemma wf_key_permission_bit:
  assumes "wf_key_permission K" and "p \<in> set (map fst (key_perm_elements K))"
  obtains i where "i < 32" and "p = push_bit i 1"
  using assms unfolding wf_key_permission_def by blast

lemma grant_target_ok_iff:
  "(case kd_domain key of APP \<Rightarrow> getcon L | SELINUX \<Rightarrow> lookup_keystore2_key_context L (kd_nspace key)
     | _ \<Rightarrow> Inl sys) = Inr t \<longleftrightarrow>
   kd_domain key = APP \<and> getcon L = Inr t \<or>
   kd_domain key = SELINUX \<and> lookup_keystore2_key_context L (kd_nspace key) = Inr t"
  by (cases "kd_domain key") auto

lemma check_grant_permission_ok:
  "check_grant_permission L K ctx av key = Inr () \<longleftrightarrow>
     (\<exists>t. (kd_domain key = APP \<and> getcon L = Inr t \<or>
           kd_domain key = SELINUX \<and> lookup_keystore2_key_context L (kd_nspace key) = Inr t) \<and>
          key_access_allowed L ctx t ''grant'' \<and>
          \<not> KeyPermSet_includes av (KP_GRANT K) \<and>
          (\<forall>i<32. bit av i \<longrightarrow> key_access_allowed L ctx t (KeyPerm_to_selinux K (push_bit i 1))))"
  unfolding check_grant_permission_def and_then_Inr_iff grant_target_ok_iff key_access_allowed_def
  by (auto simp: for_each_key_perm simp del: push_bit_of_1)

lemma check_key_permission_ok:
  "check_key_permission L K uid ctx perm key av = Inr () \<longleftrightarrow>
     (\<exists>v. av = Some v \<and> KeyPermSet_includes v perm) \<or>
     (\<exists>t. (case kd_domain key of
             APP \<Rightarrow> int uid = kd_nspace key \<and> getcon L = Inr t
           | SELINUX \<Rightarrow> lookup_keystore2_key_context L (kd_nspace key) = Inr t
           | BLOB \<Rightarrow> lookup_keystore2_key_context L (kd_nspace key) = Inr t \<and>
                      key_access_allowed L ctx t (KeyPerm_to_selinux K (KP_MANAGE_BLOB K))
           | _ \<Rightarrow> False) \<and>
          key_access_allowed L ctx t (KeyPerm_to_selinux K perm))"
proof (cases "\<exists>v. av = Some v \<and> KeyPermSet_includes v perm")
  case True
  then show ?thesis by (auto simp: check_key_permission_def)
next
  case False
  then show ?thesis
    by (cases "kd_domain key")
      (auto simp: check_key_permission_def key_access_allowed_def res_iffs split: option.splits)
qed

text \<open>The numbering of the permissions used by the witnesses.\<close>

definition ex_kp :: key_permission where
  "ex_kp = \<lparr>KP_NONE = 0, KP_CONVERT_STORAGE_KEY_TO_EPHEMERAL = 1, KP_DELETE = 2,
     KP_GEN_UNIQUE_ID = 4, KP_GET_INFO = 8, KP_GRANT = 0x10, KP_MANAGE_BLOB = 0x20,
     KP_REBIND = 0x40, KP_REQ_FORCED_OP = 0x80, KP_UPDATE = 0x100, KP_USE = 0x200,
     KP_USE_DEV_ID = 0x400\<rparr>"

text \<open>
  A SELinux policy for the witnesses: \<open>system_server\<close> may do everything with keys of the
  label \<open>keystore\<close>, nobody else may do anything.
\<close>

definition ex_selinux :: libselinux where
  "ex_selinux = \<lparr>c_getcon = Inr (Some ''keystore''),
     c_selabel_lookup = (\<lambda>k. if k = ''100'' then Inr (Some ''vold_key'') else Inr None),
     c_selinux_check_access = (\<lambda>s t c p. if s = ''system_server'' \<and> t = ''keystore'' then None
        else Some IoPermissionDenied)\<rparr>"

lemma wf_ex_kp: "wf_key_permission ex_kp"
proof -
  have "\<exists>i<32. (2 ^ k :: i32) = push_bit i 1" if "k < 32" for k
    using that by auto
  from this [of 0] this [of 1] this [of 2] this [of 3] this [of 4] this [of 5] this [of 6]
    this [of 7] this [of 8] this [of 9] this [of 10]
  show ?thesis by (simp add: wf_key_permission_def ex_kp_def key_perm_elements_def)
qed

section \<open>Properties\<close>

text \<open>\<open>check_grant_permission\<close> succeeds in exactly one situation: the key lives in
  domain APP or SELINUX, SELinux grants the caller the \<open>grant\<close> permission on the key's
  label, the access vector does not contain the grant permission itself, and SELinux grants
  the caller every permission whose bit is set in the vector.\<close>

theorem check_grant_permission_iff:
  "check_grant_permission L K ctx av key = Inr () \<longleftrightarrow>
     (\<exists>t. (kd_domain key = APP \<and> getcon L = Inr t \<or>
           kd_domain key = SELINUX \<and> lookup_keystore2_key_context L (kd_nspace key) = Inr t) \<and>
          key_access_allowed L ctx t ''grant'' \<and>
          \<not> KeyPermSet_includes av (KP_GRANT K) \<and>
          (\<forall>i<32. bit av i \<longrightarrow> key_access_allowed L ctx t (KeyPerm_to_selinux K (push_bit i 1))))"
  by (rule check_grant_permission_ok)

theorem check_grant_permission_iff_witness:
  "check_grant_permission ex_selinux ex_kp ''system_server'' 0x208
     \<lparr>kd_domain = APP, kd_nspace = 10, kd_alias = Some ''a'', kd_blob = None\<rparr> = Inr ()"
  unfolding check_grant_permission_iff
  by (simp add: key_access_allowed_def check_access_ok_iff KeyPerm_to_selinux_no_nul
      ex_selinux_def getcon_def KeyPermSet_includes_def ex_kp_def)


text \<open>C10. Grants never escalate: if granting the access vector \<open>av\<close> on a key was allowed,
  then every key permission that \<open>av\<close> conveys to a later access check is a permission other
  than \<open>grant\<close> that SELinux allows the granting caller on that key.\<close>

theorem grant_no_escalation:
  assumes "wf_key_permission K"
    and "check_grant_permission L K ctx av key = Inr ()"
    and "(p, name) \<in> set (key_perm_elements K)"
    and "KeyPermSet_includes av p"
  shows "p \<noteq> KP_GRANT K \<and>
    (\<exists>t. (kd_domain key = APP \<and> getcon L = Inr t \<or>
          kd_domain key = SELINUX \<and> lookup_keystore2_key_context L (kd_nspace key) = Inr t) \<and>
         key_access_allowed L ctx t name)"
proof -
  from assms(3) have "p \<in> set (map fst (key_perm_elements K))" by force
  with assms(1) obtain i where i: "i < 32" "p = push_bit i 1"
    by (rule wf_key_permission_bit)
  with assms(4) have "bit av i" by (simp add: KeyPermSet_includes_bit del: push_bit_of_1)
  moreover have "KeyPerm_to_selinux K p = name"
    using assms(1,3) i push_bit_1_neq_0 [OF i(1)]
    by (auto simp: KeyPerm_to_selinux_def wf_key_permission_def simp del: push_bit_of_1)
  ultimately show ?thesis
    using assms(2,4) i by (auto simp: check_grant_permission_ok simp del: push_bit_of_1)
qed

theorem grant_no_escalation_witness:
  "KP_USE ex_kp \<noteq> KP_GRANT ex_kp \<and>
   (\<exists>t. getcon ex_selinux = Inr t \<and> key_access_allowed ex_selinux ''system_server'' t ''use'')"
proof -
  let ?key = "\<lparr>kd_domain = APP, kd_nspace = 10, kd_alias = Some ''a'', kd_blob = None\<rparr>"
  have "check_grant_permission ex_selinux ex_kp ''system_server'' 0x208 ?key = Inr ()"
    unfolding check_grant_permission_ok
    by (simp add: key_access_allowed_def check_access_ok_iff KeyPerm_to_selinux_no_nul
        ex_selinux_def getcon_def KeyPermSet_includes_def ex_kp_def)
  moreover have "(KP_USE ex_kp, ''use'') \<in> set (key_perm_elements ex_kp)"
    by (simp add: key_perm_elements_def)
  moreover have "KeyPermSet_includes 0x208 (KP_USE ex_kp)"
    by (simp add: KeyPermSet_includes_def ex_kp_def)
  ultimately show ?thesis
    using grant_no_escalation [OF wf_ex_kp, of ex_selinux "''system_server''" "0x208" ?key] by simp
qed

text \<open>Iterating over a permission set visits its set bits in ascending order, each once,
  and mapping a permission of class \<open>keystore2\<close> to its number and back is the identity.\<close>

theorem permission_set_iteration:
  "KeyPermSet_into_iter K v = map (\<lambda>i. KeyPerm_from K (push_bit i 1)) (filter (bit v) [0..<32])
   \<and> KeystorePerm_from (KeystorePerm_into q) = q"
  by (rule conjI, rule KeyPermSet_into_iter_bits, cases q) (simp_all add: KeystorePerm_from_def)

end
