(* ===== verification/Ks_DbTypes.thy ===== *)
theory Ks_DbTypes
  imports Ks_KeyParameter Ks_Permission
begin

text \<open>
  The data of the key database (\<open>src/keystore2/src/database.rs\<close>, lines 103 to 822, and
  \<open>src/keystore2/src/database/utils.rs\<close>): metadata collections with their database tags and
  cell encodings, the column types with theirs, the rows of the six tables that
  \<open>init_tables\<close> creates, the state of the database component and the key id locks.

  i64 columns hold an \<open>int\<close>; an SQL NULL is \<open>None\<close> (or \<open>SqlNull\<close> in a cell of any
  type).  A \<open>HashMap\<close> of metadata is an association list with distinct keys: the order of
  the list is the unspecified iteration order, and two collections are the same when their
  \<open>map_of\<close> is.
\<close>

section \<open>Reading rows\<close>

definition sqlite_error :: err where
  "sqlite_error = OtherErr ''rusqlite''"

definition sql_get :: "'a option \<Rightarrow> 'a res" where
  "sql_get x = ok_or x sqlite_error"

definition sql_get_int :: "sql_value \<Rightarrow> int option" where
  "sql_get_int c = (case c of SqlInteger n \<Rightarrow> Some n | _ \<Rightarrow> None)"

definition with_rows_extract_one :: "'r list \<Rightarrow> ('r option \<Rightarrow> 'a res) \<Rightarrow> 'a res" where
  "with_rows_extract_one rows row_extractor =
     (let result = row_extractor (case rows of [] \<Rightarrow> None | r # _ \<Rightarrow> Some r)
      in case rows of _ # _ # _ \<Rightarrow> Inl sys | _ \<Rightarrow> result)"

text \<open>
  \<open>with_rows_extract_all\<close> runs a closure over the rows that pushes to the caller's
  variables; the state the closure mutates is passed along.
\<close>

fun with_rows_extract_all :: "'r list \<Rightarrow> ('r \<Rightarrow> 's \<Rightarrow> 's res) \<Rightarrow> 's \<Rightarrow> 's res" where
  "with_rows_extract_all [] row_extractor s = Inr s"
| "with_rows_extract_all (row # rows) row_extractor s =
     and_then (row_extractor row s) (with_rows_extract_all rows row_extractor)"

text \<open>\<open>query_row\<close>: the first row, or the error \<open>QueryReturnedNoRows\<close>, which
  \<open>optional\<close> turns into \<open>None\<close>.\<close>

definition query_row_optional :: "'r list \<Rightarrow> 'r option" where
  "query_row_optional rows = (case rows of [] \<Rightarrow> None | r # _ \<Rightarrow> Some r)"

definition query_row :: "'r list \<Rightarrow> 'r res" where
  "query_row rows = sql_get (query_row_optional rows)"

section \<open>Column types\<close>

datatype key_type = Client | Super | Attestation

fun KeyType_to_sql :: "key_type \<Rightarrow> sql_value" where
  "KeyType_to_sql Client = SqlInteger 0"
| "KeyType_to_sql Super = SqlInteger 1"
| "KeyType_to_sql Attestation = SqlInteger 2"

definition KeyType_column_result :: "sql_value \<Rightarrow> key_type res" where
  "KeyType_column_result value =
     and_then (sql_get (sql_get_int value)) (\<lambda>v.
       if v = 0 then Inr Client
       else if v = 1 then Inr Super
       else if v = 2 then Inr Attestation
       else Inl sqlite_error)"

type_synonym uuid = bytes

definition Uuid_from_security_level :: "i32 \<Rightarrow> uuid" where
  "Uuid_from_security_level sec_level =
     map (\<lambda>k. ucast (drop_bit (8 * k) (scast sec_level :: 128 word))) (rev [0..<16])"

definition Uuid_to_sql :: "uuid \<Rightarrow> sql_value" where
  "Uuid_to_sql u = SqlBlob u"

definition Uuid_column_result :: "sql_value \<Rightarrow> uuid res" where
  "Uuid_column_result value =
     and_then (sql_get (sql_get_vec value)) (\<lambda>blob.
       if length blob \<noteq> 16 then Inl sqlite_error else Inr blob)"

definition KEYSTORE_UUID :: uuid where
  "KEYSTORE_UUID = [0x41, 0xe3, 0xb9, 0xce, 0x27, 0x58, 0x4e, 0x91,
                    0xbc, 0xfd, 0xa5, 0x5d, 0x91, 0x85, 0xab, 0x11]"

text \<open>\<open>Uuid::default()\<close> (derived).\<close>

definition Uuid_default :: uuid where
  "Uuid_default = replicate 16 0"

datatype encrypted_by = Password | KeyId int

fun EncryptedBy_to_sql :: "encrypted_by \<Rightarrow> sql_value" where
  "EncryptedBy_to_sql Password = SqlNull"
| "EncryptedBy_to_sql (KeyId id') = SqlInteger id'"

definition EncryptedBy_column_result :: "sql_value \<Rightarrow> encrypted_by res" where
  "EncryptedBy_column_result value =
     (case value of SqlNull \<Rightarrow> Inr Password | _ \<Rightarrow> map_res KeyId (sql_get (sql_get_int value)))"

text \<open>\<open>DateTime\<close>: milliseconds since the epoch.\<close>

type_synonym date_time = int

definition DateTime_to_secs_epoch :: "date_time \<Rightarrow> int" where
  "DateTime_to_secs_epoch t = (if 0 \<le> t then t div 1000 else - ((- t) div 1000))"

datatype key_life_cycle = Existing | Live | Unreferenced

fun KeyLifeCycle_to_sql :: "key_life_cycle \<Rightarrow> sql_value" where
  "KeyLifeCycle_to_sql Existing = SqlInteger 0"
| "KeyLifeCycle_to_sql Live = SqlInteger 1"
| "KeyLifeCycle_to_sql Unreferenced = SqlInteger 2"

definition KeyLifeCycle_column_result :: "sql_value \<Rightarrow> key_life_cycle res" where
  "KeyLifeCycle_column_result value =
     and_then (sql_get (sql_get_int value)) (\<lambda>v.
       if v = 0 then Inr Existing
       else if v = 1 then Inr Live
       else if v = 2 then Inr Unreferenced
       else Inl sqlite_error)"

text \<open>\<open>KeyEntryLoadBits\<close>.\<close>

type_synonym key_entry_load_bits = "32 word"

definition LB_NONE :: key_entry_load_bits where "LB_NONE = 0"
definition LB_KM :: key_entry_load_bits where "LB_KM = 1"
definition LB_PUBLIC :: key_entry_load_bits where "LB_PUBLIC = 2"
definition LB_BOTH :: key_entry_load_bits where "LB_BOTH = 3"

definition KeyEntryLoadBits_load_public :: "key_entry_load_bits \<Rightarrow> bool" where
  "KeyEntryLoadBits_load_public b \<longleftrightarrow> and b LB_PUBLIC \<noteq> 0"

definition KeyEntryLoadBits_load_km :: "key_entry_load_bits \<Rightarrow> bool" where
  "KeyEntryLoadBits_load_km b \<longleftrightarrow> and b LB_KM \<noteq> 0"

text \<open>\<open>SubComponentType\<close>: a u32 with three named values.\<close>

datatype sub_component_type = KEY_BLOB | CERT | CERT_CHAIN | OtherSubComponent nat

section \<open>Metadata\<close>

datatype key_meta_entry =
    CreationDate date_time
  | AttestationExpirationDate date_time
  | AttestationMacedPublicKey bytes
  | AttestationRawPubKey bytes
  | Sec1PublicKey bytes

datatype blob_meta_entry =
    EncryptedBy encrypted_by
  | Salt bytes
  | Iv bytes
  | AeadTag bytes
  | KmUuid uuid
  | PublicKey bytes
  | MaxBootLevel i32

type_synonym key_meta_data = "(int \<times> key_meta_entry) list"
type_synonym blob_meta_data = "(int \<times> blob_meta_entry) list"

fun KeyMetaEntry_db_tag :: "key_meta_entry \<Rightarrow> int" where
  "KeyMetaEntry_db_tag (CreationDate _) = 0"
| "KeyMetaEntry_db_tag (AttestationExpirationDate _) = 1"
| "KeyMetaEntry_db_tag (AttestationMacedPublicKey _) = 2"
| "KeyMetaEntry_db_tag (AttestationRawPubKey _) = 3"
| "KeyMetaEntry_db_tag (Sec1PublicKey _) = 4"

fun KeyMetaEntry_to_sql :: "key_meta_entry \<Rightarrow> sql_value" where
  "KeyMetaEntry_to_sql (CreationDate v) = SqlInteger v"
| "KeyMetaEntry_to_sql (AttestationExpirationDate v) = SqlInteger v"
| "KeyMetaEntry_to_sql (AttestationMacedPublicKey v) = SqlBlob v"
| "KeyMetaEntry_to_sql (AttestationRawPubKey v) = SqlBlob v"
| "KeyMetaEntry_to_sql (Sec1PublicKey v) = SqlBlob v"

definition KeyMetaEntry_new_from_sql :: "int \<Rightarrow> sql_value \<Rightarrow> key_meta_entry res" where
  "KeyMetaEntry_new_from_sql db_tag data =
     (if db_tag = 0 then map_res CreationDate (sql_get (sql_get_int data))
      else if db_tag = 1 then map_res AttestationExpirationDate (sql_get (sql_get_int data))
      else if db_tag = 2 then map_res AttestationMacedPublicKey (sql_get (sql_get_vec data))
      else if db_tag = 3 then map_res AttestationRawPubKey (sql_get (sql_get_vec data))
      else if db_tag = 4 then map_res Sec1PublicKey (sql_get (sql_get_vec data))
      else Inl (OtherErr ''unknown db tag''))"

fun BlobMetaEntry_db_tag :: "blob_meta_entry \<Rightarrow> int" where
  "BlobMetaEntry_db_tag (EncryptedBy _) = 0"
| "BlobMetaEntry_db_tag (Salt _) = 1"
| "BlobMetaEntry_db_tag (Iv _) = 2"
| "BlobMetaEntry_db_tag (AeadTag _) = 3"
| "BlobMetaEntry_db_tag (KmUuid _) = 4"
| "BlobMetaEntry_db_tag (PublicKey _) = 5"
| "BlobMetaEntry_db_tag (MaxBootLevel _) = 6"

fun BlobMetaEntry_to_sql :: "blob_meta_entry \<Rightarrow> sql_value" where
  "BlobMetaEntry_to_sql (EncryptedBy v) = EncryptedBy_to_sql v"
| "BlobMetaEntry_to_sql (Salt v) = SqlBlob v"
| "BlobMetaEntry_to_sql (Iv v) = SqlBlob v"
| "BlobMetaEntry_to_sql (AeadTag v) = SqlBlob v"
| "BlobMetaEntry_to_sql (KmUuid v) = Uuid_to_sql v"
| "BlobMetaEntry_to_sql (PublicKey v) = SqlBlob v"
| "BlobMetaEntry_to_sql (MaxBootLevel v) = SqlInteger (sint v)"

definition BlobMetaEntry_new_from_sql :: "int \<Rightarrow> sql_value \<Rightarrow> blob_meta_entry res" where
  "BlobMetaEntry_new_from_sql db_tag data =
     (if db_tag = 0 then map_res EncryptedBy (EncryptedBy_column_result data)
      else if db_tag = 1 then map_res Salt (sql_get (sql_get_vec data))
      else if db_tag = 2 then map_res Iv (sql_get (sql_get_vec data))
      else if db_tag = 3 then map_res AeadTag (sql_get (sql_get_vec data))
      else if db_tag = 4 then map_res KmUuid (Uuid_column_result data)
      else if db_tag = 5 then map_res PublicKey (sql_get (sql_get_vec data))
      else if db_tag = 6 then map_res MaxBootLevel (sql_get (sql_get_i32 data))
      else Inl (OtherErr ''unknown db tag''))"

text \<open>\<open>HashMap::insert\<close>, \<open>new\<close>, \<open>add\<close> and the typed accessors.\<close>

definition hash_insert :: "'k \<Rightarrow> 'v \<Rightarrow> ('k \<times> 'v) list \<Rightarrow> ('k \<times> 'v) list" where
  "hash_insert k v m = filter (\<lambda>e. fst e \<noteq> k) m @ [(k, v)]"

definition KeyMetaData_new :: key_meta_data where
  "KeyMetaData_new = []"

definition KeyMetaData_add :: "key_meta_entry \<Rightarrow> key_meta_data \<Rightarrow> key_meta_data" where
  "KeyMetaData_add entry m = hash_insert (KeyMetaEntry_db_tag entry) entry m"

definition KeyMetaData_sec1_public_key :: "key_meta_data \<Rightarrow> bytes option" where
  "KeyMetaData_sec1_public_key m =
     (case map_of m 4 of Some (Sec1PublicKey v) \<Rightarrow> Some v | _ \<Rightarrow> None)"

definition BlobMetaData_new :: blob_meta_data where
  "BlobMetaData_new = []"

definition BlobMetaData_add :: "blob_meta_entry \<Rightarrow> blob_meta_data \<Rightarrow> blob_meta_data" where
  "BlobMetaData_add entry m = hash_insert (BlobMetaEntry_db_tag entry) entry m"

definition BlobMetaData_encrypted_by :: "blob_meta_data \<Rightarrow> encrypted_by option" where
  "BlobMetaData_encrypted_by m =
     (case map_of m 0 of Some (EncryptedBy v) \<Rightarrow> Some v | _ \<Rightarrow> None)"

definition BlobMetaData_salt :: "blob_meta_data \<Rightarrow> bytes option" where
  "BlobMetaData_salt m = (case map_of m 1 of Some (Salt v) \<Rightarrow> Some v | _ \<Rightarrow> None)"

definition BlobMetaData_iv :: "blob_meta_data \<Rightarrow> bytes option" where
  "BlobMetaData_iv m = (case map_of m 2 of Some (Iv v) \<Rightarrow> Some v | _ \<Rightarrow> None)"

definition BlobMetaData_aead_tag :: "blob_meta_data \<Rightarrow> bytes option" where
  "BlobMetaData_aead_tag m = (case map_of m 3 of Some (AeadTag v) \<Rightarrow> Some v | _ \<Rightarrow> None)"

definition BlobMetaData_km_uuid :: "blob_meta_data \<Rightarrow> uuid option" where
  "BlobMetaData_km_uuid m = (case map_of m 4 of Some (KmUuid v) \<Rightarrow> Some v | _ \<Rightarrow> None)"

definition BlobMetaData_public_key :: "blob_meta_data \<Rightarrow> bytes option" where
  "BlobMetaData_public_key m = (case map_of m 5 of Some (PublicKey v) \<Rightarrow> Some v | _ \<Rightarrow> None)"

definition BlobMetaData_max_boot_level :: "blob_meta_data \<Rightarrow> i32 option" where
  "BlobMetaData_max_boot_level m =
     (case map_of m 6 of Some (MaxBootLevel v) \<Rightarrow> Some v | _ \<Rightarrow> None)"

section \<open>Rows and tables\<close>

record keyentry_row =
  ke_id :: int
  ke_key_type :: key_type
  ke_domain :: "domain option"
  ke_namespace :: "int option"
  ke_alias :: "string option"
  ke_state :: key_life_cycle
  ke_km_uuid :: uuid

record blobentry_row =
  be_id :: int
  be_subcomponent_type :: sub_component_type
  be_keyentryid :: int
  be_blob :: bytes

record blobmetadata_row =
  bm_blobentryid :: int
  bm_tag :: int
  bm_data :: sql_value

record keyparameter_row =
  kr_keyentryid :: int
  kr_tag :: tag
  kr_data :: sql_value
  kr_security_level :: i32

record keymetadata_row =
  kmd_keyentryid :: int
  kmd_tag :: int
  kmd_data :: sql_value

record grant_row =
  gr_id :: int
  gr_grantee :: int
  gr_keyentryid :: int
  gr_access_vector :: i32

text \<open>
  The database: the six tables, the ids in \<open>KEY_ID_LOCK.locked_keys\<close>, and the attached
  garbage collector, of which the database sees how often it was notified (\<open>None\<close> when no
  collector is attached).
\<close>

record keystore_db =
  db_keyentry :: "keyentry_row list"
  db_blobentry :: "blobentry_row list"
  db_blobmetadata :: "blobmetadata_row list"
  db_keyparameter :: "keyparameter_row list"
  db_keymetadata :: "keymetadata_row list"
  db_grant :: "grant_row list"
  db_locked_keys :: "int set"
  db_gc :: "nat option"

definition UNASSIGNED_KEY_ID :: int where
  "UNASSIGNED_KEY_ID = - 1"

text \<open>\<open>CertificateInfo\<close>, \<open>CertificateChain\<close> and \<open>KeyEntry\<close>.\<close>

record certificate_info =
  ci_cert :: "bytes option"
  ci_cert_chain :: "bytes option"

record certificate_chain =
  cc_private_key :: bytes
  cc_batch_cert :: bytes
  cc_cert_chain :: bytes

record key_entry =
  e_id :: int
  e_key_blob_info :: "(bytes \<times> blob_meta_data) option"
  e_cert :: "bytes option"
  e_cert_chain :: "bytes option"
  e_km_uuid :: uuid
  e_parameters :: "key_parameter list"
  e_metadata :: key_meta_data
  e_pure_cert :: bool

section \<open>Key id locks\<close>

definition KeyIdLockDb_get :: "int \<Rightarrow> keystore_db \<Rightarrow> (int \<times> keystore_db) res" where
  "KeyIdLockDb_get k db =
     (if k \<in> db_locked_keys db then Inl Blocked
      else Inr (k, db\<lparr>db_locked_keys := insert k (db_locked_keys db)\<rparr>))"

definition KeyIdLockDb_try_get :: "int \<Rightarrow> keystore_db \<Rightarrow> int option \<times> keystore_db" where
  "KeyIdLockDb_try_get k db =
     (if k \<in> db_locked_keys db then (None, db)
      else (Some k, db\<lparr>db_locked_keys := insert k (db_locked_keys db)\<rparr>))"

definition KeyIdGuard_drop :: "int \<Rightarrow> keystore_db \<Rightarrow> keystore_db" where
  "KeyIdGuard_drop k db = db\<lparr>db_locked_keys := db_locked_keys db - {k}\<rparr>"

section \<open>The garbage collection hint\<close>

definition do_gc :: "bool \<Rightarrow> 'a res \<Rightarrow> (bool \<times> 'a) res" where
  "do_gc need_gc r = map_res (\<lambda>v. (need_gc, v)) r"

definition no_gc :: "'a res \<Rightarrow> (bool \<times> 'a) res" where
  "no_gc r = do_gc False r"

definition need_gc :: "'a res \<Rightarrow> (bool \<times> 'a) res" where
  "need_gc r = do_gc True r"

definition notify_gc :: "keystore_db \<Rightarrow> keystore_db" where
  "notify_gc db = db\<lparr>db_gc := map_option Suc (db_gc db)\<rparr>"

section \<open>Transactions\<close>

text \<open>
  The body of a transaction maps the database to an error, or to its value and the changed
  database.  \<open>with_transaction\<close> commits only when the body returns Ok, so an error leaves
  the tables as they were; the guards the body had taken are dropped with it.  SQLite
  serialises the transactions, and the busy loop repeats the body from the start until it ran
  without a lock conflict, so one call is one atomic step here.
\<close>

type_synonym 'a tx = "keystore_db \<Rightarrow> ('a \<times> keystore_db) res"

definition with_transaction :: "(bool \<times> 'a) tx \<Rightarrow> keystore_db \<Rightarrow> 'a res \<times> keystore_db" where
  "with_transaction f db =
     (case f db of
        Inr ((gc, result), db') \<Rightarrow> (Inr result, if gc then notify_gc db' else db')
      | Inl e \<Rightarrow> (Inl e, db))"

end
