(* ===== verification/Ks_Database.thy ===== *)
theory Ks_Database
  imports Ks_DbTypes
begin

text \<open>
  The operations of the key database (\<open>src/keystore2/src/database.rs\<close>).  The private
  helpers that take a \<open>Transaction\<close> read the database or map it to a changed one; the
  public operations run them inside \<open>with_transaction\<close> and return the result with the
  database after the call.

  \<open>random()\<close> is the list of numbers it yields during the call; when \<open>insert_with_retry\<close>
  has used them all without success the call has not returned (\<open>Blocked\<close>).  The blob ids
  SQLite assigns to an INTEGER PRIMARY KEY column are one above the largest id in use.
  Queries without an order visit the rows in insertion order.
\<close>

section \<open>Random ids\<close>

fun insert_with_retry :: "int list \<Rightarrow> (int \<Rightarrow> 'db option) \<Rightarrow> (int \<times> 'db) res" where
  "insert_with_retry [] inserter = Inl Blocked"
| "insert_with_retry (newid # rnd) inserter =
     (if newid = UNASSIGNED_KEY_ID then insert_with_retry rnd inserter
      else case inserter newid of
             None \<Rightarrow> insert_with_retry rnd inserter
           | Some db \<Rightarrow> Inr (newid, db))"

text \<open>\<open>INSERT INTO persistent.keyentry\<close>: the id column is UNIQUE.\<close>

definition insert_keyentry :: "keyentry_row \<Rightarrow> keystore_db \<Rightarrow> keystore_db option" where
  "insert_keyentry row db =
     (if ke_id row \<in> ke_id ` set (db_keyentry db) then None
      else Some (db\<lparr>db_keyentry := db_keyentry db @ [row]\<rparr>))"

definition insert_grant :: "grant_row \<Rightarrow> keystore_db \<Rightarrow> keystore_db option" where
  "insert_grant row db =
     (if gr_id row \<in> gr_id ` set (db_grant db) then None
      else Some (db\<lparr>db_grant := db_grant db @ [row]\<rparr>))"

section \<open>Metadata\<close>

definition KeyMetaData_load_from_db :: "int \<Rightarrow> keystore_db \<Rightarrow> key_meta_data res" where
  "KeyMetaData_load_from_db key_id db =
     with_rows_extract_all (filter (\<lambda>r. kmd_keyentryid r = key_id) (db_keymetadata db))
       (\<lambda>row metadata.
          map_res (\<lambda>e. hash_insert (kmd_tag row) e metadata)
            (KeyMetaEntry_new_from_sql (kmd_tag row) (kmd_data row)))
       []"

definition replace_keymetadata :: "keymetadata_row \<Rightarrow> keymetadata_row list \<Rightarrow> keymetadata_row list" where
  "replace_keymetadata row t =
     delete_where (\<lambda>r. kmd_keyentryid r = kmd_keyentryid row \<and> kmd_tag r = kmd_tag row) t @ [row]"

definition KeyMetaData_store_in_db :: "key_meta_data \<Rightarrow> int \<Rightarrow> keystore_db \<Rightarrow> keystore_db" where
  "KeyMetaData_store_in_db m key_id db =
     db\<lparr>db_keymetadata :=
          fold (\<lambda>(tag, entry). replace_keymetadata
                  \<lparr>kmd_keyentryid = key_id, kmd_tag = tag, kmd_data = KeyMetaEntry_to_sql entry\<rparr>)
            m (db_keymetadata db)\<rparr>"

definition BlobMetaData_load_from_db :: "int \<Rightarrow> keystore_db \<Rightarrow> blob_meta_data res" where
  "BlobMetaData_load_from_db blob_id db =
     with_rows_extract_all (filter (\<lambda>r. bm_blobentryid r = blob_id) (db_blobmetadata db))
       (\<lambda>row metadata.
          map_res (\<lambda>e. hash_insert (bm_tag row) e metadata)
            (BlobMetaEntry_new_from_sql (bm_tag row) (bm_data row)))
       []"

definition replace_blobmetadata :: "blobmetadata_row \<Rightarrow> blobmetadata_row list \<Rightarrow> blobmetadata_row list" where
  "replace_blobmetadata row t =
     delete_where (\<lambda>r. bm_blobentryid r = bm_blobentryid row \<and> bm_tag r = bm_tag row) t @ [row]"

definition BlobMetaData_store_in_db :: "blob_meta_data \<Rightarrow> int \<Rightarrow> keystore_db \<Rightarrow> keystore_db" where
  "BlobMetaData_store_in_db m blob_id db =
     db\<lparr>db_blobmetadata :=
          fold (\<lambda>(tag, entry). replace_blobmetadata
                  \<lparr>bm_blobentryid = blob_id, bm_tag = tag, bm_data = BlobMetaEntry_to_sql entry\<rparr>)
            m (db_blobmetadata db)\<rparr>"

section \<open>Initial state and upgrades\<close>

definition init_tables :: "nat option \<Rightarrow> keystore_db" where
  "init_tables gc =
     \<lparr>db_keyentry = [], db_blobentry = [], db_blobmetadata = [], db_keyparameter = [],
      db_keymetadata = [], db_grant = [], db_locked_keys = {}, db_gc = gc\<rparr>"

definition from_0_to_1 :: "keystore_db \<Rightarrow> keystore_db" where
  "from_0_to_1 db =
     db\<lparr>db_keyentry := update_where
          (\<lambda>k. (\<exists>p\<in>set (db_keyparameter db). kr_keyentryid p = ke_id k \<and> kr_tag p = T_MAX_BOOT_LEVEL) \<and>
               \<not> (\<exists>b\<in>set (db_blobentry db). be_keyentryid b = ke_id k \<and>
                    (\<exists>m\<in>set (db_blobmetadata db). bm_blobentryid m = be_id b \<and> bm_tag m = 6)))
          (\<lambda>k. k\<lparr>ke_state := Unreferenced\<rparr>) (db_keyentry db)\<rparr>"

section \<open>Removing keys\<close>

definition mark_unreferenced :: "int \<Rightarrow> keystore_db \<Rightarrow> bool \<times> keystore_db" where
  "mark_unreferenced key_id db =
     (let updated = count_where (\<lambda>k. ke_id k = key_id) (db_keyentry db)
      in (updated \<noteq> 0,
          db\<lparr>db_keyentry := delete_where (\<lambda>k. ke_id k = key_id) (db_keyentry db),
             db_keymetadata := delete_where (\<lambda>r. kmd_keyentryid r = key_id) (db_keymetadata db),
             db_keyparameter := delete_where (\<lambda>r. kr_keyentryid r = key_id) (db_keyparameter db),
             db_grant := delete_where (\<lambda>g. gr_keyentryid g = key_id) (db_grant db)\<rparr>))"

text \<open>The four DELETE statements of \<open>unbind_keys_for_namespace\<close> and of
  \<open>cleanup_unreferenced\<close>, for the key entries a condition selects.  The condition is
  evaluated on the key entries before the last statement removes them.\<close>

definition delete_keys_where :: "(keyentry_row \<Rightarrow> bool) \<Rightarrow> keystore_db \<Rightarrow> keystore_db" where
  "delete_keys_where p db =
     (let ids = map ke_id (filter p (db_keyentry db))
      in db\<lparr>db_keymetadata := delete_where (\<lambda>r. kmd_keyentryid r \<in> set ids) (db_keymetadata db),
            db_keyparameter := delete_where (\<lambda>r. kr_keyentryid r \<in> set ids) (db_keyparameter db),
            db_grant := delete_where (\<lambda>g. gr_keyentryid g \<in> set ids) (db_grant db),
            db_keyentry := delete_where p (db_keyentry db)\<rparr>)"

definition cleanup_unreferenced :: "keystore_db \<Rightarrow> keystore_db" where
  "cleanup_unreferenced db = delete_keys_where (\<lambda>k. ke_state k = Unreferenced) db"

definition unbind_keys_for_namespace ::
    "domain \<Rightarrow> int \<Rightarrow> keystore_db \<Rightarrow> unit res \<times> keystore_db" where
  "unbind_keys_for_namespace domain namespace db =
     (if \<not> (domain = APP \<or> domain = SELINUX) then (Inl (Ks (Rc RC_INVALID_ARGUMENT)), db)
      else with_transaction (\<lambda>tx.
        Inr ((True, ()),
             delete_keys_where
               (\<lambda>k. ke_domain k = Some domain \<and> ke_namespace k = Some namespace \<and> ke_key_type k = Client)
               tx)) db)"

definition cleanup_leftovers :: "keystore_db \<Rightarrow> nat res \<times> keystore_db" where
  "cleanup_leftovers db =
     with_transaction (\<lambda>tx.
       Inr ((True, count_where (\<lambda>k. ke_state k = Existing) (db_keyentry tx)),
            tx\<lparr>db_keyentry := update_where (\<lambda>k. ke_state k = Existing)
                 (\<lambda>k. k\<lparr>ke_state := Unreferenced\<rparr>) (db_keyentry tx)\<rparr>)) db"

section \<open>Blobs\<close>

definition next_blob_id :: "blobentry_row list \<Rightarrow> int" where
  "next_blob_id t = (if t = [] then 1 else Max (be_id ` set t) + 1)"

definition set_blob_internal ::
    "int \<Rightarrow> sub_component_type \<Rightarrow> bytes option \<Rightarrow> blob_meta_data option \<Rightarrow> unit tx" where
  "set_blob_internal key_id sc_type blob blob_metadata db =
     (case blob of
        Some b \<Rightarrow>
          (let db1 = db\<lparr>db_blobentry := db_blobentry db @
                 [\<lparr>be_id = next_blob_id (db_blobentry db), be_subcomponent_type = sc_type,
                   be_keyentryid = key_id, be_blob = b\<rparr>]\<rparr>
           in case blob_metadata of
                None \<Rightarrow> Inr ((), db1)
              | Some m \<Rightarrow>
                  (let blob_id = Max (be_id ` set (db_blobentry db1))
                   in Inr ((), BlobMetaData_store_in_db m blob_id db1)))
      | None \<Rightarrow>
          (if sc_type = CERT \<or> sc_type = CERT_CHAIN
           then Inr ((), db\<lparr>db_blobentry := delete_where
                  (\<lambda>b. be_subcomponent_type b = sc_type \<and> be_keyentryid b = key_id) (db_blobentry db)\<rparr>)
           else Inl sys))"

definition set_blob ::
    "int \<Rightarrow> sub_component_type \<Rightarrow> bytes option \<Rightarrow> blob_meta_data option \<Rightarrow> keystore_db
     \<Rightarrow> unit res \<times> keystore_db" where
  "set_blob key_id_guard sc_type blob blob_metadata db =
     with_transaction (\<lambda>tx.
       map_res (\<lambda>(u, tx'). ((True, u), tx')) (set_blob_internal key_id_guard sc_type blob blob_metadata tx)) db"

definition set_deleted_blob :: "bytes \<Rightarrow> blob_meta_data \<Rightarrow> keystore_db \<Rightarrow> unit res \<times> keystore_db" where
  "set_deleted_blob blob blob_metadata db =
     with_transaction (\<lambda>tx.
       map_res (\<lambda>(u, tx'). ((True, u), tx'))
         (set_blob_internal UNASSIGNED_KEY_ID KEY_BLOB (Some blob) (Some blob_metadata) tx)) db"

text \<open>\<open>SELECT MAX(id), subcomponent_type, blob ... GROUP BY subcomponent_type\<close>: in each
  group, the row with the largest id.\<close>

definition latest_blob :: "sub_component_type \<Rightarrow> blobentry_row list \<Rightarrow> blobentry_row option" where
  "latest_blob sc rows =
     (case filter (\<lambda>b. be_subcomponent_type b = sc) rows of
        [] \<Rightarrow> None
      | b # bs \<Rightarrow> Some (fold (\<lambda>x m. if be_id m < be_id x then x else m) bs b))"

definition is_other_subcomponent :: "sub_component_type \<Rightarrow> bool" where
  "is_other_subcomponent sc = (case sc of OtherSubComponent _ \<Rightarrow> True | _ \<Rightarrow> False)"

definition load_blob_components ::
    "int \<Rightarrow> key_entry_load_bits \<Rightarrow> keystore_db
     \<Rightarrow> (bool \<times> (bytes \<times> blob_meta_data) option \<times> bytes option \<times> bytes option) res" where
  "load_blob_components key_id load_bits db =
     (let rows = filter (\<lambda>b. be_keyentryid b = key_id) (db_blobentry db)
      in if list_ex (\<lambda>b. is_other_subcomponent (be_subcomponent_type b)) rows then Inl sys
         else
           (let has_km_blob = latest_blob KEY_BLOB rows \<noteq> None;
                key_blob = (if KeyEntryLoadBits_load_km load_bits then latest_blob KEY_BLOB rows else None);
                cert_blob = (if KeyEntryLoadBits_load_public load_bits
                             then map_option be_blob (latest_blob CERT rows) else None);
                cert_chain_blob = (if KeyEntryLoadBits_load_public load_bits
                                   then map_option be_blob (latest_blob CERT_CHAIN rows) else None)
            in and_then
                 (case key_blob of
                    None \<Rightarrow> Inr None
                  | Some b \<Rightarrow> map_res (\<lambda>m. Some (be_blob b, m)) (BlobMetaData_load_from_db (be_id b) db))
                 (\<lambda>blob_info. Inr (has_km_blob, blob_info, cert_blob, cert_chain_blob))))"

section \<open>Key parameters and components\<close>

definition insert_keyparameter_internal :: "int \<Rightarrow> key_parameter list \<Rightarrow> keystore_db \<Rightarrow> keystore_db" where
  "insert_keyparameter_internal key_id params db =
     db\<lparr>db_keyparameter := db_keyparameter db @
          map (\<lambda>p. \<lparr>kr_keyentryid = key_id, kr_tag = KeyParameter_get_tag p,
                     kr_data = KeyParameterValue_to_sql (kp_value p),
                     kr_security_level = kp_security_level p\<rparr>) params\<rparr>"

definition load_key_parameters :: "int \<Rightarrow> keystore_db \<Rightarrow> key_parameter list res" where
  "load_key_parameters key_id db =
     with_rows_extract_all (filter (\<lambda>r. kr_keyentryid r = key_id) (db_keyparameter db))
       (\<lambda>row parameters.
          map_res (\<lambda>p. parameters @ [p])
            (KeyParameter_new_from_sql (kr_tag row) (kr_data row) (kr_security_level row)))
       []"

definition get_key_km_uuid :: "int \<Rightarrow> keystore_db \<Rightarrow> uuid res" where
  "get_key_km_uuid key_id db =
     and_then (query_row (filter (\<lambda>k. ke_id k = key_id) (db_keyentry db))) (\<lambda>k.
       Uuid_column_result (Uuid_to_sql (ke_km_uuid k)))"

definition load_key_components :: "key_entry_load_bits \<Rightarrow> int \<Rightarrow> keystore_db \<Rightarrow> key_entry res" where
  "load_key_components load_bits key_id db =
     and_then (KeyMetaData_load_from_db key_id db) (\<lambda>metadata.
     and_then (load_blob_components key_id load_bits db)
       (\<lambda>(has_km_blob, key_blob_info, cert_blob, cert_chain_blob).
     and_then (load_key_parameters key_id db) (\<lambda>parameters.
     and_then (get_key_km_uuid key_id db) (\<lambda>km_uuid.
       Inr \<lparr>e_id = key_id, e_key_blob_info = key_blob_info, e_cert = cert_blob,
            e_cert_chain = cert_chain_blob, e_km_uuid = km_uuid, e_parameters = parameters,
            e_metadata = metadata, e_pure_cert = \<not> has_km_blob\<rparr>))))"

text \<open>
  \<open>check_and_update_key_usage_count\<close>.  The cells stored under USAGE_COUNT_LIMIT are
  integers, because the parameter with that tag is an i32; the comparison \<open>data > 0\<close> is not
  true of a NULL.
\<close>

definition decrement_cell :: "sql_value \<Rightarrow> sql_value" where
  "decrement_cell c = (case c of SqlInteger n \<Rightarrow> if 0 < n then SqlInteger (n - 1) else c | _ \<Rightarrow> c)"

definition check_and_update_key_usage_count :: "int \<Rightarrow> keystore_db \<Rightarrow> unit res \<times> keystore_db" where
  "check_and_update_key_usage_count key_id db =
     with_transaction (\<lambda>tx.
       and_then
         (case query_row_optional
                 (filter (\<lambda>r. kr_keyentryid r = key_id \<and> kr_tag r = T_USAGE_COUNT_LIMIT) (db_keyparameter tx)) of
            None \<Rightarrow> Inl (Ks (Km EC_INVALID_KEY_BLOB))
          | Some r \<Rightarrow> sql_get (sql_get_i32 (kr_data r)))
         (\<lambda>limit.
            let tx1 = tx\<lparr>db_keyparameter := update_where
                  (\<lambda>r. kr_keyentryid r = key_id \<and> kr_tag r = T_USAGE_COUNT_LIMIT)
                  (\<lambda>r. r\<lparr>kr_data := decrement_cell (kr_data r)\<rparr>) (db_keyparameter tx)\<rparr>
            in if limit = 1 then
                 (let (need, tx2) = mark_unreferenced key_id tx1 in Inr ((need, ()), tx2))
               else if limit = 0 then Inl (Ks (Km EC_INVALID_KEY_BLOB))
               else Inr ((False, ()), tx1))) db"

section \<open>Creating keys\<close>

definition is_app_or_selinux :: "domain \<Rightarrow> bool" where
  "is_app_or_selinux domain \<longleftrightarrow> domain = APP \<or> domain = SELINUX"

definition create_key_entry_internal ::
    "int list \<Rightarrow> domain \<Rightarrow> int \<Rightarrow> key_type \<Rightarrow> uuid \<Rightarrow> int tx" where
  "create_key_entry_internal rnd domain namespace key_type km_uuid db =
     (if \<not> is_app_or_selinux domain then Inl sys
      else and_then
        (insert_with_retry rnd (\<lambda>id'. insert_keyentry
           \<lparr>ke_id = id', ke_key_type = key_type, ke_domain = Some domain, ke_namespace = Some namespace,
            ke_alias = None, ke_state = Existing, ke_km_uuid = km_uuid\<rparr> db))
        (\<lambda>(id', db'). KeyIdLockDb_get id' db'))"

definition create_key_entry ::
    "int list \<Rightarrow> domain \<Rightarrow> int \<Rightarrow> key_type \<Rightarrow> uuid \<Rightarrow> keystore_db \<Rightarrow> int res \<times> keystore_db" where
  "create_key_entry rnd domain namespace key_type km_uuid db =
     with_transaction (\<lambda>tx.
       map_res (\<lambda>(g, tx'). ((False, g), tx'))
         (create_key_entry_internal rnd domain namespace key_type km_uuid tx)) db"

definition rebind_alias :: "int \<Rightarrow> string \<Rightarrow> domain \<Rightarrow> int \<Rightarrow> key_type \<Rightarrow> bool tx" where
  "rebind_alias newid alias domain namespace key_type db =
     (if \<not> is_app_or_selinux domain then Inl sys
      else
        (let old = (\<lambda>k. ke_alias k = Some alias \<and> ke_domain k = Some domain \<and>
                        ke_namespace k = Some namespace \<and> ke_key_type k = key_type);
             updated = count_where old (db_keyentry db);
             t1 = update_where old
                    (\<lambda>k. k\<lparr>ke_alias := None, ke_domain := None, ke_namespace := None,
                            ke_state := Unreferenced\<rparr>) (db_keyentry db);
             new = (\<lambda>k. ke_id k = newid \<and> ke_domain k = Some domain \<and>
                        ke_namespace k = Some namespace \<and> ke_state k = Existing \<and>
                        ke_key_type k = key_type);
             result = count_where new t1;
             t2 = update_where new (\<lambda>k. k\<lparr>ke_alias := Some alias, ke_state := Live\<rparr>) t1
         in if result \<noteq> 1 then Inl sys
            else Inr (updated \<noteq> 0, db\<lparr>db_keyentry := t2\<rparr>)))"

definition opt_set_blob :: "int \<Rightarrow> sub_component_type \<Rightarrow> bytes option \<Rightarrow> unit tx" where
  "opt_set_blob key_id sc_type blob db =
     (case blob of
        None \<Rightarrow> Inr ((), db)
      | Some b \<Rightarrow> set_blob_internal key_id sc_type (Some b) None db)"

text \<open>The closures that \<open>store_new_key\<close>, \<open>store_new_certificate\<close> and
  \<open>migrate_key_namespace\<close> pass to \<open>with_transaction\<close> have names of their own.\<close>

definition store_new_key_tx ::
    "int list \<Rightarrow> string \<Rightarrow> domain \<Rightarrow> int \<Rightarrow> key_type \<Rightarrow> key_parameter list \<Rightarrow> bytes \<times> blob_meta_data
     \<Rightarrow> certificate_info \<Rightarrow> key_meta_data \<Rightarrow> uuid \<Rightarrow> (bool \<times> int) tx" where
  "store_new_key_tx rnd alias domain namespace key_type params blob_info cert_info metadata km_uuid tx =
     and_then (create_key_entry_internal rnd domain namespace key_type km_uuid tx) (\<lambda>(key_id, tx).
     and_then (set_blob_internal key_id KEY_BLOB (Some (fst blob_info)) (Some (snd blob_info)) tx) (\<lambda>(_, tx).
     and_then (opt_set_blob key_id CERT (ci_cert cert_info) tx) (\<lambda>(_, tx).
     and_then (opt_set_blob key_id CERT_CHAIN (ci_cert_chain cert_info) tx) (\<lambda>(_, tx).
       let tx = insert_keyparameter_internal key_id params tx;
           tx = KeyMetaData_store_in_db metadata key_id tx
       in and_then (rebind_alias key_id alias domain namespace key_type tx) (\<lambda>(need, tx).
            Inr ((need, key_id), tx))))))"

definition store_new_key ::
    "int list \<Rightarrow> key_descriptor \<Rightarrow> key_type \<Rightarrow> key_parameter list \<Rightarrow> bytes \<times> blob_meta_data
     \<Rightarrow> certificate_info \<Rightarrow> key_meta_data \<Rightarrow> uuid \<Rightarrow> keystore_db \<Rightarrow> int res \<times> keystore_db" where
  "store_new_key rnd key key_type params blob_info cert_info metadata km_uuid db =
     (case kd_alias key of
        Some alias \<Rightarrow>
          (if is_app_or_selinux (kd_domain key) \<and> kd_blob key = None then
             with_transaction (store_new_key_tx rnd alias (kd_domain key) (kd_nspace key) key_type
               params blob_info cert_info metadata km_uuid) db
           else (Inl (Ks (Rc RC_INVALID_ARGUMENT)), db))
      | None \<Rightarrow> (Inl (Ks (Rc RC_INVALID_ARGUMENT)), db))"

text \<open>In \<open>store_new_certificate\<close>, \<open>now\<close> is the answer of \<open>DateTime::now()\<close>.\<close>

definition store_new_certificate_tx ::
    "int list \<Rightarrow> date_time res \<Rightarrow> string \<Rightarrow> domain \<Rightarrow> int \<Rightarrow> key_type \<Rightarrow> bytes \<Rightarrow> uuid
     \<Rightarrow> (bool \<times> int) tx" where
  "store_new_certificate_tx rnd now alias domain namespace key_type cert km_uuid tx =
     and_then (create_key_entry_internal rnd domain namespace key_type km_uuid tx) (\<lambda>(key_id, tx).
     and_then (set_blob_internal key_id CERT_CHAIN (Some cert) None tx) (\<lambda>(_, tx).
     and_then now (\<lambda>t.
       let metadata = KeyMetaData_add (CreationDate t) KeyMetaData_new;
           tx = KeyMetaData_store_in_db metadata key_id tx
       in and_then (rebind_alias key_id alias domain namespace key_type tx) (\<lambda>(need, tx).
            Inr ((need, key_id), tx)))))"

definition store_new_certificate ::
    "int list \<Rightarrow> date_time res \<Rightarrow> key_descriptor \<Rightarrow> key_type \<Rightarrow> bytes \<Rightarrow> uuid \<Rightarrow> keystore_db
     \<Rightarrow> int res \<times> keystore_db" where
  "store_new_certificate rnd now key key_type cert km_uuid db =
     (case kd_alias key of
        Some alias \<Rightarrow>
          (if is_app_or_selinux (kd_domain key) \<and> kd_blob key = None then
             with_transaction (store_new_certificate_tx rnd now alias (kd_domain key) (kd_nspace key)
               key_type cert km_uuid) db
           else (Inl (Ks (Rc RC_INVALID_ARGUMENT)), db))
      | None \<Rightarrow> (Inl (Ks (Rc RC_INVALID_ARGUMENT)), db))"

definition migrate_key_namespace_tx :: "int \<Rightarrow> string \<Rightarrow> domain \<Rightarrow> int \<Rightarrow> (bool \<times> unit) tx" where
  "migrate_key_namespace_tx key_id alias domain namespace tx =
     (if query_row_optional
           (filter (\<lambda>k. ke_alias k = Some alias \<and> ke_domain k = Some domain \<and>
                        ke_namespace k = Some namespace) (db_keyentry tx)) \<noteq> None
      then Inl (Ks (Rc RC_INVALID_ARGUMENT))
      else if count_where (\<lambda>k. ke_id k = key_id) (db_keyentry tx) \<noteq> 1 then Inl sys
      else Inr ((False, ()), tx\<lparr>db_keyentry := update_where (\<lambda>k. ke_id k = key_id)
             (\<lambda>k. k\<lparr>ke_alias := Some alias, ke_domain := Some domain, ke_namespace := Some namespace\<rparr>)
             (db_keyentry tx)\<rparr>))"

text \<open>\<open>migrate_key_namespace\<close> consumes the guard, so the lock is free afterwards in any case.\<close>

definition migrate_key_namespace ::
    "int \<Rightarrow> key_descriptor \<Rightarrow> nat \<Rightarrow> (key_descriptor \<Rightarrow> unit res) \<Rightarrow> keystore_db
     \<Rightarrow> unit res \<times> keystore_db" where
  "migrate_key_namespace key_id_guard destination caller_uid check_permission db =
     (let (r, db') =
        (if \<not> is_app_or_selinux (kd_domain destination) then (Inl (Ks (Rc RC_INVALID_ARGUMENT)), db)
         else
           (let destination = (if kd_domain destination = APP
                               then destination\<lparr>kd_nspace := int caller_uid\<rparr> else destination)
            in case and_then (check_permission destination) (\<lambda>_.
                       ok_or (kd_alias destination) (Ks (Rc RC_INVALID_ARGUMENT))) of
                 Inl e \<Rightarrow> (Inl e, db)
               | Inr alias \<Rightarrow>
                   with_transaction (migrate_key_namespace_tx key_id_guard alias
                     (kd_domain destination) (kd_nspace destination)) db))
      in (r, KeyIdGuard_drop key_id_guard db'))"

section \<open>Finding keys\<close>

definition load_key_entry_id :: "key_descriptor \<Rightarrow> key_type \<Rightarrow> keystore_db \<Rightarrow> int res" where
  "load_key_entry_id key key_type db =
     and_then (ok_or (kd_alias key) sys) (\<lambda>alias.
       with_rows_extract_one
         (filter (\<lambda>k. ke_key_type k = key_type \<and> ke_domain k = Some (kd_domain key) \<and>
                      ke_namespace k = Some (kd_nspace key) \<and> ke_alias k = Some alias \<and>
                      ke_state k = Live) (db_keyentry db))
         (\<lambda>row. map_res ke_id (ok_or row (Ks (Rc RC_KEY_NOT_FOUND)))))"

definition key_state :: "int \<Rightarrow> keystore_db \<Rightarrow> key_life_cycle option" where
  "key_state key_id db =
     map_option ke_state (query_row_optional (filter (\<lambda>k. ke_id k = key_id) (db_keyentry db)))"

definition load_access_tuple ::
    "key_descriptor \<Rightarrow> key_type \<Rightarrow> nat \<Rightarrow> keystore_db
     \<Rightarrow> (int \<times> key_descriptor \<times> key_perm_set option) res" where
  "load_access_tuple key key_type caller_uid db =
     (if is_app_or_selinux (kd_domain key) then
        (let access_key = (if kd_domain key = APP then key\<lparr>kd_nspace := int caller_uid\<rparr> else key)
         in map_res (\<lambda>key_id. (key_id, access_key, None)) (load_key_entry_id access_key key_type db))
      else if kd_domain key = GRANT then
        map_res (\<lambda>(key_id, access_vector). (key_id, key, Some access_vector))
          (with_rows_extract_one
             (filter (\<lambda>g. gr_grantee g = int caller_uid \<and> gr_id g = kd_nspace key \<and>
                          key_state (gr_keyentryid g) db = Some Live) (db_grant db))
             (\<lambda>row. map_res (\<lambda>g. (gr_keyentryid g, gr_access_vector g))
                      (ok_or row (Ks (Rc RC_KEY_NOT_FOUND)))))
      else if kd_domain key = KEY_ID then
        map_res
          (\<lambda>(domain, namespace).
             (kd_nspace key, key\<lparr>kd_domain := domain, kd_nspace := namespace\<rparr>,
              if domain \<noteq> APP \<or> namespace \<noteq> int caller_uid
              then map_option gr_access_vector (query_row_optional
                     (filter (\<lambda>g. gr_grantee g = int caller_uid \<and> gr_keyentryid g = kd_nspace key)
                        (db_grant db)))
              else None))
          (with_rows_extract_one
             (filter (\<lambda>k. ke_id k = kd_nspace key \<and> ke_state k = Live) (db_keyentry db))
             (\<lambda>row. and_then (ok_or row (Ks (Rc RC_KEY_NOT_FOUND))) (\<lambda>k.
                      and_then (sql_get (ke_domain k)) (\<lambda>d.
                        map_res (\<lambda>n. (d, n)) (sql_get (ke_namespace k))))))
      else Inl sys)"

section \<open>Loading keys\<close>

text \<open>
  A call that waits for a key id lock lets other threads run.  \<open>wait k db\<close> is the database
  they leave when the waiting thread wakes up for the last time; if the lock is still taken
  there, the call has not returned.
\<close>

definition KeyIdLockDb_get_wait ::
    "(int \<Rightarrow> keystore_db \<Rightarrow> keystore_db) \<Rightarrow> int \<Rightarrow> keystore_db \<Rightarrow> int res \<times> keystore_db" where
  "KeyIdLockDb_get_wait wait k db =
     (let db' = (if k \<in> db_locked_keys db then wait k db else db)
      in case KeyIdLockDb_get k db' of Inl e \<Rightarrow> (Inl e, db') | Inr (g, db'') \<Rightarrow> (Inr g, db''))"

text \<open>
  \<open>load_key_entry_internal\<close> in the three stages of the source: the lock of a KEY_ID
  descriptor and the access check; the lock of any other descriptor, with the second look at
  the key by its id when the thread had to wait; and loading the components.  An error drops
  the guard.
\<close>

definition load_key_entry_check ::
    "key_descriptor \<Rightarrow> key_type \<Rightarrow> nat \<Rightarrow> (key_descriptor \<Rightarrow> key_perm_set option \<Rightarrow> unit res)
     \<Rightarrow> keystore_db \<Rightarrow> int res" where
  "load_key_entry_check key key_type caller_uid check_permission db =
     and_then (load_access_tuple key key_type caller_uid db)
       (\<lambda>(key_id, access_key_descriptor, access_vector).
          map_res (\<lambda>_. key_id) (check_permission access_key_descriptor access_vector))"

definition key_id_descriptor :: "int \<Rightarrow> key_descriptor" where
  "key_id_descriptor key_id = \<lparr>kd_domain = KEY_ID, kd_nspace = key_id, kd_alias = None, kd_blob = None\<rparr>"

definition load_key_entry_lock ::
    "(int \<Rightarrow> keystore_db \<Rightarrow> keystore_db) \<Rightarrow> int \<Rightarrow> key_type \<Rightarrow> nat \<Rightarrow> keystore_db
     \<Rightarrow> int res \<times> keystore_db" where
  "load_key_entry_lock wait key_id key_type caller_uid db =
     (case KeyIdLockDb_try_get key_id db of
        (Some g, db') \<Rightarrow> (Inr g, db')
      | (None, _) \<Rightarrow>
          (case KeyIdLockDb_get_wait wait key_id db of
             (Inl e, db') \<Rightarrow> (Inl e, db')
           | (Inr g, db') \<Rightarrow>
               (case load_access_tuple (key_id_descriptor key_id) key_type caller_uid db' of
                  Inl e \<Rightarrow> (Inl e, KeyIdGuard_drop g db')
                | Inr _ \<Rightarrow> (Inr g, db'))))"

definition load_key_entry_guard ::
    "(int \<Rightarrow> keystore_db \<Rightarrow> keystore_db) \<Rightarrow> key_descriptor \<Rightarrow> key_type \<Rightarrow> nat
     \<Rightarrow> (key_descriptor \<Rightarrow> key_perm_set option \<Rightarrow> unit res) \<Rightarrow> keystore_db
     \<Rightarrow> int res \<times> keystore_db" where
  "load_key_entry_guard wait key key_type caller_uid check_permission db =
     (if kd_domain key = KEY_ID then
        (case KeyIdLockDb_get_wait wait (kd_nspace key) db of
           (Inl e, db1) \<Rightarrow> (Inl e, db1)
         | (Inr g, db1) \<Rightarrow>
             (case load_key_entry_check key key_type caller_uid check_permission db1 of
                Inl e \<Rightarrow> (Inl e, KeyIdGuard_drop g db1)
              | Inr _ \<Rightarrow> (Inr g, db1)))
      else
        (case load_key_entry_check key key_type caller_uid check_permission db of
           Inl e \<Rightarrow> (Inl e, db)
         | Inr key_id \<Rightarrow> load_key_entry_lock wait key_id key_type caller_uid db))"

definition load_key_entry_internal ::
    "(int \<Rightarrow> keystore_db \<Rightarrow> keystore_db) \<Rightarrow> key_descriptor \<Rightarrow> key_type \<Rightarrow> key_entry_load_bits \<Rightarrow> nat
     \<Rightarrow> (key_descriptor \<Rightarrow> key_perm_set option \<Rightarrow> unit res) \<Rightarrow> keystore_db
     \<Rightarrow> (int \<times> key_entry) res \<times> keystore_db" where
  "load_key_entry_internal wait key key_type load_bits caller_uid check_permission db =
     (case load_key_entry_guard wait key key_type caller_uid check_permission db of
        (Inl e, db1) \<Rightarrow> (Inl e, db1)
      | (Inr key_id_guard, db1) \<Rightarrow>
          (case load_key_components load_bits key_id_guard db1 of
             Inl e \<Rightarrow> (Inl e, KeyIdGuard_drop key_id_guard db1)
           | Inr key_entry \<Rightarrow> (Inr (key_id_guard, key_entry), db1)))"

text \<open>\<open>load_key_entry\<close> repeats the attempt only after a lock conflict of SQLite.\<close>

definition load_key_entry ::
    "(int \<Rightarrow> keystore_db \<Rightarrow> keystore_db) \<Rightarrow> key_descriptor \<Rightarrow> key_type \<Rightarrow> key_entry_load_bits \<Rightarrow> nat
     \<Rightarrow> (key_descriptor \<Rightarrow> key_perm_set option \<Rightarrow> unit res) \<Rightarrow> keystore_db
     \<Rightarrow> (int \<times> key_entry) res \<times> keystore_db" where
  "load_key_entry wait key key_type load_bits caller_uid check_permission db =
     load_key_entry_internal wait key key_type load_bits caller_uid check_permission db"

definition unbind_key ::
    "key_descriptor \<Rightarrow> key_type \<Rightarrow> nat \<Rightarrow> (key_descriptor \<Rightarrow> key_perm_set option \<Rightarrow> unit res)
     \<Rightarrow> keystore_db \<Rightarrow> unit res \<times> keystore_db" where
  "unbind_key key key_type caller_uid check_permission db =
     with_transaction (\<lambda>tx.
       and_then (load_access_tuple key key_type caller_uid tx)
         (\<lambda>(key_id, access_key_descriptor, access_vector).
       and_then (check_permission access_key_descriptor access_vector) (\<lambda>_.
         let (need, tx') = mark_unreferenced key_id tx in Inr ((need, ()), tx')))) db"

section \<open>Keys of a user, listing\<close>

text \<open>SQLite's integer division truncates towards zero.\<close>

definition sql_div :: "int \<Rightarrow> int \<Rightarrow> int" where
  "sql_div a b = sgn a * sgn b * (\<bar>a\<bar> div \<bar>b\<bar>)"

definition user_key_selected :: "int \<Rightarrow> string \<Rightarrow> nat \<Rightarrow> keyentry_row \<Rightarrow> bool" where
  "user_key_selected aid_user_offset super_alias user_id k \<longleftrightarrow>
     (ke_key_type k = Client \<and> ke_domain k = Some APP \<and>
      map_option (\<lambda>n. sql_div n aid_user_offset) (ke_namespace k) = Some (int user_id) \<and>
      ke_state k = Live) \<or>
     (ke_key_type k = Super \<and> ke_namespace k = Some (int user_id) \<and>
      ke_alias k = Some super_alias \<and> ke_state k = Live)"

fun unbind_user_keys :: "bool \<Rightarrow> int list \<Rightarrow> bool \<Rightarrow> (bool \<times> unit) tx" where
  "unbind_user_keys keep_non_super_encrypted_keys [] notify db = Inr ((notify, ()), db)"
| "unbind_user_keys keep_non_super_encrypted_keys (key_id # key_ids) notify db =
     and_then
       (if keep_non_super_encrypted_keys then
          map_res (\<lambda>(_, blob_info, _, _).
                     case blob_info of
                       Some (_, blob_metadata) \<Rightarrow> BlobMetaData_encrypted_by blob_metadata = None
                     | None \<Rightarrow> False)
            (load_blob_components key_id LB_KM db)
        else Inr False)
       (\<lambda>skip.
          if skip then unbind_user_keys keep_non_super_encrypted_keys key_ids notify db
          else
            (let (need, db') = mark_unreferenced key_id db
             in unbind_user_keys keep_non_super_encrypted_keys key_ids (need \<or> notify) db'))"

definition unbind_keys_for_user ::
    "int \<Rightarrow> string \<Rightarrow> nat \<Rightarrow> bool \<Rightarrow> keystore_db \<Rightarrow> unit res \<times> keystore_db" where
  "unbind_keys_for_user aid_user_offset super_alias user_id keep_non_super_encrypted_keys db =
     with_transaction (\<lambda>tx.
       unbind_user_keys keep_non_super_encrypted_keys
         (map ke_id (filter (user_key_selected aid_user_offset super_alias user_id) (db_keyentry tx)))
         False tx) db"

definition list_keys :: "domain \<Rightarrow> int \<Rightarrow> key_type \<Rightarrow> keystore_db \<Rightarrow> key_descriptor list res" where
  "list_keys domain namespace key_type db =
     with_rows_extract_all
       (filter (\<lambda>k. ke_domain k = Some domain \<and> ke_namespace k = Some namespace \<and>
                    ke_alias k \<noteq> None \<and> ke_state k = Live \<and> ke_key_type k = key_type) (db_keyentry db))
       (\<lambda>row descriptors.
          map_res (\<lambda>alias. descriptors @
              [\<lparr>kd_domain = domain, kd_nspace = namespace, kd_alias = Some alias, kd_blob = None\<rparr>])
            (sql_get (ke_alias row)))
       []"

definition load_key_descriptor :: "int \<Rightarrow> keystore_db \<Rightarrow> key_descriptor option res" where
  "load_key_descriptor key_id db =
     (case query_row_optional (filter (\<lambda>k. ke_id k = key_id) (db_keyentry db)) of
        None \<Rightarrow> Inr None
      | Some k \<Rightarrow>
          and_then (sql_get (ke_domain k)) (\<lambda>d.
          and_then (sql_get (ke_namespace k)) (\<lambda>n.
            Inr (Some \<lparr>kd_domain = d, kd_nspace = n, kd_alias = ke_alias k, kd_blob = None\<rparr>))))"

section \<open>Grants\<close>

definition grant ::
    "int list \<Rightarrow> key_descriptor \<Rightarrow> nat \<Rightarrow> nat \<Rightarrow> key_perm_set
     \<Rightarrow> (key_descriptor \<Rightarrow> key_perm_set \<Rightarrow> unit res) \<Rightarrow> keystore_db
     \<Rightarrow> key_descriptor res \<times> keystore_db" where
  "grant rnd key caller_uid grantee_uid access_vector check_permission db =
     with_transaction (\<lambda>tx.
       and_then (load_access_tuple key Client caller_uid tx) (\<lambda>(key_id, access_key_descriptor, _).
       and_then (check_permission access_key_descriptor access_vector) (\<lambda>_.
       and_then
         (case query_row_optional
                 (filter (\<lambda>g. gr_keyentryid g = key_id \<and> gr_grantee g = int grantee_uid) (db_grant tx)) of
            Some g \<Rightarrow>
              Inr (gr_id g, tx\<lparr>db_grant := update_where (\<lambda>h. gr_id h = gr_id g)
                     (\<lambda>h. h\<lparr>gr_access_vector := access_vector\<rparr>) (db_grant tx)\<rparr>)
          | None \<Rightarrow>
              insert_with_retry rnd (\<lambda>id'. insert_grant
                \<lparr>gr_id = id', gr_grantee = int grantee_uid, gr_keyentryid = key_id,
                 gr_access_vector = access_vector\<rparr> tx))
         (\<lambda>(grant_id, tx').
            Inr ((False, \<lparr>kd_domain = GRANT, kd_nspace = grant_id, kd_alias = None, kd_blob = None\<rparr>), tx'))))) db"

definition ungrant ::
    "key_descriptor \<Rightarrow> nat \<Rightarrow> nat \<Rightarrow> (key_descriptor \<Rightarrow> unit res) \<Rightarrow> keystore_db
     \<Rightarrow> unit res \<times> keystore_db" where
  "ungrant key caller_uid grantee_uid check_permission db =
     with_transaction (\<lambda>tx.
       and_then (load_access_tuple key Client caller_uid tx) (\<lambda>(key_id, access_key_descriptor, _).
       and_then (check_permission access_key_descriptor) (\<lambda>_.
         Inr ((False, ()), tx\<lparr>db_grant := delete_where
           (\<lambda>g. gr_keyentryid g = key_id \<and> gr_grantee g = int grantee_uid) (db_grant tx)\<rparr>)))) db"

section \<open>Super keys\<close>

definition key_exists :: "domain \<Rightarrow> int \<Rightarrow> string \<Rightarrow> key_type \<Rightarrow> keystore_db \<Rightarrow> bool res" where
  "key_exists domain nspace alias key_type db =
     (case load_key_entry_id
             \<lparr>kd_domain = domain, kd_nspace = nspace, kd_alias = Some alias, kd_blob = None\<rparr> key_type db of
        Inr _ \<Rightarrow> Inr True
      | Inl e \<Rightarrow> if e = Ks (Rc RC_KEY_NOT_FOUND) then Inr False else Inl e)"

definition store_super_key ::
    "int list \<Rightarrow> nat \<Rightarrow> string \<Rightarrow> bytes \<Rightarrow> blob_meta_data \<Rightarrow> key_meta_data \<Rightarrow> keystore_db
     \<Rightarrow> key_entry res \<times> keystore_db" where
  "store_super_key rnd user_id super_alias blob blob_metadata key_metadata db =
     with_transaction (\<lambda>tx.
       and_then (insert_with_retry rnd (\<lambda>id'. insert_keyentry
           \<lparr>ke_id = id', ke_key_type = Super, ke_domain = Some APP, ke_namespace = Some (int user_id),
            ke_alias = Some super_alias, ke_state = Live, ke_km_uuid = KEYSTORE_UUID\<rparr> tx))
         (\<lambda>(key_id, tx).
       and_then (set_blob_internal key_id KEY_BLOB (Some blob) (Some blob_metadata)
                   (KeyMetaData_store_in_db key_metadata key_id tx))
         (\<lambda>(_, tx).
            map_res (\<lambda>e. ((False, e), tx)) (load_key_components LB_KM key_id tx)))) db"

definition load_super_key ::
    "string \<Rightarrow> nat \<Rightarrow> keystore_db \<Rightarrow> (int \<times> key_entry) option res \<times> keystore_db" where
  "load_super_key super_alias user_id db =
     with_transaction (\<lambda>tx.
       case load_key_entry_id
              \<lparr>kd_domain = APP, kd_nspace = int user_id, kd_alias = Some super_alias, kd_blob = None\<rparr> Super tx of
         Inr key_id \<Rightarrow>
           and_then (load_key_components LB_KM key_id tx) (\<lambda>key_entry.
           and_then (KeyIdLockDb_get key_id tx) (\<lambda>(g, tx).
             Inr ((False, Some (g, key_entry)), tx)))
       | Inl e \<Rightarrow> if e = Ks (Rc RC_KEY_NOT_FOUND) then Inr ((False, None), tx) else Inl e) db"

text \<open>\<open>get_or_create_key_with\<close>; \<open>new_key\<close> is the answer of the callback.\<close>

definition get_or_create_key_with ::
    "int list \<Rightarrow> domain \<Rightarrow> int \<Rightarrow> string \<Rightarrow> uuid \<Rightarrow> (bytes \<times> blob_meta_data) res \<Rightarrow> keystore_db
     \<Rightarrow> (int \<times> key_entry) res \<times> keystore_db" where
  "get_or_create_key_with rnd domain namespace alias km_uuid new_key db =
     with_transaction (\<lambda>tx.
       and_then
         (with_rows_extract_one
            (filter (\<lambda>k. ke_key_type k = Super \<and> ke_domain k = Some domain \<and>
                         ke_namespace k = Some namespace \<and> ke_alias k = Some alias \<and>
                         ke_state k = Live) (db_keyentry tx))
            (\<lambda>row. Inr (map_option ke_id row)))
         (\<lambda>found.
            and_then
              (case found of
                 Some key_id \<Rightarrow> map_res (\<lambda>e. (key_id, e, tx)) (load_key_components LB_KM key_id tx)
               | None \<Rightarrow>
                   and_then (insert_with_retry rnd (\<lambda>id'. insert_keyentry
                       \<lparr>ke_id = id', ke_key_type = Super, ke_domain = Some domain,
                        ke_namespace = Some namespace, ke_alias = Some alias, ke_state = Live,
                        ke_km_uuid = km_uuid\<rparr> tx))
                     (\<lambda>(key_id, tx).
                   and_then new_key (\<lambda>(blob, metadata).
                   and_then (set_blob_internal key_id KEY_BLOB (Some blob) (Some metadata) tx) (\<lambda>(_, tx).
                     Inr (key_id,
                          \<lparr>e_id = key_id, e_key_blob_info = Some (blob, metadata), e_cert = None,
                           e_cert_chain = None, e_km_uuid = Uuid_default, e_parameters = [],
                           e_metadata = [], e_pure_cert = False\<rparr>, tx)))))
              (\<lambda>(key_id, entry, tx).
                 and_then (KeyIdLockDb_get key_id tx) (\<lambda>(g, tx). Inr ((False, (g, entry)), tx))))) db"

section \<open>Superseded blobs\<close>

definition delete_blob :: "int \<Rightarrow> keystore_db \<Rightarrow> keystore_db" where
  "delete_blob blob_id db =
     db\<lparr>db_blobmetadata := delete_where (\<lambda>m. bm_blobentryid m = blob_id) (db_blobmetadata db),
        db_blobentry := delete_where (\<lambda>b. be_id b = blob_id) (db_blobentry db)\<rparr>"

text \<open>\<open>SELECT MAX(id) FROM persistent.blobentry WHERE p GROUP BY keyentryid, subcomponent_type\<close>.\<close>

definition group_max_ids :: "(blobentry_row \<Rightarrow> bool) \<Rightarrow> blobentry_row list \<Rightarrow> int list" where
  "group_max_ids p t =
     map be_id (filter (\<lambda>b. p b \<and> \<not> list_ex (\<lambda>x. p x \<and> be_keyentryid x = be_keyentryid b \<and>
        be_subcomponent_type x = be_subcomponent_type b \<and> be_id b < be_id x) t) t)"

definition superseded :: "(blobentry_row \<Rightarrow> bool) \<Rightarrow> keystore_db \<Rightarrow> blobentry_row \<Rightarrow> bool" where
  "superseded p db b \<longleftrightarrow>
     p b \<and> (be_id b \<notin> set (group_max_ids p (db_blobentry db)) \<or>
            be_keyentryid b \<notin> ke_id ` set (db_keyentry db))"

definition handle_next_superseded_blobs ::
    "int list \<Rightarrow> nat \<Rightarrow> keystore_db \<Rightarrow> (int \<times> bytes \<times> blob_meta_data) list res \<times> keystore_db" where
  "handle_next_superseded_blobs blob_ids_to_delete max_blobs db =
     with_transaction (\<lambda>tx.
       let tx = fold delete_blob blob_ids_to_delete tx;
           tx = cleanup_unreferenced tx;
           rows = take max_blobs
                    (filter (superseded (\<lambda>b. be_subcomponent_type b = KEY_BLOB) tx) (db_blobentry tx))
       in and_then
            (map_res_list (\<lambda>b. map_res (\<lambda>m. (be_id b, be_blob b, m)) (BlobMetaData_load_from_db (be_id b) tx))
               rows)
            (\<lambda>result.
               if result \<noteq> [] then Inr ((False, result), tx)
               else Inr ((False, []),
                         tx\<lparr>db_blobentry := delete_where
                           (superseded (\<lambda>b. be_subcomponent_type b \<noteq> KEY_BLOB) tx) (db_blobentry tx)\<rparr>))) db"

end
