(* ===== verification/Ks_Attestation.thy ===== *)
theory Ks_Attestation
  imports Ks_Database
begin

text \<open>
  The pool of remotely provisioned attestation keys (\<open>src/keystore2/src/database.rs\<close>, lines
  1536 to 1576 and 1707 to 2103).  An attestation key is created with neither domain nor
  alias; a certificate chain from the provisioning server gives it the alias \<open>signed\<close>; the
  first key that needs it assigns it to a domain and namespace.  The life of a key is thus
  unsigned, signed, assigned, and the columns say which.

  The current time is a parameter (an error when the clock is before the epoch).  Counting
  out-of-keys errors for the metrics is not modelled.
\<close>

section \<open>Operations\<close>

definition create_attestation_key_entry ::
    "int list \<Rightarrow> bytes \<Rightarrow> bytes \<Rightarrow> bytes \<Rightarrow> uuid \<Rightarrow> keystore_db \<Rightarrow> unit res \<times> keystore_db" where
  "create_attestation_key_entry rnd maced_public_key raw_public_key private_key km_uuid db =
     with_transaction (\<lambda>tx.
       and_then
         (insert_with_retry rnd (\<lambda>id'. insert_keyentry
            \<lparr>ke_id = id', ke_key_type = Attestation, ke_domain = None, ke_namespace = None,
             ke_alias = None, ke_state = Live, ke_km_uuid = km_uuid\<rparr> tx))
         (\<lambda>(id', tx).
       and_then (KeyIdLockDb_get id' tx) (\<lambda>(key_id, tx).
       and_then (set_blob_internal key_id KEY_BLOB (Some private_key) None tx) (\<lambda>(_, tx).
         let metadata = KeyMetaData_add (AttestationRawPubKey raw_public_key)
               (KeyMetaData_add (AttestationMacedPublicKey maced_public_key) KeyMetaData_new)
         in Inr ((False, ()), KeyIdGuard_drop key_id (KeyMetaData_store_in_db metadata key_id tx)))))) db"

definition unsigned_attestation_key :: "uuid \<Rightarrow> keyentry_row \<Rightarrow> bool" where
  "unsigned_attestation_key km_uuid k \<longleftrightarrow>
     ke_alias k = None \<and> ke_domain k = None \<and> ke_namespace k = None \<and>
     ke_key_type k = Attestation \<and> ke_km_uuid k = km_uuid"

definition store_signed_attestation_certificate_chain ::
    "bytes \<Rightarrow> bytes \<Rightarrow> bytes \<Rightarrow> int \<Rightarrow> uuid \<Rightarrow> keystore_db \<Rightarrow> unit res \<times> keystore_db" where
  "store_signed_attestation_certificate_chain raw_public_key batch_cert cert_chain expiration_date km_uuid db =
     with_transaction (\<lambda>tx.
       and_then
         (with_rows_extract_one
            (filter (\<lambda>r. kmd_tag r = 3 \<and> kmd_data r = SqlBlob raw_public_key \<and>
                         kmd_keyentryid r \<in> set (map ke_id
                           (filter (unsigned_attestation_key km_uuid) (db_keyentry tx))))
               (db_keymetadata tx))
            (\<lambda>row. map_res kmd_keyentryid (ok_or row (Ks (Rc RC_KEY_NOT_FOUND)))))
         (\<lambda>key_id.
            if count_where (\<lambda>k. ke_id k = key_id) (db_keyentry tx) \<noteq> 1 then Inl sys
            else
              (let tx = tx\<lparr>db_keyentry := update_where (\<lambda>k. ke_id k = key_id)
                          (\<lambda>k. k\<lparr>ke_alias := Some ''signed''\<rparr>) (db_keyentry tx)\<rparr>;
                   metadata = KeyMetaData_add (AttestationExpirationDate expiration_date) KeyMetaData_new;
                   tx = KeyMetaData_store_in_db metadata key_id tx
               in and_then (set_blob_internal key_id CERT_CHAIN (Some cert_chain) None tx) (\<lambda>(_, tx).
                  and_then (set_blob_internal key_id CERT (Some batch_cert) None tx) (\<lambda>(_, tx).
                    Inr ((False, ()), tx)))))) db"

definition assignable_attestation_key :: "uuid \<Rightarrow> keyentry_row \<Rightarrow> bool" where
  "assignable_attestation_key km_uuid k \<longleftrightarrow>
     ke_alias k \<noteq> None \<and> ke_domain k = None \<and> ke_key_type k = Attestation \<and>
     ke_state k = Live \<and> ke_km_uuid k = km_uuid"

definition assigned_attestation_key :: "domain \<Rightarrow> int \<Rightarrow> uuid \<Rightarrow> keyentry_row \<Rightarrow> bool" where
  "assigned_attestation_key domain namespace km_uuid k \<longleftrightarrow>
     ke_domain k = Some domain \<and> ke_namespace k = Some namespace \<and> ke_key_type k = Attestation \<and>
     ke_state k = Live \<and> ke_km_uuid k = km_uuid"

text \<open>\<open>SELECT MIN(id)\<close>: NULL when no row qualifies.\<close>

definition min_key_id :: "keyentry_row list \<Rightarrow> int option" where
  "min_key_id rows = (case map ke_id rows of [] \<Rightarrow> None | i # ids \<Rightarrow> Some (fold min ids i))"

definition assign_attestation_key ::
    "domain \<Rightarrow> int \<Rightarrow> uuid \<Rightarrow> keystore_db \<Rightarrow> unit res \<times> keystore_db" where
  "assign_attestation_key domain namespace km_uuid db =
     (if \<not> is_app_or_selinux domain then (Inl sys, db)
      else with_transaction (\<lambda>tx.
        let selected = (\<lambda>k.
              Some (ke_id k) = min_key_id (filter (assignable_attestation_key km_uuid) (db_keyentry tx)) \<and>
              count_where (assigned_attestation_key domain namespace km_uuid) (db_keyentry tx) = 0);
            result = count_where selected (db_keyentry tx);
            tx' = tx\<lparr>db_keyentry := update_where selected
                   (\<lambda>k. k\<lparr>ke_domain := Some domain, ke_namespace := Some namespace\<rparr>) (db_keyentry tx)\<rparr>
        in if result = 0 then Inl (Ks (Rc RC_OUT_OF_KEYS))
           else if 1 < result then Inl sys
           else Inr ((False, ()), tx')) db)"

text \<open>\<open>LIMIT n\<close>: a negative limit is no limit.\<close>

definition sql_limit :: "int \<Rightarrow> 'r list \<Rightarrow> 'r list" where
  "sql_limit n rows = (if n < 0 then rows else take (nat n) rows)"

definition fetch_unsigned_attestation_keys :: "i32 \<Rightarrow> uuid \<Rightarrow> keystore_db \<Rightarrow> bytes list res" where
  "fetch_unsigned_attestation_keys num_keys km_uuid db =
     (let ids = map ke_id (sql_limit (sint num_keys)
                  (filter (unsigned_attestation_key km_uuid) (db_keyentry db)))
      in map_res_list (\<lambda>r. sql_get (sql_get_vec (kmd_data r)))
           (filter (\<lambda>r. kmd_tag r = 2 \<and> kmd_keyentryid r \<in> set ids) (db_keymetadata db)))"

text \<open>Marking the keys of a list unreferenced, counting those that existed.\<close>

fun mark_all_unreferenced :: "int list \<Rightarrow> nat \<Rightarrow> keystore_db \<Rightarrow> nat \<times> keystore_db" where
  "mark_all_unreferenced [] n db = (n, db)"
| "mark_all_unreferenced (key_id # ids) n db =
     (let (updated, db') = mark_unreferenced key_id db
      in mark_all_unreferenced ids (if updated then n + 1 else n) db')"

definition delete_expired_attestation_keys ::
    "date_time res \<Rightarrow> keystore_db \<Rightarrow> nat res \<times> keystore_db" where
  "delete_expired_attestation_keys now db =
     with_transaction (\<lambda>tx.
       and_then
         (map_res_list (\<lambda>r. map_res (\<lambda>t. (kmd_keyentryid r, t)) (sql_get (sql_get_int (kmd_data r))))
            (filter (\<lambda>r. kmd_tag r = 1 \<and>
                         kmd_keyentryid r \<in> set (map ke_id
                           (filter (\<lambda>k. ke_key_type k = Attestation) (db_keyentry tx))))
               (db_keymetadata tx)))
         (\<lambda>key_ids_to_check.
       and_then now (\<lambda>curr_time.
         let (num_deleted, tx') =
               mark_all_unreferenced (map fst (filter (\<lambda>kt. snd kt < curr_time) key_ids_to_check)) 0 tx
         in Inr ((num_deleted \<noteq> 0, num_deleted), tx')))) db"

definition delete_all_attestation_keys :: "keystore_db \<Rightarrow> nat res \<times> keystore_db" where
  "delete_all_attestation_keys db =
     with_transaction (\<lambda>tx.
       let (num_deleted, tx') =
             mark_all_unreferenced
               (map ke_id (filter (\<lambda>k. ke_key_type k = Attestation) (db_keyentry tx))) 0 tx
       in Inr ((num_deleted \<noteq> 0, num_deleted), tx')) db"

record attestation_pool_status =
  ps_expiring :: nat
  ps_unassigned :: nat
  ps_attested :: nat
  ps_total :: nat

definition get_attestation_pool_status ::
    "int \<Rightarrow> uuid \<Rightarrow> keystore_db \<Rightarrow> attestation_pool_status res" where
  "get_attestation_pool_status date km_uuid db =
     and_then
       (map_res_list (\<lambda>r. sql_get (sql_get_int (kmd_data r)))
          (filter (\<lambda>r. kmd_tag r = 1 \<and>
                       kmd_keyentryid r \<in> set (map ke_id
                         (filter (\<lambda>k. ke_alias k \<noteq> None \<and> ke_key_type k = Attestation \<and>
                                      ke_km_uuid k = km_uuid \<and> ke_state k = Live) (db_keyentry db))))
             (db_keymetadata db)))
       (\<lambda>times.
          let rows = filter (\<lambda>k. ke_key_type k = Attestation \<and> ke_km_uuid k = km_uuid \<and> ke_state k = Live)
                       (db_keyentry db)
          in Inr \<lparr>ps_expiring = length (filter (\<lambda>t. t < date) times),
                  ps_unassigned = count_where (\<lambda>k. ke_alias k \<noteq> None \<and> ke_domain k = None) rows,
                  ps_attested = count_where (\<lambda>k. ke_alias k \<noteq> None) rows,
                  ps_total = length rows\<rparr>)"

fun collect_cert_chain :: "blobentry_row list \<Rightarrow> certificate_chain \<Rightarrow> certificate_chain res" where
  "collect_cert_chain [] acc = Inr acc"
| "collect_cert_chain (b # bs) acc =
     (case be_subcomponent_type b of
        KEY_BLOB \<Rightarrow> collect_cert_chain bs (acc\<lparr>cc_private_key := be_blob b\<rparr>)
      | CERT_CHAIN \<Rightarrow> collect_cert_chain bs (acc\<lparr>cc_cert_chain := be_blob b\<rparr>)
      | CERT \<Rightarrow> collect_cert_chain bs (acc\<lparr>cc_batch_cert := be_blob b\<rparr>)
      | OtherSubComponent _ \<Rightarrow> Inl sys)"

definition retrieve_attestation_key_and_cert_chain ::
    "domain \<Rightarrow> int \<Rightarrow> uuid \<Rightarrow> keystore_db \<Rightarrow> certificate_chain option res" where
  "retrieve_attestation_key_and_cert_chain domain namespace km_uuid db =
     (if \<not> is_app_or_selinux domain then Inl sys
      else
        (let ids = map ke_id (filter (assigned_attestation_key domain namespace km_uuid) (db_keyentry db));
             rows = filter (\<lambda>b. be_keyentryid b \<in> set ids) (db_blobentry db)
         in if rows = [] then Inr None
            else if length rows \<noteq> 3 then Inl sys
            else map_res Some
                   (collect_cert_chain rows \<lparr>cc_private_key = [], cc_batch_cert = [], cc_cert_chain = []\<rparr>)))"

end
