(* ===== verification/Ks_DbInvariant.thy ===== *)
theory Ks_DbInvariant
  imports Ks_Attestation
begin

text \<open>
  The well-formedness invariant of the key database and its preservation by every operation.
  The invariant is the conjunction of three parts: the key entries (unique ids, a client alias
  names at most one key, a live client key has an alias and lives in domain APP or SELINUX),
  the blobs (unique ids, metadata only for existing key blobs), and the references of the other
  tables into the key entries.  Database operations are the steps of the relation
  \<open>db_step\<close>; \<open>db_inv\<close> holds in every state they reach.
\<close>

section \<open>The invariant\<close>

text \<open>Two client rows with the same alias, domain and namespace; a live client row that can be
  addressed.\<close>

definition same_client_name :: "keyentry_row \<Rightarrow> keyentry_row \<Rightarrow> bool" where
  "same_client_name j k \<longleftrightarrow>
     ke_key_type j = Client \<and> ke_key_type k = Client \<and> ke_alias j \<noteq> None \<and>
     ke_alias j = ke_alias k \<and> ke_domain j = ke_domain k \<and> ke_namespace j = ke_namespace k"

definition placed :: "keyentry_row \<Rightarrow> bool" where
  "placed k \<longleftrightarrow>
     (ke_key_type k = Client \<and> ke_state k = Live
        \<longrightarrow> ke_alias k \<noteq> None \<and> ke_namespace k \<noteq> None \<and>
            (ke_domain k = Some APP \<or> ke_domain k = Some SELINUX))"

definition keys_inv :: "keyentry_row list \<Rightarrow> bool" where
  "keys_inv t \<longleftrightarrow>
     distinct (map ke_id t) \<and> UNASSIGNED_KEY_ID \<notin> ke_id ` set t \<and>
     (\<forall>j\<in>set t. \<forall>k\<in>set t. same_client_name j k \<longrightarrow> ke_id j = ke_id k) \<and>
     (\<forall>k\<in>set t. placed k)"

definition blobs_inv :: "blobentry_row list \<Rightarrow> blobmetadata_row list \<Rightarrow> bool" where
  "blobs_inv bs ms \<longleftrightarrow>
     distinct (map be_id bs) \<and>
     distinct (map (\<lambda>m. (bm_blobentryid m, bm_tag m)) ms) \<and>
     (\<forall>m\<in>set ms. \<exists>b\<in>set bs. be_id b = bm_blobentryid m \<and> be_subcomponent_type b = KEY_BLOB)"

definition refs_inv ::
    "int set \<Rightarrow> keyparameter_row list \<Rightarrow> keymetadata_row list \<Rightarrow> grant_row list \<Rightarrow> bool" where
  "refs_inv ids ps ms gs \<longleftrightarrow>
     kr_keyentryid ` set ps \<subseteq> ids \<and> kmd_keyentryid ` set ms \<subseteq> ids \<and> gr_keyentryid ` set gs \<subseteq> ids \<and>
     distinct (map (\<lambda>m. (kmd_keyentryid m, kmd_tag m)) ms) \<and>
     distinct (map gr_id gs) \<and> distinct (map (\<lambda>g. (gr_keyentryid g, gr_grantee g)) gs)"

definition key_ids :: "keystore_db \<Rightarrow> int set" where
  "key_ids db = ke_id ` set (db_keyentry db)"

definition db_inv :: "keystore_db \<Rightarrow> bool" where
  "db_inv db \<longleftrightarrow>
     keys_inv (db_keyentry db) \<and> blobs_inv (db_blobentry db) (db_blobmetadata db) \<and>
     refs_inv (key_ids db) (db_keyparameter db) (db_keymetadata db) (db_grant db)"

named_theorems inv_intros \<open>preservation of the database invariant\<close>

lemma db_inv_init: "db_inv (init_tables gc)"
  by (simp add: db_inv_def keys_inv_def blobs_inv_def refs_inv_def init_tables_def key_ids_def)

lemma db_inv_locks [simp]: "db_inv (db\<lparr>db_locked_keys := L\<rparr>) = db_inv db"
  by (simp add: db_inv_def key_ids_def)

lemma db_inv_gc [simp]: "db_inv (db\<lparr>db_gc := g\<rparr>) = db_inv db"
  by (simp add: db_inv_def key_ids_def)

lemma db_inv_notify [simp]: "db_inv (notify_gc db) = db_inv db"
  by (simp add: notify_gc_def)

lemma db_inv_drop [simp]: "db_inv (KeyIdGuard_drop k db) = db_inv db"
  by (simp add: KeyIdGuard_drop_def)

lemma KeyIdLockDb_get_ok:
  "KeyIdLockDb_get k db = Inr (g, db') \<longleftrightarrow>
     k \<notin> db_locked_keys db \<and> g = k \<and> db' = db\<lparr>db_locked_keys := insert k (db_locked_keys db)\<rparr>"
  by (auto simp: KeyIdLockDb_get_def)

section \<open>Transactions\<close>

text \<open>
  What holds of a property of the tables across transactions, for any such property: a
  transaction keeps it when its body does.
\<close>

locale table_property =
  fixes I :: "keystore_db \<Rightarrow> bool"
  assumes I_gc: "I (db\<lparr>db_gc := g\<rparr>) = I db"
    and I_locks: "I (db\<lparr>db_locked_keys := L\<rparr>) = I db"
begin

lemma keeps_transaction:
  assumes "I db" and "\<And>v tx. f db = Inr (v, tx) \<Longrightarrow> I tx"
  shows "I (snd (with_transaction f db))"
  using assms by (auto simp: with_transaction_def notify_gc_def I_gc split: sum.splits)

lemma keeps_lock:
  "I db \<Longrightarrow> KeyIdLockDb_get k db = Inr (g, db') \<Longrightarrow> I db'"
  by (auto simp: KeyIdLockDb_get_ok I_locks)

lemma keeps_drop: "I (KeyIdGuard_drop k db) = I db"
  by (simp add: KeyIdGuard_drop_def I_locks)

end

interpretation inv: table_property db_inv
  by unfold_locales simp_all

section \<open>Random ids\<close>

text \<open>
  The contract between \<open>insert_with_retry\<close> and a table with a UNIQUE id column: inserting
  a row fails exactly when the id is taken, and adds the id otherwise.
\<close>

locale unique_id_table =
  fixes ids :: "keystore_db \<Rightarrow> int set"
    and ins :: "(int \<Rightarrow> 'r) \<Rightarrow> int \<Rightarrow> keystore_db \<Rightarrow> keystore_db option"
  assumes ins_None: "ins row i db = None \<longleftrightarrow> i \<in> ids db"
    and ins_ids: "ins row i db = Some db' \<Longrightarrow> ids db' = insert i (ids db)"
begin

lemma retry_fresh:
  assumes "insert_with_retry rnd (\<lambda>i. ins row i db) = Inr (i, db')"
  shows "i \<in> set rnd \<and> i \<noteq> UNASSIGNED_KEY_ID \<and> i \<notin> ids db \<and> ins row i db = Some db'"
  using assms
proof (induction rnd)
  case (Cons r rnd)
  then show ?case using ins_None [of row r db] by (auto split: if_splits option.splits)
qed simp

lemma retry_returns:
  assumes "i \<in> set rnd" and "i \<noteq> UNASSIGNED_KEY_ID" and "i \<notin> ids db"
  shows "\<exists>j db'. insert_with_retry rnd (\<lambda>i. ins row i db) = Inr (j, db')"
  using assms
proof (induction rnd)
  case (Cons r rnd)
  then show ?case using ins_None [of row r db] by (cases "ins row r db") auto
qed simp

lemma retry_error: "insert_with_retry rnd (\<lambda>i. ins row i db) = Inl e \<Longrightarrow> e = Blocked"
  by (induction rnd) (auto split: if_splits option.splits)

end

interpretation keyentry_ids: unique_id_table key_ids "\<lambda>row i. insert_keyentry ((row i)\<lparr>ke_id := i\<rparr>)"
  by unfold_locales (auto simp: insert_keyentry_def key_ids_def split: if_splits)

definition grant_ids :: "keystore_db \<Rightarrow> int set" where
  "grant_ids db = gr_id ` set (db_grant db)"

interpretation grant_table_ids: unique_id_table grant_ids "\<lambda>row i. insert_grant ((row i)\<lparr>gr_id := i\<rparr>)"
  by unfold_locales (auto simp: insert_grant_def grant_ids_def split: if_splits)

lemma new_keyentry:
  assumes "insert_with_retry rnd (\<lambda>i. insert_keyentry
       \<lparr>ke_id = i, ke_key_type = ty, ke_domain = d, ke_namespace = n, ke_alias = a, ke_state = s,
        ke_km_uuid = u\<rparr> db) = Inr (i, db')"
  shows "i \<in> set rnd" and "i \<noteq> UNASSIGNED_KEY_ID" and "i \<notin> key_ids db"
    and "db' = db\<lparr>db_keyentry := db_keyentry db @
      [\<lparr>ke_id = i, ke_key_type = ty, ke_domain = d, ke_namespace = n, ke_alias = a, ke_state = s,
        ke_km_uuid = u\<rparr>]\<rparr>"
  using keyentry_ids.retry_fresh [of rnd "\<lambda>i. \<lparr>ke_id = i, ke_key_type = ty, ke_domain = d,
      ke_namespace = n, ke_alias = a, ke_state = s, ke_km_uuid = u\<rparr>" db i db'] assms
  by (auto simp: insert_keyentry_def split: if_splits)

lemma new_grant:
  assumes "insert_with_retry rnd (\<lambda>i. insert_grant
       \<lparr>gr_id = i, gr_grantee = u, gr_keyentryid = k, gr_access_vector = v\<rparr> db) = Inr (i, db')"
  shows "i \<in> set rnd" and "i \<noteq> UNASSIGNED_KEY_ID" and "i \<notin> grant_ids db"
    and "db' = db\<lparr>db_grant := db_grant db @
      [\<lparr>gr_id = i, gr_grantee = u, gr_keyentryid = k, gr_access_vector = v\<rparr>]\<rparr>"
  using grant_table_ids.retry_fresh [of rnd "\<lambda>i. \<lparr>gr_id = i, gr_grantee = u, gr_keyentryid = k,
      gr_access_vector = v\<rparr>" db i db'] assms
  by (auto simp: insert_grant_def split: if_splits)

section \<open>Key entries\<close>

lemma same_client_name_sym: "same_client_name j k \<Longrightarrow> same_client_name k j"
  by (auto simp: same_client_name_def)

lemma keys_inv_insert:
  assumes "keys_inv t" and "ke_id k \<notin> ke_id ` set t" and "ke_id k \<noteq> UNASSIGNED_KEY_ID"
    and "ke_key_type k = Client \<Longrightarrow> ke_alias k = None \<and> ke_state k \<noteq> Live"
  shows "keys_inv (t @ [k])"
proof -
  have no: "\<not> same_client_name j k" "\<not> same_client_name k j" for j
    using assms(4) by (auto simp: same_client_name_def)
  have "placed k" using assms(4) by (auto simp: placed_def)
  with assms(1-3) show ?thesis by (auto simp: keys_inv_def no)
qed

lemma keys_inv_delete: "keys_inv t \<Longrightarrow> keys_inv (delete_where p t)"
  by (auto simp: keys_inv_def distinct_map_delete_where)

lemma keys_inv_update:
  assumes "keys_inv t" and same: "\<And>k. ke_id (f k) = ke_id k"
    and names: "\<And>j k. j \<in> set t \<Longrightarrow> k \<in> set t \<Longrightarrow> p j \<Longrightarrow>
        same_client_name (f j) (if p k then f k else k) \<Longrightarrow> ke_id j = ke_id k"
    and live: "\<And>k. k \<in> set t \<Longrightarrow> p k \<Longrightarrow> placed (f k)"
  shows "keys_inv (update_where p f t)"
proof -
  let ?g = "\<lambda>k. if p k then f k else k"
  have g: "update_where p f t = map ?g t" by (simp add: update_where_def)
  have ids: "map ke_id (map ?g t) = map ke_id t" using same by simp
  have un: "ke_id j = ke_id k"
    if "j \<in> set t" "k \<in> set t" "same_client_name (?g j) (?g k)" for j k
  proof (cases "p j")
    case True
    with that(3) have "same_client_name (f j) (?g k)" by simp
    then show ?thesis by (rule names [OF that(1,2) True])
  next
    case nj: False
    show ?thesis
    proof (cases "p k")
      case True
      with same_client_name_sym [OF that(3)] have "same_client_name (f k) (?g j)" by simp
      then show ?thesis by (rule names [OF that(2,1) True, symmetric])
    next
      case False
      with nj that assms(1) show ?thesis by (simp add: keys_inv_def)
    qed
  qed
  show ?thesis
    unfolding g keys_inv_def
  proof (intro conjI)
    show "distinct (map ke_id (map ?g t))" using assms(1) by (simp only: ids) (simp add: keys_inv_def)
    show "UNASSIGNED_KEY_ID \<notin> ke_id ` set (map ?g t)"
      using assms(1) ids by (metis keys_inv_def list.set_map)
    show "\<forall>j\<in>set (map ?g t). \<forall>k\<in>set (map ?g t). same_client_name j k \<longrightarrow> ke_id j = ke_id k"
      using un by (simp only: set_map ball_simps) (simp add: same)
    show "\<forall>k\<in>set (map ?g t). placed k"
      using assms(1) live by (simp only: set_map ball_simps) (simp add: keys_inv_def)
  qed
qed

lemma keys_inv_unique:
  assumes "keys_inv t" and "k \<in> set t"
  shows "filter (\<lambda>x. ke_id x = ke_id k) t = [k]"
  using assms filter_unique_key [of ke_id t k] by (simp add: keys_inv_def)

lemma key_ids_update:
  "(\<And>k. ke_id (f k) = ke_id k) \<Longrightarrow> ke_id ` set (update_where p f t) = ke_id ` set t"
  using map_update_where [of t p ke_id f] by (metis list.set_map)

section \<open>Blobs\<close>

lemma next_blob_id_fresh: "next_blob_id t \<notin> be_id ` set t"
proof
  assume "next_blob_id t \<in> be_id ` set t"
  then have "t \<noteq> []" and "next_blob_id t \<le> Max (be_id ` set t)" by auto
  then show False by (simp add: next_blob_id_def)
qed

lemma Max_next_blob_id:
  assumes "be_id b = next_blob_id t"
  shows "Max (be_id ` set (t @ [b])) = next_blob_id t"
proof (cases "t = []")
  case False
  then show ?thesis
    using assms by (simp add: next_blob_id_def max_def Max_insert)
qed (use assms in simp)

lemma distinct_replace_blobmetadata:
  assumes "distinct (map (\<lambda>m. (bm_blobentryid m, bm_tag m)) t)"
  shows "distinct (map (\<lambda>m. (bm_blobentryid m, bm_tag m)) (replace_blobmetadata r t))"
  using distinct_map_delete_where [OF assms] by (auto simp: replace_blobmetadata_def)

lemma distinct_replace_keymetadata:
  assumes "distinct (map (\<lambda>m. (kmd_keyentryid m, kmd_tag m)) t)"
  shows "distinct (map (\<lambda>m. (kmd_keyentryid m, kmd_tag m)) (replace_keymetadata r t))"
  using distinct_map_delete_where [OF assms] by (auto simp: replace_keymetadata_def)

lemma blobs_inv_store:
  assumes "blobs_inv bs ms" and "b \<in> set bs" and "be_id b = i" and "be_subcomponent_type b = KEY_BLOB"
  shows "blobs_inv bs (fold (\<lambda>(tag, entry). replace_blobmetadata
           \<lparr>bm_blobentryid = i, bm_tag = tag, bm_data = BlobMetaEntry_to_sql entry\<rparr>) m ms)"
  using assms(1)
proof (induction m arbitrary: ms)
  case (Cons e m)
  obtain tag entry where e: "e = (tag, entry)" by force
  have "blobs_inv bs (replace_blobmetadata
      \<lparr>bm_blobentryid = i, bm_tag = tag, bm_data = BlobMetaEntry_to_sql entry\<rparr> ms)"
    using Cons.prems assms(2-4) distinct_replace_blobmetadata
    by (auto simp: blobs_inv_def) (auto simp: replace_blobmetadata_def)
  then show ?case by (simp add: e Cons.IH)
qed simp

lemma blobs_inv_insert:
  "blobs_inv bs ms \<Longrightarrow> be_id b \<notin> be_id ` set bs \<Longrightarrow> blobs_inv (bs @ [b]) ms"
  by (auto simp: blobs_inv_def)

lemma blobs_inv_delete_other:
  assumes "blobs_inv bs ms" and "\<And>b. p b \<Longrightarrow> be_subcomponent_type b \<noteq> KEY_BLOB"
  shows "blobs_inv (delete_where p bs) ms"
  using assms unfolding blobs_inv_def by (fastforce simp: distinct_map_delete_where)

lemma set_blob_internal_inv [inv_intros]:
  assumes "db_inv db" and "set_blob_internal key_id sc blob meta db = Inr (u, db')"
    and "meta \<noteq> None \<Longrightarrow> sc = KEY_BLOB"
  shows "db_inv db'"
proof (cases blob)
  case None
  then show ?thesis
    using assms
    by (auto simp: set_blob_internal_def db_inv_def key_ids_def split: if_splits
        intro!: blobs_inv_delete_other)
next
  case (Some b)
  let ?row = "\<lparr>be_id = next_blob_id (db_blobentry db), be_subcomponent_type = sc,
      be_keyentryid = key_id, be_blob = b\<rparr>"
  have ins: "blobs_inv (db_blobentry db @ [?row]) (db_blobmetadata db)"
    using assms(1) next_blob_id_fresh by (intro blobs_inv_insert) (auto simp: db_inv_def)
  show ?thesis
  proof (cases meta)
    case None
    with Some ins assms show ?thesis by (auto simp: set_blob_internal_def db_inv_def key_ids_def Let_def)
  next
    case m: (Some m)
    with assms(3) have sc: "sc = KEY_BLOB" by simp
    from Some m assms(2) have db': "db' = BlobMetaData_store_in_db m (next_blob_id (db_blobentry db))
        (db\<lparr>db_blobentry := db_blobentry db @ [?row]\<rparr>)"
      using Max_next_blob_id [of ?row "db_blobentry db"] by (auto simp: set_blob_internal_def Let_def)
    show ?thesis
      unfolding db' BlobMetaData_store_in_db_def db_inv_def key_ids_def
      using assms(1) blobs_inv_store [OF ins, of ?row]
      by (simp add: db_inv_def key_ids_def sc)
  qed
qed

lemma opt_set_blob_inv [inv_intros]:
  "db_inv db \<Longrightarrow> opt_set_blob key_id sc blob db = Inr (u, db') \<Longrightarrow> db_inv db'"
  by (auto simp: opt_set_blob_def split: option.splits elim: set_blob_internal_inv)

lemma set_blob_internal_keys:
  "set_blob_internal key_id sc blob meta db = Inr (u, db') \<Longrightarrow> db_keyentry db' = db_keyentry db"
  by (auto simp: set_blob_internal_def BlobMetaData_store_in_db_def Let_def split: option.splits if_splits)

lemma opt_set_blob_keys:
  "opt_set_blob key_id sc blob db = Inr (u, db') \<Longrightarrow> db_keyentry db' = db_keyentry db"
  by (auto simp: opt_set_blob_def split: option.splits dest: set_blob_internal_keys)

section \<open>References\<close>

lemma refs_inv_mono:
  "refs_inv ids ps ms gs \<Longrightarrow> ids \<subseteq> ids' \<Longrightarrow> refs_inv ids' ps ms gs"
  by (auto simp: refs_inv_def)

lemma refs_inv_delete:
  assumes "refs_inv ids ps ms gs"
    and "\<And>i. i \<in> ids \<Longrightarrow> i \<notin> ids' \<Longrightarrow> i \<in> gone"
    and "\<And>r. kr_keyentryid r \<in> gone \<Longrightarrow> pp r" "\<And>r. kmd_keyentryid r \<in> gone \<Longrightarrow> pm r"
      "\<And>g. gr_keyentryid g \<in> gone \<Longrightarrow> pg g"
  shows "refs_inv ids' (delete_where pp ps) (delete_where pm ms) (delete_where pg gs)"
proof -
  have "i \<in> ids'" if "i \<in> ids" "i \<notin> gone" for i using assms(2) that by blast
  moreover have "kr_keyentryid r \<notin> gone" if "\<not> pp r" for r using assms(3) that by blast
  moreover have "kmd_keyentryid r \<notin> gone" if "\<not> pm r" for r using assms(4) that by blast
  moreover have "gr_keyentryid g \<notin> gone" if "\<not> pg g" for g using assms(5) that by blast
  ultimately show ?thesis
    using assms(1) by (simp add: refs_inv_def distinct_map_delete_where image_subset_iff)
qed

lemma store_key_metadata_inv [inv_intros]:
  assumes "db_inv db" and "key_id \<in> key_ids db"
  shows "db_inv (KeyMetaData_store_in_db m key_id db)"
proof -
  have "refs_inv ids ps (fold (\<lambda>(tag, entry). replace_keymetadata
           \<lparr>kmd_keyentryid = key_id, kmd_tag = tag, kmd_data = KeyMetaEntry_to_sql entry\<rparr>) m ms) gs"
    if "refs_inv ids ps ms gs" "key_id \<in> ids" for ids ps ms gs
    using that
  proof (induction m arbitrary: ms)
    case (Cons e m)
    obtain tag entry where e: "e = (tag, entry)" by force
    have "refs_inv ids ps (replace_keymetadata
        \<lparr>kmd_keyentryid = key_id, kmd_tag = tag, kmd_data = KeyMetaEntry_to_sql entry\<rparr> ms) gs"
      using Cons.prems distinct_replace_keymetadata
      by (auto simp: refs_inv_def) (auto simp: replace_keymetadata_def)
    then show ?case using Cons.prems(2) by (simp add: e Cons.IH)
  qed simp
  with assms show ?thesis by (simp add: KeyMetaData_store_in_db_def db_inv_def key_ids_def)
qed

lemma insert_keyparameter_inv [inv_intros]:
  "db_inv db \<Longrightarrow> key_id \<in> key_ids db \<Longrightarrow> db_inv (insert_keyparameter_internal key_id params db)"
  by (auto simp: insert_keyparameter_internal_def db_inv_def refs_inv_def key_ids_def)

lemma insert_keyentry_inv [inv_intros]:
  assumes "db_inv db" and "ke_id k \<notin> key_ids db" and "ke_id k \<noteq> UNASSIGNED_KEY_ID"
    and "ke_key_type k = Client \<Longrightarrow> ke_alias k = None \<and> ke_state k \<noteq> Live"
  shows "db_inv (db\<lparr>db_keyentry := db_keyentry db @ [k]\<rparr>)"
  using assms keys_inv_insert [of "db_keyentry db" k]
  by (auto simp: db_inv_def key_ids_def intro: refs_inv_mono)

lemma mark_unreferenced_inv [inv_intros]:
  "db_inv db \<Longrightarrow> db_inv (snd (mark_unreferenced key_id db))"
  unfolding db_inv_def key_ids_def mark_unreferenced_def Let_def
  by (auto intro!: keys_inv_delete refs_inv_delete [where gone = "{key_id}"])

lemma delete_keys_where_inv [inv_intros]:
  "db_inv db \<Longrightarrow> db_inv (delete_keys_where p db)"
  unfolding db_inv_def key_ids_def delete_keys_where_def Let_def
  by (auto intro!: keys_inv_delete refs_inv_delete [where gone = "ke_id ` {k \<in> set (db_keyentry db). p k}"])

lemma update_keyentry_inv [inv_intros]:
  assumes "db_inv db" and "\<And>k. ke_id (f k) = ke_id k" and "keys_inv (update_where p f (db_keyentry db))"
  shows "db_inv (db\<lparr>db_keyentry := update_where p f (db_keyentry db)\<rparr>)"
  using assms(1,3) by (simp add: db_inv_def key_ids_def key_ids_update [OF assms(2)] del: set_update_where)

text \<open>Changing the state of keys to Unreferenced.\<close>

lemma unreference_inv [inv_intros]:
  assumes "db_inv db"
  shows "db_inv (db\<lparr>db_keyentry := update_where p (\<lambda>k. k\<lparr>ke_state := Unreferenced\<rparr>) (db_keyentry db)\<rparr>)"
proof (rule update_keyentry_inv [OF assms])
  from assms have inv: "keys_inv (db_keyentry db)" by (simp add: db_inv_def)
  show "keys_inv (update_where p (\<lambda>k. k\<lparr>ke_state := Unreferenced\<rparr>) (db_keyentry db))"
    using inv by (intro keys_inv_update)
      (auto simp: keys_inv_def same_client_name_def placed_def split: if_splits)
qed simp

lemma grant_update_inv:
  "refs_inv ids ps ms gs \<Longrightarrow> refs_inv ids ps ms (update_where p (\<lambda>h. h\<lparr>gr_access_vector := v\<rparr>) gs)"
  unfolding refs_inv_def
  by (auto simp: map_update_where)

section \<open>Operations\<close>

lemma create_key_entry_internal_ok:
  assumes "create_key_entry_internal rnd d n ty u db = Inr (i, db')"
  shows "is_app_or_selinux d" and "i \<in> set rnd" and "i \<noteq> UNASSIGNED_KEY_ID" and "i \<notin> key_ids db"
    and "i \<notin> db_locked_keys db"
    and "db' = db\<lparr>db_keyentry := db_keyentry db @
      [\<lparr>ke_id = i, ke_key_type = ty, ke_domain = Some d, ke_namespace = Some n, ke_alias = None,
        ke_state = Existing, ke_km_uuid = u\<rparr>], db_locked_keys := insert i (db_locked_keys db)\<rparr>"
  using assms
  by (auto simp: create_key_entry_internal_def res_iffs KeyIdLockDb_get_ok
      dest: new_keyentry split: if_splits)

lemma create_key_entry_internal_inv:
  assumes "db_inv db" and "create_key_entry_internal rnd d n ty u db = Inr (i, db')"
  shows "db_inv db'" and "i \<in> key_ids db'"
proof -
  note * = create_key_entry_internal_ok [OF assms(2)]
  let ?k = "\<lparr>ke_id = i, ke_key_type = ty, ke_domain = Some d, ke_namespace = Some n, ke_alias = None,
        ke_state = Existing, ke_km_uuid = u\<rparr>"
  have "db_inv (db\<lparr>db_keyentry := db_keyentry db @ [?k]\<rparr>)"
    using assms(1) * by (intro insert_keyentry_inv) auto
  then have "db_inv ((db\<lparr>db_keyentry := db_keyentry db @ [?k]\<rparr>)
      \<lparr>db_locked_keys := insert i (db_locked_keys db)\<rparr>)" by simp
  then show "db_inv db'" unfolding *(6) by simp
  show "i \<in> key_ids db'" unfolding *(6) by (simp add: key_ids_def)
qed

lemma rebind_alias_inv:
  assumes "db_inv db" and "rebind_alias newid a d n ty db = Inr (b, db')"
  shows "db_inv db'"
proof -
  let ?old = "\<lambda>k. ke_alias k = Some a \<and> ke_domain k = Some d \<and> ke_namespace k = Some n \<and> ke_key_type k = ty"
  let ?unname = "\<lambda>k. k\<lparr>ke_alias := None, ke_domain := None, ke_namespace := None, ke_state := Unreferenced\<rparr>"
  let ?t1 = "update_where ?old ?unname (db_keyentry db)"
  let ?new = "\<lambda>k. ke_id k = newid \<and> ke_domain k = Some d \<and> ke_namespace k = Some n \<and>
      ke_state k = Existing \<and> ke_key_type k = ty"
  let ?bind = "\<lambda>k. k\<lparr>ke_alias := Some a, ke_state := Live\<rparr>"
  from assms(2) have d: "d = APP \<or> d = SELINUX"
    and db': "db' = db\<lparr>db_keyentry := update_where ?new ?bind ?t1\<rparr>"
    by (auto simp: rebind_alias_def is_app_or_selinux_def Let_def split: if_splits)
  from assms(1) have inv: "keys_inv (db_keyentry db)" by (simp add: db_inv_def)
  have inv1: "keys_inv ?t1"
    using inv by (intro keys_inv_update) (auto simp: same_client_name_def placed_def)
  have unnamed: "\<not> ?old k" if "k \<in> set ?t1" for k
    using that unfolding set_update_where by (elim UnE imageE) simp_all
  have "keys_inv (update_where ?new ?bind ?t1)"
  proof (rule keys_inv_update [OF inv1])
    fix j k assume k: "k \<in> set ?t1" and j: "?new j"
      and same: "same_client_name (?bind j) (if ?new k then ?bind k else k)"
    show "ke_id j = ke_id k"
    proof (cases "?new k")
      case True
      with j show ?thesis by simp
    next
      case False
      with same j have "?old k" by (auto simp: same_client_name_def)
      with unnamed [OF k] show ?thesis by blast
    qed
  qed (use d in \<open>auto simp: placed_def simp del: set_update_where\<close>)
  then have "db_inv ((db\<lparr>db_keyentry := ?t1\<rparr>)\<lparr>db_keyentry := update_where ?new ?bind (db_keyentry (db\<lparr>db_keyentry := ?t1\<rparr>))\<rparr>)"
    using assms(1) inv1 by (intro update_keyentry_inv) auto
  then show ?thesis unfolding db' by simp
qed

lemma create_key_entry_inv [inv_intros]:
  "db_inv db \<Longrightarrow> db_inv (snd (create_key_entry rnd d n ty u db))"
  unfolding create_key_entry_def
  by (rule inv.keeps_transaction) (auto simp: res_iffs dest: create_key_entry_internal_inv)

lemma key_ids_preserved [simp]:
  "key_ids (insert_keyparameter_internal i ps db) = key_ids db"
  "key_ids (KeyMetaData_store_in_db m i db) = key_ids db"
  "key_ids (KeyIdGuard_drop i db) = key_ids db"
  by (simp_all add: key_ids_def insert_keyparameter_internal_def KeyMetaData_store_in_db_def
      KeyIdGuard_drop_def)

lemma set_blob_internal_key_ids:
  "set_blob_internal i sc blob meta db = Inr (u, db') \<Longrightarrow> key_ids db' = key_ids db"
  by (simp add: key_ids_def set_blob_internal_keys)

lemma opt_set_blob_key_ids:
  "opt_set_blob i sc blob db = Inr (u, db') \<Longrightarrow> key_ids db' = key_ids db"
  by (simp add: key_ids_def opt_set_blob_keys)

lemma store_new_key_tx_ok:
  assumes "store_new_key_tx rnd a d n ty params blob_info cert_info metadata u db = Inr (v, tx)"
  obtains i tx1 tx2 tx3 tx4 b where "v = (b, i)"
    and "create_key_entry_internal rnd d n ty u db = Inr (i, tx1)"
    and "set_blob_internal i KEY_BLOB (Some (fst blob_info)) (Some (snd blob_info)) tx1 = Inr ((), tx2)"
    and "opt_set_blob i CERT (ci_cert cert_info) tx2 = Inr ((), tx3)"
    and "opt_set_blob i CERT_CHAIN (ci_cert_chain cert_info) tx3 = Inr ((), tx4)"
    and "rebind_alias i a d n ty
          (KeyMetaData_store_in_db metadata i (insert_keyparameter_internal i params tx4)) = Inr (b, tx)"
  using assms unfolding store_new_key_tx_def
  by (auto simp: res_iffs Let_def)

lemma store_new_key_tx_inv:
  assumes "db_inv db"
    and "store_new_key_tx rnd a d n ty params blob_info cert_info metadata u db = Inr (v, tx)"
  shows "db_inv tx"
  using assms(2)
proof (rule store_new_key_tx_ok)
  fix i tx1 tx2 tx3 tx4 b
  assume 1: "create_key_entry_internal rnd d n ty u db = Inr (i, tx1)"
    and 2: "set_blob_internal i KEY_BLOB (Some (fst blob_info)) (Some (snd blob_info)) tx1 = Inr ((), tx2)"
    and 3: "opt_set_blob i CERT (ci_cert cert_info) tx2 = Inr ((), tx3)"
    and 4: "opt_set_blob i CERT_CHAIN (ci_cert_chain cert_info) tx3 = Inr ((), tx4)"
    and 5: "rebind_alias i a d n ty
          (KeyMetaData_store_in_db metadata i (insert_keyparameter_internal i params tx4)) = Inr (b, tx)"
  note inv1 = create_key_entry_internal_inv [OF assms(1) 1]
  have ids: "i \<in> key_ids tx4"
    using set_blob_internal_key_ids [OF 2] opt_set_blob_key_ids [OF 3] opt_set_blob_key_ids [OF 4] inv1(2)
    by simp
  have "db_inv tx4"
    by (rule opt_set_blob_inv [OF opt_set_blob_inv [OF set_blob_internal_inv [OF inv1(1) 2] 3] 4]) simp
  then have "db_inv (KeyMetaData_store_in_db metadata i (insert_keyparameter_internal i params tx4))"
    using ids by (intro store_key_metadata_inv insert_keyparameter_inv) simp_all
  then show "db_inv tx" using 5 by (rule rebind_alias_inv)
qed

lemma store_new_key_inv [inv_intros]:
  "db_inv db \<Longrightarrow> db_inv (snd (store_new_key rnd key ty params blob_info cert_info metadata u db))"
  unfolding store_new_key_def
  by (auto split: option.splits intro!: inv.keeps_transaction elim: store_new_key_tx_inv)

lemma store_new_certificate_tx_inv:
  assumes "db_inv db"
    and "store_new_certificate_tx rnd now a d n ty cert u db = Inr (v, tx)"
  shows "db_inv tx"
proof -
  from assms(2) obtain i tx1 tx2 m b where
    1: "create_key_entry_internal rnd d n ty u db = Inr (i, tx1)" and
    2: "set_blob_internal i CERT_CHAIN (Some cert) None tx1 = Inr ((), tx2)" and
    5: "rebind_alias i a d n ty (KeyMetaData_store_in_db m i tx2) = Inr (b, tx)"
    unfolding store_new_certificate_tx_def by (auto simp: res_iffs Let_def)
  note inv1 = create_key_entry_internal_inv [OF assms(1) 1]
  have "db_inv tx2" by (rule set_blob_internal_inv [OF inv1(1) 2]) simp
  then have "db_inv (KeyMetaData_store_in_db m i tx2)"
    using inv1(2) set_blob_internal_key_ids [OF 2] by (intro store_key_metadata_inv) simp_all
  then show "db_inv tx" using 5 by (rule rebind_alias_inv)
qed

lemma store_new_certificate_inv [inv_intros]:
  "db_inv db \<Longrightarrow> db_inv (snd (store_new_certificate rnd now key ty cert u db))"
  unfolding store_new_certificate_def
  by (auto split: option.splits intro!: inv.keeps_transaction elim: store_new_certificate_tx_inv)

lemma migrate_key_namespace_tx_inv:
  assumes "db_inv tx" and "is_app_or_selinux d" and "migrate_key_namespace_tx g a d n tx = Inr (v, tx')"
  shows "db_inv tx'"
proof -
  let ?move = "\<lambda>k. k\<lparr>ke_alias := Some a, ke_domain := Some d, ke_namespace := Some n\<rparr>"
  from assms(3) have free: "\<not> (ke_alias k = Some a \<and> ke_domain k = Some d \<and> ke_namespace k = Some n)"
    if "k \<in> set (db_keyentry tx)" for k
    using that by (auto simp: migrate_key_namespace_tx_def query_row_optional_def filter_empty_conv
        split: if_splits list.splits)
  from assms(1) have inv: "keys_inv (db_keyentry tx)" by (simp add: db_inv_def)
  have "keys_inv (update_where (\<lambda>k. ke_id k = g) ?move (db_keyentry tx))"
  proof (rule keys_inv_update [OF inv])
    fix j k
    assume k: "k \<in> set (db_keyentry tx)" and "ke_id j = g"
      and "same_client_name (?move j) (if ke_id k = g then ?move k else k)"
    then show "ke_id j = ke_id k"
      using free [OF k] by (auto simp: same_client_name_def split: if_splits)
  qed (use assms(2) in \<open>auto simp: placed_def is_app_or_selinux_def\<close>)
  with assms(1) have "db_inv (tx\<lparr>db_keyentry := update_where (\<lambda>k. ke_id k = g) ?move (db_keyentry tx)\<rparr>)"
    by (intro update_keyentry_inv) simp_all
  moreover have "tx' = tx\<lparr>db_keyentry := update_where (\<lambda>k. ke_id k = g) ?move (db_keyentry tx)\<rparr>"
    using assms(3) by (auto simp: migrate_key_namespace_tx_def split: if_splits)
  ultimately show ?thesis by simp
qed

lemma migrate_key_namespace_inv [inv_intros]:
  assumes "db_inv db"
  shows "db_inv (snd (migrate_key_namespace g dest uid check db))"
proof -
  have tx: "db_inv (snd (with_transaction (migrate_key_namespace_tx g a d n) db))"
    if "is_app_or_selinux d" for a d n
    using that assms by (intro inv.keeps_transaction) (auto elim: migrate_key_namespace_tx_inv)
  show ?thesis
    using assms tx by (auto simp: migrate_key_namespace_def Let_def case_prod_beta split: sum.splits)
qed

lemma with_rows_extract_one_simps [simp]:
  "with_rows_extract_one [] f = f None"
  "with_rows_extract_one [r] f = f (Some r)"
  "with_rows_extract_one (r # r' # rs) f = Inl sys"
  by (simp_all add: with_rows_extract_one_def)

lemma extract_one_found:
  assumes "with_rows_extract_one (filter p t) f = Inr v" and "f None = Inl e"
  shows "\<exists>r\<in>set t. p r \<and> f (Some r) = Inr v"
proof (cases "filter p t")
  case (Cons r rs)
  with assms have "f (Some r) = Inr v" by (cases rs) simp_all
  moreover from Cons have "r \<in> set (filter p t)" by simp
  ultimately show ?thesis by auto
qed (use assms in simp)

lemma key_state_live:
  "key_state j db = Some s \<Longrightarrow> \<exists>k\<in>set (db_keyentry db). ke_id k = j \<and> ke_state k = s"
  by (auto simp: key_state_def query_row_optional_def filter_eq_Cons_iff split: list.splits)

lemma load_key_entry_id_ok:
  "load_key_entry_id key ty db = Inr i \<Longrightarrow>
   \<exists>k\<in>set (db_keyentry db). ke_id k = i \<and> ke_key_type k = ty \<and> ke_domain k = Some (kd_domain key) \<and>
     ke_namespace k = Some (kd_nspace key) \<and> kd_alias key \<noteq> None \<and> ke_alias k = kd_alias key \<and> ke_state k = Live"
  by (auto simp: load_key_entry_id_def res_iffs dest!: extract_one_found)

lemma load_access_tuple_live:
  assumes "load_access_tuple key ty uid db = Inr (i, access_key, av)"
  shows "\<exists>k\<in>set (db_keyentry db). ke_id k = i \<and> ke_state k = Live"
proof -
  consider "is_app_or_selinux (kd_domain key)" | "kd_domain key = GRANT" | "kd_domain key = KEY_ID"
    using assms by (auto simp: load_access_tuple_def split: if_splits)
  then show ?thesis
  proof cases
    case 1
    with assms show ?thesis
      by (auto simp: load_access_tuple_def res_iffs Let_def dest!: load_key_entry_id_ok split: if_splits)
  next
    case 2
    with assms show ?thesis
      by (auto simp: load_access_tuple_def is_app_or_selinux_def res_iffs
          dest!: extract_one_found key_state_live)
  next
    case 3
    with assms show ?thesis
      by (auto simp: load_access_tuple_def is_app_or_selinux_def res_iffs dest!: extract_one_found)
  qed
qed

lemma unbind_key_inv [inv_intros]:
  "db_inv db \<Longrightarrow> db_inv (snd (unbind_key key ty uid check db))"
  unfolding unbind_key_def
  by (rule inv.keeps_transaction) (auto simp: res_iffs case_prod_beta intro: mark_unreferenced_inv)

lemma unbind_keys_for_namespace_inv [inv_intros]:
  "db_inv db \<Longrightarrow> db_inv (snd (unbind_keys_for_namespace d n db))"
  unfolding unbind_keys_for_namespace_def
  by (auto intro!: inv.keeps_transaction delete_keys_where_inv)

lemma unbind_user_keys_inv:
  "db_inv db \<Longrightarrow> unbind_user_keys keep ids notify db = Inr (v, db') \<Longrightarrow> db_inv db'"
proof (induction ids arbitrary: notify db)
  case (Cons i ids)
  then show ?case
    by (auto simp: res_iffs case_prod_beta split: if_splits intro: mark_unreferenced_inv)
qed simp

lemma unbind_keys_for_user_inv [inv_intros]:
  "db_inv db \<Longrightarrow> db_inv (snd (unbind_keys_for_user off sa user keep db))"
  unfolding unbind_keys_for_user_def
  by (rule inv.keeps_transaction) (auto elim: unbind_user_keys_inv)

lemma cleanup_leftovers_inv [inv_intros]:
  "db_inv db \<Longrightarrow> db_inv (snd (cleanup_leftovers db))"
  unfolding cleanup_leftovers_def
  by (rule inv.keeps_transaction) (auto intro: unreference_inv)

lemma from_0_to_1_inv [inv_intros]: "db_inv db \<Longrightarrow> db_inv (from_0_to_1 db)"
  unfolding from_0_to_1_def by (rule unreference_inv)

lemma set_blob_inv [inv_intros]:
  "db_inv db \<Longrightarrow> (meta \<noteq> None \<Longrightarrow> sc = KEY_BLOB) \<Longrightarrow> db_inv (snd (set_blob i sc blob meta db))"
  unfolding set_blob_def
  by (rule inv.keeps_transaction) (auto simp: res_iffs elim: set_blob_internal_inv)

lemma set_deleted_blob_inv [inv_intros]: "db_inv db \<Longrightarrow> db_inv (snd (set_deleted_blob blob meta db))"
  unfolding set_deleted_blob_def
  by (rule inv.keeps_transaction) (auto simp: res_iffs elim: set_blob_internal_inv)

lemma usage_count_inv [inv_intros]:
  assumes "db_inv db"
  shows "db_inv (snd (check_and_update_key_usage_count i db))"
proof -
  have "db_inv (db\<lparr>db_keyparameter := update_where p (\<lambda>r. r\<lparr>kr_data := f r\<rparr>) (db_keyparameter db)\<rparr>)" for p f
    using assms by (auto simp: db_inv_def refs_inv_def key_ids_def)
  then show ?thesis
    unfolding check_and_update_key_usage_count_def
    by (intro inv.keeps_transaction [OF assms])
      (auto simp: res_iffs Let_def case_prod_beta split: if_splits intro: mark_unreferenced_inv)
qed

lemma grant_inv [inv_intros]:
  assumes "db_inv db"
  shows "db_inv (snd (grant rnd key uid grantee av check db))"
  unfolding grant_def
proof (rule inv.keeps_transaction [OF assms], elim and_then_Inr_iff [THEN iffD1, elim_format] exE conjE)
  fix v tx t w x
  assume t: "load_access_tuple key Client uid db = Inr t"
    and x: "(case t of (key_id, access_key_descriptor, _) \<Rightarrow>
        and_then (check access_key_descriptor av) (\<lambda>_.
        and_then
         (case query_row_optional
                 (filter (\<lambda>g. gr_keyentryid g = key_id \<and> gr_grantee g = int grantee) (db_grant db)) of
            None \<Rightarrow> insert_with_retry rnd (\<lambda>id'. insert_grant
                \<lparr>gr_id = id', gr_grantee = int grantee, gr_keyentryid = key_id,
                 gr_access_vector = av\<rparr> db)
          | Some g \<Rightarrow>
              Inr (gr_id g, db\<lparr>db_grant := update_where (\<lambda>h. gr_id h = gr_id g)
                     (\<lambda>h. h\<lparr>gr_access_vector := av\<rparr>) (db_grant db)\<rparr>))
         (\<lambda>(grant_id, tx').
            Inr ((False, \<lparr>kd_domain = GRANT, kd_nspace = grant_id, kd_alias = None, kd_blob = None\<rparr>), tx')))) = Inr (v, tx)"
  obtain i ak av' where t': "t = (i, ak, av')" by (cases t)
  have known: "i \<in> key_ids db"
    using load_access_tuple_live [OF t [unfolded t']] by (auto simp: key_ids_def)
  show "db_inv tx"
  proof (cases "query_row_optional (filter (\<lambda>g. gr_keyentryid g = i \<and> gr_grantee g = int grantee) (db_grant db))")
    case None
    then have "\<forall>g\<in>set (db_grant db). \<not> (gr_keyentryid g = i \<and> gr_grantee g = int grantee)"
      by (auto simp: query_row_optional_def filter_empty_conv split: list.splits)
    moreover obtain j where "insert_with_retry rnd (\<lambda>id'. insert_grant
                \<lparr>gr_id = id', gr_grantee = int grantee, gr_keyentryid = i,
                 gr_access_vector = av\<rparr> db) = Inr (j, tx)"
      using x None by (auto simp: t' res_iffs)
    note new_grant(3,4) [OF this]
    ultimately show ?thesis
      using assms known by (auto simp: db_inv_def refs_inv_def key_ids_def grant_ids_def)
  next
    case (Some g)
    with x assms show ?thesis
      by (auto simp: t' res_iffs db_inv_def key_ids_def intro: grant_update_inv)
  qed
qed

lemma ungrant_inv [inv_intros]:
  assumes "db_inv db"
  shows "db_inv (snd (ungrant key uid grantee check db))"
proof -
  have "db_inv (db\<lparr>db_grant := delete_where p (db_grant db)\<rparr>)" for p
    using assms by (auto simp: db_inv_def refs_inv_def key_ids_def distinct_map_delete_where)
  then show ?thesis
    unfolding ungrant_def by (intro inv.keeps_transaction [OF assms]) (auto simp: res_iffs)
qed

lemma new_keyentry_inv:
  assumes "db_inv db"
    and "insert_with_retry rnd (\<lambda>i. insert_keyentry
       \<lparr>ke_id = i, ke_key_type = ty, ke_domain = d, ke_namespace = n, ke_alias = a, ke_state = s,
        ke_km_uuid = u\<rparr> db) = Inr (i, db')"
    and "ty \<noteq> Client"
  shows "db_inv db' \<and> i \<in> key_ids db'"
proof -
  note * = new_keyentry [OF assms(2)]
  have "db_inv db'" unfolding *(4) using assms(1,3) * by (intro insert_keyentry_inv) auto
  then show ?thesis unfolding *(4) by (simp add: key_ids_def)
qed

lemma store_super_key_inv [inv_intros]:
  assumes "db_inv db"
  shows "db_inv (snd (store_super_key rnd user sa blob bmeta kmeta db))"
  unfolding store_super_key_def
  by (rule inv.keeps_transaction [OF assms])
    (auto simp: res_iffs dest!: new_keyentry_inv [OF assms]
      intro: set_blob_internal_inv [OF store_key_metadata_inv])

lemma load_super_key_inv [inv_intros]: "db_inv db \<Longrightarrow> db_inv (snd (load_super_key sa user db))"
  unfolding load_super_key_def
  by (rule inv.keeps_transaction)
    (auto simp: res_iffs KeyIdLockDb_get_ok split: sum.splits if_splits)

lemma get_or_create_key_with_inv [inv_intros]:
  assumes "db_inv db"
  shows "db_inv (snd (get_or_create_key_with rnd d n a u new_key db))"
  unfolding get_or_create_key_with_def
proof (rule inv.keeps_transaction [OF assms], elim and_then_Inr_iff [THEN iffD1, elim_format] exE conjE)
  fix v tx found x
  assume "(case found of
        None \<Rightarrow> and_then (insert_with_retry rnd (\<lambda>id'. insert_keyentry
            \<lparr>ke_id = id', ke_key_type = Super, ke_domain = Some d, ke_namespace = Some n,
             ke_alias = Some a, ke_state = Live, ke_km_uuid = u\<rparr> db))
          (\<lambda>(key_id, tx). and_then new_key (\<lambda>(blob, metadata).
             and_then (set_blob_internal key_id KEY_BLOB (Some blob) (Some metadata) tx) (\<lambda>(_, tx).
               Inr (key_id, \<lparr>e_id = key_id, e_key_blob_info = Some (blob, metadata), e_cert = None,
                 e_cert_chain = None, e_km_uuid = Uuid_default, e_parameters = [],
                 e_metadata = [], e_pure_cert = False\<rparr>, tx))))
      | Some key_id \<Rightarrow> map_res (\<lambda>e. (key_id, e, db)) (load_key_components LB_KM key_id db)) = Inr x"
    and lock: "(case x of (key_id, entry, tx) \<Rightarrow>
          and_then (KeyIdLockDb_get key_id tx) (\<lambda>(g, tx). Inr ((False, g, entry), tx))) = Inr (v, tx)"
  then have "db_inv (snd (snd x))"
    using assms by (cases found) (auto simp: res_iffs dest!: new_keyentry_inv [OF assms]
        intro: set_blob_internal_inv)
  with lock show "db_inv tx" by (auto simp: res_iffs KeyIdLockDb_get_ok case_prod_beta)
qed

section \<open>Attestation keys\<close>

lemma create_attestation_key_entry_inv [inv_intros]:
  assumes "db_inv db"
  shows "db_inv (snd (create_attestation_key_entry rnd mpk rpk pk u db))"
proof -
  have "db_inv (KeyMetaData_store_in_db m i tx2)"
    if "insert_with_retry rnd (\<lambda>i. insert_keyentry
       \<lparr>ke_id = i, ke_key_type = Attestation, ke_domain = None, ke_namespace = None, ke_alias = None,
        ke_state = Live, ke_km_uuid = u\<rparr> db) = Inr (i, tx1)"
      "set_blob_internal i KEY_BLOB (Some pk) None (tx1\<lparr>db_locked_keys := L\<rparr>) = Inr (w, tx2)" for i tx1 tx2 L m w
  proof (rule store_key_metadata_inv)
    note * = new_keyentry_inv [OF assms that(1)]
    show "db_inv tx2" by (rule set_blob_internal_inv [OF _ that(2)]) (use * in simp_all)
    show "i \<in> key_ids tx2" using set_blob_internal_key_ids [OF that(2)] * by (simp add: key_ids_def)
  qed
  then show ?thesis
    unfolding create_attestation_key_entry_def
    by (intro inv.keeps_transaction [OF assms]) (auto simp: res_iffs KeyIdLockDb_get_ok Let_def)
qed

text \<open>Updates of attestation keys leave the client keys alone.\<close>

lemma update_attestation_inv:
  assumes "db_inv db" and "\<And>k. k \<in> set (db_keyentry db) \<Longrightarrow> p k \<Longrightarrow> ke_key_type k \<noteq> Client"
    and "\<And>k. ke_id (f k) = ke_id k" and "\<And>k. ke_key_type (f k) = ke_key_type k"
  shows "db_inv (db\<lparr>db_keyentry := update_where p f (db_keyentry db)\<rparr>)"
proof (rule update_keyentry_inv [OF assms(1,3)])
  from assms(1) have inv: "keys_inv (db_keyentry db)" by (simp add: db_inv_def)
  show "keys_inv (update_where p f (db_keyentry db))"
  proof (rule keys_inv_update [OF inv assms(3)])
    fix j k assume "j \<in> set (db_keyentry db)" "p j" "same_client_name (f j) (if p k then f k else k)"
    with assms(2) [of j] assms(4) [of j] show "ke_id j = ke_id k" by (simp add: same_client_name_def)
  next
    fix k assume "k \<in> set (db_keyentry db)" "p k"
    with assms(2) [of k] assms(4) [of k] show "placed (f k)" by (simp add: placed_def)
  qed
qed

lemma store_signed_chain_inv [inv_intros]:
  assumes inv: "db_inv db"
  shows "db_inv (snd (store_signed_attestation_certificate_chain rpk bc cc exp u db))"
proof -
  have step: "db_inv tx2" if
    "kmd_keyentryid r = i" "i \<in> ke_id ` {k \<in> set (db_keyentry db). unsigned_attestation_key u k}"
    "set_blob_internal i CERT_CHAIN (Some cc) None (KeyMetaData_store_in_db m i
        (db\<lparr>db_keyentry := update_where (\<lambda>k. ke_id k = i) (\<lambda>k. k\<lparr>ke_alias := Some ''signed''\<rparr>)
          (db_keyentry db)\<rparr>)) = Inr ((), tx1)"
    "set_blob_internal i CERT (Some bc) None tx1 = Inr ((), tx2)" for r i m tx1 tx2
  proof -
    note prem = that
    let ?db = "db\<lparr>db_keyentry := update_where (\<lambda>k. ke_id k = i) (\<lambda>k. k\<lparr>ke_alias := Some ''signed''\<rparr>)
          (db_keyentry db)\<rparr>"
    have "distinct (map ke_id (db_keyentry db))" using inv by (simp add: db_inv_def keys_inv_def)
    moreover obtain k0 where k0: "k0 \<in> set (db_keyentry db)" "ke_id k0 = i" "unsigned_attestation_key u k0"
      using prem(2) by blast
    ultimately have "k = k0" if "k \<in> set (db_keyentry db)" "ke_id k = i" for k
      using that distinct_map_inj [of ke_id "db_keyentry db" k k0] by simp
    with k0(3) have "ke_key_type k \<noteq> Client" if "k \<in> set (db_keyentry db)" "ke_id k = i" for k
      using that by (simp add: unsigned_attestation_key_def)
    then have "db_inv ?db" by (intro update_attestation_inv [OF inv]) auto
    moreover have "i \<in> key_ids ?db"
      using that(2) key_ids_update [of "\<lambda>k. k\<lparr>ke_alias := Some ''signed''\<rparr>" "\<lambda>k. ke_id k = i" "db_keyentry db"]
      by (auto simp: key_ids_def simp del: set_update_where)
    ultimately have "db_inv (KeyMetaData_store_in_db m i ?db)" by (rule store_key_metadata_inv)
    then have "db_inv tx1" using that(3) by (rule set_blob_internal_inv) simp
    then show ?thesis using that(4) by (rule set_blob_internal_inv) simp
  qed
  show ?thesis
    unfolding store_signed_attestation_certificate_chain_def
    by (rule inv.keeps_transaction [OF inv])
      (auto simp: res_iffs Let_def image_iff dest!: extract_one_found split: if_splits intro!: step)
qed

lemma assign_attestation_key_inv [inv_intros]:
  assumes inv: "db_inv db"
  shows "db_inv (snd (assign_attestation_key d n u db))"
proof -
  let ?cand = "filter (assignable_attestation_key u) (db_keyentry db)"
  have "ke_key_type k \<noteq> Client" if k: "k \<in> set (db_keyentry db)" "Some (ke_id k) = min_key_id ?cand" for k
  proof -
    have fold_min: "fold min xs x \<in> set (x # xs)" for x :: int and xs
      by (induction xs arbitrary: x) (auto simp: min_def)
    have "ke_id k \<in> ke_id ` set ?cand"
      using k(2) fold_min by (cases ?cand) (fastforce simp: min_key_id_def)+
    then obtain k0 where k0: "k0 \<in> set (db_keyentry db)" "ke_id k0 = ke_id k" "assignable_attestation_key u k0"
      by auto
    have "distinct (map ke_id (db_keyentry db))" using inv by (simp add: db_inv_def keys_inv_def)
    from distinct_map_inj [OF this k(1) k0(1)] k0(2,3) show ?thesis
      by (simp add: assignable_attestation_key_def)
  qed
  then have "db_inv (db\<lparr>db_keyentry := update_where
      (\<lambda>k. Some (ke_id k) = min_key_id ?cand \<and> count_where (assigned_attestation_key d n u) (db_keyentry db) = 0)
      (\<lambda>k. k\<lparr>ke_domain := Some d, ke_namespace := Some n\<rparr>) (db_keyentry db)\<rparr>)"
    by (intro update_attestation_inv [OF inv]) auto
  then show ?thesis
    unfolding assign_attestation_key_def
    using inv by (auto simp: Let_def intro!: inv.keeps_transaction split: if_splits)
qed

lemma mark_all_unreferenced_inv: "db_inv db \<Longrightarrow> db_inv (snd (mark_all_unreferenced ids n db))"
  by (induction ids arbitrary: n db) (auto simp: case_prod_beta intro: mark_unreferenced_inv)

lemma delete_expired_inv [inv_intros]:
  "db_inv db \<Longrightarrow> db_inv (snd (delete_expired_attestation_keys now db))"
  unfolding delete_expired_attestation_keys_def
  by (rule inv.keeps_transaction) (auto simp: res_iffs case_prod_beta intro: mark_all_unreferenced_inv)

lemma delete_all_inv [inv_intros]:
  "db_inv db \<Longrightarrow> db_inv (snd (delete_all_attestation_keys db))"
  unfolding delete_all_attestation_keys_def
  by (rule inv.keeps_transaction) (auto simp: case_prod_beta intro: mark_all_unreferenced_inv)

section \<open>Garbage collection\<close>

lemma delete_blob_inv [inv_intros]:
  assumes "db_inv db"
  shows "db_inv (delete_blob i db)"
proof -
  have "blobs_inv (delete_where (\<lambda>b. be_id b = i) (db_blobentry db))
          (delete_where (\<lambda>m. bm_blobentryid m = i) (db_blobmetadata db))"
    using assms unfolding db_inv_def blobs_inv_def
    by (simp add: distinct_map_delete_where) metis
  with assms show ?thesis by (simp add: delete_blob_def db_inv_def key_ids_def)
qed

lemma delete_blobs_inv: "db_inv db \<Longrightarrow> db_inv (fold delete_blob ids db)"
  by (induction ids arbitrary: db) (auto intro: delete_blob_inv)

lemma handle_next_superseded_blobs_inv [inv_intros]:
  assumes "db_inv db"
  shows "db_inv (snd (handle_next_superseded_blobs ids n db))"
proof -
  let ?tx = "cleanup_unreferenced (fold delete_blob ids db)"
  have tx: "db_inv ?tx"
    using assms by (auto simp: cleanup_unreferenced_def intro: delete_keys_where_inv delete_blobs_inv)
  then have "db_inv (?tx\<lparr>db_blobentry := delete_where
      (superseded (\<lambda>b. be_subcomponent_type b \<noteq> KEY_BLOB) ?tx) (db_blobentry ?tx)\<rparr>)"
    by (auto simp: db_inv_def key_ids_def superseded_def intro: blobs_inv_delete_other)
  with tx show ?thesis
    unfolding handle_next_superseded_blobs_def
    by (intro inv.keeps_transaction [OF assms]) (auto simp: res_iffs Let_def split: if_splits)
qed

end
