(* ===== verification/Ks_DbReach.thy ===== *)
theory Ks_DbReach
  imports Ks_DbInvariant
begin

text \<open>
  Runs of the key database.  \<open>db_step\<close> has one rule per public operation of
  \<open>KeystoreDB\<close> that changes the tables or the key id locks, for arbitrary arguments, random
  numbers and permission callbacks; a run interleaves operations of any number of callers.
  The only condition is on \<open>set_blob\<close>: metadata come with key blobs only, as in every call
  in the sources.  A thread that waits inside \<open>load_key_entry\<close> takes the lock in a later
  step.  \<open>client_key\<close> is the abstract view of the client keys: which key an alias in a
  domain and namespace names.
\<close>

section \<open>Runs\<close>

inductive db_step :: "keystore_db \<Rightarrow> keystore_db \<Rightarrow> bool" where
  upgrade: "db_step db (from_0_to_1 db)"
| cleanup: "db_step db (snd (cleanup_leftovers db))"
| create: "db_step db (snd (create_key_entry rnd d n ty u db))"
| store_key: "db_step db (snd (store_new_key rnd key ty params blob cert metadata u db))"
| store_cert: "db_step db (snd (store_new_certificate rnd now key ty c u db))"
| migrate: "db_step db (snd (migrate_key_namespace g dest uid check1 db))"
| set_blob: "(meta \<noteq> None \<longrightarrow> sc = KEY_BLOB) \<Longrightarrow> db_step db (snd (set_blob g sc b meta db))"
| deleted_blob: "db_step db (snd (set_deleted_blob bl bmeta db))"
| use_limited: "db_step db (snd (check_and_update_key_usage_count i db))"
| load: "db_step db (snd (load_key_entry (\<lambda>_ d. d) key ty bits uid check2 db))"
| lock: "KeyIdLockDb_get i db = Inr (g, db') \<Longrightarrow> db_step db db'"
| drop_guard: "db_step db (KeyIdGuard_drop g db)"
| unbind: "db_step db (snd (unbind_key key ty uid check2 db))"
| unbind_namespace: "db_step db (snd (unbind_keys_for_namespace d n db))"
| unbind_user: "db_step db (snd (unbind_keys_for_user off sa user keep db))"
| grant: "db_step db (snd (grant rnd key uid grantee av check3 db))"
| ungrant: "db_step db (snd (ungrant key uid grantee check1 db))"
| store_super: "db_step db (snd (store_super_key rnd user sa bl bmeta metadata db))"
| load_super: "db_step db (snd (load_super_key sa user db))"
| get_or_create: "db_step db (snd (get_or_create_key_with rnd d n al u new_key db))"
| create_attestation: "db_step db (snd (create_attestation_key_entry rnd mpk rpk pk u db))"
| store_signed: "db_step db (snd (store_signed_attestation_certificate_chain rpk bc cc expiry u db))"
| assign: "db_step db (snd (assign_attestation_key d n u db))"
| delete_expired: "db_step db (snd (delete_expired_attestation_keys now db))"
| delete_all: "db_step db (snd (delete_all_attestation_keys db))"
| superseded: "db_step db (snd (handle_next_superseded_blobs ids max_blobs db))"

text \<open>\<open>load_key_entry\<close> changes the locks only: the tables afterwards are those before the
  call, or those another thread left when the call had to wait.\<close>

definition tables :: "keystore_db \<Rightarrow> keystore_db" where
  "tables db = db\<lparr>db_locked_keys := {}\<rparr>"

lemma tables_simps [simp]:
  "tables (db\<lparr>db_locked_keys := L\<rparr>) = tables db"
  "tables (KeyIdGuard_drop g db) = tables db"
  by (simp_all add: tables_def KeyIdGuard_drop_def)

lemma db_inv_tables: "tables db = tables db' \<Longrightarrow> db_inv db = db_inv db'"
  by (metis db_inv_locks tables_def)

lemma KeyIdLockDb_get_wait_tables:
  "tables (snd (KeyIdLockDb_get_wait wait k db)) \<in> {tables db, tables (wait k db)}"
  by (auto simp: KeyIdLockDb_get_wait_def KeyIdLockDb_get_def Let_def)

lemma load_key_entry_lock_tables:
  "tables (snd (load_key_entry_lock wait i ty uid db)) \<in> {tables db, tables (wait i db)}"
  using KeyIdLockDb_get_wait_tables [of wait i db]
  by (auto simp: load_key_entry_lock_def KeyIdLockDb_try_get_def case_prod_beta split: sum.splits)

lemma load_key_entry_guard_tables:
  "tables (snd (load_key_entry_guard wait key ty uid check db)) \<in> insert (tables db) (range (\<lambda>k. tables (wait k db)))"
  using KeyIdLockDb_get_wait_tables [of wait "kd_nspace key" db] load_key_entry_lock_tables [of wait _ ty uid db]
  by (auto simp: load_key_entry_guard_def case_prod_beta split: sum.splits)

lemma load_key_entry_tables:
  "tables (snd (load_key_entry wait key ty bits uid check db)) \<in> insert (tables db) (range (\<lambda>k. tables (wait k db)))"
  using load_key_entry_guard_tables [of wait key ty uid check db]
  by (auto simp: load_key_entry_def load_key_entry_internal_def case_prod_beta split: sum.splits)

lemma load_key_entry_inv [inv_intros]:
  assumes "db_inv db" and "\<And>k. db_inv (wait k db)"
  shows "db_inv (snd (load_key_entry wait key ty bits uid check db))"
  using load_key_entry_tables [of wait key ty bits uid check db] assms by (auto dest: db_inv_tables)

lemma db_step_inv: "db_step db db' \<Longrightarrow> db_inv db \<Longrightarrow> db_inv db'"
  by (induction rule: db_step.induct) (auto intro: inv_intros inv.keeps_lock)

interpretation db: transition_system "\<lambda>db. \<exists>gc. db = init_tables gc" db_step db_inv
  by unfold_locales (auto intro: db_inv_init db_step_inv)

end
