(* ===== verification/Ks_DbRoundtrip.thy ===== *)
theory Ks_DbRoundtrip
  imports Ks_DbInvariant
begin

text \<open>
  What is stored is what is loaded: the cell encodings of the column and metadata types are
  inverted by the readers, metadata collections and key parameters survive the database, and a
  key stored by \<open>store_new_key\<close> is loaded with exactly its components.
\<close>

section \<open>Cells\<close>

lemma update_where_append [simp]:
  "update_where p f (xs @ ys) = update_where p f xs @ update_where p f ys"
  by (simp add: update_where_def)

lemma update_where_single [simp]: "update_where p f [x] = [if p x then f x else x]"
  by (simp add: update_where_def)

lemma update_where_id: "(\<And>x. x \<in> set t \<Longrightarrow> \<not> p x) \<Longrightarrow> update_where p f t = t"
  by (simp add: update_where_def map_idI)

lemma sql_get_simps [simp]: "sql_get (Some v) = Inr v" "sql_get None = Inl sqlite_error"
  by (simp_all add: sql_get_def)

lemma sql_get_int_simps [simp]:
  "sql_get_int (SqlInteger n) = Some n" "sql_get_int SqlNull = None" "sql_get_int (SqlBlob b) = None"
  by (simp_all add: sql_get_int_def)

lemma Uuid_roundtrip [simp]: "length u = 16 \<Longrightarrow> Uuid_column_result (Uuid_to_sql u) = Inr u"
  by (simp add: Uuid_column_result_def Uuid_to_sql_def)

lemma EncryptedBy_roundtrip [simp]: "EncryptedBy_column_result (EncryptedBy_to_sql e) = Inr e"
  by (cases e) (simp_all add: EncryptedBy_column_result_def)

lemma KeyMetaEntry_roundtrip [simp]:
  "KeyMetaEntry_new_from_sql (KeyMetaEntry_db_tag e) (KeyMetaEntry_to_sql e) = Inr e"
  by (cases e) (simp_all add: KeyMetaEntry_new_from_sql_def)

definition wf_blob_meta_entry :: "blob_meta_entry \<Rightarrow> bool" where
  "wf_blob_meta_entry e = (case e of KmUuid u \<Rightarrow> length u = 16 | _ \<Rightarrow> True)"

lemma BlobMetaEntry_roundtrip [simp]:
  "wf_blob_meta_entry e \<Longrightarrow> BlobMetaEntry_new_from_sql (BlobMetaEntry_db_tag e) (BlobMetaEntry_to_sql e) = Inr e"
  by (cases e) (simp_all add: BlobMetaEntry_new_from_sql_def wf_blob_meta_entry_def)

text \<open>A collection built with \<open>add\<close>: every entry sits under its own tag, once.\<close>

definition wf_key_meta :: "key_meta_data \<Rightarrow> bool" where
  "wf_key_meta m \<longleftrightarrow> distinct (map fst m) \<and> (\<forall>(t, e)\<in>set m. t = KeyMetaEntry_db_tag e)"

definition wf_blob_meta :: "blob_meta_data \<Rightarrow> bool" where
  "wf_blob_meta m \<longleftrightarrow>
     distinct (map fst m) \<and> (\<forall>(t, e)\<in>set m. t = BlobMetaEntry_db_tag e \<and> wf_blob_meta_entry e)"

lemma distinct_hash_insert: "distinct (map fst m) \<Longrightarrow> distinct (map fst (hash_insert k v m))"
  by (auto simp: hash_insert_def distinct_map_filter)

lemma wf_key_meta_new [simp]: "wf_key_meta KeyMetaData_new"
  by (simp add: wf_key_meta_def KeyMetaData_new_def)

lemma wf_key_meta_add [simp]: "wf_key_meta m \<Longrightarrow> wf_key_meta (KeyMetaData_add e m)"
  by (auto simp: wf_key_meta_def KeyMetaData_add_def distinct_hash_insert) (auto simp: hash_insert_def)

lemma wf_blob_meta_new [simp]: "wf_blob_meta BlobMetaData_new"
  by (simp add: wf_blob_meta_def BlobMetaData_new_def)

lemma wf_blob_meta_add [simp]:
  "wf_blob_meta m \<Longrightarrow> wf_blob_meta_entry e \<Longrightarrow> wf_blob_meta (BlobMetaData_add e m)"
  by (auto simp: wf_blob_meta_def BlobMetaData_add_def distinct_hash_insert) (auto simp: hash_insert_def)

section \<open>Metadata\<close>

lemma extract_all_insert:
  assumes "distinct (map fst (acc @ m))"
    and "\<And>t e. (t, e) \<in> set m \<Longrightarrow> rd (enc (t, e)) = Inr e \<and> tg (enc (t, e)) = t"
  shows "with_rows_extract_all (map enc m)
           (\<lambda>row s. map_res (\<lambda>e. hash_insert (tg row) e s) (rd row)) acc = Inr (acc @ m)"
  using assms
proof (induction m arbitrary: acc)
  case (Cons x m)
  obtain t e where x: "x = (t, e)" by force
  have "filter (\<lambda>y. fst y \<noteq> t) acc = acc"
    using Cons.prems(1) x by (auto simp: filter_id_conv)
  then have "hash_insert t e acc = acc @ [(t, e)]" by (simp add: hash_insert_def)
  moreover have "distinct (map fst ((acc @ [(t, e)]) @ m))" using Cons.prems(1) x by auto
  ultimately show ?case using Cons.IH [of "acc @ [(t, e)]"] Cons.prems(2) x by simp
qed simp

text \<open>
  What the macro \<open>impl_metadata!\<close> is instantiated with: rows that belong to an owner (a
  key or a blob) and carry a tag, \<open>INSERT or REPLACE\<close> on the pair of both, and a reader that
  inverts the writer.  A collection that is stored for an owner without rows is loaded
  unchanged, and the rows of other owners stay.
\<close>

locale metadata_table =
  fixes owner :: "'r \<Rightarrow> int"
    and rtag :: "'r \<Rightarrow> int"
    and mk :: "int \<Rightarrow> int \<Rightarrow> 'e \<Rightarrow> 'r"
    and rd :: "'r \<Rightarrow> 'e res"
    and repl :: "'r \<Rightarrow> 'r list \<Rightarrow> 'r list"
    and wf_entry :: "int \<Rightarrow> 'e \<Rightarrow> bool"
  assumes owner_mk: "owner (mk i t e) = i"
    and rtag_mk: "rtag (mk i t e) = t"
    and rd_mk: "wf_entry t e \<Longrightarrow> rd (mk i t e) = Inr e"
    and repl_eq: "repl r rows = delete_where (\<lambda>x. owner x = owner r \<and> rtag x = rtag r) rows @ [r]"
begin

lemma store_fresh:
  assumes "distinct (map fst m)"
    and "\<And>r. r \<in> set rows \<Longrightarrow> owner r = i \<Longrightarrow> rtag r \<notin> fst ` set m"
  shows "fold (\<lambda>(t, e). repl (mk i t e)) m rows = rows @ map (\<lambda>(t, e). mk i t e) m"
  using assms
proof (induction m arbitrary: rows)
  case (Cons x m)
  obtain t e where x: "x = (t, e)" by force
  have "repl (mk i t e) rows = rows @ [mk i t e]"
    using Cons.prems(2) x by (auto simp: repl_eq owner_mk rtag_mk intro!: delete_where_id)
  moreover have "fold (\<lambda>(t, e). repl (mk i t e)) m (rows @ [mk i t e]) =
      (rows @ [mk i t e]) @ map (\<lambda>(t, e). mk i t e) m"
  proof (rule Cons.IH)
    show "distinct (map fst m)" using Cons.prems(1) by simp
    fix r assume "r \<in> set (rows @ [mk i t e])" "owner r = i"
    then show "rtag r \<notin> fst ` set m"
      using Cons.prems x rtag_mk [of i t e] by (cases "r = mk i t e") auto
  qed
  ultimately show ?case by (simp add: x)
qed simp

lemma load_stored:
  assumes "distinct (map fst m)" and "\<forall>(t, e)\<in>set m. wf_entry t e" and "\<forall>r\<in>set rows. owner r \<noteq> i"
  shows "with_rows_extract_all (filter (\<lambda>r. owner r = i) (fold (\<lambda>(t, e). repl (mk i t e)) m rows))
           (\<lambda>row s. map_res (\<lambda>e. hash_insert (rtag row) e s) (rd row)) [] = Inr m"
proof -
  have "fold (\<lambda>(t, e). repl (mk i t e)) m rows = rows @ map (\<lambda>(t, e). mk i t e) m"
    using assms by (intro store_fresh) auto
  moreover have "filter (\<lambda>r. owner r = i) (rows @ map (\<lambda>(t, e). mk i t e) m) = map (\<lambda>(t, e). mk i t e) m"
    using assms(3) by (auto simp: filter_empty_conv filter_id_conv owner_mk)
  moreover have "with_rows_extract_all (map (\<lambda>(t, e). mk i t e) m)
       (\<lambda>row s. map_res (\<lambda>e. hash_insert (rtag row) e s) (rd row)) [] = Inr ([] @ m)"
    using assms by (intro extract_all_insert) (auto simp: rtag_mk rd_mk)
  ultimately show ?thesis by simp
qed

lemma store_other:
  assumes "j \<noteq> i"
  shows "filter (\<lambda>r. owner r = j) (fold (\<lambda>(t, e). repl (mk i t e)) m rows) = filter (\<lambda>r. owner r = j) rows"
proof (induction m arbitrary: rows)
  case (Cons x m)
  obtain t e where x: "x = (t, e)" by force
  have "filter (\<lambda>r. owner r = j) (repl (mk i t e) rows) = filter (\<lambda>r. owner r = j) rows"
    using assms by (auto simp: repl_eq owner_mk filter_delete_where intro: filter_cong)
  with Cons.IH show ?case by (simp add: x)
qed simp

end

interpretation key_meta: metadata_table kmd_keyentryid kmd_tag
    "\<lambda>i t e. \<lparr>kmd_keyentryid = i, kmd_tag = t, kmd_data = KeyMetaEntry_to_sql e\<rparr>"
    "\<lambda>row. KeyMetaEntry_new_from_sql (kmd_tag row) (kmd_data row)"
    replace_keymetadata "\<lambda>t e. t = KeyMetaEntry_db_tag e"
  by unfold_locales (auto simp: replace_keymetadata_def)

interpretation blob_meta: metadata_table bm_blobentryid bm_tag
    "\<lambda>i t e. \<lparr>bm_blobentryid = i, bm_tag = t, bm_data = BlobMetaEntry_to_sql e\<rparr>"
    "\<lambda>row. BlobMetaEntry_new_from_sql (bm_tag row) (bm_data row)"
    replace_blobmetadata "\<lambda>t e. t = BlobMetaEntry_db_tag e \<and> wf_blob_meta_entry e"
  by unfold_locales (auto simp: replace_blobmetadata_def)

lemma KeyMetaData_roundtrip:
  assumes "wf_key_meta m" and "\<forall>r\<in>set (db_keymetadata db). kmd_keyentryid r \<noteq> i"
  shows "KeyMetaData_load_from_db i (KeyMetaData_store_in_db m i db) = Inr m"
  using key_meta.load_stored [of m "db_keymetadata db" i] assms
  by (simp add: KeyMetaData_load_from_db_def KeyMetaData_store_in_db_def wf_key_meta_def)

lemma BlobMetaData_roundtrip:
  assumes "wf_blob_meta m" and "\<forall>r\<in>set (db_blobmetadata db). bm_blobentryid r \<noteq> i"
  shows "BlobMetaData_load_from_db i (BlobMetaData_store_in_db m i db) = Inr m"
  using blob_meta.load_stored [of m "db_blobmetadata db" i] assms
  by (simp add: BlobMetaData_load_from_db_def BlobMetaData_store_in_db_def wf_blob_meta_def)

section \<open>Key parameters\<close>

lemma key_parameters_roundtrip:
  assumes "\<And>r. r \<in> set (db_keyparameter db) \<Longrightarrow> kr_keyentryid r \<noteq> i"
  shows "load_key_parameters i (insert_keyparameter_internal i params db) = Inr params"
proof -
  let ?enc = "\<lambda>p. \<lparr>kr_keyentryid = i, kr_tag = KeyParameter_get_tag p,
      kr_data = KeyParameterValue_to_sql (kp_value p), kr_security_level = kp_security_level p\<rparr>"
  have rd: "KeyParameter_new_from_sql (KeyParameter_get_tag p) (KeyParameterValue_to_sql (kp_value p))
      (kp_security_level p) = Inr p" for p
    by (simp add: KeyParameter_new_from_sql_def KeyParameter_get_tag_def KeyParameterValue_sql_roundtrip)
  have "with_rows_extract_all (map ?enc ps)
       (\<lambda>row s. map_res (\<lambda>p. s @ [p])
          (KeyParameter_new_from_sql (kr_tag row) (kr_data row) (kr_security_level row))) acc = Inr (acc @ ps)"
    for acc ps by (induction ps arbitrary: acc) (simp_all add: rd)
  moreover have "filter (\<lambda>r. kr_keyentryid r = i) (db_keyparameter db @ map ?enc params) = map ?enc params"
    using assms by (auto simp: filter_empty_conv filter_id_conv)
  ultimately show ?thesis by (simp add: load_key_parameters_def insert_keyparameter_internal_def)
qed

section \<open>Storing a key\<close>

lemma next_blob_id_append:
  "be_id b = next_blob_id t \<Longrightarrow> next_blob_id (t @ [b]) = next_blob_id t + 1"
  using Max_next_blob_id [of b t] by (simp add: next_blob_id_def)

lemma set_blob_internal_some:
  "set_blob_internal i sc (Some b) meta db =
     Inr ((), (case meta of None \<Rightarrow> (\<lambda>x. x)
                | Some m \<Rightarrow> BlobMetaData_store_in_db m (next_blob_id (db_blobentry db)))
       (db\<lparr>db_blobentry := db_blobentry db @
         [\<lparr>be_id = next_blob_id (db_blobentry db), be_subcomponent_type = sc, be_keyentryid = i,
           be_blob = b\<rparr>]\<rparr>))"
  using Max_next_blob_id [of "\<lparr>be_id = next_blob_id (db_blobentry db), be_subcomponent_type = sc,
      be_keyentryid = i, be_blob = b\<rparr>" "db_blobentry db"]
  by (simp add: set_blob_internal_def Let_def split: option.splits)

definition opt_blob_rows :: "int \<Rightarrow> int \<Rightarrow> sub_component_type \<Rightarrow> bytes option \<Rightarrow> blobentry_row list" where
  "opt_blob_rows bid i sc b =
     (case b of None \<Rightarrow> []
      | Some c \<Rightarrow> [\<lparr>be_id = bid, be_subcomponent_type = sc, be_keyentryid = i, be_blob = c\<rparr>])"

lemma opt_set_blob_eq:
  "opt_set_blob i sc b db =
     Inr ((), db\<lparr>db_blobentry := db_blobentry db @ opt_blob_rows (next_blob_id (db_blobentry db)) i sc b\<rparr>)"
  by (simp add: opt_set_blob_def opt_blob_rows_def set_blob_internal_some split: option.splits)

text \<open>The rows that lose their name to a new key.\<close>

definition unname_row :: "keyentry_row \<Rightarrow> keyentry_row" where
  "unname_row k = k\<lparr>ke_alias := None, ke_domain := None, ke_namespace := None, ke_state := Unreferenced\<rparr>"

definition named :: "string \<Rightarrow> domain \<Rightarrow> int \<Rightarrow> key_type \<Rightarrow> keyentry_row \<Rightarrow> bool" where
  "named a d n ty k \<longleftrightarrow>
     ke_alias k = Some a \<and> ke_domain k = Some d \<and> ke_namespace k = Some n \<and> ke_key_type k = ty"

lemma rebind_alias_new:
  assumes "is_app_or_selinux d" and "i \<notin> ke_id ` set t"
    and "db_keyentry db = t @ [\<lparr>ke_id = i, ke_key_type = ty, ke_domain = Some d, ke_namespace = Some n,
          ke_alias = None, ke_state = Existing, ke_km_uuid = u\<rparr>]"
  shows "rebind_alias i a d n ty db = Inr (count_where (named a d n ty) t \<noteq> 0,
    db\<lparr>db_keyentry := update_where (named a d n ty) unname_row t @
      [\<lparr>ke_id = i, ke_key_type = ty, ke_domain = Some d, ke_namespace = Some n, ke_alias = Some a,
        ke_state = Live, ke_km_uuid = u\<rparr>]\<rparr>)"
proof -
  let ?old = "\<lambda>k. ke_alias k = Some a \<and> ke_domain k = Some d \<and> ke_namespace k = Some n \<and> ke_key_type k = ty"
  let ?unname = "\<lambda>k. k\<lparr>ke_alias := None, ke_domain := None, ke_namespace := None, ke_state := Unreferenced\<rparr>"
  let ?new = "\<lambda>k. ke_id k = i \<and> ke_domain k = Some d \<and> ke_namespace k = Some n \<and>
      ke_state k = Existing \<and> ke_key_type k = ty"
  let ?t1 = "update_where ?old ?unname t"
  have *: "named a d n ty = ?old" "unname_row = ?unname" by (auto simp: named_def unname_row_def)
  have ids: "ke_id ` set ?t1 = ke_id ` set t" by (rule key_ids_update) simp
  have no: "\<not> ?new k" if "k \<in> set ?t1" for k
  proof -
    from that have "ke_id k \<in> ke_id ` set ?t1" by (rule imageI)
    with assms(2) ids show ?thesis by (auto simp del: set_update_where)
  qed
  have none1: "filter ?new ?t1 = []" unfolding filter_empty_conv by (intro ballI no)
  have none2: "update_where ?new f ?t1 = ?t1" for f by (rule update_where_id, erule no)
  have split: "update_where ?old ?unname (db_keyentry db) = ?t1 @
     [\<lparr>ke_id = i, ke_key_type = ty, ke_domain = Some d, ke_namespace = Some n,
          ke_alias = None, ke_state = Existing, ke_km_uuid = u\<rparr>]"
    by (simp add: assms(3) update_where_append)
  show ?thesis
    unfolding * rebind_alias_def Let_def split using assms(1)
    by (simp add: none1 none2 count_where_def update_where_append assms(3))
qed

text \<open>The database after \<open>store_new_key\<close> has chosen the id \<open>i\<close>.\<close>

definition stored_key_db ::
    "int \<Rightarrow> string \<Rightarrow> domain \<Rightarrow> int \<Rightarrow> key_type \<Rightarrow> key_parameter list \<Rightarrow> bytes \<times> blob_meta_data
     \<Rightarrow> certificate_info \<Rightarrow> key_meta_data \<Rightarrow> uuid \<Rightarrow> keystore_db \<Rightarrow> keystore_db" where
  "stored_key_db i a d n ty params blob_info ci km u db =
     (let bid = next_blob_id (db_blobentry db);
          key_row = \<lparr>be_id = bid, be_subcomponent_type = KEY_BLOB, be_keyentryid = i, be_blob = fst blob_info\<rparr>;
          cert_rows = opt_blob_rows (bid + 1) i CERT (ci_cert ci);
          chain_rows = opt_blob_rows (next_blob_id (db_blobentry db @ key_row # cert_rows)) i CERT_CHAIN (ci_cert_chain ci)
      in db\<lparr>db_keyentry := update_where (named a d n ty) unname_row (db_keyentry db) @
              [\<lparr>ke_id = i, ke_key_type = ty, ke_domain = Some d, ke_namespace = Some n,
                ke_alias = Some a, ke_state = Live, ke_km_uuid = u\<rparr>],
            db_blobentry := db_blobentry db @ key_row # cert_rows @ chain_rows,
            db_blobmetadata := db_blobmetadata (BlobMetaData_store_in_db (snd blob_info) bid db),
            db_keyparameter := db_keyparameter (insert_keyparameter_internal i params db),
            db_keymetadata := db_keymetadata (KeyMetaData_store_in_db km i db),
            db_locked_keys := insert i (db_locked_keys db)\<rparr>)"

lemma store_new_key_tx_after:
  assumes "create_key_entry_internal rnd d n ty u db = Inr (i, tx1)"
  shows "store_new_key_tx rnd a d n ty params blob_info ci km u db =
     Inr ((count_where (named a d n ty) (db_keyentry db) \<noteq> 0, i),
          stored_key_db i a d n ty params blob_info ci km u db)"
proof -
  note c = create_key_entry_internal_ok [OF assms]
  let ?bid = "next_blob_id (db_blobentry db)"
  let ?key_row = "\<lparr>be_id = ?bid, be_subcomponent_type = KEY_BLOB, be_keyentryid = i, be_blob = fst blob_info\<rparr>"
  have next1: "next_blob_id (db_blobentry db @ [?key_row]) = ?bid + 1"
    by (rule next_blob_id_append) simp
  have rb: "rebind_alias i a d n ty db' = Inr (count_where (named a d n ty) (db_keyentry db) \<noteq> 0,
      db'\<lparr>db_keyentry := update_where (named a d n ty) unname_row (db_keyentry db) @
        [\<lparr>ke_id = i, ke_key_type = ty, ke_domain = Some d, ke_namespace = Some n, ke_alias = Some a,
          ke_state = Live, ke_km_uuid = u\<rparr>]\<rparr>)"
    if "db_keyentry db' = db_keyentry tx1" for db'
    using c that by (intro rebind_alias_new) (auto simp: key_ids_def)
  show ?thesis
    unfolding store_new_key_tx_def assms
    by (simp add: set_blob_internal_some opt_set_blob_eq Let_def
        rb KeyMetaData_store_in_db_def insert_keyparameter_internal_def BlobMetaData_store_in_db_def)
      (simp add: c(6) stored_key_db_def next1 Let_def KeyMetaData_store_in_db_def
        insert_keyparameter_internal_def BlobMetaData_store_in_db_def)
qed

lemma store_new_key_tx_effect:
  assumes "store_new_key_tx rnd a d n ty params blob_info ci km u db = Inr ((need, i), tx)"
  shows "tx = stored_key_db i a d n ty params blob_info ci km u db"
    and "need = (count_where (named a d n ty) (db_keyentry db) \<noteq> 0)"
    and "i \<in> set rnd" and "i \<noteq> UNASSIGNED_KEY_ID" and "i \<notin> key_ids db" and "i \<notin> db_locked_keys db"
proof -
  obtain tx1 where 1: "create_key_entry_internal rnd d n ty u db = Inr (i, tx1)"
    using assms by (rule store_new_key_tx_ok) auto
  from store_new_key_tx_after [OF 1, of a params blob_info ci km] assms
  show "tx = stored_key_db i a d n ty params blob_info ci km u db"
    and "need = (count_where (named a d n ty) (db_keyentry db) \<noteq> 0)"
    by simp_all
  show "i \<in> set rnd" and "i \<noteq> UNASSIGNED_KEY_ID" and "i \<notin> key_ids db" and "i \<notin> db_locked_keys db"
    using create_key_entry_internal_ok [OF 1] by simp_all
qed

text \<open>The first number that is neither -1 nor the id of a key is taken.\<close>

lemma create_key_entry_internal_total:
  assumes "is_app_or_selinux d" and "i \<in> set rnd" and "i \<noteq> UNASSIGNED_KEY_ID" and "i \<notin> key_ids db"
    and "set rnd \<inter> db_locked_keys db = {}"
  shows "\<exists>j tx. create_key_entry_internal rnd d n ty u db = Inr (j, tx)"
proof -
  let ?row = "\<lambda>i. \<lparr>ke_id = i, ke_key_type = ty, ke_domain = Some d, ke_namespace = Some n, ke_alias = None,
        ke_state = Existing, ke_km_uuid = u\<rparr>"
  obtain j tx where 1: "insert_with_retry rnd (\<lambda>i. insert_keyentry (?row i) db) = Inr (j, tx)"
    using keyentry_ids.retry_returns [OF assms(2-4), of ?row] by auto
  with assms(1,5) new_keyentry(1,4) [OF 1] show ?thesis
    by (auto simp: create_key_entry_internal_def KeyIdLockDb_get_def)
qed

lemma latest_blob_simps [simp]:
  "latest_blob sc [] = None"
  "latest_blob sc [b] = (if be_subcomponent_type b = sc then Some b else None)"
  by (simp_all add: latest_blob_def)

lemma load_bits_both [simp]: "KeyEntryLoadBits_load_km LB_BOTH" "KeyEntryLoadBits_load_public LB_BOTH"
  by (simp_all add: KeyEntryLoadBits_load_km_def KeyEntryLoadBits_load_public_def LB_BOTH_def LB_KM_def LB_PUBLIC_def)

lemma load_bits_km [simp]: "KeyEntryLoadBits_load_km LB_KM" "\<not> KeyEntryLoadBits_load_public LB_KM"
  by (simp_all add: KeyEntryLoadBits_load_km_def KeyEntryLoadBits_load_public_def LB_KM_def LB_PUBLIC_def)

lemma stored_blobs:
  assumes "db_inv db" and "i \<notin> be_keyentryid ` set (db_blobentry db)" and "wf_blob_meta (snd blob_info)"
  shows "load_blob_components i LB_BOTH (stored_key_db i a d n ty params blob_info ci km u db) =
    Inr (True, Some blob_info, ci_cert ci, ci_cert_chain ci)"
proof -
  let ?bid = "next_blob_id (db_blobentry db)"
  let ?tx = "stored_key_db i a d n ty params blob_info ci km u db"
  have "bm_blobentryid r \<noteq> ?bid" if "r \<in> set (db_blobmetadata db)" for r
    using assms(1) that next_blob_id_fresh [of "db_blobentry db"]
    by (force simp: db_inv_def blobs_inv_def)
  then have "BlobMetaData_load_from_db ?bid (BlobMetaData_store_in_db (snd blob_info) ?bid db) = Inr (snd blob_info)"
    using assms(3) by (intro BlobMetaData_roundtrip) auto
  then have meta: "BlobMetaData_load_from_db ?bid ?tx = Inr (snd blob_info)"
    by (simp add: BlobMetaData_load_from_db_def stored_key_db_def Let_def)
  have old: "filter (\<lambda>b. be_keyentryid b = i) (db_blobentry db) = []"
    using assms(2) by (auto simp: filter_empty_conv)
  show ?thesis
    using meta old
    by (auto simp: load_blob_components_def Let_def opt_blob_rows_def is_other_subcomponent_def
        latest_blob_def stored_key_db_def split: option.splits)
qed

lemma stored_components:
  assumes "db_inv db" and "i \<notin> key_ids db" and "i \<notin> be_keyentryid ` set (db_blobentry db)"
    and "wf_blob_meta (snd blob_info)" and "wf_key_meta km" and "length u = 16"
  shows "load_key_components LB_BOTH i (stored_key_db i a d n ty params blob_info ci km u db) =
    Inr \<lparr>e_id = i, e_key_blob_info = Some blob_info, e_cert = ci_cert ci, e_cert_chain = ci_cert_chain ci,
         e_km_uuid = u, e_parameters = params, e_metadata = km, e_pure_cert = False\<rparr>"
proof -
  let ?tx = "stored_key_db i a d n ty params blob_info ci km u db"
  have refs: "refs_inv (key_ids db) (db_keyparameter db) (db_keymetadata db) (db_grant db)"
    using assms(1) by (simp add: db_inv_def)
  have "KeyMetaData_load_from_db i ?tx = KeyMetaData_load_from_db i (KeyMetaData_store_in_db km i db)"
    by (simp add: KeyMetaData_load_from_db_def stored_key_db_def Let_def)
  also have "\<dots> = Inr km"
    using assms(2,5) refs by (intro KeyMetaData_roundtrip) (auto simp: refs_inv_def)
  finally have km: "KeyMetaData_load_from_db i ?tx = Inr km" .
  have "load_key_parameters i ?tx = load_key_parameters i (insert_keyparameter_internal i params db)"
    by (simp add: load_key_parameters_def stored_key_db_def Let_def)
  also have "\<dots> = Inr params"
    using assms(2) refs by (intro key_parameters_roundtrip) (auto simp: refs_inv_def)
  finally have params: "load_key_parameters i ?tx = Inr params" .
  have ids: "ke_id ` set (update_where (named a d n ty) unname_row (db_keyentry db)) = key_ids db"
    unfolding key_ids_def by (rule key_ids_update) (simp add: unname_row_def)
  have "filter (\<lambda>k. ke_id k = i) (update_where (named a d n ty) unname_row (db_keyentry db)) = []"
    unfolding filter_empty_conv using ids assms(2) by (metis imageI)
  then have "get_key_km_uuid i ?tx = Inr u"
    using assms(6) by (simp add: get_key_km_uuid_def stored_key_db_def Let_def query_row_def query_row_optional_def)
  with km params stored_blobs [OF assms(1,3,4)] show ?thesis
    by (simp add: load_key_components_def)
qed

end
