(* ===== verification/Ks_DbKeys.thy ===== *)
theory Ks_DbKeys
  imports Ks_DbReach Ks_DbRoundtrip
begin

text \<open>
  The client keys as an abstract map from names (domain, namespace, alias) to key ids, and how
  the operations of the database change that map: storing a key is a map update with a fresh
  id, unbinding removes an id, migrating moves it.  The contract is the locale
  \<open>alias_store\<close>, interpreted on \<open>store_new_key\<close> and \<open>mark_unreferenced\<close>.
\<close>

section \<open>The abstract view\<close>

definition client_key :: "keystore_db \<Rightarrow> domain \<times> int \<times> string \<Rightarrow> int option" where
  "client_key db = (\<lambda>(d, n, a).
     map_option ke_id (query_row_optional
       (filter (\<lambda>k. named a d n Client k \<and> ke_state k = Live) (db_keyentry db))))"

lemma filter_at_most_one:
  assumes "distinct t" and "\<And>j k. j \<in> set t \<Longrightarrow> k \<in> set t \<Longrightarrow> p j \<Longrightarrow> p k \<Longrightarrow> j = k"
  shows "filter p t = [] \<or> (\<exists>x. filter p t = [x])"
proof (cases "filter p t")
  case (Cons x xs)
  have "xs = []"
  proof (rule ccontr)
    assume "xs \<noteq> []"
    then obtain y ys where "xs = y # ys" by (cases xs) auto
    with Cons have f: "filter p t = x # y # ys" by simp
    then have "x \<in> set (filter p t)" "y \<in> set (filter p t)" by simp_all
    with assms(2) [of x y] have "x = y" by simp
    moreover have "distinct (filter p t)" using assms(1) by simp
    ultimately show False using f by simp
  qed
  with Cons show ?thesis by simp
qed simp

lemma client_rows:
  assumes "db_inv db"
  shows "filter (\<lambda>k. named a d n Client k \<and> ke_state k = Live) (db_keyentry db) = [] \<or>
    (\<exists>x. filter (\<lambda>k. named a d n Client k \<and> ke_state k = Live) (db_keyentry db) = [x])"
proof (rule filter_at_most_one)
  from assms have inv: "keys_inv (db_keyentry db)" by (simp add: db_inv_def)
  then show "distinct (db_keyentry db)" by (simp add: keys_inv_def distinct_map)
  fix j k assume jk: "j \<in> set (db_keyentry db)" "k \<in> set (db_keyentry db)"
    and n: "named a d n Client j \<and> ke_state j = Live" "named a d n Client k \<and> ke_state k = Live"
  then have "same_client_name j k" by (simp add: same_client_name_def named_def)
  with inv jk have "ke_id j = ke_id k" by (simp add: keys_inv_def)
  with inv jk show "j = k" by (auto simp: keys_inv_def dest: distinct_map_inj)
qed

lemma client_key_iff:
  assumes "db_inv db"
  shows "client_key db (d, n, a) = Some i \<longleftrightarrow>
    (\<exists>k\<in>set (db_keyentry db). named a d n Client k \<and> ke_state k = Live \<and> ke_id k = i)"
proof -
  let ?f = "filter (\<lambda>k. named a d n Client k \<and> ke_state k = Live) (db_keyentry db)"
  have "(\<exists>k\<in>set (db_keyentry db). named a d n Client k \<and> ke_state k = Live \<and> ke_id k = i) \<longleftrightarrow>
      (\<exists>k\<in>set ?f. ke_id k = i)"
    by auto
  with client_rows [OF assms, of a d n] show ?thesis
    by (elim disjE exE) (simp_all add: client_key_def query_row_optional_def)
qed

lemma client_key_None_iff:
  assumes "db_inv db"
  shows "client_key db (d, n, a) = None \<longleftrightarrow>
    (\<forall>k\<in>set (db_keyentry db). named a d n Client k \<longrightarrow> ke_state k \<noteq> Live)"
  using client_key_iff [OF assms, of d n a] by (metis not_None_eq)

text \<open>Two databases have the same view when their live client rows are the same.\<close>

lemma client_key_eqI:
  assumes "db_inv db" and "db_inv db'"
    and "\<And>d n a i. (\<exists>k\<in>set (db_keyentry db'). named a d n Client k \<and> ke_state k = Live \<and> ke_id k = i) \<longleftrightarrow>
           f (d, n, a) = Some i"
  shows "client_key db' = f"
proof
  fix k :: "domain \<times> int \<times> string"
  obtain d n a where k: "k = (d, n, a)" by (cases k)
  have "client_key db' k = Some i \<longleftrightarrow> f k = Some i" for i
    unfolding k client_key_iff [OF assms(2)] by (rule assms(3))
  then show "client_key db' k = f k" by (metis not_None_eq)
qed

lemma client_key_inj:
  assumes inv: "db_inv db" and "client_key db x = Some i" and "client_key db y = Some i"
  shows "x = y"
proof -
  obtain d n a d' n' a' where xy: "x = (d, n, a)" "y = (d', n', a')" by (cases x, cases y) auto
  obtain j k where jk: "j \<in> set (db_keyentry db)" "k \<in> set (db_keyentry db)" "ke_id j = ke_id k"
    "named a d n Client j" "named a' d' n' Client k"
    using assms(2,3) unfolding xy client_key_iff [OF inv] by auto
  moreover have "distinct (map ke_id (db_keyentry db))" using inv by (simp add: db_inv_def keys_inv_def)
  ultimately have "j = k" by (auto dest: distinct_map_inj)
  with jk show ?thesis by (simp add: xy named_def)
qed

lemma load_key_entry_id_client:
  assumes "db_inv db"
  shows "load_key_entry_id \<lparr>kd_domain = d, kd_nspace = n, kd_alias = Some a, kd_blob = b\<rparr> Client db =
    ok_or (client_key db (d, n, a)) (Ks (Rc RC_KEY_NOT_FOUND))"
proof -
  have "(\<lambda>k. ke_key_type k = Client \<and> ke_domain k = Some d \<and> ke_namespace k = Some n \<and>
      ke_alias k = Some a \<and> ke_state k = Live) = (\<lambda>k. named a d n Client k \<and> ke_state k = Live)"
    by (auto simp: named_def)
  with client_rows [OF assms, of a d n] show ?thesis
    by (auto simp: load_key_entry_id_def client_key_def query_row_optional_def)
qed

section \<open>Storing and removing\<close>

lemma stored_key_db_inv:
  assumes "db_inv db" and "create_key_entry_internal rnd d n ty u db = Inr (i, tx1)"
  shows "db_inv (stored_key_db i a d n ty params blob_info ci km u db)"
  using store_new_key_tx_inv [OF assms(1)] store_new_key_tx_after [OF assms(2)] by blast

lemma stored_key_view:
  assumes "db_inv db" and "db_inv (stored_key_db i a d n Client params blob_info ci km u db)"
  shows "client_key (stored_key_db i a d n Client params blob_info ci km u db) = (client_key db)((d, n, a) \<mapsto> i)"
proof (rule client_key_eqI [OF assms])
  fix d' n' a' j
  have t: "set (db_keyentry (stored_key_db i a d n Client params blob_info ci km u db)) =
     {k \<in> set (db_keyentry db). \<not> named a d n Client k} \<union> unname_row ` {k \<in> set (db_keyentry db). named a d n Client k}
     \<union> {\<lparr>ke_id = i, ke_key_type = Client, ke_domain = Some d, ke_namespace = Some n, ke_alias = Some a,
         ke_state = Live, ke_km_uuid = u\<rparr>}"
    by (simp add: stored_key_db_def Let_def)
  have un: "\<not> named a' d' n' Client (unname_row k)" for k by (simp add: named_def unname_row_def)
  have new: "named a' d' n' Client \<lparr>ke_id = i, ke_key_type = Client, ke_domain = Some d, ke_namespace = Some n,
      ke_alias = Some a, ke_state = Live, ke_km_uuid = u\<rparr> \<longleftrightarrow> (d', n', a') = (d, n, a)"
    by (auto simp: named_def)
  show "(\<exists>k\<in>set (db_keyentry (stored_key_db i a d n Client params blob_info ci km u db)).
          named a' d' n' Client k \<and> ke_state k = Live \<and> ke_id k = j)
     \<longleftrightarrow> ((client_key db)((d, n, a) \<mapsto> i)) (d', n', a') = Some j"
  proof (cases "(d', n', a') = (d, n, a)")
    case True
    then show ?thesis unfolding t using new un by auto
  next
    case False
    then have "named a' d' n' Client k \<Longrightarrow> \<not> named a d n Client k" for k by (auto simp: named_def)
    with False new un show ?thesis
      unfolding t using client_key_iff [OF assms(1), of d' n' a' j] by auto
  qed
qed

lemma mark_unreferenced_view:
  assumes "db_inv db"
  shows "client_key (snd (mark_unreferenced i db)) =
    (\<lambda>k. if client_key db k = Some i then None else client_key db k)"
proof (rule client_key_eqI [OF assms mark_unreferenced_inv [OF assms]])
  fix d n a j
  have "(\<exists>k\<in>set (db_keyentry (snd (mark_unreferenced i db))). named a d n Client k \<and> ke_state k = Live \<and> ke_id k = j)
    \<longleftrightarrow> j \<noteq> i \<and> client_key db (d, n, a) = Some j"
    unfolding client_key_iff [OF assms] by (auto simp: mark_unreferenced_def Let_def)
  then show "(\<exists>k\<in>set (db_keyentry (snd (mark_unreferenced i db))). named a d n Client k \<and> ke_state k = Live \<and> ke_id k = j)
    \<longleftrightarrow> (if client_key db (d, n, a) = Some i then None else client_key db (d, n, a)) = Some j"
    by auto
qed

text \<open>
  The contract of a store of named keys: names never share a key, storing binds the name to a
  key no name had before and leaves the other names alone, and removing a key unbinds the name
  that had it and nothing else.
\<close>

locale alias_store =
  fixes view :: "'s \<Rightarrow> 'k \<Rightarrow> int option"
    and wf :: "'s \<Rightarrow> bool"
    and store :: "'s \<Rightarrow> 'k \<Rightarrow> (int \<times> 's) option"
    and remove :: "'s \<Rightarrow> int \<Rightarrow> 's"
  assumes view_inj: "wf s \<Longrightarrow> view s k = Some i \<Longrightarrow> view s k' = Some i \<Longrightarrow> k = k'"
    and store_wf: "wf s \<Longrightarrow> store s k = Some (i, s') \<Longrightarrow> wf s'"
    and store_view: "wf s \<Longrightarrow> store s k = Some (i, s') \<Longrightarrow> view s' = (view s)(k \<mapsto> i)"
    and store_fresh: "wf s \<Longrightarrow> store s k = Some (i, s') \<Longrightarrow> view s k' \<noteq> Some i"
    and remove_wf: "wf s \<Longrightarrow> wf (remove s i)"
    and remove_view: "wf s \<Longrightarrow> view (remove s i) = (\<lambda>k. if view s k = Some i then None else view s k)"
begin

lemma store_remove:
  assumes "wf s" and "store s k = Some (i, s')"
  shows "view (remove s' i) = (view s)(k := None)"
  using store_wf [OF assms] store_view [OF assms] store_fresh [OF assms] by (auto simp: remove_view)

lemma store_replaces:
  assumes "wf s" and "store s k = Some (i, s1)" and "store s1 k = Some (j, s2)"
  shows "view s2 = (view s)(k \<mapsto> j)" and "i \<noteq> j" and "view s2 k' \<noteq> Some i"
proof -
  note wf1 = store_wf [OF assms(1,2)] and v1 = store_view [OF assms(1,2)]
  note v2 = store_view [OF wf1 assms(3)]
  show "view s2 = (view s)(k \<mapsto> j)" using v1 v2 by auto
  show ne: "i \<noteq> j" using store_fresh [OF wf1 assms(3), of k] v1 by auto
  show "view s2 k' \<noteq> Some i"
    using v1 v2 ne store_fresh [OF assms(1,2), of k'] by (auto split: if_splits)
qed

lemma store_other:
  assumes "wf s" and "store s k = Some (i, s')" and "k' \<noteq> k"
  shows "view s' k' = view s k'"
  using store_view [OF assms(1,2)] assms(3) by simp

end

definition name_descriptor :: "domain \<times> int \<times> string \<Rightarrow> key_descriptor" where
  "name_descriptor x = (case x of (d, n, a) \<Rightarrow> \<lparr>kd_domain = d, kd_nspace = n, kd_alias = Some a, kd_blob = None\<rparr>)"

definition store_client_key ::
    "int list \<Rightarrow> key_parameter list \<Rightarrow> bytes \<times> blob_meta_data \<Rightarrow> certificate_info \<Rightarrow> key_meta_data \<Rightarrow> uuid
     \<Rightarrow> keystore_db \<Rightarrow> domain \<times> int \<times> string \<Rightarrow> (int \<times> keystore_db) option" where
  "store_client_key rnd params blob ci km u db x =
     (case store_new_key rnd (name_descriptor x) Client params blob ci km u db of
        (Inr i, db') \<Rightarrow> Some (i, db') | (Inl _, _) \<Rightarrow> None)"

lemma with_transaction_ok:
  "with_transaction f db = (Inr v, db') \<longleftrightarrow>
     (\<exists>gc tx. f db = Inr ((gc, v), tx) \<and> db' = (if gc then notify_gc tx else tx))"
  by (auto simp: with_transaction_def split: sum.splits)

lemma client_key_notify [simp]: "client_key (notify_gc db) = client_key db"
  by (simp add: client_key_def notify_gc_def)

lemma store_new_key_ok:
  assumes "db_inv db" and "store_new_key rnd key Client params blob ci km u db = (Inr i, db')"
  obtains a tx where "kd_alias key = Some a" and "is_app_or_selinux (kd_domain key)"
    and "i \<notin> key_ids db" and "i \<in> set rnd" and "i \<notin> db_locked_keys db"
    and "tx = stored_key_db i a (kd_domain key) (kd_nspace key) Client params blob ci km u db"
    and "db_inv tx" and "db' = tx \<or> db' = notify_gc tx"
proof -
  from assms(2) obtain a gc tx where a: "kd_alias key = Some a" "is_app_or_selinux (kd_domain key)"
    and tx: "store_new_key_tx rnd a (kd_domain key) (kd_nspace key) Client params blob ci km u db = Inr ((gc, i), tx)"
    and db': "db' = (if gc then notify_gc tx else tx)"
    by (auto simp: store_new_key_def with_transaction_ok split: option.splits if_splits)
  note e = store_new_key_tx_effect [OF tx]
  from e(1,3,5,6) a db' store_new_key_tx_inv [OF assms(1) tx] show ?thesis
    by (intro that [of a tx]) auto
qed

interpretation client: alias_store client_key db_inv "store_client_key rnd params blob ci km u"
    "\<lambda>db i. snd (mark_unreferenced i db)" for rnd params blob ci km u
proof
  show "client_key s k = Some i \<Longrightarrow> client_key s k' = Some i \<Longrightarrow> k = k'" if "db_inv s" for s k k' i
    using client_key_inj [OF that] by blast
next
  fix s k i s'
  assume inv: "db_inv s" and st: "store_client_key rnd params blob ci km u s k = Some (i, s')"
  then have ok: "store_new_key rnd (name_descriptor k) Client params blob ci km u s = (Inr i, s')"
    by (auto simp: store_client_key_def split: prod.splits sum.splits)
  show "db_inv s'" using store_new_key_inv [OF inv] ok by (metis snd_conv)
  obtain d n a where k: "k = (d, n, a)" by (cases k)
  from store_new_key_ok [OF inv ok] obtain tx where fresh: "i \<notin> key_ids s"
    and tx: "tx = stored_key_db i a d n Client params blob ci km u s" "db_inv tx" "s' = tx \<or> s' = notify_gc tx"
    by (auto simp: k name_descriptor_def)
  have "client_key s' = client_key tx" using tx(3) by auto
  also have "\<dots> = (client_key s)(k \<mapsto> i)"
    using tx(2) unfolding tx(1) k by (rule stored_key_view [OF inv])
  finally show "client_key s' = (client_key s)(k \<mapsto> i)" .
  show "client_key s k' \<noteq> Some i" for k'
    using fresh client_key_iff [OF inv] by (cases k') (auto simp: key_ids_def)
qed (auto intro: mark_unreferenced_inv mark_unreferenced_view)

section \<open>Other operations on the view\<close>

lemma delete_keys_where_view:
  assumes "db_inv db" and "\<And>k d n a. named a d n Client k \<Longrightarrow> p k = q (d, n, a)"
  shows "client_key (delete_keys_where p db) = (\<lambda>x. if q x then None else client_key db x)"
proof (rule client_key_eqI [OF assms(1) delete_keys_where_inv [OF assms(1)]])
  fix d n a j
  have "(\<exists>k\<in>set (db_keyentry (delete_keys_where p db)). named a d n Client k \<and> ke_state k = Live \<and> ke_id k = j)
     \<longleftrightarrow> \<not> q (d, n, a) \<and> client_key db (d, n, a) = Some j"
    unfolding client_key_iff [OF assms(1)] using assms(2) [of a d n]
    by (auto simp: delete_keys_where_def Let_def)
  then show "(\<exists>k\<in>set (db_keyentry (delete_keys_where p db)). named a d n Client k \<and> ke_state k = Live \<and> ke_id k = j)
     \<longleftrightarrow> (if q (d, n, a) then None else client_key db (d, n, a)) = Some j"
    by auto
qed

lemma migrate_view:
  assumes inv: "db_inv db" and "is_app_or_selinux d"
    and ok: "migrate_key_namespace_tx g a d n db = Inr (v, tx)" and src: "client_key db x = Some g"
  shows "client_key tx = ((client_key db)(x := None))((d, n, a) \<mapsto> g)"
proof (rule client_key_eqI [OF inv migrate_key_namespace_tx_inv [OF inv assms(2) ok]])
  fix d' n' a' j
  let ?move = "\<lambda>k. k\<lparr>ke_alias := Some a, ke_domain := Some d, ke_namespace := Some n\<rparr>"
  obtain d0 n0 a0 where x: "x = (d0, n0, a0)" by (cases x)
  obtain k0 where k0: "k0 \<in> set (db_keyentry db)" "ke_id k0 = g" "named a0 d0 n0 Client k0" "ke_state k0 = Live"
    using src client_key_iff [OF inv] unfolding x by auto
  have dist: "distinct (map ke_id (db_keyentry db))" using inv by (simp add: db_inv_def keys_inv_def)
  have only: "{k \<in> set (db_keyentry db). ke_id k = g} = {k0}"
  proof (intro equalityI subsetI)
    fix k assume "k \<in> {k \<in> set (db_keyentry db). ke_id k = g}"
    then show "k \<in> {k0}" using distinct_map_inj [OF dist _ k0(1)] k0(2) by simp
  qed (use k0 in simp)
  have "db_keyentry tx = update_where (\<lambda>k. ke_id k = g) ?move (db_keyentry db)"
    using ok by (auto simp: migrate_key_namespace_tx_def split: if_split_asm)
  then have t: "set (db_keyentry tx) = {k \<in> set (db_keyentry db). ke_id k \<noteq> g} \<union> {?move k0}"
    by (simp add: only)
  have free: "client_key db (d, n, a) = None"
    using ok unfolding client_key_None_iff [OF inv]
    by (auto simp: migrate_key_namespace_tx_def query_row_optional_def filter_empty_conv named_def
        split: if_split_asm list.split_asm)
  have moved: "named a' d' n' Client (?move k0) \<longleftrightarrow> (d', n', a') = (d, n, a)" "ke_state (?move k0) = Live"
    "ke_id (?move k0) = g"
    using k0 by (auto simp: named_def)
  have split: "(\<exists>k\<in>set (db_keyentry tx). P k) \<longleftrightarrow> (\<exists>k\<in>set (db_keyentry db). P k \<and> ke_id k \<noteq> g) \<or> P (?move k0)" for P
    unfolding t by blast
  have "(\<exists>k\<in>set (db_keyentry tx). named a' d' n' Client k \<and> ke_state k = Live \<and> ke_id k = j) \<longleftrightarrow>
      (\<exists>k\<in>set (db_keyentry db). (named a' d' n' Client k \<and> ke_state k = Live \<and> ke_id k = j) \<and> ke_id k \<noteq> g) \<or>
      (d', n', a') = (d, n, a) \<and> j = g"
    unfolding split [of "\<lambda>k. named a' d' n' Client k \<and> ke_state k = Live \<and> ke_id k = j"] moved by auto
  also have "\<dots> \<longleftrightarrow> (client_key db (d', n', a') = Some j \<and> j \<noteq> g) \<or> ((d', n', a') = (d, n, a) \<and> j = g)"
    unfolding client_key_iff [OF inv] by blast
  also have "\<dots> \<longleftrightarrow> (((client_key db)(x := None))((d, n, a) \<mapsto> g)) (d', n', a') = Some j"
  proof (cases "(d', n', a') = (d, n, a)")
    case True
    then show ?thesis using free by auto
  next
    case False
    show ?thesis
    proof (cases "client_key db (d', n', a') = Some g")
      case True
      then have "(d', n', a') = x" using client_key_inj [OF inv _ src] by blast
      with True False src show ?thesis by auto
    next
      case False': False
      then have "(d', n', a') \<noteq> x" using src by auto
      with False False' show ?thesis by auto
    qed
  qed
  finally show "(\<exists>k\<in>set (db_keyentry tx). named a' d' n' Client k \<and> ke_state k = Live \<and> ke_id k = j)
     \<longleftrightarrow> (((client_key db)(x := None))((d, n, a) \<mapsto> g)) (d', n', a') = Some j" .
qed

section \<open>Access tuples\<close>

lemma load_access_tuple_locks [simp]:
  "load_access_tuple key ty uid (db\<lparr>db_locked_keys := L\<rparr>) = load_access_tuple key ty uid db"
  by (simp add: load_access_tuple_def load_key_entry_id_def key_state_def cong: if_cong)

text \<open>
  Where an access tuple comes from: the row of a live key, which the descriptor names in the
  caller's own namespace (APP), in a SELinux namespace, by a grant to the caller, or by id.
\<close>

definition access_source :: "key_descriptor \<Rightarrow> nat \<Rightarrow> keystore_db \<Rightarrow> int \<Rightarrow> key_descriptor \<Rightarrow> key_perm_set option
    \<Rightarrow> keyentry_row \<Rightarrow> bool" where
  "access_source key uid db i ak av k \<longleftrightarrow>
     (case kd_domain key of
        APP \<Rightarrow> ke_domain k = Some APP \<and> ke_namespace k = Some (int uid) \<and> ke_alias k = kd_alias key \<and>
               ak = key\<lparr>kd_nspace := int uid\<rparr> \<and> av = None
      | SELINUX \<Rightarrow> ke_domain k = Some SELINUX \<and> ke_namespace k = Some (kd_nspace key) \<and>
               ke_alias k = kd_alias key \<and> ak = key \<and> av = None
      | GRANT \<Rightarrow> ak = key \<and> (\<exists>g\<in>set (db_grant db). gr_id g = kd_nspace key \<and> gr_grantee g = int uid \<and>
               gr_keyentryid g = i \<and> av = Some (gr_access_vector g))
      | KEY_ID \<Rightarrow> i = kd_nspace key \<and> (\<exists>d n. ke_domain k = Some d \<and> ke_namespace k = Some n \<and>
               ak = key\<lparr>kd_domain := d, kd_nspace := n\<rparr>) \<and>
               (\<forall>v. av = Some v \<longrightarrow> (\<exists>g\<in>set (db_grant db). gr_grantee g = int uid \<and>
                  gr_keyentryid g = i \<and> gr_access_vector g = v))
      | _ \<Rightarrow> False)"

lemma query_row_optional_Some: "query_row_optional (filter p t) = Some r \<Longrightarrow> r \<in> set t \<and> p r"
  by (auto simp: query_row_optional_def filter_eq_Cons_iff split: list.splits)

lemma load_access_tuple_source:
  assumes "load_access_tuple key ty uid db = Inr (i, ak, av)"
  shows "\<exists>k\<in>set (db_keyentry db). ke_id k = i \<and> ke_state k = Live \<and> access_source key uid db i ak av k"
proof -
  consider "kd_domain key = APP" | "kd_domain key = SELINUX" | "kd_domain key = GRANT" | "kd_domain key = KEY_ID"
    using assms by (auto simp: load_access_tuple_def is_app_or_selinux_def split: if_splits)
  then show ?thesis
  proof cases
    case 1
    with assms show ?thesis
      by (auto simp: load_access_tuple_def is_app_or_selinux_def res_iffs Let_def access_source_def
          dest!: load_key_entry_id_ok)
  next
    case 2
    with assms show ?thesis
      by (auto simp: load_access_tuple_def is_app_or_selinux_def res_iffs Let_def access_source_def
          dest!: load_key_entry_id_ok)
  next
    case 3
    with assms obtain g where g: "g \<in> set (db_grant db)" "gr_grantee g = int uid" "gr_id g = kd_nspace key"
        "key_state (gr_keyentryid g) db = Some Live" "i = gr_keyentryid g" "ak = key" "av = Some (gr_access_vector g)"
      by (auto simp: load_access_tuple_def is_app_or_selinux_def res_iffs dest!: extract_one_found)
    with key_state_live [OF g(4)] 3 show ?thesis by (auto simp: access_source_def)
  next
    case 4
    with assms show ?thesis
      by (auto simp: load_access_tuple_def is_app_or_selinux_def res_iffs access_source_def sql_get_def
          dest!: extract_one_found query_row_optional_Some split: if_splits)
  qed
qed

lemma KeyIdLockDb_get_wait_ok:
  assumes "KeyIdLockDb_get_wait wait k db = (Inr g, db')"
  shows "g = k" and "\<exists>d\<in>{db, wait k db}. k \<notin> db_locked_keys d \<and> db' = d\<lparr>db_locked_keys := insert k (db_locked_keys d)\<rparr>"
  using assms by (auto simp: KeyIdLockDb_get_wait_def Let_def KeyIdLockDb_get_def split: if_splits)

lemma load_key_entry_check_ok:
  "load_key_entry_check key ty uid check db = Inr i \<longleftrightarrow>
     (\<exists>ak av. load_access_tuple key ty uid db = Inr (i, ak, av) \<and> check ak av = Inr ())"
  by (auto simp: load_key_entry_check_def res_iffs)

lemma load_key_entry_guard_ok:
  assumes "load_key_entry_guard wait key ty uid check db = (Inr g, db')"
  shows "\<exists>d0\<in>{db, wait g db}. load_key_entry_check key ty uid check d0 = Inr g"
    and "\<exists>d1\<in>{db, wait g db}. g \<notin> db_locked_keys d1 \<and> db' = d1\<lparr>db_locked_keys := insert g (db_locked_keys d1)\<rparr>"
    and "\<exists>k\<in>set (db_keyentry db'). ke_id k = g \<and> ke_state k = Live"
proof -
  have live: "load_key_entry_check key' ty uid check' d = Inr i \<Longrightarrow>
      \<exists>k\<in>set (db_keyentry d). ke_id k = i \<and> ke_state k = Live" for key' check' d i
    by (auto simp: load_key_entry_check_ok dest: load_access_tuple_live)
  have chk: "load_key_entry_check key ty uid check (d\<lparr>db_locked_keys := L\<rparr>) = load_key_entry_check key ty uid check d"
    for d L by (simp add: load_key_entry_check_def)
  have "(\<exists>d0\<in>{db, wait g db}. load_key_entry_check key ty uid check d0 = Inr g) \<and>
    (\<exists>d1\<in>{db, wait g db}. g \<notin> db_locked_keys d1 \<and> db' = d1\<lparr>db_locked_keys := insert g (db_locked_keys d1)\<rparr>) \<and>
    (\<exists>k\<in>set (db_keyentry db'). ke_id k = g \<and> ke_state k = Live)"
  proof (cases "kd_domain key = KEY_ID")
    case True
    with assms obtain g1 db1 j where w: "KeyIdLockDb_get_wait wait (kd_nspace key) db = (Inr g1, db1)"
      and c: "load_key_entry_check key ty uid check db1 = Inr j" and eq: "g = g1" "db' = db1"
      by (auto simp: load_key_entry_guard_def split: prod.splits sum.splits)
    have j: "j = kd_nspace key"
      using c True load_access_tuple_source [of key ty uid db1]
      by (fastforce simp: load_key_entry_check_ok access_source_def)
    with KeyIdLockDb_get_wait_ok [OF w] c chk live [OF c] eq show ?thesis by auto
  next
    case False
    with assms obtain i where c: "load_key_entry_check key ty uid check db = Inr i"
      and l: "load_key_entry_lock wait i ty uid db = (Inr g, db')"
      by (auto simp: load_key_entry_guard_def split: sum.splits)
    show ?thesis
    proof (cases "i \<in> db_locked_keys db")
      case False
      with l c live [OF c] show ?thesis
        by (auto simp: load_key_entry_lock_def KeyIdLockDb_try_get_def)
    next
      case True
      with l obtain v where w: "KeyIdLockDb_get_wait wait i db = (Inr g, db')"
        and v: "load_access_tuple (key_id_descriptor i) ty uid db' = Inr v"
        by (auto simp: load_key_entry_lock_def KeyIdLockDb_try_get_def split: prod.splits sum.splits)
      obtain j ak av where v': "v = (j, ak, av)" by (cases v)
      have "j = i"
        using load_access_tuple_source [OF v [unfolded v']] by (auto simp: access_source_def key_id_descriptor_def)
      with KeyIdLockDb_get_wait_ok [OF w] c load_access_tuple_live [OF v [unfolded v']] show ?thesis by auto
    qed
  qed
  then show "\<exists>d0\<in>{db, wait g db}. load_key_entry_check key ty uid check d0 = Inr g"
    and "\<exists>d1\<in>{db, wait g db}. g \<notin> db_locked_keys d1 \<and> db' = d1\<lparr>db_locked_keys := insert g (db_locked_keys d1)\<rparr>"
    and "\<exists>k\<in>set (db_keyentry db'). ke_id k = g \<and> ke_state k = Live"
    by blast+
qed

end
