(* ===== verification/Ks_DbProperties.thy ===== *)
theory Ks_DbProperties
  imports Ks_DbKeys
begin

text \<open>
  The properties of the key database, each stated over the operations of
  \<open>src/keystore2/src/database.rs\<close>, with the concrete databases the witnesses use.
\<close>

section \<open>Example databases\<close>

definition ex_key :: key_descriptor where
  "ex_key = \<lparr>kd_domain = APP, kd_nspace = 10, kd_alias = Some ''k'', kd_blob = None\<rparr>"

definition ex_params :: "key_parameter list" where
  "ex_params = [\<lparr>kp_value = KpUsageCountLimit 2, kp_security_level = 1\<rparr>]"

definition ex_blob :: "bytes \<times> blob_meta_data" where
  "ex_blob = ([1, 2], BlobMetaData_add (KmUuid KEYSTORE_UUID) BlobMetaData_new)"

definition ex_cert :: certificate_info where
  "ex_cert = \<lparr>ci_cert = Some [3], ci_cert_chain = None\<rparr>"

definition ex_store :: "int list \<Rightarrow> keystore_db \<Rightarrow> int res \<times> keystore_db" where
  "ex_store rnd db = store_new_key rnd ex_key Client ex_params ex_blob ex_cert KeyMetaData_new KEYSTORE_UUID db"

definition ex_db :: keystore_db where
  "ex_db = KeyIdGuard_drop 7 (snd (ex_store [- 1, 7] (init_tables (Some 0))))"

lemma ex_db_reachable: "db_step\<^sup>*\<^sup>* (init_tables (Some 0)) ex_db"
proof -
  have "db_step (init_tables (Some 0)) (snd (ex_store [- 1, 7] (init_tables (Some 0))))"
    unfolding ex_store_def by (rule db_step.store_key)
  moreover have "db_step (snd (ex_store [- 1, 7] (init_tables (Some 0)))) ex_db"
    unfolding ex_db_def by (rule db_step.drop_guard)
  ultimately show ?thesis by (meson r_into_rtranclp rtranclp_trans)
qed

lemma ex_db_inv: "db_inv ex_db"
  using db.invariant_reachable [OF _ ex_db_reachable] by blast

lemma ok_pair: "is_ok (fst r) \<Longrightarrow> \<exists>v. r = (Inr v, snd r)"
  by (cases r) (auto simp: is_ok_iff)

section \<open>Lemmas on single operations\<close>

lemma with_transaction_error: "fst (with_transaction f db) = Inl e \<Longrightarrow> snd (with_transaction f db) = db"
  by (auto simp: with_transaction_def split: sum.splits)

text \<open>Notifying the collector is invisible to readers.\<close>

lemma notify_gc_tables [simp]:
  "db_keyentry (notify_gc db) = db_keyentry db" "db_blobentry (notify_gc db) = db_blobentry db"
  "db_blobmetadata (notify_gc db) = db_blobmetadata db" "db_keyparameter (notify_gc db) = db_keyparameter db"
  "db_keymetadata (notify_gc db) = db_keymetadata db" "db_grant (notify_gc db) = db_grant db"
  "db_locked_keys (notify_gc db) = db_locked_keys db"
  by (simp_all add: notify_gc_def)

lemma notify_gc_load [simp]:
  "load_key_entry_id key ty (notify_gc db) = load_key_entry_id key ty db"
  "BlobMetaData_load_from_db i (notify_gc db) = BlobMetaData_load_from_db i db"
  "KeyMetaData_load_from_db i (notify_gc db) = KeyMetaData_load_from_db i db"
  "load_key_parameters i (notify_gc db) = load_key_parameters i db"
  "get_key_km_uuid i (notify_gc db) = get_key_km_uuid i db"
  by (simp_all add: load_key_entry_id_def BlobMetaData_load_from_db_def KeyMetaData_load_from_db_def
      load_key_parameters_def get_key_km_uuid_def)

lemma notify_gc_components [simp]:
  "load_blob_components i bits (notify_gc db) = load_blob_components i bits db"
  "load_key_components bits i (notify_gc db) = load_key_components bits i db"
proof -
  show "load_blob_components i bits (notify_gc db) = load_blob_components i bits db"
    unfolding load_blob_components_def by (simp add: Let_def cong: option.case_cong if_cong)
  then show "load_key_components bits i (notify_gc db) = load_key_components bits i db"
    unfolding load_key_components_def by simp
qed

lemma key_state_Live:
  assumes "db_inv db" and "k \<in> set (db_keyentry db)"
  shows "key_state (ke_id k) db = Some (ke_state k)"
  using keys_inv_unique [of "db_keyentry db" k] assms
  by (simp add: key_state_def query_row_optional_def db_inv_def)

lemma grant_ok:
  assumes "db_inv db" and "grant rnd key uid grantee av check db = (Inr desc, db')"
  obtains i ak v row where "load_access_tuple key Client uid db = Inr (i, ak, v)" and "check ak av = Inr ()"
    and "db_keyentry db' = db_keyentry db" and "row \<in> set (db_grant db')"
    and "row = \<lparr>gr_id = kd_nspace desc, gr_grantee = int grantee, gr_keyentryid = i, gr_access_vector = av\<rparr>"
    and "desc = \<lparr>kd_domain = GRANT, kd_nspace = kd_nspace desc, kd_alias = None, kd_blob = None\<rparr>"
proof -
  from assms(2) obtain i ak v gid where t: "load_access_tuple key Client uid db = Inr (i, ak, v)" "check ak av = Inr ()"
    and g: "(case query_row_optional
                 (filter (\<lambda>g. gr_keyentryid g = i \<and> gr_grantee g = int grantee) (db_grant db)) of
            Some g \<Rightarrow>
              Inr (gr_id g, db\<lparr>db_grant := update_where (\<lambda>h. gr_id h = gr_id g)
                     (\<lambda>h. h\<lparr>gr_access_vector := av\<rparr>) (db_grant db)\<rparr>)
          | None \<Rightarrow>
              insert_with_retry rnd (\<lambda>id'. insert_grant
                \<lparr>gr_id = id', gr_grantee = int grantee, gr_keyentryid = i,
                 gr_access_vector = av\<rparr> db)) = Inr (gid, db')"
    and desc: "desc = \<lparr>kd_domain = GRANT, kd_nspace = gid, kd_alias = None, kd_blob = None\<rparr>"
    by (auto simp: grant_def with_transaction_ok res_iffs)
  let ?row = "\<lparr>gr_id = gid, gr_grantee = int grantee, gr_keyentryid = i, gr_access_vector = av\<rparr>"
  have "db_keyentry db' = db_keyentry db \<and> ?row \<in> set (db_grant db')"
  proof (cases "query_row_optional (filter (\<lambda>g. gr_keyentryid g = i \<and> gr_grantee g = int grantee) (db_grant db))")
    case None
    with g have "insert_with_retry rnd (\<lambda>id'. insert_grant
        \<lparr>gr_id = id', gr_grantee = int grantee, gr_keyentryid = i, gr_access_vector = av\<rparr> db) = Inr (gid, db')"
      by simp
    from new_grant(4) [OF this] show ?thesis by simp
  next
    case (Some h)
    then have h: "h \<in> set (db_grant db)" "gr_keyentryid h = i" "gr_grantee h = int grantee"
      by (auto dest: query_row_optional_Some)
    from g Some have eq: "gid = gr_id h"
      "db' = db\<lparr>db_grant := update_where (\<lambda>x. gr_id x = gr_id h) (\<lambda>x. x\<lparr>gr_access_vector := av\<rparr>) (db_grant db)\<rparr>"
      by auto
    have "?row = h\<lparr>gr_access_vector := av\<rparr>" using h eq(1) by simp
    then show ?thesis using h(1) by (auto simp: eq(2))
  qed
  with t desc show ?thesis by (intro that [of i ak v ?row]) auto
qed

lemma load_by_grant:
  assumes "db_inv db" and "row \<in> set (db_grant db)" and "k \<in> set (db_keyentry db)"
    and "ke_id k = gr_keyentryid row" and "ke_state k = Live"
    and "kd_domain desc = GRANT" and "kd_nspace desc = gr_id row"
  shows "load_access_tuple desc ty u db =
    (if int u = gr_grantee row then Inr (gr_keyentryid row, desc, Some (gr_access_vector row))
     else Inl (Ks (Rc RC_KEY_NOT_FOUND)))"
proof -
  have "filter (\<lambda>g. gr_id g = gr_id row) (db_grant db) = [row]"
    using assms(1,2) by (intro filter_unique_key) (auto simp: db_inv_def refs_inv_def)
  moreover have "filter (\<lambda>g. gr_grantee g = int u \<and> gr_id g = gr_id row \<and> key_state (gr_keyentryid g) db = Some Live) (db_grant db)
     = filter (\<lambda>g. gr_grantee g = int u \<and> key_state (gr_keyentryid g) db = Some Live)
         (filter (\<lambda>g. gr_id g = gr_id row) (db_grant db))"
    by (auto simp: filter_filter intro: filter_cong)
  moreover have "key_state (gr_keyentryid row) db = Some Live"
    using key_state_Live [OF assms(1,3)] assms(4,5) by simp
  ultimately show ?thesis
    using assms(6,7) by (auto simp: load_access_tuple_def is_app_or_selinux_def)
qed

section \<open>Properties\<close>

text \<open>C1. The database invariant holds after every sequence of operations of any callers: key,
  grant and blob ids are unique and never -1 for keys, an alias in a domain and namespace names
  at most one client key, a live client key has a name in domain APP or SELINUX, and
  parameters, metadata and grants belong to existing keys.\<close>

theorem db_invariant_reachable:
  assumes "db_step\<^sup>*\<^sup>* (init_tables gc) db"
  shows "db_inv db"
  using db.invariant_reachable [OF _ assms] by blast

theorem db_invariant_reachable_witness: "db_inv ex_db \<and> key_ids ex_db = {7}"
proof -
  have "map ke_id (db_keyentry ex_db) = [7]" by code_simp
  then have "key_ids ex_db = {7}" unfolding key_ids_def by (metis list.set(1,2) list.set_map)
  then show ?thesis using db_invariant_reachable [OF ex_db_reachable] by simp
qed

text \<open>C4. Storing a client key refines an update of the map from names to keys: the new key
  gets an id that no key had, exactly the given name is bound to it, and every other name keeps
  its key.  The key id is locked by the returned guard and the invariant is kept.\<close>

theorem store_new_key_refines:
  assumes "db_inv db" and "store_new_key rnd key Client params blob ci km u db = (Inr i, db')"
    and "kd_alias key = Some a"
  shows "i \<notin> key_ids db \<and> client_key db' = (client_key db)((kd_domain key, kd_nspace key, a) \<mapsto> i) \<and>
    i \<notin> db_locked_keys db \<and> db_locked_keys db' = insert i (db_locked_keys db) \<and> db_inv db'"
  using assms(1,2)
proof (rule store_new_key_ok)
  fix a' tx
  assume "kd_alias key = Some a'" and fresh: "i \<notin> key_ids db" "i \<notin> db_locked_keys db"
    and "tx = stored_key_db i a' (kd_domain key) (kd_nspace key) Client params blob ci km u db"
    and inv: "db_inv tx" and db': "db' = tx \<or> db' = notify_gc tx"
  with assms(3) have tx: "tx = stored_key_db i a (kd_domain key) (kd_nspace key) Client params blob ci km u db"
    by simp
  have "client_key tx = (client_key db)((kd_domain key, kd_nspace key, a) \<mapsto> i)"
    using inv unfolding tx by (rule stored_key_view [OF assms(1)])
  moreover have "db_locked_keys tx = insert i (db_locked_keys db)"
    by (simp add: tx stored_key_db_def Let_def)
  moreover have "client_key db' = client_key tx" "db_inv db'" using db' inv by auto
  moreover have "db_locked_keys db' = db_locked_keys tx" using db' by (auto simp: notify_gc_def)
  ultimately show ?thesis using fresh by simp
qed

theorem store_new_key_refines_witness:
  "\<exists>db'. ex_store [7, 8] ex_db = (Inr 8, db') \<and> client_key ex_db (APP, 10, ''k'') = Some 7 \<and>
     client_key db' (APP, 10, ''k'') = Some 8"
proof -
  have ok: "ex_store [7, 8] ex_db = (Inr 8, snd (ex_store [7, 8] ex_db))"
    by (rule prod_eqI) (simp, code_simp, simp)
  have "client_key ex_db (APP, 10, ''k'') = Some 7" by code_simp
  with store_new_key_refines [OF ex_db_inv ok [unfolded ex_store_def], of "''k''"] ok
  show ?thesis by (auto simp: ex_key_def ex_store_def)
qed

text \<open>C16. A stored key is loaded with exactly what was stored: the name leads to the new id, and
  loading all components of that id yields the key blob with its metadata, the certificates,
  the parameters in order, the key metadata and the KeyMint uuid.  (The id must not be one of
  a deleted key whose blobs still wait for collection.)\<close>

theorem store_load_roundtrip:
  assumes "db_inv db" and "store_new_key rnd key Client params blob ci km u db = (Inr i, db')"
    and "i \<notin> be_keyentryid ` set (db_blobentry db)"
    and "wf_blob_meta (snd blob)" and "wf_key_meta km" and "length u = 16"
  shows "load_key_entry_id key Client db' = Inr i \<and>
    load_key_components LB_BOTH i db' =
      Inr \<lparr>e_id = i, e_key_blob_info = Some blob, e_cert = ci_cert ci, e_cert_chain = ci_cert_chain ci,
           e_km_uuid = u, e_parameters = params, e_metadata = km, e_pure_cert = False\<rparr>"
  using assms(1,2)
proof (rule store_new_key_ok)
  fix a tx
  assume a: "kd_alias key = Some a" and fresh: "i \<notin> key_ids db"
    and tx: "tx = stored_key_db i a (kd_domain key) (kd_nspace key) Client params blob ci km u db"
    and inv: "db_inv tx" and db': "db' = tx \<or> db' = notify_gc tx"
  have "client_key tx = (client_key db)((kd_domain key, kd_nspace key, a) \<mapsto> i)"
    using inv unfolding tx by (rule stored_key_view [OF assms(1)])
  moreover have "key = \<lparr>kd_domain = kd_domain key, kd_nspace = kd_nspace key, kd_alias = Some a, kd_blob = kd_blob key\<rparr>"
    using a by simp
  ultimately have "load_key_entry_id key Client tx = Inr i"
    using load_key_entry_id_client [OF inv, of "kd_domain key" "kd_nspace key" a "kd_blob key"] by simp
  moreover have "load_key_components LB_BOTH i tx = Inr \<lparr>e_id = i, e_key_blob_info = Some blob,
      e_cert = ci_cert ci, e_cert_chain = ci_cert_chain ci, e_km_uuid = u, e_parameters = params,
      e_metadata = km, e_pure_cert = False\<rparr>"
    unfolding tx by (rule stored_components [OF assms(1) fresh assms(3-6)])
  ultimately show ?thesis using db' by auto
qed

theorem store_load_roundtrip_witness:
  "load_key_components LB_BOTH 8 (snd (ex_store [7, 8] ex_db)) =
     Inr \<lparr>e_id = 8, e_key_blob_info = Some ex_blob, e_cert = Some [3], e_cert_chain = None,
          e_km_uuid = KEYSTORE_UUID, e_parameters = ex_params, e_metadata = [], e_pure_cert = False\<rparr>"
proof -
  have ok: "ex_store [7, 8] ex_db = (Inr 8, snd (ex_store [7, 8] ex_db))"
    by (rule prod_eqI) (simp, code_simp, simp)
  have "map be_keyentryid (db_blobentry ex_db) = [7, 7]" by code_simp
  then have "be_keyentryid ` set (db_blobentry ex_db) = {7}"
    by (metis insert_absorb2 list.set(1,2) list.set_map)
  moreover have "wf_blob_meta (snd ex_blob)"
    by (simp add: ex_blob_def wf_blob_meta_entry_def KEYSTORE_UUID_def)
  ultimately show ?thesis
    using store_load_roundtrip [OF ex_db_inv ok [unfolded ex_store_def]]
    by (simp add: ex_cert_def KEYSTORE_UUID_def KeyMetaData_new_def wf_key_meta_def ex_store_def)
qed

text \<open>Storing a key terminates successfully: given an alias in domain APP or SELINUX, no
  blob in the descriptor, at least one random number that is neither -1 nor the id of an
  existing key, and no guard on the numbers drawn, \<open>store_new_key\<close> returns a key id.\<close>

theorem store_new_key_returns:
  assumes "kd_alias key = Some a" and "is_app_or_selinux (kd_domain key)" and "kd_blob key = None"
    and "j \<in> set rnd" and "j \<noteq> UNASSIGNED_KEY_ID" and "j \<notin> key_ids db"
    and "set rnd \<inter> db_locked_keys db = {}"
  shows "\<exists>i db'. store_new_key rnd key ty params blob ci km u db = (Inr i, db')"
proof -
  obtain i tx where "create_key_entry_internal rnd (kd_domain key) (kd_nspace key) ty u db = Inr (i, tx)"
    using create_key_entry_internal_total [OF assms(2,4-7)] by blast
  from store_new_key_tx_after [OF this, of a params blob ci km] show ?thesis
    using assms(1-3) by (simp add: store_new_key_def with_transaction_def)
qed

theorem store_new_key_returns_witness:
  "\<exists>i db'. store_new_key [- 1, 7, 8] ex_key Client ex_params ex_blob ex_cert [] KEYSTORE_UUID ex_db = (Inr i, db')"
proof -
  have "map ke_id (db_keyentry ex_db) = [7]" by code_simp
  then have "key_ids ex_db = {7}" unfolding key_ids_def by (metis list.set(1,2) list.set_map)
  moreover have "db_locked_keys ex_db = {}"
    by (simp add: ex_db_def KeyIdGuard_drop_def) code_simp
  ultimately show ?thesis
    by (intro store_new_key_returns [where a = "''k''" and j = 8])
      (simp_all add: ex_key_def is_app_or_selinux_def UNASSIGNED_KEY_ID_def)
qed

text \<open>C2. No key is loaded without permission: if \<open>load_key_entry\<close> returns a key, then the
  permission callback accepted the access tuple of exactly that key, taken from a database state
  the call saw (before or after waiting for the key lock); the key is live in the state in
  which it is loaded, the returned guard holds a lock that was free, and the entry is the
  key's own.\<close>

theorem load_key_entry_authorized:
  assumes "load_key_entry wait key ty bits uid check db = (Inr (g, entry), db')"
  shows "(\<exists>d\<in>{db, wait g db}. \<exists>ak av. load_access_tuple key ty uid d = Inr (g, ak, av) \<and> check ak av = Inr ()) \<and>
    (\<exists>d\<in>{db, wait g db}. g \<notin> db_locked_keys d \<and> db' = d\<lparr>db_locked_keys := insert g (db_locked_keys d)\<rparr>) \<and>
    (\<exists>k\<in>set (db_keyentry db'). ke_id k = g \<and> ke_state k = Live) \<and>
    load_key_components bits g db' = Inr entry \<and> e_id entry = g"
proof -
  from assms obtain db1 where guard: "load_key_entry_guard wait key ty uid check db = (Inr g, db')"
    and comp: "load_key_components bits g db' = Inr entry"
    by (auto simp: load_key_entry_def load_key_entry_internal_def split: prod.splits sum.splits)
  have "e_id entry = g" using comp by (auto simp: load_key_components_def res_iffs)
  with load_key_entry_guard_ok [OF guard] comp show ?thesis
    unfolding load_key_entry_check_ok by auto
qed

theorem load_key_entry_authorized_witness:
  "\<exists>entry db'. load_key_entry (\<lambda>_ d. d) ex_key Client LB_BOTH 10 (\<lambda>_ _. Inr ()) ex_db = (Inr (7, entry), db') \<and>
     e_id entry = 7 \<and> 7 \<in> db_locked_keys db'"
proof -
  let ?r = "load_key_entry (\<lambda>_ d. d) ex_key Client LB_BOTH 10 (\<lambda>_ _. Inr ()) ex_db"
  have "map_res fst (fst ?r) = Inr 7" by code_simp
  then obtain entry where r: "?r = (Inr (7, entry), snd ?r)"
    by (cases ?r) (auto simp: map_res_Inr_iff)
  with load_key_entry_authorized [OF r] show ?thesis by fastforce
qed

text \<open>C20. A grant is usable by its grantee only, with exactly the granted permissions: after
  \<open>grant\<close> returned a descriptor, resolving it yields the granted key with the granted access
  vector for the grantee, and KEY_NOT_FOUND for everybody else.  The grant was made only because
  the permission callback accepted the caller's access tuple of that key.\<close>

theorem grant_gives_access:
  assumes "db_inv db" and "grant rnd key uid grantee av check db = (Inr desc, db')"
  shows "\<exists>i ak v. load_access_tuple key Client uid db = Inr (i, ak, v) \<and> check ak av = Inr () \<and>
    (\<forall>u. load_access_tuple desc ty u db' =
       (if u = grantee then Inr (i, desc, Some av) else Inl (Ks (Rc RC_KEY_NOT_FOUND))))"
  using assms
proof (rule grant_ok)
  fix i ak v row
  assume t: "load_access_tuple key Client uid db = Inr (i, ak, v)" "check ak av = Inr ()"
    and ke: "db_keyentry db' = db_keyentry db" and row: "row \<in> set (db_grant db')"
      "row = \<lparr>gr_id = kd_nspace desc, gr_grantee = int grantee, gr_keyentryid = i, gr_access_vector = av\<rparr>"
    and desc: "desc = \<lparr>kd_domain = GRANT, kd_nspace = kd_nspace desc, kd_alias = None, kd_blob = None\<rparr>"
  from load_access_tuple_live [OF t(1)] obtain k where
    k: "k \<in> set (db_keyentry db')" "ke_id k = i" "ke_state k = Live"
    unfolding ke by blast
  have "db_inv db'" using grant_inv [OF assms(1)] assms(2) by (metis snd_conv)
  then have "load_access_tuple desc ty u db' =
       (if int u = gr_grantee row then Inr (gr_keyentryid row, desc, Some (gr_access_vector row))
        else Inl (Ks (Rc RC_KEY_NOT_FOUND)))" for u
    using k row by (intro load_by_grant) (auto simp: arg_cong [OF desc, of kd_domain])
  then have "load_access_tuple desc ty u db' =
       (if u = grantee then Inr (i, desc, Some av) else Inl (Ks (Rc RC_KEY_NOT_FOUND)))" for u
    by (simp add: row(2))
  with t show ?thesis by blast
qed

definition ex_grant :: "key_descriptor res \<times> keystore_db" where
  "ex_grant = grant [5] ex_key 10 99 0x208 (\<lambda>_ _. Inr ()) ex_db"

theorem grant_gives_access_witness:
  "\<exists>desc. fst ex_grant = Inr desc \<and> (\<exists>i. load_access_tuple desc Client 99 (snd ex_grant) = Inr (i, desc, Some 0x208)) \<and>
     load_access_tuple desc Client 98 (snd ex_grant) = Inl (Ks (Rc RC_KEY_NOT_FOUND))"
proof -
  have "is_ok (fst ex_grant)" by code_simp
  then obtain desc where d: "ex_grant = (Inr desc, snd ex_grant)" using ok_pair by blast
  obtain i where "\<forall>u. load_access_tuple desc Client u (snd ex_grant) =
      (if u = 99 then Inr (i, desc, Some 0x208) else Inl (Ks (Rc RC_KEY_NOT_FOUND)))"
    using grant_gives_access [OF ex_db_inv d [unfolded ex_grant_def], of Client]
    unfolding ex_grant_def [symmetric] by blast
  then have "load_access_tuple desc Client 99 (snd ex_grant) = Inr (i, desc, Some 0x208)"
    "load_access_tuple desc Client 98 (snd ex_grant) = Inl (Ks (Rc RC_KEY_NOT_FOUND))" by simp_all
  moreover have "fst ex_grant = Inr desc" using d by (metis fst_conv)
  ultimately show ?thesis by blast
qed

text \<open>C26. Revoking a grant works: after \<open>ungrant\<close> succeeded, the row of that grantee for
  that key is gone, every other grant is kept, and no grant descriptor leads the grantee to the
  key any more.\<close>

theorem ungrant_revokes:
  assumes "ungrant key uid grantee check db = (Inr (), db')"
  shows "\<exists>i ak v. load_access_tuple key Client uid db = Inr (i, ak, v) \<and> check ak = Inr () \<and>
    db_grant db' = filter (\<lambda>g. \<not> (gr_keyentryid g = i \<and> gr_grantee g = int grantee)) (db_grant db) \<and>
    (\<forall>desc ak' av'. kd_domain desc = GRANT \<longrightarrow> load_access_tuple desc ty grantee db' \<noteq> Inr (i, ak', av'))"
proof -
  from assms obtain i ak v where t: "load_access_tuple key Client uid db = Inr (i, ak, v)" "check ak = Inr ()"
    and g: "db_grant db' = filter (\<lambda>g. \<not> (gr_keyentryid g = i \<and> gr_grantee g = int grantee)) (db_grant db)"
    by (auto simp: ungrant_def with_transaction_ok res_iffs delete_where_def)
  have "load_access_tuple desc ty grantee db' \<noteq> Inr (i, ak', av')" if "kd_domain desc = GRANT" for desc ak' av'
    using load_access_tuple_source [of desc ty grantee db' i ak' av'] that g
    by (auto simp: access_source_def)
  with t g show ?thesis by blast
qed

theorem ungrant_revokes_witness:
  "\<exists>db'. ungrant ex_key 10 99 (\<lambda>_. Inr ()) (snd ex_grant) = (Inr (), db') \<and> db_grant (snd ex_grant) \<noteq> [] \<and> db_grant db' = []"
proof -
  let ?r = "ungrant ex_key 10 99 (\<lambda>_. Inr ()) (snd ex_grant)"
  have r: "?r = (Inr (), snd ?r)" by (rule prod_eqI) (simp, code_simp, simp)
  have rows: "db_grant (snd ex_grant) = [\<lparr>gr_id = 5, gr_grantee = 99, gr_keyentryid = 7, gr_access_vector = 0x208\<rparr>]"
    by code_simp
  have tuple: "map_res fst (load_access_tuple ex_key Client 10 (snd ex_grant)) = Inr 7" by code_simp
  from ungrant_revokes [OF r, of Client] rows tuple r show ?thesis
    by (auto simp: map_res_Inr_iff)
qed

text \<open>C32. Unbinding a key removes it completely and only with permission: on success the
  permission callback accepted the key's access tuple, afterwards no table but the blobs mentions
  the id, the name that had the key is free, every other name keeps its key, and the blobs stay
  for the garbage collector.  When the callback denies access nothing changes.\<close>

theorem unbind_key_effect:
  assumes "db_inv db"
  shows "case unbind_key key ty uid check db of
     (Inr _, db') \<Rightarrow> (\<exists>i ak av. load_access_tuple key ty uid db = Inr (i, ak, av) \<and> check ak av = Inr () \<and>
        i \<in> key_ids db \<and> i \<notin> key_ids db' \<and> i \<notin> gr_keyentryid ` set (db_grant db') \<and>
        i \<notin> kr_keyentryid ` set (db_keyparameter db') \<and> i \<notin> kmd_keyentryid ` set (db_keymetadata db') \<and>
        client_key db' = (\<lambda>x. if client_key db x = Some i then None else client_key db x) \<and>
        db_blobentry db' = db_blobentry db)
   | (Inl e, db') \<Rightarrow> db' = db \<and> (load_access_tuple key ty uid db = Inl e \<or>
        (\<exists>i ak av. load_access_tuple key ty uid db = Inr (i, ak, av) \<and> check ak av = Inl e))"
proof (cases "unbind_key key ty uid check db")
  case (Pair r db')
  show ?thesis
  proof (cases r)
    case (Inl e)
    with Pair have "unbind_key key ty uid check db = (Inl e, db')" by simp
    then show ?thesis
      by (auto simp: unbind_key_def with_transaction_def res_iffs case_prod_beta Let_def split: sum.splits)
  next
    case (Inr u)
    with Pair have "unbind_key key ty uid check db = (Inr (), db')" by simp
    then obtain i ak av where t: "load_access_tuple key ty uid db = Inr (i, ak, av)" "check ak av = Inr ()"
      and db': "db' = snd (mark_unreferenced i db) \<or> db' = notify_gc (snd (mark_unreferenced i db))"
      by (auto simp: unbind_key_def with_transaction_ok res_iffs case_prod_beta split: if_splits)
    let ?tx = "snd (mark_unreferenced i db)"
    have "client_key db' = client_key ?tx" using db' by auto
    then have view: "client_key db' = (\<lambda>x. if client_key db x = Some i then None else client_key db x)"
      by (simp add: mark_unreferenced_view [OF assms])
    have same: "key_ids db' = key_ids ?tx" "db_grant db' = db_grant ?tx" "db_keyparameter db' = db_keyparameter ?tx"
        "db_keymetadata db' = db_keymetadata ?tx" "db_blobentry db' = db_blobentry ?tx"
      using db' by (auto simp: key_ids_def)
    have known: "i \<in> key_ids db" using load_access_tuple_live [OF t(1)] by (auto simp: key_ids_def)
    have gone: "i \<notin> key_ids ?tx" "i \<notin> gr_keyentryid ` set (db_grant ?tx)"
      "i \<notin> kr_keyentryid ` set (db_keyparameter ?tx)" "i \<notin> kmd_keyentryid ` set (db_keymetadata ?tx)"
      "db_blobentry ?tx = db_blobentry db"
      by (auto simp: mark_unreferenced_def Let_def key_ids_def)
    show ?thesis
      unfolding Pair Inr prod.case sum.case
      by (intro exI [of _ i] exI [of _ ak] exI [of _ av] conjI) (simp_all only: t view known same gone not_False_eq_True)
  qed
qed

theorem unbind_key_effect_witness:
  "client_key (snd (unbind_key ex_key Client 10 (\<lambda>_ _. Inr ()) ex_db)) (APP, 10, ''k'') = None \<and>
   client_key ex_db (APP, 10, ''k'') = Some 7"
proof -
  have "fst (unbind_key ex_key Client 10 (\<lambda>_ _. Inr ()) ex_db) = Inr ()" by code_simp
  then obtain db' where r: "unbind_key ex_key Client 10 (\<lambda>_ _. Inr ()) ex_db = (Inr (), db')"
    by (metis prod.collapse)
  have tuple: "map_res fst (load_access_tuple ex_key Client 10 ex_db) = Inr 7" by code_simp
  have old: "client_key ex_db (APP, 10, ''k'') = Some 7" by code_simp
  obtain i ak av where "load_access_tuple ex_key Client 10 ex_db = Inr (i, ak, av)"
    and "client_key db' = (\<lambda>x. if client_key ex_db x = Some i then None else client_key ex_db x)"
    using unbind_key_effect [OF ex_db_inv, of ex_key Client 10 "\<lambda>_ _. Inr ()"]
    unfolding r prod.case sum.case by blast
  with tuple old r show ?thesis by simp
qed

end
