(* ===== verification/Ks_BootLevel.thy ===== *)
theory Ks_BootLevel
  imports Ks_Error
begin

text \<open>
  The cache of boot level keys (\<open>src/keystore2/src/boot_level_keys.rs\<close>).  The key of a
  boot level is derived from the key of the level below by HKDF; the cache holds the keys
  from the current level on, and levels below the current one can no longer be derived.
  \<open>hkdf_expand\<close> (BoringSSL) is a parameter: output length, key and info, with an error as
  a possible result.  Operations that change the cache return it next to their result,
  because a derivation that fails half way keeps the keys it has already pushed.

  The contract of the cache is \<open>level_key\<close>, the pure derivation of a level's key from
  the level zero key: a request is answered as the contract says whatever happened before,
  unless the level has been left behind.
\<close>

type_synonym hkdf = "nat \<Rightarrow> bytes \<Rightarrow> bytes \<Rightarrow> bytes res"

record boot_level_key_cache =
  blk_current :: nat
  blk_cache :: "bytes list"

definition ascii_bytes :: "string \<Rightarrow> bytes" where
  "ascii_bytes s = map (\<lambda>c. of_nat (of_char c)) s"

definition HKDF_ADVANCE :: bytes where
  "HKDF_ADVANCE = ascii_bytes ''Advance KDF one step''"

definition HKDF_AES :: bytes where
  "HKDF_AES = ascii_bytes ''Generate AES-256-GCM key''"

definition HKDF_KEY_SIZE :: nat where
  "HKDF_KEY_SIZE = 32"

definition AES_256_KEY_LENGTH :: nat where
  "AES_256_KEY_LENGTH = 32"

definition BootLevelKeyCache_new :: "bytes \<Rightarrow> boot_level_key_cache" where
  "BootLevelKeyCache_new level_zero_key = \<lparr>blk_current = 0, blk_cache = [level_zero_key]\<rparr>"

definition BootLevelKeyCache_level_accessible :: "nat \<Rightarrow> boot_level_key_cache \<Rightarrow> bool" where
  "BootLevelKeyCache_level_accessible boot_level c \<longleftrightarrow>
     blk_current c \<le> boot_level \<and> blk_cache c \<noteq> []"

text \<open>The body of the loop of \<open>get_hkdf_key\<close>, run \<open>n\<close> times.\<close>

fun grow_cache :: "hkdf \<Rightarrow> nat \<Rightarrow> bytes list \<Rightarrow> unit res \<times> bytes list" where
  "grow_cache hkdf_expand 0 cache = (Inr (), cache)"
| "grow_cache hkdf_expand (Suc n) cache =
     (case hkdf_expand HKDF_KEY_SIZE (last cache) HKDF_ADVANCE of
        Inl e \<Rightarrow> (Inl e, cache)
      | Inr next_key \<Rightarrow> grow_cache hkdf_expand n (cache @ [next_key]))"

definition get_hkdf_key ::
    "hkdf \<Rightarrow> nat \<Rightarrow> boot_level_key_cache \<Rightarrow> bytes option res \<times> boot_level_key_cache" where
  "get_hkdf_key hkdf_expand boot_level c =
     (if \<not> BootLevelKeyCache_level_accessible boot_level c then (Inr None, c)
      else
        let first_not_cached = blk_current c + length (blk_cache c);
            (r, cache') = grow_cache hkdf_expand (Suc boot_level - first_not_cached) (blk_cache c);
            c' = c\<lparr>blk_cache := cache'\<rparr>
        in (case r of
              Inl e \<Rightarrow> (Inl e, c')
            | Inr _ \<Rightarrow>
                (if boot_level - blk_current c < length cache'
                 then (Inr (Some (cache' ! (boot_level - blk_current c))), c')
                 else (Inl Panicked, c'))))"

definition advance_boot_level ::
    "hkdf \<Rightarrow> nat \<Rightarrow> boot_level_key_cache \<Rightarrow> unit res \<times> boot_level_key_cache" where
  "advance_boot_level hkdf_expand new_boot_level c =
     (if \<not> BootLevelKeyCache_level_accessible new_boot_level c then (Inr (), c)
      else
        (case get_hkdf_key hkdf_expand new_boot_level c of
           (Inl e, c') \<Rightarrow> (Inl e, c')
         | (Inr _, c') \<Rightarrow>
             (Inr (), \<lparr>blk_current = new_boot_level,
                       blk_cache = drop (new_boot_level - blk_current c') (blk_cache c')\<rparr>)))"

definition BootLevelKeyCache_finish :: "boot_level_key_cache \<Rightarrow> boot_level_key_cache" where
  "BootLevelKeyCache_finish c = c\<lparr>blk_cache := []\<rparr>"

definition expand_key ::
    "hkdf \<Rightarrow> nat \<Rightarrow> nat \<Rightarrow> bytes \<Rightarrow> boot_level_key_cache \<Rightarrow> bytes option res \<times> boot_level_key_cache" where
  "expand_key hkdf_expand boot_level out_len info c =
     (case get_hkdf_key hkdf_expand boot_level c of
        (Inl e, c') \<Rightarrow> (Inl e, c')
      | (Inr None, c') \<Rightarrow> (Inr None, c')
      | (Inr (Some k), c') \<Rightarrow> (map_res Some (hkdf_expand out_len k info), c'))"

definition aes_key ::
    "hkdf \<Rightarrow> nat \<Rightarrow> boot_level_key_cache \<Rightarrow> bytes option res \<times> boot_level_key_cache" where
  "aes_key hkdf_expand boot_level c = expand_key hkdf_expand boot_level AES_256_KEY_LENGTH HKDF_AES c"

section \<open>The contract\<close>

fun level_key :: "hkdf \<Rightarrow> bytes \<Rightarrow> nat \<Rightarrow> bytes res" where
  "level_key hkdf_expand k0 0 = Inr k0"
| "level_key hkdf_expand k0 (Suc n) =
     and_then (level_key hkdf_expand k0 n) (\<lambda>k. hkdf_expand HKDF_KEY_SIZE k HKDF_ADVANCE)"

definition cache_inv :: "hkdf \<Rightarrow> bytes \<Rightarrow> boot_level_key_cache \<Rightarrow> bool" where
  "cache_inv hkdf_expand k0 c \<longleftrightarrow>
     (\<forall>i < length (blk_cache c). level_key hkdf_expand k0 (blk_current c + i) = Inr (blk_cache c ! i))"

lemma cache_inv_last:
  "cache_inv h k0 c \<Longrightarrow> blk_cache c \<noteq> [] \<Longrightarrow>
   level_key h k0 (blk_current c + length (blk_cache c) - 1) = Inr (last (blk_cache c))"
proof -
  assume inv: "cache_inv h k0 c" and ne: "blk_cache c \<noteq> []"
  let ?n = "length (blk_cache c)"
  from ne have n: "0 < ?n" by simp
  with inv have "level_key h k0 (blk_current c + (?n - 1)) = Inr (blk_cache c ! (?n - 1))"
    unfolding cache_inv_def by simp
  moreover have "blk_current c + (?n - 1) = blk_current c + ?n - 1" using n by arith
  ultimately show ?thesis using ne by (simp add: last_conv_nth)
qed

lemma cache_inv_push:
  assumes "cache_inv h k0 c" and "blk_cache c \<noteq> []"
    and "h HKDF_KEY_SIZE (last (blk_cache c)) HKDF_ADVANCE = Inr k"
  shows "cache_inv h k0 (c\<lparr>blk_cache := blk_cache c @ [k]\<rparr>)"
proof -
  have "level_key h k0 (blk_current c + length (blk_cache c)) = Inr k"
    using cache_inv_last [OF assms(1,2)] assms(2,3)
    by (cases "length (blk_cache c)") simp_all
  with assms(1) show ?thesis
    by (auto simp: cache_inv_def nth_append less_Suc_eq)
qed

text \<open>
  The loop keeps the invariant and the current level.  When it succeeds it has pushed one
  key per round; when it fails, the key of some level up to the requested one cannot be
  derived at all.
\<close>

lemma grow_cache_inv:
  assumes "cache_inv h k0 c" and "blk_cache c \<noteq> []"
  shows "cache_inv h k0 (c\<lparr>blk_cache := snd (grow_cache h n (blk_cache c))\<rparr>) \<and>
         blk_cache c \<noteq> [] \<and> snd (grow_cache h n (blk_cache c)) \<noteq> [] \<and>
         (case fst (grow_cache h n (blk_cache c)) of
            Inr _ \<Rightarrow> length (snd (grow_cache h n (blk_cache c))) = length (blk_cache c) + n
          | Inl e \<Rightarrow> level_key h k0 (blk_current c + length (blk_cache c) + n - 1) = Inl e)"
  using assms
proof (induction n arbitrary: c)
  case 0
  then show ?case by simp
next
  case (Suc n)
  let ?L = "blk_current c + length (blk_cache c)"
  show ?case
  proof (cases "h HKDF_KEY_SIZE (last (blk_cache c)) HKDF_ADVANCE")
    case (Inl e)
    have step: "level_key h k0 ?L = Inl e"
      using cache_inv_last [OF Suc.prems] Suc.prems(2) Inl
      by (cases "length (blk_cache c)") simp_all
    have "level_key h k0 (?L + m) = Inl e" for m by (induction m) (simp_all add: step)
    with Suc.prems Inl show ?thesis by simp
  next
    case (Inr k)
    let ?c = "c\<lparr>blk_cache := blk_cache c @ [k]\<rparr>"
    have "cache_inv h k0 ?c" using cache_inv_push [OF Suc.prems Inr] .
    from Suc.IH [OF this] Suc.prems(2) Inr show ?thesis by (simp split: sum.splits)
  qed
qed

lemma level_accessible_iff:
  "BootLevelKeyCache_level_accessible l c \<longleftrightarrow> blk_current c \<le> l \<and> blk_cache c \<noteq> []"
  by (simp add: BootLevelKeyCache_level_accessible_def)

text \<open>What a lookup returns and what it leaves behind.\<close>

lemma get_hkdf_key_spec:
  assumes inv: "cache_inv h k0 c"
  shows "fst (get_hkdf_key h l c) =
           (if BootLevelKeyCache_level_accessible l c then map_res Some (level_key h k0 l) else Inr None)"
    and "cache_inv h k0 (snd (get_hkdf_key h l c))"
    and "blk_current (snd (get_hkdf_key h l c)) = blk_current c"
    and "blk_cache (snd (get_hkdf_key h l c)) = [] \<longleftrightarrow> blk_cache c = []"
    and "is_ok (fst (get_hkdf_key h l c)) \<Longrightarrow> BootLevelKeyCache_level_accessible l c \<Longrightarrow>
         length (blk_cache (snd (get_hkdf_key h l c))) = max (length (blk_cache c)) (Suc (l - blk_current c))"
proof -
  let ?n = "Suc l - (blk_current c + length (blk_cache c))"
  let ?g = "grow_cache h ?n (blk_cache c)"
  have main: "fst (get_hkdf_key h l c) = map_res Some (level_key h k0 l) \<and>
      cache_inv h k0 (snd (get_hkdf_key h l c)) \<and>
      blk_current (snd (get_hkdf_key h l c)) = blk_current c \<and>
      blk_cache (snd (get_hkdf_key h l c)) \<noteq> [] \<and>
      (is_ok (fst (get_hkdf_key h l c)) \<longrightarrow>
         length (blk_cache (snd (get_hkdf_key h l c))) = max (length (blk_cache c)) (Suc (l - blk_current c)))"
    if acc: "BootLevelKeyCache_level_accessible l c"
  proof -
    from acc have ne: "blk_cache c \<noteq> []" and le: "blk_current c \<le> l" by (simp_all add: level_accessible_iff)
    note G = grow_cache_inv [OF inv ne, of ?n]
    show ?thesis
    proof (cases "fst ?g")
      case (Inl e)
      then have n: "?n \<noteq> 0" by auto
      with G Inl have "level_key h k0 l = Inl e" by simp
      with G Inl acc show ?thesis by (simp add: get_hkdf_key_def Let_def split_beta)
    next
      case (Inr u)
      with G have len: "length (snd ?g) = length (blk_cache c) + ?n" by simp
      have idx: "l - blk_current c < length (snd ?g)" using len le by simp
      from G have "cache_inv h k0 (c\<lparr>blk_cache := snd ?g\<rparr>)" by simp
      with idx have "level_key h k0 (blk_current c + (l - blk_current c)) = Inr (snd ?g ! (l - blk_current c))"
        unfolding cache_inv_def by simp
      with le have "level_key h k0 l = Inr (snd ?g ! (l - blk_current c))" by simp
      moreover have "length (snd ?g) = max (length (blk_cache c)) (Suc (l - blk_current c))"
        using len le by linarith
      ultimately show ?thesis using G Inr acc idx by (simp add: get_hkdf_key_def Let_def split_beta)
    qed
  qed
  have no: "get_hkdf_key h l c = (Inr None, c)" if "\<not> BootLevelKeyCache_level_accessible l c"
    using that by (simp add: get_hkdf_key_def)
  show "fst (get_hkdf_key h l c) =
      (if BootLevelKeyCache_level_accessible l c then map_res Some (level_key h k0 l) else Inr None)"
    using main no by simp
  show "cache_inv h k0 (snd (get_hkdf_key h l c))" and
    "blk_current (snd (get_hkdf_key h l c)) = blk_current c" and
    "blk_cache (snd (get_hkdf_key h l c)) = [] \<longleftrightarrow> blk_cache c = []"
    using main no inv by (cases "BootLevelKeyCache_level_accessible l c"; simp add: level_accessible_iff)+
  show "length (blk_cache (snd (get_hkdf_key h l c))) = max (length (blk_cache c)) (Suc (l - blk_current c))"
    if "is_ok (fst (get_hkdf_key h l c))" and "BootLevelKeyCache_level_accessible l c"
    using main that by simp
qed

section \<open>Reachable caches\<close>

text \<open>What the super key manager does with the cache once it has been created.\<close>

inductive blk_step :: "hkdf \<Rightarrow> boot_level_key_cache \<Rightarrow> boot_level_key_cache \<Rightarrow> bool" for h where
  step_aes_key: "blk_step h c (snd (aes_key h l c))"
| step_advance: "blk_step h c (snd (advance_boot_level h l c))"
| step_finish: "blk_step h c (BootLevelKeyCache_finish c)"

lemma snd_aes_key: "snd (aes_key h l c) = snd (get_hkdf_key h l c)"
  by (simp add: aes_key_def expand_key_def split: prod.splits sum.splits option.splits)

lemma advance_cases:
  assumes "cache_inv h k0 c"
  obtains (stay) "\<not> BootLevelKeyCache_level_accessible l c" and "advance_boot_level h l c = (Inr (), c)"
  | (fail) e where "BootLevelKeyCache_level_accessible l c" and "level_key h k0 l = Inl e"
      and "advance_boot_level h l c = (Inl e, snd (get_hkdf_key h l c))"
  | (advance) k where "BootLevelKeyCache_level_accessible l c" and "level_key h k0 l = Inr k"
      and "advance_boot_level h l c =
             (Inr (), \<lparr>blk_current = l,
               blk_cache = drop (l - blk_current c) (blk_cache (snd (get_hkdf_key h l c)))\<rparr>)"
proof (cases "BootLevelKeyCache_level_accessible l c")
  case False
  then show thesis using stay by (simp add: advance_boot_level_def)
next
  case True
  obtain r c' where g: "get_hkdf_key h l c = (r, c')" by fastforce
  note S = get_hkdf_key_spec [OF assms, of l, unfolded g, simplified]
  show thesis
  proof (cases "level_key h k0 l")
    case (Inl e)
    with S(1) True have "r = Inl e" by simp
    with True Inl g show thesis by (intro fail) (simp_all add: advance_boot_level_def)
  next
    case (Inr k)
    with S(1) True have "r = Inr (Some k)" by simp
    with True Inr g S(3) show thesis by (intro advance) (simp_all add: advance_boot_level_def)
  qed
qed

lemma cache_inv_drop:
  assumes "cache_inv h k0 c" and "blk_current c \<le> l"
  shows "cache_inv h k0 \<lparr>blk_current = l, blk_cache = drop (l - blk_current c) (blk_cache c)\<rparr>"
proof -
  have "level_key h k0 (l + i) = Inr (blk_cache c ! (l - blk_current c + i))"
    if "l - blk_current c + i < length (blk_cache c)" for i
  proof -
    from assms(1) that have
      "level_key h k0 (blk_current c + (l - blk_current c + i)) = Inr (blk_cache c ! (l - blk_current c + i))"
      unfolding cache_inv_def by blast
    with assms(2) show ?thesis by (simp add: add.assoc [symmetric])
  qed
  then show ?thesis by (auto simp: cache_inv_def less_diff_conv add.commute)
qed

lemma advance_inv:
  assumes inv: "cache_inv h k0 c"
  shows "cache_inv h k0 (snd (advance_boot_level h l c)) \<and>
         blk_current c \<le> blk_current (snd (advance_boot_level h l c)) \<and>
         (blk_cache c = [] \<longrightarrow> blk_cache (snd (advance_boot_level h l c)) = [])"
  using inv
proof (cases rule: advance_cases [of h k0 c l, consumes 1, case_names stay fail advance])
  case stay
  then show ?thesis using inv by simp
next
  case (fail e)
  then show ?thesis using get_hkdf_key_spec(2,3,4) [OF inv, of l] by simp
next
  case (advance k)
  from advance(1) have le: "blk_current c \<le> l" by (simp add: level_accessible_iff)
  note S = get_hkdf_key_spec(2,3,4) [OF inv, of l]
  show ?thesis
    using cache_inv_drop [of h k0 "snd (get_hkdf_key h l c)" l] S le advance(1,3)
    by (simp add: level_accessible_iff)
qed

interpretation boot_levels: transition_system
  "\<lambda>c. c = BootLevelKeyCache_new k0" "blk_step h" "cache_inv h k0"
proof (unfold_locales, goal_cases)
  case (1 s)
  then show ?case by (simp add: cache_inv_def BootLevelKeyCache_new_def)
next
  case (2 s s')
  from 2(2) show ?case
  proof (cases rule: blk_step.cases)
    case (step_aes_key l)
    with get_hkdf_key_spec(2) [OF 2(1)] show ?thesis by (simp add: snd_aes_key)
  next
    case (step_advance l)
    with advance_inv [OF \<open>cache_inv h k0 s\<close>] show ?thesis by simp
  next
    case step_finish
    then show ?thesis by (simp add: cache_inv_def BootLevelKeyCache_finish_def)
  qed
qed

text \<open>A level that has been left behind stays out of reach.\<close>

lemma level_lost_step:
  assumes "cache_inv h k0 c" and "\<not> BootLevelKeyCache_level_accessible l c" and "blk_step h c c'"
  shows "\<not> BootLevelKeyCache_level_accessible l c'"
  using assms(3)
proof (cases rule: blk_step.cases)
  case (step_aes_key m)
  with get_hkdf_key_spec(3,4) [OF assms(1), of m] assms(2) show ?thesis
    by (simp add: snd_aes_key level_accessible_iff)
next
  case (step_advance m)
  with advance_inv [OF assms(1), of m] assms(2) show ?thesis
    by (auto simp: level_accessible_iff)
next
  case step_finish
  then show ?thesis by (simp add: level_accessible_iff BootLevelKeyCache_finish_def)
qed

lemma level_lost:
  assumes "(blk_step h)\<^sup>*\<^sup>* c c'" and "cache_inv h k0 c"
    and "\<not> BootLevelKeyCache_level_accessible l c"
  shows "\<not> BootLevelKeyCache_level_accessible l c'"
  using assms
proof (induction rule: rtranclp_induct)
  case (step c' c'')
  then have "cache_inv h k0 c'" by (blast intro: boot_levels.invariant_steps)
  then show ?case using step.IH step.prems step.hyps(2) by (rule_tac level_lost_step) simp_all
qed simp

section \<open>Properties\<close>

text \<open>C39. The boot level key cache is transparent and forward secure.  In every cache that
  the manager can reach from the level zero key \<open>k0\<close>, asking for the AES key of a level
  returns exactly the key derived from \<open>k0\<close> by the pure chain of derivations (or the error
  of that chain), no matter which levels were asked for before; and it returns None exactly
  when the level is below the current one or the cache has been finished.  No request
  panics.\<close>

theorem boot_level_keys_refine:
  assumes "(blk_step h)\<^sup>*\<^sup>* (BootLevelKeyCache_new k0) c"
  shows "fst (aes_key h l c) =
    (if blk_current c \<le> l \<and> blk_cache c \<noteq> []
     then and_then (level_key h k0 l) (\<lambda>k. map_res Some (h AES_256_KEY_LENGTH k HKDF_AES))
     else Inr None)"
proof -
  obtain r c' where g: "get_hkdf_key h l c = (r, c')" by fastforce
  have "cache_inv h k0 c" using boot_levels.invariant_reachable [OF refl assms] .
  from get_hkdf_key_spec(1) [OF this, of l] have
    "r = (if blk_current c \<le> l \<and> blk_cache c \<noteq> [] then map_res Some (level_key h k0 l) else Inr None)"
    by (simp add: g level_accessible_iff)
  then show ?thesis
    by (cases "level_key h k0 l") (simp_all add: aes_key_def expand_key_def g)
qed

text \<open>The derivation used by the examples: the output repeats the first key byte plus one.\<close>

definition ex_hkdf :: hkdf where
  "ex_hkdf n k info = Inr (replicate n (hd k + of_nat (length info)))"

theorem boot_level_keys_refine_witness:
  "fst (aes_key ex_hkdf 2 (BootLevelKeyCache_new [7])) = Inr (Some (replicate 32 71))"
proof -
  have "fst (aes_key ex_hkdf 2 (BootLevelKeyCache_new [7])) =
    (if blk_current (BootLevelKeyCache_new [7]) \<le> 2 \<and> blk_cache (BootLevelKeyCache_new [7]) \<noteq> []
     then and_then (level_key ex_hkdf [7] 2) (\<lambda>k. map_res Some (ex_hkdf AES_256_KEY_LENGTH k HKDF_AES))
     else Inr None)"
    by (rule boot_level_keys_refine) simp
  also have "\<dots> = Inr (Some (replicate 32 71))" by code_simp
  finally show ?thesis .
qed

text \<open>C40. Leaving a boot level is irreversible, and its key is gone.  After the cache has
  been advanced to level \<open>n\<close>, every key in memory belongs to a level not below \<open>n\<close>, and no
  sequence of further requests, advances and finishes makes a level below \<open>n\<close> accessible
  again.  After \<open>finish\<close> no level is ever accessible again.\<close>

theorem boot_level_forward_secure:
  assumes reach: "(blk_step h)\<^sup>*\<^sup>* (BootLevelKeyCache_new k0) c"
    and acc: "BootLevelKeyCache_level_accessible n c"
    and adv: "advance_boot_level h n c = (Inr (), c1)"
    and later: "(blk_step h)\<^sup>*\<^sup>* c1 c2"
    and final: "(blk_step h)\<^sup>*\<^sup>* (BootLevelKeyCache_finish c2) c3"
  shows "(\<forall>l < n. \<not> BootLevelKeyCache_level_accessible l c2) \<and>
         (\<forall>k \<in> set (blk_cache c1). \<exists>l \<ge> n. level_key h k0 l = Inr k) \<and>
         (\<forall>l. \<not> BootLevelKeyCache_level_accessible l c3)"
proof (intro conjI)
  have inv: "cache_inv h k0 c" using boot_levels.invariant_reachable [OF refl reach] .
  have inv1: "cache_inv h k0 c1" using advance_inv [OF inv, of n] adv by simp
  have inv2: "cache_inv h k0 c2" using boot_levels.invariant_steps [OF later inv1] .
  from inv have cur: "blk_current c1 = n"
  proof (cases rule: advance_cases [of h k0 c n, consumes 1, case_names stay fail advance])
  qed (use acc adv in auto)
  have "\<not> BootLevelKeyCache_level_accessible l c2" if "l < n" for l
    by (rule level_lost [OF later inv1]) (use cur that in \<open>simp add: level_accessible_iff\<close>)
  then show "\<forall>l < n. \<not> BootLevelKeyCache_level_accessible l c2" by blast
  show "\<forall>k \<in> set (blk_cache c1). \<exists>l \<ge> n. level_key h k0 l = Inr k"
  proof
    fix k assume "k \<in> set (blk_cache c1)"
    then obtain i where "i < length (blk_cache c1)" and "blk_cache c1 ! i = k"
      by (auto simp: in_set_conv_nth)
    with inv1 cur have "level_key h k0 (n + i) = Inr k" by (auto simp: cache_inv_def)
    then show "\<exists>l \<ge> n. level_key h k0 l = Inr k" by (intro exI [of _ "n + i"]) simp
  qed
  have "cache_inv h k0 (BootLevelKeyCache_finish c2)"
    by (simp add: cache_inv_def BootLevelKeyCache_finish_def)
  then have "\<not> BootLevelKeyCache_level_accessible l c3" for l
    by (rule level_lost [OF final]) (simp add: level_accessible_iff BootLevelKeyCache_finish_def)
  then show "\<forall>l. \<not> BootLevelKeyCache_level_accessible l c3" by blast
qed

theorem boot_level_forward_secure_witness:
  "\<not> BootLevelKeyCache_level_accessible 2 (snd (advance_boot_level ex_hkdf 3 (BootLevelKeyCache_new [7])))"
proof -
  let ?c = "BootLevelKeyCache_new [7]"
  have adv: "advance_boot_level ex_hkdf 3 ?c = (Inr (), snd (advance_boot_level ex_hkdf 3 ?c))"
    by (rule prod_eqI) (simp_all, code_simp)
  have acc: "BootLevelKeyCache_level_accessible 3 ?c" by code_simp
  have "\<forall>l < 3. \<not> BootLevelKeyCache_level_accessible l (snd (advance_boot_level ex_hkdf 3 ?c))"
    using boot_level_forward_secure [OF rtranclp.rtrancl_refl acc adv
        rtranclp.rtrancl_refl rtranclp.rtrancl_refl] by blast
  then show ?thesis by simp
qed

text \<open>The cost of a boot level key: answering a request for level \<open>l\<close> leaves a cache
  that reaches from the current level to \<open>l\<close>, one derived key per level; a successful
  request for a level \<open>l\<close> therefore performs and stores \<open>l - current\<close> derivations, whatever
  the level is.\<close>

theorem boot_level_cache_size:
  assumes "(blk_step h)\<^sup>*\<^sup>* (BootLevelKeyCache_new k0) c"
    and "fst (aes_key h l c) = Inr (Some k)"
  shows "length (blk_cache (snd (aes_key h l c))) = max (length (blk_cache c)) (l - blk_current c + 1)"
proof -
  obtain r c' where g: "get_hkdf_key h l c = (r, c')" by fastforce
  have "cache_inv h k0 c" using boot_levels.invariant_reachable [OF refl assms(1)] .
  note S = get_hkdf_key_spec(1,5) [OF this, of l, unfolded g, simplified]
  from assms(2) have "\<exists>k'. r = Inr (Some k')"
    by (auto simp: aes_key_def expand_key_def g split: sum.splits option.splits)
  with S show ?thesis by (auto simp: snd_aes_key g split: if_splits)
qed

theorem boot_level_cache_size_witness:
  "length (blk_cache (snd (aes_key ex_hkdf 5 (BootLevelKeyCache_new [7])))) = 6"
proof -
  have "fst (aes_key ex_hkdf 5 (BootLevelKeyCache_new [7])) = Inr (Some (replicate 32 131))"
    by code_simp
  from boot_level_cache_size [OF rtranclp.rtrancl_refl this] show ?thesis
    by (simp add: BootLevelKeyCache_new_def)
qed

end
