(* ===== verification/Ks_Versioning.thy ===== *)
theory Ks_Versioning
  imports Ks_Database
begin

text \<open>
  Database versions and upgrades (\<open>src/keystore2/src/database/versioning.rs\<close>) and the
  transaction that opens the database (\<open>KeystoreDB::new\<close>).

  A database file holds the version table (the row with id 0, if any) and the tables of the
  component, which do not exist in a new file.  The upgraders are a parameter of
  \<open>upgrade_database\<close>.  Its loop runs as long as the version is too low; nothing in the loop
  itself makes the version grow, so it is a partial function and a run that never ends is
  \<open>Blocked\<close>.
\<close>

record 'd db_file =
  df_version :: "nat option"
  df_tables :: "'d option"

type_synonym 'd upgrader = "'d db_file \<Rightarrow> (nat \<times> 'd db_file) res"

definition create_or_get_version :: "nat \<Rightarrow> 'd db_file \<Rightarrow> nat \<times> 'd db_file" where
  "create_or_get_version current_version f =
     (case df_version f of
        Some version \<Rightarrow> (version, f)
      | None \<Rightarrow>
          (let version = (if df_tables f = None then current_version else 0)
           in (version, f\<lparr>df_version := Some version\<rparr>)))"

definition update_version :: "nat \<Rightarrow> 'd db_file \<Rightarrow> (unit \<times> 'd db_file) res" where
  "update_version new_version f =
     (case df_version f of
        Some _ \<Rightarrow> Inr ((), f\<lparr>df_version := Some new_version\<rparr>)
      | None \<Rightarrow> Inl (OtherErr ''No rows were updated''))"

partial_function (option) upgrade_loop ::
    "nat \<Rightarrow> 'd upgrader list \<Rightarrow> nat \<Rightarrow> 'd db_file \<Rightarrow> (nat \<times> 'd db_file) res option" where
  "upgrade_loop current_version upgraders db_version f =
     (if db_version < current_version then
        (if db_version < length upgraders then
           (case (upgraders ! db_version) f of
              Inl e \<Rightarrow> Some (Inl e)
            | Inr vf \<Rightarrow> upgrade_loop current_version upgraders (fst vf) (snd vf))
         else Some (Inl Panicked))
      else Some (Inr (db_version, f)))"

declare upgrade_loop.simps [code]

definition upgrade_database :: "nat \<Rightarrow> 'd upgrader list \<Rightarrow> 'd db_file \<Rightarrow> (unit \<times> 'd db_file) res" where
  "upgrade_database current_version upgraders f =
     (if length upgraders < current_version then Inl (OtherErr ''Insufficient upgraders provided'')
      else
        let (db_version, f') = create_or_get_version current_version f
        in (case upgrade_loop current_version upgraders db_version f' of
              None \<Rightarrow> Inl Blocked
            | Some r \<Rightarrow> and_then r (\<lambda>(v, f''). update_version v f'')))"

section \<open>Opening the keystore database\<close>

definition CURRENT_DB_VERSION :: nat where
  "CURRENT_DB_VERSION = 1"

definition UPGRADERS :: "keystore_db upgrader list" where
  "UPGRADERS =
     [\<lambda>f. case df_tables f of
             None \<Rightarrow> Inl sqlite_error
           | Some d \<Rightarrow> Inr (1, f\<lparr>df_tables := Some (from_0_to_1 d)\<rparr>)]"

definition KeystoreDB_new :: "nat option \<Rightarrow> keystore_db db_file \<Rightarrow> unit res \<times> keystore_db db_file" where
  "KeystoreDB_new gc f =
     (case upgrade_database CURRENT_DB_VERSION UPGRADERS f of
        Inl e \<Rightarrow> (Inl e, f)
      | Inr (_, f') \<Rightarrow>
          (Inr (), f'\<lparr>df_tables := Some (case df_tables f' of None \<Rightarrow> init_tables gc | Some d \<Rightarrow> d)\<rparr>))"

section \<open>Properties\<close>

text \<open>
  What an upgrader promises: it leads to a higher version or fails, and it leaves the version
  table alone.
\<close>

definition progressive :: "nat \<Rightarrow> 'd upgrader list \<Rightarrow> bool" where
  "progressive current_version upgraders \<longleftrightarrow>
     current_version \<le> length upgraders \<and>
     (\<forall>v < current_version. \<forall>f v' f'.
        (upgraders ! v) f = Inr (v', f') \<longrightarrow> v < v' \<and> df_version f' = df_version f)"

lemma upgrade_loop_result:
  assumes "progressive n ups" and "df_version f \<noteq> None"
  shows "\<exists>r. upgrade_loop n ups v f = Some r \<and>
    (case r of Inl e \<Rightarrow> \<exists>u < n. \<exists>g. (ups ! u) g = Inl e
     | Inr (v', f') \<Rightarrow> n \<le> v' \<and> df_version f' \<noteq> None)"
  using assms(2)
proof (induction "n - v" arbitrary: v f rule: less_induct)
  case less
  show ?case
  proof (cases "v < n")
    case False
    with less.prems show ?thesis by (subst upgrade_loop.simps) simp
  next
    case True
    with assms(1) have len: "v < length ups" by (simp add: progressive_def)
    show ?thesis
    proof (cases "(ups ! v) f")
      case (Inl e)
      with True len show ?thesis by (subst upgrade_loop.simps) auto
    next
      case (Inr vf)
      with assms(1) True have "v < fst vf" and ver: "df_version (snd vf) = df_version f"
        by (cases vf, fastforce simp: progressive_def)+
      with True have "n - fst vf < n - v" by simp
      from less.hyps [OF this, of "snd vf"] less.prems ver Inr True len show ?thesis
        by (subst upgrade_loop.simps) simp
    qed
  qed
qed

text \<open>A database upgrade returns.  When every upgrader below the current version leads to
  a higher version or fails, and leaves the version table alone, \<open>upgrade_database\<close>
  terminates without an index out of range: it ends in a database whose version is at least
  the current one, or it returns the error of one of the upgraders.\<close>

theorem upgrade_database_returns:
  assumes "progressive n ups"
  shows "case upgrade_database n ups f of
           Inl e \<Rightarrow> \<exists>u < n. \<exists>g. (ups ! u) g = Inl e
         | Inr (_, f') \<Rightarrow> \<exists>v. df_version f' = Some v \<and> n \<le> v"
proof -
  obtain v f' where c: "create_or_get_version n f = (v, f')" by fastforce
  then have "df_version f' \<noteq> None"
    by (auto simp: create_or_get_version_def Let_def split: option.splits)
  from upgrade_loop_result [OF assms this] obtain r where r: "upgrade_loop n ups v f' = Some r"
    and R: "case r of Inl e \<Rightarrow> \<exists>u < n. \<exists>g. (ups ! u) g = Inl e
            | Inr (v', f'') \<Rightarrow> n \<le> v' \<and> df_version f'' \<noteq> None" by blast
  have "\<not> length ups < n" using assms by (simp add: progressive_def)
  with c r R show ?thesis
    by (cases r) (auto simp: upgrade_database_def update_version_def)
qed

lemma progressive_UPGRADERS: "progressive CURRENT_DB_VERSION UPGRADERS"
  by (auto simp: progressive_def CURRENT_DB_VERSION_def UPGRADERS_def split: option.splits)

theorem upgrade_database_returns_witness:
  "progressive CURRENT_DB_VERSION UPGRADERS \<and>
   upgrade_database CURRENT_DB_VERSION UPGRADERS \<lparr>df_version = None, df_tables = Some (init_tables None)\<rparr>
     \<noteq> Inl Blocked"
proof
  show P: "progressive CURRENT_DB_VERSION UPGRADERS" by (rule progressive_UPGRADERS)
  let ?f = "\<lparr>df_version = None, df_tables = Some (init_tables None)\<rparr> :: keystore_db db_file"
  show "upgrade_database CURRENT_DB_VERSION UPGRADERS ?f \<noteq> Inl Blocked"
    using upgrade_database_returns [OF P, of ?f]
    by (auto simp: CURRENT_DB_VERSION_def UPGRADERS_def sqlite_error_def split: option.splits)
qed

lemma upgrade_loop_0:
  "upgrade_loop CURRENT_DB_VERSION UPGRADERS 0 f =
     Some (case df_tables f of None \<Rightarrow> Inl sqlite_error
           | Some d \<Rightarrow> Inr (1, f\<lparr>df_tables := Some (from_0_to_1 d)\<rparr>))"
  by (subst upgrade_loop.simps, cases "df_tables f")
     (simp_all add: CURRENT_DB_VERSION_def UPGRADERS_def upgrade_loop.simps [where db_version = "Suc 0"])

lemma upgraders_enough: "\<not> length UPGRADERS < CURRENT_DB_VERSION"
  by (simp add: CURRENT_DB_VERSION_def UPGRADERS_def)

lemma current_version: "upgrade_loop CURRENT_DB_VERSION UPGRADERS CURRENT_DB_VERSION f = Some (Inr (1, f))"
  by (subst upgrade_loop.simps) (simp add: CURRENT_DB_VERSION_def)

lemma upgrade_loop_done:
  "1 \<le> v \<Longrightarrow> upgrade_loop CURRENT_DB_VERSION UPGRADERS v f = Some (Inr (v, f))"
  by (subst upgrade_loop.simps) (simp add: CURRENT_DB_VERSION_def)

text \<open>Opening the keystore database.  A new file gets the current version and empty
  tables; the keys of a database that predates versioning (or has version 0) go through the
  one upgrade step exactly once; a database of the current or a later version is left as it
  is; and opening a database a second time changes nothing.  The only error is a version 0
  entry in a file without tables.\<close>

theorem keystore_db_new_upgrades_once:
  "KeystoreDB_new gc f =
     (case (df_version f, df_tables f) of
        (None, None) \<Rightarrow> (Inr (), \<lparr>df_version = Some 1, df_tables = Some (init_tables gc)\<rparr>)
      | (None, Some d) \<Rightarrow> (Inr (), \<lparr>df_version = Some 1, df_tables = Some (from_0_to_1 d)\<rparr>)
      | (Some 0, None) \<Rightarrow> (Inl sqlite_error, f)
      | (Some 0, Some d) \<Rightarrow> (Inr (), \<lparr>df_version = Some 1, df_tables = Some (from_0_to_1 d)\<rparr>)
      | (Some v, None) \<Rightarrow> (Inr (), \<lparr>df_version = Some v, df_tables = Some (init_tables gc)\<rparr>)
      | (Some v, Some d) \<Rightarrow> (Inr (), f)) \<and>
   snd (KeystoreDB_new gc (snd (KeystoreDB_new gc f))) = snd (KeystoreDB_new gc f)"
proof -
  have main: "KeystoreDB_new gc f =
     (case (df_version f, df_tables f) of
        (None, None) \<Rightarrow> (Inr (), \<lparr>df_version = Some 1, df_tables = Some (init_tables gc)\<rparr>)
      | (None, Some d) \<Rightarrow> (Inr (), \<lparr>df_version = Some 1, df_tables = Some (from_0_to_1 d)\<rparr>)
      | (Some 0, None) \<Rightarrow> (Inl sqlite_error, f)
      | (Some 0, Some d) \<Rightarrow> (Inr (), \<lparr>df_version = Some 1, df_tables = Some (from_0_to_1 d)\<rparr>)
      | (Some v, None) \<Rightarrow> (Inr (), \<lparr>df_version = Some v, df_tables = Some (init_tables gc)\<rparr>)
      | (Some v, Some d) \<Rightarrow> (Inr (), f))" for f
    by (cases f)
       (simp add: KeystoreDB_new_def upgrade_database_def create_or_get_version_def update_version_def
          upgrade_loop_0 upgrade_loop_done upgraders_enough current_version split: option.splits nat.splits)
  show ?thesis
    by (rule conjI [OF main]) (simp add: main split: option.splits nat.splits)
qed

end
