(* ===== verification/Ks_Perboot.thy ===== *)
theory Ks_Perboot
  imports Ks_Error "HOL-Library.Multiset"
begin

text \<open>
  Authentication tokens: monotonic times and auth token entries
  (\<open>src/keystore2/src/database.rs\<close>) and the per boot store of tokens with the time the
  device was last off the body (\<open>src/keystore2/src/database/perboot.rs\<close>).

  The hash set of tokens is a list in iteration order; its equality looks only at the user
  id, the authenticator id and the authenticator type.  The iteration order of a hash set is
  not specified, so the theorems about the search do not depend on it: the result has the
  greatest time of receipt of all matching entries, and it is the same for every order when
  the times differ.
\<close>

unbundle bit_operations_syntax

section \<open>Tokens\<close>

record hardware_auth_token =
  hat_challenge :: i64
  hat_user_id :: i64
  hat_authenticator_id :: i64
  hat_authenticator_type :: i32
  hat_timestamp :: i64
  hat_mac :: bytes

record time_stamp_token =
  tst_challenge :: i64
  tst_timestamp :: i64
  tst_mac :: bytes

type_synonym monotonic_raw_time = i64

definition MonotonicRawTime_milliseconds :: "monotonic_raw_time \<Rightarrow> i64" where
  "MonotonicRawTime_milliseconds t = t"

text \<open>Rust's division of signed integers truncates towards zero.\<close>

definition MonotonicRawTime_seconds :: "monotonic_raw_time \<Rightarrow> i64" where
  "MonotonicRawTime_seconds t = word_of_int (sgn (sint t) * (\<bar>sint t\<bar> div 1000))"

definition MonotonicRawTime_checked_sub ::
    "monotonic_raw_time \<Rightarrow> monotonic_raw_time \<Rightarrow> monotonic_raw_time option" where
  "MonotonicRawTime_checked_sub a b =
     (let d = sint a - sint b
      in if - (2 ^ 63) \<le> d \<and> d < 2 ^ 63 then Some (word_of_int d) else None)"

record auth_token_entry =
  ate_auth_token :: hardware_auth_token
  ate_time_received :: monotonic_raw_time

definition AuthTokenEntry_new :: "hardware_auth_token \<Rightarrow> monotonic_raw_time \<Rightarrow> auth_token_entry" where
  "AuthTokenEntry_new auth_token time_received =
     \<lparr>ate_auth_token = auth_token, ate_time_received = time_received\<rparr>"

definition AuthTokenEntry_satisfies :: "i64 list \<Rightarrow> i32 \<Rightarrow> auth_token_entry \<Rightarrow> bool" where
  "AuthTokenEntry_satisfies user_secure_ids auth_type e \<longleftrightarrow>
     list_ex (\<lambda>sid.
       (sid = hat_user_id (ate_auth_token e) \<or> sid = hat_authenticator_id (ate_auth_token e)) \<and>
       auth_type AND hat_authenticator_type (ate_auth_token e) \<noteq> 0) user_secure_ids"

definition AuthTokenEntry_challenge :: "auth_token_entry \<Rightarrow> i64" where
  "AuthTokenEntry_challenge e = hat_challenge (ate_auth_token e)"

section \<open>The per boot store\<close>

record auth_token_id =
  ati_user_id :: i64
  ati_auth_id :: i64
  ati_authenticator_type :: i32

definition AuthTokenId_from_auth_token :: "hardware_auth_token \<Rightarrow> auth_token_id" where
  "AuthTokenId_from_auth_token tok =
     \<lparr>ati_user_id = hat_user_id tok, ati_auth_id = hat_authenticator_id tok,
      ati_authenticator_type = hat_authenticator_type tok\<rparr>"

definition AuthTokenEntryWrap_eq :: "auth_token_entry \<Rightarrow> auth_token_entry \<Rightarrow> bool" where
  "AuthTokenEntryWrap_eq a b \<longleftrightarrow>
     AuthTokenId_from_auth_token (ate_auth_token a) = AuthTokenId_from_auth_token (ate_auth_token b)"

record perboot_db =
  pb_auth_tokens :: "auth_token_entry list"
  pb_last_off_body :: monotonic_raw_time

definition PerbootDB_new :: perboot_db where
  "PerbootDB_new = \<lparr>pb_auth_tokens = [], pb_last_off_body = 0\<rparr>"

definition insert_auth_token_entry :: "auth_token_entry \<Rightarrow> perboot_db \<Rightarrow> perboot_db" where
  "insert_auth_token_entry entry pb =
     pb\<lparr>pb_auth_tokens := filter (\<lambda>e. \<not> AuthTokenEntryWrap_eq e entry) (pb_auth_tokens pb) @ [entry]\<rparr>"

definition find_auth_token_entry ::
    "(auth_token_entry \<Rightarrow> bool) \<Rightarrow> perboot_db \<Rightarrow> auth_token_entry option" where
  "find_auth_token_entry p pb =
     (let matches = sort_key (\<lambda>e. sint (ate_time_received e)) (filter p (pb_auth_tokens pb))
      in if matches = [] then None else Some (last matches))"

definition get_last_off_body :: "perboot_db \<Rightarrow> monotonic_raw_time" where
  "get_last_off_body pb = pb_last_off_body pb"

definition set_last_off_body :: "monotonic_raw_time \<Rightarrow> perboot_db \<Rightarrow> perboot_db" where
  "set_last_off_body last_off_body pb = pb\<lparr>pb_last_off_body := last_off_body\<rparr>"

definition auth_tokens_len :: "perboot_db \<Rightarrow> nat" where
  "auth_tokens_len pb = length (pb_auth_tokens pb)"

text \<open>The functions of \<open>KeystoreDB\<close> that use the store; \<open>now\<close> is \<open>MonotonicRawTime::now()\<close>.\<close>

definition insert_auth_token ::
    "monotonic_raw_time \<Rightarrow> hardware_auth_token \<Rightarrow> perboot_db \<Rightarrow> perboot_db" where
  "insert_auth_token now auth_token pb = insert_auth_token_entry (AuthTokenEntry_new auth_token now) pb"

definition KeystoreDB_find_auth_token_entry ::
    "(auth_token_entry \<Rightarrow> bool) \<Rightarrow> perboot_db \<Rightarrow> (auth_token_entry \<times> monotonic_raw_time) option" where
  "KeystoreDB_find_auth_token_entry p pb =
     map_option (\<lambda>entry. (entry, get_last_off_body pb)) (find_auth_token_entry p pb)"

section \<open>Lemmas\<close>

lemma sint_word_of_int_i64:
  "- (2 ^ 63) \<le> n \<Longrightarrow> n < 2 ^ 63 \<Longrightarrow> sint (word_of_int n :: i64) = n"
  by (simp add: sint_sbintrunc' signed_take_bit_int_eq_self)

lemma seconds_nonneg:
  "0 \<le> sint t \<Longrightarrow> sint (MonotonicRawTime_seconds t) = sint t div 1000"
proof -
  assume t: "0 \<le> sint t"
  have "sint t < 2 ^ 63" using sint_lt [of t] by simp
  with t have "sint (word_of_int (sint t div 1000) :: i64) = sint t div 1000"
    by (intro sint_word_of_int_i64) auto
  moreover have "sgn (sint t) * (\<bar>sint t\<bar> div 1000) = sint t div 1000"
    using t by (cases "sint t = 0") (simp_all add: sgn_if)
  ultimately show ?thesis by (simp add: MonotonicRawTime_seconds_def)
qed

lemma checked_sub_Some:
  "MonotonicRawTime_checked_sub a b = Some d \<Longrightarrow> sint d = sint a - sint b"
  using sint_word_of_int_i64 [of "sint a - sint b"]
  by (auto simp: MonotonicRawTime_checked_sub_def Let_def split: if_splits)

lemma checked_sub_None_iff:
  "MonotonicRawTime_checked_sub a b = None \<longleftrightarrow>
     sint a - sint b < - (2 ^ 63) \<or> 2 ^ 63 \<le> sint a - sint b"
  by (auto simp: MonotonicRawTime_checked_sub_def Let_def)

lemma sorted_last_max:
  "sorted xs \<Longrightarrow> xs \<noteq> [] \<Longrightarrow> x \<in> set xs \<Longrightarrow> x \<le> last xs"
  by (induction xs) auto

lemma last_sort_key:
  assumes "xs \<noteq> []"
  shows "last (sort_key f xs) \<in> set xs" and "x \<in> set xs \<Longrightarrow> f x \<le> f (last (sort_key f xs))"
proof -
  have ne: "sort_key f xs \<noteq> []" using assms by (metis set_empty set_sort)
  then show "last (sort_key f xs) \<in> set xs" by (metis last_in_set set_sort)
  assume "x \<in> set xs"
  then have "f x \<in> set (map f (sort_key f xs))" by simp
  then have "f x \<le> last (map f (sort_key f xs))"
    using ne by (intro sorted_last_max) simp_all
  with ne show "f x \<le> f (last (sort_key f xs))" by (simp add: last_map)
qed

lemma find_auth_token_entry_None:
  "find_auth_token_entry p pb = None \<longleftrightarrow> (\<forall>e\<in>set (pb_auth_tokens pb). \<not> p e)"
proof -
  have "sort_key f (filter p xs) = [] \<longleftrightarrow> (\<forall>e\<in>set xs. \<not> p e)" for f :: "auth_token_entry \<Rightarrow> int" and xs
    by (metis filter_empty_conv set_empty set_sort)
  then show ?thesis by (simp add: find_auth_token_entry_def)
qed

lemma find_auth_token_entry_Some:
  assumes "find_auth_token_entry p pb = Some e"
  shows "e \<in> set (pb_auth_tokens pb)" and "p e"
    and "x \<in> set (pb_auth_tokens pb) \<Longrightarrow> p x \<Longrightarrow> sint (ate_time_received x) \<le> sint (ate_time_received e)"
proof -
  let ?f = "\<lambda>e. sint (ate_time_received e)"
  let ?m = "filter p (pb_auth_tokens pb)"
  from assms have ne: "?m \<noteq> []" and e: "e = last (sort_key ?f ?m)"
    by (auto simp: find_auth_token_entry_def Let_def split: if_splits)
  have "e \<in> set ?m" unfolding e by (rule last_sort_key(1) [OF ne])
  then show "e \<in> set (pb_auth_tokens pb)" and "p e" by simp_all
  assume "x \<in> set (pb_auth_tokens pb)" and "p x"
  then have "x \<in> set ?m" by simp
  then show "?f x \<le> ?f e" unfolding e by (rule last_sort_key(2) [OF ne])
qed

text \<open>No two entries of the store have the same token id.\<close>

definition perboot_inv :: "perboot_db \<Rightarrow> bool" where
  "perboot_inv pb \<longleftrightarrow>
     distinct (map (\<lambda>e. AuthTokenId_from_auth_token (ate_auth_token e)) (pb_auth_tokens pb))"

lemma perboot_inv_new: "perboot_inv PerbootDB_new"
  by (simp add: perboot_inv_def PerbootDB_new_def)

lemma perboot_inv_insert: "perboot_inv pb \<Longrightarrow> perboot_inv (insert_auth_token_entry entry pb)"
  by (auto simp: perboot_inv_def insert_auth_token_entry_def AuthTokenEntryWrap_eq_def
      distinct_map_filter)

lemma set_insert_auth_token_entry:
  "set (pb_auth_tokens (insert_auth_token_entry entry pb)) =
     insert entry {e \<in> set (pb_auth_tokens pb). \<not> AuthTokenEntryWrap_eq e entry}"
  by (auto simp: insert_auth_token_entry_def)

end
