(* ===== verification/Ks_Enforcements.thy ===== *)
theory Ks_Enforcements
  imports Ks_Perboot Ks_KeyParameter Ks_Database
begin

text \<open>
  Key authorizations (\<open>src/keystore2/src/enforcements.rs\<close>): whether an operation may be
  created with a key (\<open>authorize_create\<close>), and how an operation obtains the authentication
  and timestamp tokens it needs while it runs.

  State.  The record \<open>enforcements\<close> holds the global \<open>Enforcements\<close> object, and next to
  it what its \<open>Arc\<close>s and channels share with the operations: the auth requests by number
  (an operation in the state \<open>Waiting r\<close> holds the strong reference to request \<open>r\<close>, the
  token receiver map holds weak ones, so a request is in the store exactly as long as its
  operation waits for it), and the timestamp jobs queued for the worker thread.  A channel is
  what its receiving end can see.

  Parameters.  \<open>aidl_consts\<close> holds the numbers of the AIDL constants the code compares
  with; \<open>clock_env\<close> what the clocks return (one reading of each clock per call);
  \<open>level_accessible\<close> the boot level query of the super key manager; \<open>clock\<close> the secure
  clock service.
\<close>

section \<open>Constants and clocks\<close>

record aidl_consts =
  KP_ENCRYPT :: i32
  KP_DECRYPT :: i32
  KP_SIGN :: i32
  KP_VERIFY :: i32
  KP_WRAP_KEY :: i32
  KP_AGREE_KEY :: i32
  ALG_RSA :: i32
  ALG_EC :: i32
  HAT_ANY :: i32
  FLAG_AUTH_BOUND_WITHOUT_CRYPTOGRAPHIC_LSKF_BINDING :: i32

text \<open>
  \<open>ce_since_epoch\<close> is the wall clock in milliseconds since the epoch (None when it is
  before the epoch), \<open>ce_raw\<close> the monotonic clock.
\<close>

record clock_env =
  ce_since_epoch :: "nat option"
  ce_raw :: monotonic_raw_time

text \<open>\<open>given_time as u128\<close> sign extends a negative i64.\<close>

definition i64_as_u128 :: "i64 \<Rightarrow> nat" where
  "i64_as_u128 t = nat (sint t mod 2 ^ 128)"

definition is_given_time_passed :: "clock_env \<Rightarrow> i64 \<Rightarrow> bool \<Rightarrow> bool" where
  "is_given_time_passed env given_time is_given_time_inclusive =
     (case ce_since_epoch env of
        None \<Rightarrow> False
      | Some time_since_epoch \<Rightarrow>
          if is_given_time_inclusive then i64_as_u128 given_time \<le> time_since_epoch
          else i64_as_u128 given_time < time_since_epoch)"

section \<open>Auth requests and auth infos\<close>

datatype receiver = Pending | Sent "ks_error + time_stamp_token" | Disconnected

datatype auth_request_state =
    AR_OpAuth
  | AR_TimeStampedOpAuth receiver
  | AR_TimeStamp receiver

record auth_request =
  ar_state :: auth_request_state
  ar_hat :: "hardware_auth_token option"

datatype deferred_auth_state =
    NoAuthRequired
  | OpAuthRequired
  | TimeStampRequired hardware_auth_token
  | TimeStampedOpAuthRequired
  | Waiting nat
  | Token hardware_auth_token "time_stamp_token option"

text \<open>
  \<open>ai_confirmation_token_receiver\<close> says whether the info holds (a clone of) the global
  confirmation token receiver.
\<close>

record auth_info =
  ai_state :: deferred_auth_state
  ai_key_usage_limited :: "int option"
  ai_confirmation_token_receiver :: bool

record enforcements =
  enf_device_unlocked_set :: "i32 set"
  enf_op_auth_map :: "i64 \<rightharpoonup> nat"
  enf_cleanup_counter :: u8
  enf_confirmation_token_receiver :: "bytes list option"
  enf_requests :: "nat \<rightharpoonup> auth_request"
  enf_next_request :: nat
  enf_jobs :: "(i64 \<times> nat) list"

definition CLEANUP_PERIOD :: u8 where
  "CLEANUP_PERIOD = 25"

definition Enforcements_default :: enforcements where
  "Enforcements_default =
     \<lparr>enf_device_unlocked_set = {}, enf_op_auth_map = Map.empty,
      enf_cleanup_counter = CLEANUP_PERIOD + 1, enf_confirmation_token_receiver = None,
      enf_requests = Map.empty, enf_next_request = 0, enf_jobs = []\<rparr>"

text \<open>\<open>Arc::new\<close> of an auth request.\<close>

definition new_request :: "auth_request \<Rightarrow> enforcements \<Rightarrow> nat \<times> enforcements" where
  "new_request rq E =
     (enf_next_request E,
      E\<lparr>enf_requests := (enf_requests E)(enf_next_request E \<mapsto> rq),
        enf_next_request := Suc (enf_next_request E)\<rparr>)"

definition AuthRequest_op_auth :: auth_request where
  "AuthRequest_op_auth = \<lparr>ar_state = AR_OpAuth, ar_hat = None\<rparr>"

definition AuthRequest_timestamped_op_auth :: auth_request where
  "AuthRequest_timestamped_op_auth = \<lparr>ar_state = AR_TimeStampedOpAuth Pending, ar_hat = None\<rparr>"

definition AuthRequest_timestamp :: "hardware_auth_token \<Rightarrow> auth_request" where
  "AuthRequest_timestamp hat = \<lparr>ar_state = AR_TimeStamp Pending, ar_hat = Some hat\<rparr>"

definition AuthRequest_add_auth_token ::
    "nat \<Rightarrow> hardware_auth_token \<Rightarrow> enforcements \<Rightarrow> enforcements" where
  "AuthRequest_add_auth_token r hat E =
     E\<lparr>enf_requests := (enf_requests E)(r := map_option (\<lambda>rq. rq\<lparr>ar_hat := Some hat\<rparr>) (enf_requests E r))\<rparr>"

text \<open>
  \<open>Receiver::recv\<close>: the message and the receiver after it.  It waits for a message that
  has not been sent yet.  The worker sends one message and drops the sender.
\<close>

fun Receiver_recv :: "receiver \<Rightarrow> time_stamp_token res \<times> receiver" where
  "Receiver_recv Pending = (Inl Blocked, Pending)"
| "Receiver_recv (Sent (Inr tst)) = (Inr tst, Disconnected)"
| "Receiver_recv (Sent (Inl e)) = (Inl (Ks e), Disconnected)"
| "Receiver_recv Disconnected = (Inl (OtherErr ''RecvError''), Disconnected)"

fun recv_timestamp :: "auth_request_state \<Rightarrow> time_stamp_token option res \<times> auth_request_state" where
  "recv_timestamp AR_OpAuth = (Inr None, AR_OpAuth)"
| "recv_timestamp (AR_TimeStampedOpAuth recv) =
     (map_res Some (fst (Receiver_recv recv)), AR_TimeStampedOpAuth (snd (Receiver_recv recv)))"
| "recv_timestamp (AR_TimeStamp recv) =
     (map_res Some (fst (Receiver_recv recv)), AR_TimeStamp (snd (Receiver_recv recv)))"

definition AuthRequest_get_auth_tokens ::
    "auth_request \<Rightarrow> (hardware_auth_token \<times> time_stamp_token option) res \<times> auth_request" where
  "AuthRequest_get_auth_tokens rq =
     (case ar_hat rq of
        None \<Rightarrow> (Inl (Ks (Km EC_KEY_USER_NOT_AUTHENTICATED)), rq)
      | Some hat \<Rightarrow>
          (let (r, st) = recv_timestamp (ar_state rq)
           in (map_res (Pair hat) r,
               if r = Inl Blocked then rq else \<lparr>ar_state = st, ar_hat = None\<rparr>)))"

section \<open>The token receiver map\<close>

definition TokenReceiver_is_obsolete :: "nat \<Rightarrow> enforcements \<Rightarrow> bool" where
  "TokenReceiver_is_obsolete r E \<longleftrightarrow> enf_requests E r = None"

definition TokenReceiver_add_auth_token ::
    "nat \<Rightarrow> hardware_auth_token \<Rightarrow> enforcements \<Rightarrow> enforcements" where
  "TokenReceiver_add_auth_token r hat E =
     (if enf_requests E r \<noteq> None then AuthRequest_add_auth_token r hat E else E)"

definition TokenReceiverMap_add_auth_token :: "hardware_auth_token \<Rightarrow> enforcements \<Rightarrow> enforcements" where
  "TokenReceiverMap_add_auth_token hat E =
     (let recv = enf_op_auth_map E (hat_challenge hat);
          E' = E\<lparr>enf_op_auth_map := (enf_op_auth_map E)(hat_challenge hat := None)\<rparr>
      in (case recv of None \<Rightarrow> E' | Some r \<Rightarrow> TokenReceiver_add_auth_token r hat E'))"

definition TokenReceiverMap_add_receiver :: "i64 \<Rightarrow> nat \<Rightarrow> enforcements \<Rightarrow> enforcements" where
  "TokenReceiverMap_add_receiver challenge r E =
     (let m = (enf_op_auth_map E)(challenge \<mapsto> r);
          cleanup_counter = enf_cleanup_counter E - 1
      in if cleanup_counter = 0
         then E\<lparr>enf_op_auth_map := (\<lambda>c. case m c of None \<Rightarrow> None
                    | Some r' \<Rightarrow> if TokenReceiver_is_obsolete r' E then None else Some r'),
                enf_cleanup_counter := CLEANUP_PERIOD + 1\<rparr>
         else E\<lparr>enf_op_auth_map := m, enf_cleanup_counter := cleanup_counter\<rparr>)"

section \<open>Timestamp requests\<close>

text \<open>
  \<open>ASYNC_TASK.queue_hi(timestamp_token_request ...)\<close> and the worker's turn: it asks the
  secure clock and sends the answer to the request, unless the request is gone.
\<close>

definition queue_timestamp_request :: "i64 \<Rightarrow> nat \<Rightarrow> enforcements \<Rightarrow> enforcements" where
  "queue_timestamp_request challenge r E = E\<lparr>enf_jobs := enf_jobs E @ [(challenge, r)]\<rparr>"

type_synonym secure_clock = "i64 \<Rightarrow> time_stamp_token binder_result"

definition get_timestamp_token :: "secure_clock \<Rightarrow> i64 \<Rightarrow> ks_error + time_stamp_token" where
  "get_timestamp_token clock challenge = map_binder_status (clock challenge)"

fun send_to_state :: "ks_error + time_stamp_token \<Rightarrow> auth_request_state \<Rightarrow> auth_request_state" where
  "send_to_state msg AR_OpAuth = AR_OpAuth"
| "send_to_state msg (AR_TimeStampedOpAuth recv) = AR_TimeStampedOpAuth (Sent msg)"
| "send_to_state msg (AR_TimeStamp recv) = AR_TimeStamp (Sent msg)"

definition timestamp_token_request :: "secure_clock \<Rightarrow> i64 \<Rightarrow> nat \<Rightarrow> enforcements \<Rightarrow> enforcements" where
  "timestamp_token_request clock challenge r E =
     E\<lparr>enf_requests := (enf_requests E)(r :=
         map_option (\<lambda>rq. rq\<lparr>ar_state := send_to_state (get_timestamp_token clock challenge) (ar_state rq)\<rparr>)
           (enf_requests E r))\<rparr>"

definition run_timestamp_job :: "secure_clock \<Rightarrow> enforcements \<Rightarrow> enforcements" where
  "run_timestamp_job clock E =
     (case enf_jobs E of
        [] \<Rightarrow> E
      | (challenge, r) # js \<Rightarrow> timestamp_token_request clock challenge r (E\<lparr>enf_jobs := js\<rparr>))"

section \<open>Auth infos\<close>

text \<open>
  \<open>finalize_create_authorization\<close> returns the challenge for the client, if there is one.
\<close>

definition finalize_create_authorization ::
    "i64 \<Rightarrow> auth_info \<Rightarrow> enforcements \<Rightarrow> i64 option \<times> auth_info \<times> enforcements" where
  "finalize_create_authorization challenge ai E =
     (case ai_state ai of
        OpAuthRequired \<Rightarrow>
          (let (r, E1) = new_request AuthRequest_op_auth E
           in (Some challenge, ai\<lparr>ai_state := Waiting r\<rparr>, TokenReceiverMap_add_receiver challenge r E1))
      | TimeStampedOpAuthRequired \<Rightarrow>
          (let (r, E1) = new_request AuthRequest_timestamped_op_auth E
           in (Some challenge, ai\<lparr>ai_state := Waiting r\<rparr>,
               queue_timestamp_request challenge r (TokenReceiverMap_add_receiver challenge r E1)))
      | TimeStampRequired hat \<Rightarrow>
          (let (r, E1) = new_request (AuthRequest_timestamp hat) E
           in (None, ai\<lparr>ai_state := Waiting r\<rparr>, queue_timestamp_request challenge r E1))
      | _ \<Rightarrow> (None, ai, E))"

text \<open>
  \<open>get_auth_tokens\<close>: when the tokens have come, the state becomes \<open>Token\<close> and the strong
  reference to the request is dropped with the old state.
\<close>

definition AuthInfo_get_auth_tokens ::
    "auth_info \<Rightarrow> enforcements \<Rightarrow>
       (hardware_auth_token option \<times> time_stamp_token option) res \<times> auth_info \<times> enforcements" where
  "AuthInfo_get_auth_tokens ai E =
     (case ai_state ai of
        Waiting r \<Rightarrow>
          (case enf_requests E r of
             None \<Rightarrow> (Inl Panicked, ai, E)
           | Some rq \<Rightarrow>
               (case AuthRequest_get_auth_tokens rq of
                  (Inl e, rq') \<Rightarrow> (Inl e, ai, E\<lparr>enf_requests := (enf_requests E)(r \<mapsto> rq')\<rparr>)
                | (Inr (hat, tst), _) \<Rightarrow>
                    (Inr (Some hat, tst), ai\<lparr>ai_state := Token hat tst\<rparr>,
                     E\<lparr>enf_requests := (enf_requests E)(r := None)\<rparr>)))
      | NoAuthRequired \<Rightarrow> (Inr (None, None), ai, E)
      | Token hat tst \<Rightarrow> (Inr (Some hat, tst), ai, E)
      | OpAuthRequired \<Rightarrow> (Inl (Ks (Km EC_KEY_USER_NOT_AUTHENTICATED)), ai, E)
      | TimeStampedOpAuthRequired \<Rightarrow> (Inl (Ks (Km EC_KEY_USER_NOT_AUTHENTICATED)), ai, E)
      | TimeStampRequired _ \<Rightarrow> (Inl (Ks (Km EC_KEY_USER_NOT_AUTHENTICATED)), ai, E))"

definition before_update ::
    "auth_info \<Rightarrow> enforcements \<Rightarrow>
       (hardware_auth_token option \<times> time_stamp_token option) res \<times> auth_info \<times> enforcements" where
  "before_update ai E = AuthInfo_get_auth_tokens ai E"

text \<open>The loop over \<open>try_recv\<close> empties the channel and keeps the last token.\<close>

definition take_confirmation_token :: "auth_info \<Rightarrow> enforcements \<Rightarrow> bytes option \<times> enforcements" where
  "take_confirmation_token ai E =
     (if ai_confirmation_token_receiver ai then
        (case enf_confirmation_token_receiver E of
           None \<Rightarrow> (None, E)
         | Some ts \<Rightarrow> (if ts = [] then None else Some (last ts), E\<lparr>enf_confirmation_token_receiver := Some []\<rparr>))
      else (None, E))"

definition before_finish ::
    "auth_info \<Rightarrow> enforcements \<Rightarrow>
       (hardware_auth_token option \<times> time_stamp_token option \<times> bytes option) res \<times> auth_info \<times> enforcements" where
  "before_finish ai E =
     (let (confirmation_token, E1) = take_confirmation_token ai E;
          (r, ai', E2) = AuthInfo_get_auth_tokens ai E1
      in (map_res (\<lambda>(hat, tst). (hat, tst, confirmation_token)) r, ai', E2))"

definition after_finish :: "auth_info \<Rightarrow> keystore_db \<Rightarrow> unit res \<times> keystore_db" where
  "after_finish ai db =
     (case ai_key_usage_limited ai of
        None \<Rightarrow> (Inr (), db)
      | Some key_id \<Rightarrow> check_and_update_key_usage_count key_id db)"

text \<open>Dropping an auth info drops the request it waits for.\<close>

definition AuthInfo_drop :: "auth_info \<Rightarrow> enforcements \<Rightarrow> enforcements" where
  "AuthInfo_drop ai E =
     (case ai_state ai of
        Waiting r \<Rightarrow> E\<lparr>enf_requests := (enf_requests E)(r := None)\<rparr>
      | _ \<Rightarrow> E)"

section \<open>The enforcements object\<close>

definition install_confirmation_token_receiver :: "bytes list \<Rightarrow> enforcements \<Rightarrow> enforcements" where
  "install_confirmation_token_receiver confirmation_token_receiver E =
     E\<lparr>enf_confirmation_token_receiver := Some confirmation_token_receiver\<rparr>"

definition is_device_locked :: "enforcements \<Rightarrow> i32 \<Rightarrow> bool" where
  "is_device_locked E user_id \<longleftrightarrow> user_id \<notin> enf_device_unlocked_set E"

definition set_device_locked :: "i32 \<Rightarrow> bool \<Rightarrow> enforcements \<Rightarrow> enforcements" where
  "set_device_locked user_id device_locked_status E =
     (if device_locked_status
      then E\<lparr>enf_device_unlocked_set := enf_device_unlocked_set E - {user_id}\<rparr>
      else E\<lparr>enf_device_unlocked_set := insert user_id (enf_device_unlocked_set E)\<rparr>)"

definition Enforcements_add_auth_token ::
    "monotonic_raw_time \<Rightarrow> hardware_auth_token \<Rightarrow> perboot_db \<times> enforcements \<Rightarrow> perboot_db \<times> enforcements" where
  "Enforcements_add_auth_token now hat s =
     (insert_auth_token now hat (fst s), TokenReceiverMap_add_auth_token hat (snd s))"

definition register_op_auth_receiver :: "i64 \<Rightarrow> nat \<Rightarrow> enforcements \<Rightarrow> enforcements" where
  "register_op_auth_receiver challenge recv E = TokenReceiverMap_add_receiver challenge recv E"

section \<open>Authorizing an operation\<close>

text \<open>Which purposes are supported for which algorithms.\<close>

definition check_purpose :: "aidl_consts \<Rightarrow> i32 \<Rightarrow> key_parameter list \<Rightarrow> unit res" where
  "check_purpose C purpose key_params =
     (if purpose = KP_SIGN C \<or> purpose = KP_DECRYPT C then Inr ()
      else if purpose = KP_WRAP_KEY C then Inl (Ks (Km EC_INCOMPATIBLE_PURPOSE))
      else if purpose = KP_AGREE_KEY C then
        for_each_res (\<lambda>kp.
          if KeyParameter_get_tag kp = T_ALGORITHM \<and> kp_value kp \<noteq> KpAlgorithm (ALG_EC C)
          then Inl (Ks (Km EC_UNSUPPORTED_PURPOSE)) else Inr ()) key_params
      else if purpose = KP_VERIFY C \<or> purpose = KP_ENCRYPT C then
        for_each_res (\<lambda>kp.
          if kp_value kp = KpAlgorithm (ALG_RSA C) \<or> kp_value kp = KpAlgorithm (ALG_EC C)
          then Inl (Ks (Km EC_UNSUPPORTED_PURPOSE)) else Inr ()) key_params
      else Inl (Ks (Km EC_UNSUPPORTED_PURPOSE)))"

text \<open>The local variables that the loop over the key parameters fills in.\<close>

record key_auth =
  ka_key_purpose_authorized :: bool
  ka_user_auth_type :: "i32 option"
  ka_no_auth_required :: bool
  ka_caller_nonce_allowed :: bool
  ka_user_id :: i32
  ka_user_secure_ids :: "i64 list"
  ka_key_time_out :: "i64 option"
  ka_allow_while_on_body :: bool
  ka_unlocked_device_required :: bool
  ka_key_usage_limited :: "int option"
  ka_confirmation_token_receiver :: bool
  ka_max_boot_level :: "i32 option"

definition key_auth_init :: key_auth where
  "key_auth_init =
     \<lparr>ka_key_purpose_authorized = False, ka_user_auth_type = None, ka_no_auth_required = False,
      ka_caller_nonce_allowed = False, ka_user_id = - 1, ka_user_secure_ids = [],
      ka_key_time_out = None, ka_allow_while_on_body = False, ka_unlocked_device_required = False,
      ka_key_usage_limited = None, ka_confirmation_token_receiver = False, ka_max_boot_level = None\<rparr>"

definition scan_key_param ::
    "aidl_consts \<Rightarrow> clock_env \<Rightarrow> i32 \<Rightarrow> int \<Rightarrow> key_parameter_value \<Rightarrow> key_auth \<Rightarrow> key_auth res" where
  "scan_key_param C env purpose key_id v a =
     (case v of
        KpNoAuthRequired \<Rightarrow> Inr (a\<lparr>ka_no_auth_required := True\<rparr>)
      | KpAuthTimeout t \<Rightarrow> Inr (a\<lparr>ka_key_time_out := Some (word_of_int (sint t))\<rparr>)
      | KpHardwareAuthenticatorType t \<Rightarrow> Inr (a\<lparr>ka_user_auth_type := Some t\<rparr>)
      | KpKeyPurpose p \<Rightarrow>
          Inr (a\<lparr>ka_key_purpose_authorized := ka_key_purpose_authorized a \<or> p = purpose\<rparr>)
      | KpCallerNonce \<Rightarrow> Inr (a\<lparr>ka_caller_nonce_allowed := True\<rparr>)
      | KpActiveDateTime t \<Rightarrow>
          if \<not> is_given_time_passed env t True then Inl (Ks (Km EC_KEY_NOT_YET_VALID)) else Inr a
      | KpOriginationExpireDateTime t \<Rightarrow>
          if (purpose = KP_ENCRYPT C \<or> purpose = KP_SIGN C) \<and> is_given_time_passed env t False
          then Inl (Ks (Km EC_KEY_EXPIRED)) else Inr a
      | KpUsageExpireDateTime t \<Rightarrow>
          if (purpose = KP_DECRYPT C \<or> purpose = KP_VERIFY C) \<and> is_given_time_passed env t False
          then Inl (Ks (Km EC_KEY_EXPIRED)) else Inr a
      | KpUserSecureID s \<Rightarrow> Inr (a\<lparr>ka_user_secure_ids := ka_user_secure_ids a @ [s]\<rparr>)
      | KpUserID u \<Rightarrow> Inr (a\<lparr>ka_user_id := u\<rparr>)
      | KpUnlockedDeviceRequired \<Rightarrow> Inr (a\<lparr>ka_unlocked_device_required := True\<rparr>)
      | KpAllowWhileOnBody \<Rightarrow> Inr (a\<lparr>ka_allow_while_on_body := True\<rparr>)
      | KpUsageCountLimit _ \<Rightarrow> Inr (a\<lparr>ka_key_usage_limited := Some key_id\<rparr>)
      | KpTrustedConfirmationRequired \<Rightarrow> Inr (a\<lparr>ka_confirmation_token_receiver := True\<rparr>)
      | KpMaxBootLevel level \<Rightarrow> Inr (a\<lparr>ka_max_boot_level := Some level\<rparr>)
      | _ \<Rightarrow> Inr a)"

fun scan_key_params ::
    "aidl_consts \<Rightarrow> clock_env \<Rightarrow> i32 \<Rightarrow> int \<Rightarrow> key_parameter list \<Rightarrow> key_auth \<Rightarrow> key_auth res" where
  "scan_key_params C env purpose key_id [] a = Inr a"
| "scan_key_params C env purpose key_id (kp # kps) a =
     and_then (scan_key_param C env purpose key_id (kp_value kp) a)
       (scan_key_params C env purpose key_id kps)"

text \<open>The checks on the collected authorizations, in the order of the code.\<close>

definition check_key_auth ::
    "aidl_consts \<Rightarrow> (i32 \<Rightarrow> bool) \<Rightarrow> enforcements \<Rightarrow> i32 \<Rightarrow> km_key_parameter list \<Rightarrow> key_auth \<Rightarrow> unit res" where
  "check_key_auth C level_accessible E purpose op_params a =
     (if \<not> ka_key_purpose_authorized a then Inl (Ks (Km EC_INCOMPATIBLE_PURPOSE))
      else if ka_user_secure_ids a \<noteq> [] \<and> ka_no_auth_required a then Inl (Ks (Km EC_INVALID_KEY_BLOB))
      else if ka_user_auth_type a \<noteq> None \<and> ka_user_secure_ids a = [] \<or>
              ka_user_auth_type a = None \<and> ka_user_secure_ids a \<noteq> []
        then Inl (Ks (Km EC_KEY_USER_NOT_AUTHENTICATED))
      else if (purpose = KP_ENCRYPT C \<or> purpose = KP_SIGN C) \<and> \<not> ka_caller_nonce_allowed a \<and>
              list_ex (\<lambda>kp. km_tag kp = T_NONCE) op_params
        then Inl (Ks (Km EC_CALLER_NONCE_PROHIBITED))
      else if ka_unlocked_device_required a \<and> is_device_locked E (ka_user_id a)
        then Inl (Ks (Km EC_DEVICE_LOCKED))
      else (case ka_max_boot_level a of
              None \<Rightarrow> Inr ()
            | Some level \<Rightarrow>
                if \<not> level_accessible level then Inl (Ks (Km EC_BOOT_LEVEL_EXCEEDED)) else Inr ()))"

definition find_auth_token_for ::
    "key_auth \<Rightarrow> perboot_db \<Rightarrow> (auth_token_entry \<times> monotonic_raw_time) option" where
  "find_auth_token_for a pb =
     KeystoreDB_find_auth_token_entry (\<lambda>hat.
       case ka_user_auth_type a of
         Some auth_type \<Rightarrow>
           if ka_user_secure_ids a \<noteq> [] then AuthTokenEntry_satisfies (ka_user_secure_ids a) auth_type hat
           else ka_unlocked_device_required a
       | None \<Rightarrow> ka_unlocked_device_required a) pb"

text \<open>The validity of the token found, if the key is bound to a timeout.\<close>

definition check_token_age ::
    "clock_env \<Rightarrow> key_auth \<Rightarrow> (auth_token_entry \<times> monotonic_raw_time) option \<Rightarrow> auth_token_entry option res" where
  "check_token_age env a found =
     (case (found, ka_key_time_out a) of
        (Some (hat, last_off_body), Some key_time_out) \<Rightarrow>
          and_then (ok_or (MonotonicRawTime_checked_sub (ce_raw env) (ate_time_received hat)) sys) (\<lambda>token_age.
            let on_body_extended =
                  ka_allow_while_on_body a \<and> sint last_off_body < sint (ate_time_received hat)
            in if sint key_time_out < sint (MonotonicRawTime_seconds token_age) \<and> \<not> on_body_extended
               then Inl (Ks (Km EC_KEY_USER_NOT_AUTHENTICATED))
               else Inr (Some hat))
      | (Some (hat, _), None) \<Rightarrow> Inr (Some hat)
      | (None, Some _) \<Rightarrow> Inl Panicked
      | (None, None) \<Rightarrow> Inr None)"

definition deferred_auth ::
    "auth_token_entry option \<Rightarrow> bool \<Rightarrow> bool \<Rightarrow> hardware_auth_token option \<times> deferred_auth_state" where
  "deferred_auth hat requires_timestamp per_op_bound =
     (case (hat, requires_timestamp, per_op_bound) of
        (Some _, True, True) \<Rightarrow> (None, TimeStampedOpAuthRequired)
      | (Some h, True, False) \<Rightarrow> (Some (ate_auth_token h), TimeStampRequired (ate_auth_token h))
      | (Some h, False, True) \<Rightarrow> (Some (ate_auth_token h), OpAuthRequired)
      | (Some h, False, False) \<Rightarrow> (Some (ate_auth_token h), NoAuthRequired)
      | (None, _, True) \<Rightarrow> (None, OpAuthRequired)
      | (None, _, False) \<Rightarrow> (None, NoAuthRequired))"

definition authorize_create ::
    "aidl_consts \<Rightarrow> clock_env \<Rightarrow> (i32 \<Rightarrow> bool) \<Rightarrow> perboot_db \<Rightarrow> enforcements \<Rightarrow> i32 \<Rightarrow>
     (int \<times> key_parameter list) option \<Rightarrow> km_key_parameter list \<Rightarrow> bool \<Rightarrow>
     (hardware_auth_token option \<times> auth_info) res" where
  "authorize_create C env level_accessible pb E purpose key_properties op_params requires_timestamp =
     (case key_properties of
        None \<Rightarrow>
          Inr (None, \<lparr>ai_state = NoAuthRequired, ai_key_usage_limited = None,
                      ai_confirmation_token_receiver = False\<rparr>)
      | Some (key_id, key_params) \<Rightarrow>
          and_then (check_purpose C purpose key_params) (\<lambda>_.
          and_then (scan_key_params C env purpose key_id key_params key_auth_init) (\<lambda>a.
          and_then (check_key_auth C level_accessible E purpose op_params a) (\<lambda>_.
            if \<not> ka_unlocked_device_required a \<and> ka_no_auth_required a
            then Inr (None, \<lparr>ai_state = NoAuthRequired, ai_key_usage_limited = ka_key_usage_limited a,
                             ai_confirmation_token_receiver = ka_confirmation_token_receiver a\<rparr>)
            else
              let has_sids = ka_user_secure_ids a \<noteq> [];
                  timeout_bound = ka_key_time_out a \<noteq> None \<and> has_sids;
                  per_op_bound = ka_key_time_out a = None \<and> has_sids;
                  need_auth_token = timeout_bound \<or> ka_unlocked_device_required a
              in and_then (if need_auth_token
                           then map_res Some (ok_or (find_auth_token_for a pb)
                                  (Ks (Km EC_KEY_USER_NOT_AUTHENTICATED)))
                           else Inr None) (\<lambda>found.
                 and_then (check_token_age env a found) (\<lambda>hat.
                   let (h, state) = deferred_auth hat requires_timestamp per_op_bound
                   in Inr (h, \<lparr>ai_state = state, ai_key_usage_limited = ka_key_usage_limited a,
                               ai_confirmation_token_receiver = ka_confirmation_token_receiver a\<rparr>)))))))"

text \<open>Tokens for the credential store.\<close>

definition Enforcements_get_auth_tokens ::
    "aidl_consts \<Rightarrow> clock_env \<Rightarrow> secure_clock \<Rightarrow> perboot_db \<Rightarrow> i64 \<Rightarrow> i64 \<Rightarrow> i64 \<Rightarrow>
     (hardware_auth_token \<times> time_stamp_token) res" where
  "Enforcements_get_auth_tokens C env clock pb challenge secure_user_id auth_token_max_age_millis =
     and_then
       (case KeystoreDB_find_auth_token_entry (\<lambda>hat.
               challenge = AuthTokenEntry_challenge hat \<and>
               AuthTokenEntry_satisfies [secure_user_id] (HAT_ANY C) hat) pb of
          Some (entry, _) \<Rightarrow> Inr (ate_auth_token entry)
        | None \<Rightarrow>
            if auth_token_max_age_millis \<noteq> 0 then
              (case KeystoreDB_find_auth_token_entry (\<lambda>entry.
                      (case MonotonicRawTime_checked_sub (ce_raw env) (ate_time_received entry) of
                         None \<Rightarrow> False
                       | Some age \<Rightarrow>
                           sint (MonotonicRawTime_milliseconds age) < sint auth_token_max_age_millis) \<and>
                      AuthTokenEntry_satisfies [secure_user_id] (HAT_ANY C) entry) pb of
                 Some (entry, _) \<Rightarrow> Inr (ate_auth_token entry)
               | None \<Rightarrow> Inl (Authz AZ_NO_AUTH_TOKEN_FOUND))
            else Inl (Authz AZ_NO_AUTH_TOKEN_FOUND))
       (\<lambda>auth_token.
          case get_timestamp_token clock challenge of
            Inl e \<Rightarrow> Inl (Ks e)
          | Inr tst \<Rightarrow> Inr (auth_token, tst))"

section \<open>Super encryption\<close>

datatype super_encryption_type = SE_None | LskfBound | ScreenLockBound | BootLevel i32

definition super_encryption_candidate :: "domain \<Rightarrow> key_parameter_value \<Rightarrow> nat \<times> super_encryption_type" where
  "super_encryption_candidate d v =
     (case v of
        KpMaxBootLevel level \<Rightarrow> (3, BootLevel level)
      | KpUnlockedDeviceRequired \<Rightarrow> if d = APP then (2, ScreenLockBound) else (0, SE_None)
      | KpUserSecureID _ \<Rightarrow> if d = APP then (1, LskfBound) else (0, SE_None)
      | _ \<Rightarrow> (0, SE_None))"

definition super_encryption_required ::
    "aidl_consts \<Rightarrow> domain \<Rightarrow> key_parameter list \<Rightarrow> i32 option \<Rightarrow> super_encryption_type" where
  "super_encryption_required C d key_parameters flags =
     (if (case flags of None \<Rightarrow> False
          | Some f \<Rightarrow> f AND FLAG_AUTH_BOUND_WITHOUT_CRYPTOGRAPHIC_LSKF_BINDING C \<noteq> 0)
      then SE_None
      else snd (fold (\<lambda>kp result.
             let t = super_encryption_candidate d (kp_value kp)
             in if fst result < fst t then t else result) key_parameters (0, SE_None)))"

end
