(* ===== verification/Ks_AuthProperties.thy ===== *)
theory Ks_AuthProperties
  imports Ks_Enforcements
begin

text \<open>
  What the authorization checks guarantee.  The loop over the key parameters is related to
  plain queries on the parameter list (\<open>key_auth_of\<close>); on top of that the properties say
  which conditions hold when \<open>authorize_create\<close> accepts, when exactly it panics, how an
  operation gets its token, and what the token receiver map keeps invariant.
\<close>

section \<open>The loop over the key parameters\<close>

definition param_values :: "(key_parameter_value \<Rightarrow> 'a option) \<Rightarrow> key_parameter list \<Rightarrow> 'a list" where
  "param_values f ps = List.map_filter (\<lambda>p. f (kp_value p)) ps"

definition last_value :: "(key_parameter_value \<Rightarrow> 'a option) \<Rightarrow> key_parameter list \<Rightarrow> 'a option" where
  "last_value f ps = (if param_values f ps = [] then None else Some (last (param_values f ps)))"

definition has_param :: "key_parameter_value \<Rightarrow> key_parameter list \<Rightarrow> bool" where
  "has_param v ps \<longleftrightarrow> v \<in> kp_value ` set ps"

definition sel_secure_id :: "key_parameter_value \<Rightarrow> i64 option" where
  "sel_secure_id v = (case v of KpUserSecureID s \<Rightarrow> Some s | _ \<Rightarrow> None)"

definition sel_auth_type :: "key_parameter_value \<Rightarrow> i32 option" where
  "sel_auth_type v = (case v of KpHardwareAuthenticatorType t \<Rightarrow> Some t | _ \<Rightarrow> None)"

definition sel_timeout :: "key_parameter_value \<Rightarrow> i32 option" where
  "sel_timeout v = (case v of KpAuthTimeout t \<Rightarrow> Some t | _ \<Rightarrow> None)"

definition sel_user_id :: "key_parameter_value \<Rightarrow> i32 option" where
  "sel_user_id v = (case v of KpUserID u \<Rightarrow> Some u | _ \<Rightarrow> None)"

definition sel_boot_level :: "key_parameter_value \<Rightarrow> i32 option" where
  "sel_boot_level v = (case v of KpMaxBootLevel l \<Rightarrow> Some l | _ \<Rightarrow> None)"

definition sel_usage_limit :: "key_parameter_value \<Rightarrow> i32 option" where
  "sel_usage_limit v = (case v of KpUsageCountLimit l \<Rightarrow> Some l | _ \<Rightarrow> None)"

lemmas sel_defs = sel_secure_id_def sel_auth_type_def sel_timeout_def sel_user_id_def
  sel_boot_level_def sel_usage_limit_def

definition key_auth_of :: "i32 \<Rightarrow> int \<Rightarrow> key_parameter list \<Rightarrow> key_auth" where
  "key_auth_of purpose key_id ps =
     \<lparr>ka_key_purpose_authorized = has_param (KpKeyPurpose purpose) ps,
      ka_user_auth_type = last_value sel_auth_type ps,
      ka_no_auth_required = has_param KpNoAuthRequired ps,
      ka_caller_nonce_allowed = has_param KpCallerNonce ps,
      ka_user_id = (case last_value sel_user_id ps of None \<Rightarrow> - 1 | Some u \<Rightarrow> u),
      ka_user_secure_ids = param_values sel_secure_id ps,
      ka_key_time_out = map_option (\<lambda>t. word_of_int (sint t)) (last_value sel_timeout ps),
      ka_allow_while_on_body = has_param KpAllowWhileOnBody ps,
      ka_unlocked_device_required = has_param KpUnlockedDeviceRequired ps,
      ka_key_usage_limited = map_option (\<lambda>_. key_id) (last_value sel_usage_limit ps),
      ka_confirmation_token_receiver = has_param KpTrustedConfirmationRequired ps,
      ka_max_boot_level = last_value sel_boot_level ps\<rparr>"

lemma key_auth_of_simps [simp]:
  "ka_key_purpose_authorized (key_auth_of purpose key_id ps) = has_param (KpKeyPurpose purpose) ps"
  "ka_user_auth_type (key_auth_of purpose key_id ps) = last_value sel_auth_type ps"
  "ka_no_auth_required (key_auth_of purpose key_id ps) = has_param KpNoAuthRequired ps"
  "ka_caller_nonce_allowed (key_auth_of purpose key_id ps) = has_param KpCallerNonce ps"
  "ka_user_id (key_auth_of purpose key_id ps) = (case last_value sel_user_id ps of None \<Rightarrow> - 1 | Some u \<Rightarrow> u)"
  "ka_user_secure_ids (key_auth_of purpose key_id ps) = param_values sel_secure_id ps"
  "ka_key_time_out (key_auth_of purpose key_id ps) = map_option scast (last_value sel_timeout ps)"
  "ka_allow_while_on_body (key_auth_of purpose key_id ps) = has_param KpAllowWhileOnBody ps"
  "ka_unlocked_device_required (key_auth_of purpose key_id ps) = has_param KpUnlockedDeviceRequired ps"
  "ka_key_usage_limited (key_auth_of purpose key_id ps) = map_option (\<lambda>_. key_id) (last_value sel_usage_limit ps)"
  "ka_confirmation_token_receiver (key_auth_of purpose key_id ps) = has_param KpTrustedConfirmationRequired ps"
  "ka_max_boot_level (key_auth_of purpose key_id ps) = last_value sel_boot_level ps"
  by (simp_all add: key_auth_of_def)

text \<open>The time restrictions of one parameter.\<close>

definition time_error :: "aidl_consts \<Rightarrow> clock_env \<Rightarrow> i32 \<Rightarrow> key_parameter_value \<Rightarrow> err option" where
  "time_error C env purpose v =
     (case v of
        KpActiveDateTime t \<Rightarrow>
          if is_given_time_passed env t True then None else Some (Ks (Km EC_KEY_NOT_YET_VALID))
      | KpOriginationExpireDateTime t \<Rightarrow>
          if (purpose = KP_ENCRYPT C \<or> purpose = KP_SIGN C) \<and> is_given_time_passed env t False
          then Some (Ks (Km EC_KEY_EXPIRED)) else None
      | KpUsageExpireDateTime t \<Rightarrow>
          if (purpose = KP_DECRYPT C \<or> purpose = KP_VERIFY C) \<and> is_given_time_passed env t False
          then Some (Ks (Km EC_KEY_EXPIRED)) else None
      | _ \<Rightarrow> None)"

lemma param_values_simps [simp]:
  "param_values f [] = []"
  "param_values f (ps @ [p]) = param_values f ps @ (case f (kp_value p) of None \<Rightarrow> [] | Some x \<Rightarrow> [x])"
  by (simp_all add: param_values_def map_filter_def split: option.splits)

lemma last_value_simps [simp]:
  "last_value f [] = None"
  "last_value f (ps @ [p]) = (case f (kp_value p) of None \<Rightarrow> last_value f ps | Some x \<Rightarrow> Some x)"
  by (simp_all add: last_value_def split: option.splits)

lemma has_param_simps [simp]:
  "\<not> has_param v []"
  "has_param v (ps @ [p]) \<longleftrightarrow> has_param v ps \<or> kp_value p = v"
  by (auto simp: has_param_def)

lemma scan_snoc:
  "scan_key_params C env purpose key_id (ps @ [p]) a =
     and_then (scan_key_params C env purpose key_id ps a)
       (scan_key_param C env purpose key_id (kp_value p))"
proof (induction ps arbitrary: a)
  case Nil
  then show ?case by (cases "scan_key_param C env purpose key_id (kp_value p) a") simp_all
next
  case (Cons q ps)
  then show ?case by (cases "scan_key_param C env purpose key_id (kp_value q) a") simp_all
qed

lemma scan_key_param_step:
  "scan_key_param C env purpose key_id (kp_value p) (key_auth_of purpose key_id ps) =
     (case time_error C env purpose (kp_value p) of
        Some e \<Rightarrow> Inl e
      | None \<Rightarrow> Inr (key_auth_of purpose key_id (ps @ [p])))"
  by (cases "kp_value p")
     (simp_all add: scan_key_param_def key_auth_of_def time_error_def sel_defs disj_commute)

lemma key_auth_of_Nil: "key_auth_of purpose key_id [] = key_auth_init"
  by (simp add: key_auth_of_def key_auth_init_def)

lemma scan_key_params_eq:
  "scan_key_params C env purpose key_id ps key_auth_init =
     (case List.map_filter (\<lambda>p. time_error C env purpose (kp_value p)) ps of
        [] \<Rightarrow> Inr (key_auth_of purpose key_id ps)
      | e # _ \<Rightarrow> Inl e)"
proof (induction ps rule: rev_induct)
  case Nil
  then show ?case by (simp add: key_auth_of_Nil map_filter_def)
next
  case (snoc p ps)
  then show ?case
    by (auto simp: scan_snoc scan_key_param_step map_filter_def split: list.splits option.splits)
qed

section \<open>Accepted operations\<close>

lemma no_time_errors:
  "List.map_filter (\<lambda>p. time_error C env purpose (kp_value p)) ps = [] \<longleftrightarrow>
     (\<forall>v. has_param v ps \<longrightarrow> time_error C env purpose v = None)"
  by (auto simp: map_filter_def filter_empty_conv has_param_def)

text \<open>The stages of an accepted call.\<close>

lemma authorize_create_stages:
  assumes "authorize_create C env lvl pb E purpose (Some (key_id, ps)) op_params ts = Inr (hat, ai)"
  defines "a \<equiv> key_auth_of purpose key_id ps"
  shows "check_purpose C purpose ps = Inr ()"
    and "\<forall>v. has_param v ps \<longrightarrow> time_error C env purpose v = None"
    and "check_key_auth C lvl E purpose op_params a = Inr ()"
    and "ka_unlocked_device_required a \<or> \<not> ka_no_auth_required a \<Longrightarrow>
         \<exists>found h. (if (ka_key_time_out a \<noteq> None \<and> ka_user_secure_ids a \<noteq> []) \<or> ka_unlocked_device_required a
                   then found = find_auth_token_for a pb \<and> found \<noteq> None else found = None) \<and>
                 check_token_age env a found = Inr h \<and>
                 (hat, ai_state ai) = deferred_auth h ts (ka_key_time_out a = None \<and> ka_user_secure_ids a \<noteq> [])"
    and "\<not> ka_unlocked_device_required a \<Longrightarrow> ka_no_auth_required a \<Longrightarrow>
         hat = None \<and> ai_state ai = NoAuthRequired"
    and "ai_key_usage_limited ai = ka_key_usage_limited a"
    and "ai_confirmation_token_receiver ai = ka_confirmation_token_receiver a"
proof -
  let ?need = "(ka_key_time_out a \<noteq> None \<and> ka_user_secure_ids a \<noteq> []) \<or> ka_unlocked_device_required a"
  from assms(1) obtain b where P: "check_purpose C purpose ps = Inr ()"
    and scan: "scan_key_params C env purpose key_id ps key_auth_init = Inr b"
    by (auto simp: authorize_create_def res_iffs)
  from scan have times: "List.map_filter (\<lambda>p. time_error C env purpose (kp_value p)) ps = []" and b: "b = a"
    by (auto simp: scan_key_params_eq a_def split: list.splits)
  show "check_purpose C purpose ps = Inr ()" by (fact P)
  show "\<forall>v. has_param v ps \<longrightarrow> time_error C env purpose v = None"
    using times by (simp add: no_time_errors)
  note eq = assms(1) [unfolded authorize_create_def option.case prod.case P scan [unfolded b] and_then_simps]
  from eq show C: "check_key_auth C lvl E purpose op_params a = Inr ()"
    by (auto simp: res_iffs)
  note eq = eq [unfolded C and_then_simps]
  show "ai_key_usage_limited ai = ka_key_usage_limited a"
    and "ai_confirmation_token_receiver ai = ka_confirmation_token_receiver a"
    using eq by (auto simp: res_iffs Let_def split_beta split: if_splits)
  show "hat = None \<and> ai_state ai = NoAuthRequired"
    if "\<not> ka_unlocked_device_required a" and "ka_no_auth_required a"
    using eq that by auto
  show "\<exists>found h. (if ?need then found = find_auth_token_for a pb \<and> found \<noteq> None else found = None) \<and>
      check_token_age env a found = Inr h \<and>
      (hat, ai_state ai) = deferred_auth h ts (ka_key_time_out a = None \<and> ka_user_secure_ids a \<noteq> [])"
    if "ka_unlocked_device_required a \<or> \<not> ka_no_auth_required a"
    using eq that by (auto simp: res_iffs Let_def split_beta split: if_splits)
qed

lemma find_auth_token_for_Some:
  assumes "find_auth_token_for a pb = Some (e, off)"
  shows "e \<in> set (pb_auth_tokens pb)" and "off = pb_last_off_body pb"
    and "ka_user_auth_type a = Some t \<Longrightarrow> ka_user_secure_ids a \<noteq> [] \<Longrightarrow>
         AuthTokenEntry_satisfies (ka_user_secure_ids a) t e"
  using assms
  by (auto simp: find_auth_token_for_def KeystoreDB_find_auth_token_entry_def get_last_off_body_def
      dest: find_auth_token_entry_Some)

text \<open>A token is fresh for a timeout, or the device has been on the body since it came.\<close>

definition token_valid :: "clock_env \<Rightarrow> perboot_db \<Rightarrow> bool \<Rightarrow> i32 \<Rightarrow> auth_token_entry \<Rightarrow> bool" where
  "token_valid env pb allow_on_body timeout e \<longleftrightarrow>
     (\<exists>age. MonotonicRawTime_checked_sub (ce_raw env) (ate_time_received e) = Some age \<and>
            sint (MonotonicRawTime_seconds age) \<le> sint timeout) \<or>
     allow_on_body \<and> sint (pb_last_off_body pb) < sint (ate_time_received e)"

lemma sint_sign_extend: "sint (scast (t :: i32) :: i64) = sint t"
proof -
  have "- (2 ^ 31) \<le> sint t" and "sint t < 2 ^ 31"
    using sint_ge [of t] sint_lt [of t] by simp_all
  then show ?thesis using sint_word_of_int_i64 [of "sint t"] by simp
qed

lemma check_token_age_Some:
  assumes "check_token_age env a (Some (e, pb_last_off_body pb)) = Inr h"
    and "ka_key_time_out a = Some (scast (t :: i32))"
  shows "h = Some e \<and> token_valid env pb (ka_allow_while_on_body a) t e"
  using assms
  by (auto simp: check_token_age_def res_iffs Let_def token_valid_def sint_sign_extend not_less
      split: if_splits)


text \<open>An example: a signing key bound to secure id 77 with a timeout of ten seconds.\<close>

definition ex_consts :: aidl_consts where
  "ex_consts = \<lparr>KP_ENCRYPT = 0, KP_DECRYPT = 1, KP_SIGN = 2, KP_VERIFY = 3, KP_WRAP_KEY = 5,
     KP_AGREE_KEY = 6, ALG_RSA = 1, ALG_EC = 3, HAT_ANY = - 1,
     FLAG_AUTH_BOUND_WITHOUT_CRYPTOGRAPHIC_LSKF_BINDING = 1\<rparr>"

definition ex_env :: clock_env where
  "ex_env = \<lparr>ce_since_epoch = Some 50, ce_raw = 20000\<rparr>"

definition ex_hat :: "i64 \<Rightarrow> hardware_auth_token" where
  "ex_hat challenge = \<lparr>hat_challenge = challenge, hat_user_id = 77, hat_authenticator_id = 88,
     hat_authenticator_type = 1, hat_timestamp = 0, hat_mac = []\<rparr>"

definition ex_perboot :: perboot_db where
  "ex_perboot = insert_auth_token 12000 (ex_hat 5) PerbootDB_new"

definition ex_auth_params :: "key_parameter list" where
  "ex_auth_params = map (\<lambda>v. KeyParameter_new v 1)
     [KpKeyPurpose 2, KpUserSecureID 77, KpHardwareAuthenticatorType 1, KpAuthTimeout 10]"


section \<open>Panics\<close>

lemma check_purpose_no_panic: "check_purpose C purpose ps \<noteq> Inl Panicked"
  by (auto simp: check_purpose_def dest!: for_each_res_error split: if_splits)

lemma scan_no_panic: "scan_key_params C env purpose key_id ps key_auth_init \<noteq> Inl Panicked"
proof
  assume "scan_key_params C env purpose key_id ps key_auth_init = Inl Panicked"
  then have "Panicked \<in> set (List.map_filter (\<lambda>p. time_error C env purpose (kp_value p)) ps)"
    by (auto simp: scan_key_params_eq split: list.splits)
  moreover have "time_error C env purpose v \<noteq> Some Panicked" for v
    by (cases v) (simp_all add: time_error_def)
  ultimately show False by (auto simp: map_filter_def)
qed

lemma check_key_auth_no_panic: "check_key_auth C lvl E purpose op_params a \<noteq> Inl Panicked"
  by (simp add: check_key_auth_def split: option.splits)

lemma check_token_age_panic:
  "check_token_age env a found = Inl Panicked \<longleftrightarrow> found = None \<and> ka_key_time_out a \<noteq> None"
  by (auto simp: check_token_age_def res_errors Let_def split: option.splits if_splits)

text \<open>C37. Exactly when \<open>authorize_create\<close> panics: when all checks have passed for a key that
  has an authentication timeout but neither a secure id nor one of the tags
  NO\_AUTH\_REQUIRED and UNLOCKED\_DEVICE\_REQUIRED.  (The code takes this arm to be
  unreachable.)  No other call panics.\<close>

theorem authorize_create_panics_iff:
  "authorize_create C env lvl pb E purpose key_properties op_params ts = Inl Panicked \<longleftrightarrow>
     (\<exists>key_id ps. key_properties = Some (key_id, ps) \<and>
        check_purpose C purpose ps = Inr () \<and>
        (\<forall>v. has_param v ps \<longrightarrow> time_error C env purpose v = None) \<and>
        check_key_auth C lvl E purpose op_params (key_auth_of purpose key_id ps) = Inr () \<and>
        last_value sel_timeout ps \<noteq> None \<and> param_values sel_secure_id ps = [] \<and>
        \<not> has_param KpNoAuthRequired ps \<and> \<not> has_param KpUnlockedDeviceRequired ps)"
proof (cases key_properties)
  case None
  then show ?thesis by (simp add: authorize_create_def)
next
  case (Some kp)
  obtain key_id ps where kp: "kp = (key_id, ps)" by fastforce
  let ?a = "key_auth_of purpose key_id ps"
  let ?times = "\<forall>v. has_param v ps \<longrightarrow> time_error C env purpose v = None"
  have scan: "scan_key_params C env purpose key_id ps key_auth_init = Inr b \<longleftrightarrow> ?times \<and> b = ?a" for b
    unfolding no_time_errors [symmetric] by (auto simp: scan_key_params_eq split: list.splits)
  show ?thesis
    unfolding Some kp authorize_create_def option.case prod.case
    using check_purpose_no_panic [of C purpose ps] scan_no_panic [of C env purpose key_id ps]
      check_key_auth_no_panic [of C lvl E purpose op_params ?a]
    by (auto simp: res_errors scan Let_def check_token_age_panic split_beta map_res_Inr_iff split: if_splits)
qed

definition ex_panic_params :: "key_parameter list" where
  "ex_panic_params = map (\<lambda>v. KeyParameter_new v 1) [KpKeyPurpose 2, KpAuthTimeout 10]"

theorem authorize_create_panics_iff_witness:
  "authorize_create ex_consts ex_env (\<lambda>_. True) ex_perboot Enforcements_default 2
     (Some (9, ex_panic_params)) [] False = Inl Panicked"
  unfolding authorize_create_panics_iff
proof (intro exI conjI)
  show "\<forall>v. has_param v ex_panic_params \<longrightarrow> time_error ex_consts ex_env 2 v = None"
    by (simp add: has_param_def ex_panic_params_def KeyParameter_new_def time_error_def)
qed (rule refl, code_simp+)

section \<open>The state of the enforcements\<close>

text \<open>
  Request numbers are fresh, a request waits under at most one challenge, and the cleanup
  counter stays between 1 and 26, so its decrement never wraps around.
\<close>

definition enf_inv :: "enforcements \<Rightarrow> bool" where
  "enf_inv E \<longleftrightarrow>
     (\<forall>c r. enf_op_auth_map E c = Some r \<longrightarrow> r < enf_next_request E) \<and>
     (\<forall>r\<in>dom (enf_requests E). r < enf_next_request E) \<and>
     (\<forall>(c, r)\<in>set (enf_jobs E). r < enf_next_request E) \<and>
     (\<forall>c c' r. enf_op_auth_map E c = Some r \<and> enf_op_auth_map E c' = Some r \<longrightarrow> c = c') \<and>
     1 \<le> enf_cleanup_counter E \<and> enf_cleanup_counter E \<le> CLEANUP_PERIOD + 1"

lemma enf_invD:
  assumes "enf_inv E"
  shows "enf_op_auth_map E c = Some r \<Longrightarrow> r < enf_next_request E"
    and "enf_requests E r = Some rq \<Longrightarrow> r < enf_next_request E"
    and "(c, r) \<in> set (enf_jobs E) \<Longrightarrow> r < enf_next_request E"
    and "enf_op_auth_map E c = Some r \<Longrightarrow> enf_op_auth_map E c' = Some r \<Longrightarrow> c = c'"
    and "1 \<le> enf_cleanup_counter E" and "enf_cleanup_counter E \<le> CLEANUP_PERIOD + 1"
  using assms unfolding enf_inv_def by blast+

lemma enf_inv_default: "enf_inv Enforcements_default"
  by (simp add: enf_inv_def Enforcements_default_def CLEANUP_PERIOD_def)

lemma counter_step:
  "1 \<le> (c :: u8) \<Longrightarrow> c \<le> CLEANUP_PERIOD + 1 \<Longrightarrow> c - 1 \<noteq> 0 \<Longrightarrow> 1 \<le> c - 1 \<and> c - 1 \<le> CLEANUP_PERIOD + 1"
  unfolding CLEANUP_PERIOD_def word_le_nat_alt by unat_arith

lemma enf_inv_add_receiver:
  assumes inv: "enf_inv E" and r: "r < enf_next_request E" and new: "\<And>c. enf_op_auth_map E c \<noteq> Some r"
  shows "enf_inv (TokenReceiverMap_add_receiver challenge r E)"
  using assms counter_step [OF enf_invD(5,6) [OF inv]]
  by (auto simp: enf_inv_def TokenReceiverMap_add_receiver_def Let_def CLEANUP_PERIOD_def
      split: if_splits option.splits)

lemma enf_inv_new_request:
  assumes "enf_inv E" and "new_request rq E = (r, E')"
  shows "enf_inv E'" and "r < enf_next_request E'" and "\<And>c. enf_op_auth_map E' c \<noteq> Some r"
    and "enf_requests E' r = Some rq" and "r = enf_next_request E"
proof -
  show "\<And>c. enf_op_auth_map E' c \<noteq> Some r"
    using assms enf_invD(1) [OF assms(1)] by (fastforce simp: new_request_def)
qed (use assms in \<open>auto simp: new_request_def enf_inv_def less_Suc_eq split: if_splits\<close>)

lemma enf_inv_queue:
  "enf_inv E \<Longrightarrow> r < enf_next_request E \<Longrightarrow> enf_inv (queue_timestamp_request c r E)"
  by (auto simp: enf_inv_def queue_timestamp_request_def)

lemma next_add_receiver [simp]:
  "enf_next_request (TokenReceiverMap_add_receiver c r E) = enf_next_request E"
  "enf_requests (TokenReceiverMap_add_receiver c r E) = enf_requests E"
  "enf_jobs (TokenReceiverMap_add_receiver c r E) = enf_jobs E"
  by (simp_all add: TokenReceiverMap_add_receiver_def Let_def)

lemma enf_inv_finalize:
  assumes "enf_inv E"
  shows "enf_inv (snd (snd (finalize_create_authorization c ai E)))"
  using assms
  by (auto simp: finalize_create_authorization_def Let_def split_beta
      intro!: enf_inv_queue enf_inv_add_receiver enf_inv_new_request [OF _ prod.collapse [symmetric]]
      split: deferred_auth_state.splits)

lemma enf_inv_requests:
  assumes "enf_inv E" and "dom f \<subseteq> dom (enf_requests E)"
  shows "enf_inv (E\<lparr>enf_requests := f\<rparr>)"
proof -
  have "\<forall>r\<in>dom f. r < enf_next_request E" using assms(2) assms(1) [unfolded enf_inv_def] by blast
  then show ?thesis using assms(1) by (simp add: enf_inv_def)
qed

lemma enf_inv_add_auth_token: "enf_inv E \<Longrightarrow> enf_inv (TokenReceiverMap_add_auth_token hat E)"
proof -
  assume inv: "enf_inv E"
  let ?E = "E\<lparr>enf_op_auth_map := (enf_op_auth_map E)(hat_challenge hat := None)\<rparr>"
  have "enf_inv ?E" using inv by (auto simp: enf_inv_def)
  then have "enf_inv (TokenReceiver_add_auth_token r hat ?E)" for r
    by (auto simp: TokenReceiver_add_auth_token_def AuthRequest_add_auth_token_def
        intro!: enf_inv_requests split: if_splits)
  with \<open>enf_inv ?E\<close> show ?thesis
    by (simp add: TokenReceiverMap_add_auth_token_def Let_def split: option.splits)
qed

lemma enf_inv_job: "enf_inv E \<Longrightarrow> enf_inv (run_timestamp_job clock E)"
proof (cases "enf_jobs E")
  case (Cons j js)
  assume inv: "enf_inv E"
  obtain c r where j: "j = (c, r)" by fastforce
  have "enf_inv (E\<lparr>enf_jobs := js\<rparr>)" using inv Cons by (auto simp: enf_inv_def)
  then show ?thesis
    unfolding run_timestamp_job_def timestamp_token_request_def Cons j list.case prod.case
    by (rule enf_inv_requests) (auto split: if_splits)
qed (simp add: run_timestamp_job_def)

lemma enf_inv_get_tokens: "enf_inv E \<Longrightarrow> enf_inv (snd (snd (AuthInfo_get_auth_tokens ai E)))"
  by (auto simp: AuthInfo_get_auth_tokens_def split: deferred_auth_state.splits option.splits prod.splits
      sum.splits if_splits intro!: enf_inv_requests)

lemma enf_inv_drop: "enf_inv E \<Longrightarrow> enf_inv (AuthInfo_drop ai E)"
  by (auto simp: AuthInfo_drop_def split: deferred_auth_state.splits if_splits intro!: enf_inv_requests)

lemma enf_inv_confirmation: "enf_inv E \<Longrightarrow> enf_inv (E\<lparr>enf_confirmation_token_receiver := x\<rparr>)"
  by (simp add: enf_inv_def)

lemma enf_inv_take_confirmation: "enf_inv E \<Longrightarrow> enf_inv (snd (take_confirmation_token ai E))"
  by (auto simp: take_confirmation_token_def enf_inv_confirmation split: option.splits)

text \<open>The steps of the operations, of the worker thread and of the services.\<close>

inductive enf_step :: "secure_clock \<Rightarrow> enforcements \<Rightarrow> enforcements \<Rightarrow> bool" for clock where
  enf_finalize: "enf_step clock E (snd (snd (finalize_create_authorization challenge ai E)))"
| enf_update: "enf_step clock E (snd (snd (before_update ai E)))"
| enf_finish: "enf_step clock E (snd (snd (before_finish ai E)))"
| enf_drop: "enf_step clock E (AuthInfo_drop ai E)"
| enf_token: "enf_step clock E (TokenReceiverMap_add_auth_token hat E)"
| enf_worker: "enf_step clock E (run_timestamp_job clock E)"
| enf_lock: "enf_step clock E (set_device_locked user locked E)"
| enf_install: "enf_step clock E (install_confirmation_token_receiver q E)"

lemma enf_step_inv: "enf_step clock E E' \<Longrightarrow> enf_inv E \<Longrightarrow> enf_inv E'"
proof (induction rule: enf_step.induct)
  case (enf_finish E ai)
  then show ?case
    by (simp add: before_finish_def split_beta Let_def enf_inv_get_tokens enf_inv_take_confirmation)
next
  case (enf_lock E user locked)
  then show ?case by (simp add: set_device_locked_def enf_inv_def)
qed (simp_all add: enf_inv_finalize before_update_def enf_inv_get_tokens enf_inv_drop
       enf_inv_add_auth_token enf_inv_job install_confirmation_token_receiver_def enf_inv_confirmation)

interpretation enf: transition_system "\<lambda>E. E = Enforcements_default" "enf_step clock" enf_inv
  by unfold_locales (auto intro: enf_inv_default enf_step_inv)

text \<open>C35. The bookkeeping of outstanding authentication requests is sound in every reachable
  state: request numbers are never reused while a receiver, a job or an operation refers to
  them, no request is registered under two challenges, and the cleanup counter stays between
  1 and 26, so the 8 bit decrement in \<open>add_receiver\<close> never wraps around.\<close>

theorem enforcements_invariant:
  assumes "(enf_step clock)\<^sup>*\<^sup>* Enforcements_default E"
  shows "enf_inv E"
  using enf.invariant_reachable [OF refl assms] .

definition ex_info :: "deferred_auth_state \<Rightarrow> auth_info" where
  "ex_info st = \<lparr>ai_state = st, ai_key_usage_limited = None, ai_confirmation_token_receiver = False\<rparr>"

definition ex_clock :: secure_clock where
  "ex_clock challenge = Inr \<lparr>tst_challenge = challenge, tst_timestamp = 42, tst_mac = []\<rparr>"

theorem enforcements_invariant_witness:
  "enf_inv (TokenReceiverMap_add_auth_token (ex_hat 5)
     (snd (snd (finalize_create_authorization 5 (ex_info OpAuthRequired) Enforcements_default))))"
proof -
  let ?E = "snd (snd (finalize_create_authorization 5 (ex_info OpAuthRequired) Enforcements_default))"
  have "enf_step ex_clock Enforcements_default ?E" by (rule enf_finalize)
  moreover have "enf_step ex_clock ?E (TokenReceiverMap_add_auth_token (ex_hat 5) ?E)" by (rule enf_token)
  ultimately show ?thesis by (intro enforcements_invariant [of ex_clock]) (meson converse_rtranclp_into_rtranclp rtranclp.rtrancl_refl)
qed

section \<open>Tokens for one operation\<close>

lemma add_auth_token_map:
  "enf_op_auth_map (TokenReceiverMap_add_auth_token hat E) = (enf_op_auth_map E)(hat_challenge hat := None)"
  by (simp add: TokenReceiverMap_add_auth_token_def Let_def TokenReceiver_add_auth_token_def
      AuthRequest_add_auth_token_def split: option.splits)

lemma add_auth_token_requests:
  "enf_requests (TokenReceiverMap_add_auth_token hat E) r =
     (if enf_op_auth_map E (hat_challenge hat) = Some r
      then map_option (\<lambda>rq. rq\<lparr>ar_hat := Some hat\<rparr>) (enf_requests E r) else enf_requests E r)"
  by (auto simp: TokenReceiverMap_add_auth_token_def Let_def TokenReceiver_add_auth_token_def
      AuthRequest_add_auth_token_def split: option.splits)

lemma deliver_unregistered:
  "(\<And>c. enf_op_auth_map E c \<noteq> Some r) \<Longrightarrow>
   enf_requests (fold TokenReceiverMap_add_auth_token hats E) r = enf_requests E r"
proof (induction hats arbitrary: E)
  case (Cons h hs)
  have "enf_op_auth_map (TokenReceiverMap_add_auth_token h E) c \<noteq> Some r" for c
    using Cons.prems by (simp add: add_auth_token_map)
  from Cons.IH [OF this] Cons.prems show ?case by (simp add: add_auth_token_requests)
qed simp

lemma deliver_registered:
  assumes "enf_op_auth_map E c = Some r" and "\<And>c'. enf_op_auth_map E c' = Some r \<Longrightarrow> c' = c"
    and "enf_requests E r = Some rq"
  shows "enf_requests (fold TokenReceiverMap_add_auth_token hats E) r =
     Some (case find (\<lambda>h. hat_challenge h = c) hats of None \<Rightarrow> rq | Some h \<Rightarrow> rq\<lparr>ar_hat := Some h\<rparr>)"
  using assms
proof (induction hats arbitrary: E)
  case Nil
  from Nil.prems(3) show ?case by simp
next
  case (Cons h hs)
  let ?E = "TokenReceiverMap_add_auth_token h E"
  show ?case
  proof (cases "hat_challenge h = c")
    case True
    have "enf_op_auth_map ?E c' \<noteq> Some r" for c'
      using Cons.prems(2) [of c'] True by (auto simp: add_auth_token_map)
    from deliver_unregistered [OF this] show ?thesis
      using True Cons.prems(1,3) by (simp add: add_auth_token_requests)
  next
    case False
    then have "enf_op_auth_map ?E c = Some r"
      using Cons.prems(1) by (simp add: add_auth_token_map)
    moreover have "c' = c" if "enf_op_auth_map ?E c' = Some r" for c'
      using Cons.prems(2) [of c'] that by (simp add: add_auth_token_map split: if_splits)
    moreover have "enf_requests ?E r = Some rq"
      using Cons.prems(2) [of "hat_challenge h"] Cons.prems(3) False by (auto simp: add_auth_token_requests)
    ultimately have "enf_requests (fold TokenReceiverMap_add_auth_token hs ?E) r =
        Some (case find (\<lambda>h. hat_challenge h = c) hs of None \<Rightarrow> rq | Some h \<Rightarrow> rq\<lparr>ar_hat := Some h\<rparr>)"
      by (rule Cons.IH)
    with False show ?thesis by simp
  qed
qed

lemma finalize_op_auth:
  assumes inv: "enf_inv E" and st: "ai_state ai = OpAuthRequired"
    and fin: "finalize_create_authorization c ai E = (ch, ai', E')"
  obtains r where "ch = Some c" and "ai' = ai\<lparr>ai_state := Waiting r\<rparr>"
    and "enf_op_auth_map E' c = Some r" and "\<And>c'. enf_op_auth_map E' c' = Some r \<Longrightarrow> c' = c"
    and "enf_requests E' r = Some AuthRequest_op_auth"
proof -
  obtain r E1 where n: "new_request AuthRequest_op_auth E = (r, E1)" by fastforce
  note N = enf_inv_new_request [OF inv n]
  from fin st n have *: "ch = Some c" "ai' = ai\<lparr>ai_state := Waiting r\<rparr>"
    "E' = TokenReceiverMap_add_receiver c r E1"
    by (auto simp: finalize_create_authorization_def)
  have m: "enf_op_auth_map E' c = Some r"
    using N(4) * by (simp add: TokenReceiverMap_add_receiver_def Let_def TokenReceiver_is_obsolete_def)
  have "enf_inv E'" using enf_inv_add_receiver [OF N(1-3)] * by simp
  then have u: "\<And>c'. enf_op_auth_map E' c' = Some r \<Longrightarrow> c' = c" using enf_invD(4) m by blast
  have "enf_requests E' r = Some AuthRequest_op_auth" using *(3) N(4) by simp
  with *(1,2) m u show thesis by (rule that)
qed

text \<open>C36. Per operation authentication.  An operation that needs its own token registers its
  challenge when it is created.  Whatever auth tokens then arrive, the operation can go on
  exactly when one of them carries that challenge, and it goes on with the first such token;
  otherwise update and finish fail with KEY\_USER\_NOT\_AUTHENTICATED.  Once obtained, the
  token is kept for all later calls.\<close>

theorem op_auth_token_flow:
  assumes "(enf_step clock)\<^sup>*\<^sup>* Enforcements_default E" and "ai_state ai = OpAuthRequired"
    and "finalize_create_authorization c ai E = (ch, ai', E')"
  shows "ch = Some c \<and>
    (case before_update ai' (fold TokenReceiverMap_add_auth_token hats E') of
       (r, ai'', E'') \<Rightarrow>
         (case find (\<lambda>h. hat_challenge h = c) hats of
            None \<Rightarrow> r = Inl (Ks (Km EC_KEY_USER_NOT_AUTHENTICATED)) \<and> ai'' = ai'
          | Some h \<Rightarrow> r = Inr (Some h, None) \<and> (\<forall>F. before_update ai'' F = (Inr (Some h, None), ai'', F))))"
proof -
  have inv: "enf_inv E" using enf.invariant_reachable [OF refl assms(1)] .
  from finalize_op_auth [OF inv assms(2,3)] obtain r where ch: "ch = Some c"
    and ai': "ai' = ai\<lparr>ai_state := Waiting r\<rparr>" and m: "enf_op_auth_map E' c = Some r"
    and u: "\<And>c'. enf_op_auth_map E' c' = Some r \<Longrightarrow> c' = c"
    and rq: "enf_requests E' r = Some AuthRequest_op_auth" by blast
  from deliver_registered [OF m u rq, of hats] ch ai' show ?thesis
    by (simp add: before_update_def AuthInfo_get_auth_tokens_def AuthRequest_get_auth_tokens_def
        AuthRequest_op_auth_def split: option.splits)
qed

theorem op_auth_token_flow_witness:
  "fst (before_update (fst (snd (finalize_create_authorization 5 (ex_info OpAuthRequired) Enforcements_default)))
     (fold TokenReceiverMap_add_auth_token [ex_hat 4, ex_hat 5]
        (snd (snd (finalize_create_authorization 5 (ex_info OpAuthRequired) Enforcements_default)))))
   = Inr (Some (ex_hat 5), None)"
proof -
  let ?f = "finalize_create_authorization 5 (ex_info OpAuthRequired) Enforcements_default"
  have "?f = (fst ?f, fst (snd ?f), snd (snd ?f))" by simp
  from op_auth_token_flow [where clock = ex_clock and hats = "[ex_hat 4, ex_hat 5]",
      OF rtranclp.rtrancl_refl _ this]
  show ?thesis by (auto simp: ex_info_def ex_hat_def split: prod.splits)
qed

lemma run_jobs:
  assumes "enf_jobs E = js @ rest" and "\<forall>(c, r')\<in>set js. r' \<noteq> r"
  shows "enf_jobs ((run_timestamp_job clock ^^ length js) E) = rest \<and>
         enf_requests ((run_timestamp_job clock ^^ length js) E) r = enf_requests E r"
  using assms
proof (induction js arbitrary: E)
  case (Cons j js)
  obtain c' r' where j: "j = (c', r')" by fastforce
  have "enf_jobs (run_timestamp_job clock E) = js @ rest"
    and "enf_requests (run_timestamp_job clock E) r = enf_requests E r"
    using Cons.prems by (auto simp: run_timestamp_job_def timestamp_token_request_def j)
  with Cons.IH [of "run_timestamp_job clock E"] Cons.prems(2) show ?case
    by (simp add: funpow_swap1)
qed simp

text \<open>An operation that needs a timestamp token gets it.  Creating the operation queues
  the request behind the jobs already waiting.  Until the worker has processed it, update
  and finish wait; once the worker has processed the queue as it was after creation,
  they return the auth token together with the answer of the secure clock for this
  operation's challenge, or the error of the clock.\<close>

theorem timestamp_token_delivered:
  assumes "(enf_step clock)\<^sup>*\<^sup>* Enforcements_default E" and "ai_state ai = TimeStampRequired hat"
    and "finalize_create_authorization c ai E = (ch, ai', E')"
  shows "ch = None \<and> fst (before_update ai' E') = Inl Blocked \<and>
    fst (before_update ai' ((run_timestamp_job clock ^^ length (enf_jobs E')) E')) =
      (case get_timestamp_token clock c of Inl e \<Rightarrow> Inl (Ks e) | Inr t \<Rightarrow> Inr (Some hat, Some t))"
proof -
  have inv: "enf_inv E" using enf.invariant_reachable [OF refl assms(1)] .
  let ?r = "enf_next_request E"
  let ?rq = "AuthRequest_timestamp hat"
  from assms(2,3) have ch: "ch = None" and ai': "ai' = ai\<lparr>ai_state := Waiting ?r\<rparr>"
    and E': "E' = E\<lparr>enf_requests := (enf_requests E)(?r \<mapsto> ?rq), enf_next_request := Suc ?r,
                    enf_jobs := enf_jobs E @ [(c, ?r)]\<rparr>"
    by (auto simp: finalize_create_authorization_def new_request_def queue_timestamp_request_def)
  have other: "\<forall>(c, r')\<in>set (enf_jobs E). r' \<noteq> ?r" using enf_invD(3) [OF inv] by auto
  let ?E1 = "(run_timestamp_job clock ^^ length (enf_jobs E)) E'"
  have "enf_jobs E' = enf_jobs E @ [(c, ?r)]" using E' by simp
  from run_jobs [OF this other, of clock] have J: "enf_jobs ?E1 = [(c, ?r)]"
    and R: "enf_requests ?E1 ?r = Some ?rq" using E' by simp_all
  have "(run_timestamp_job clock ^^ length (enf_jobs E')) E' = run_timestamp_job clock ?E1"
    using E' by simp
  with ch ai' J R show ?thesis
    by (simp add: E' before_update_def AuthInfo_get_auth_tokens_def AuthRequest_get_auth_tokens_def
        AuthRequest_timestamp_def run_timestamp_job_def timestamp_token_request_def split: sum.splits)
qed

theorem timestamp_token_delivered_witness:
  "fst (before_update (fst (snd (finalize_create_authorization 5 (ex_info (TimeStampRequired (ex_hat 1))) Enforcements_default)))
     (run_timestamp_job ex_clock
        (snd (snd (finalize_create_authorization 5 (ex_info (TimeStampRequired (ex_hat 1))) Enforcements_default)))))
   = Inr (Some (ex_hat 1), Some \<lparr>tst_challenge = 5, tst_timestamp = 42, tst_mac = []\<rparr>)"
proof -
  let ?f = "finalize_create_authorization 5 (ex_info (TimeStampRequired (ex_hat 1))) Enforcements_default"
  have f: "?f = (fst ?f, fst (snd ?f), snd (snd ?f))" by simp
  have st: "ai_state (ex_info (TimeStampRequired (ex_hat 1))) = TimeStampRequired (ex_hat 1)"
    by (simp add: ex_info_def)
  have "enf_jobs (snd (snd ?f)) = [(5, 0)]" by code_simp
  with timestamp_token_delivered [where clock = ex_clock, OF rtranclp.rtrancl_refl st f] show ?thesis
    by (simp add: get_timestamp_token_def map_binder_status_def ex_clock_def)
qed

section \<open>Super encryption\<close>

lemma super_encryption_candidate_sel:
  "super_encryption_candidate d v =
     (case sel_boot_level v of
        Some l \<Rightarrow> (3, BootLevel l)
      | None \<Rightarrow> if d = APP \<and> v = KpUnlockedDeviceRequired then (2, ScreenLockBound)
                else if d = APP \<and> sel_secure_id v \<noteq> None then (1, LskfBound) else (0, SE_None))"
  by (cases v) (simp_all add: super_encryption_candidate_def sel_defs)

lemma sel_exclusive:
  "sel_boot_level v = Some l \<Longrightarrow> v \<noteq> KpUnlockedDeviceRequired \<and> sel_secure_id v = None"
  "v = KpUnlockedDeviceRequired \<Longrightarrow> sel_secure_id v = None"
  by (cases v; simp add: sel_defs)+

text \<open>Which super encryption a new key gets.  With the flag that opts out of
  cryptographic binding, none.  Otherwise a boot level takes precedence over everything
  else; keys of apps that need an unlocked device are bound to the screen lock, keys of apps
  bound to a secure id are bound to the lock screen knowledge factor; keys of other domains
  are not super encrypted except for boot levels.\<close>

theorem super_encryption_required_spec:
  "super_encryption_required C d ps flags =
     (if (\<exists>f. flags = Some f \<and> f AND FLAG_AUTH_BOUND_WITHOUT_CRYPTOGRAPHIC_LSKF_BINDING C \<noteq> 0) then SE_None
      else if param_values sel_boot_level ps \<noteq> [] then BootLevel (hd (param_values sel_boot_level ps))
      else if d = APP \<and> has_param KpUnlockedDeviceRequired ps then ScreenLockBound
      else if d = APP \<and> param_values sel_secure_id ps \<noteq> [] then LskfBound
      else SE_None)"
proof -
  let ?f = "\<lambda>kp result. let t = super_encryption_candidate d (kp_value kp)
                        in if fst result < fst t then t else result"
  have "fold ?f ps (0, SE_None) =
     (if param_values sel_boot_level ps \<noteq> [] then (3, BootLevel (hd (param_values sel_boot_level ps)))
      else if d = APP \<and> has_param KpUnlockedDeviceRequired ps then (2, ScreenLockBound)
      else if d = APP \<and> param_values sel_secure_id ps \<noteq> [] then (1, LskfBound)
      else (0, SE_None))"
  proof (induction ps rule: rev_induct)
    case (snoc p ps)
    then show ?case
      using sel_exclusive(1) [of "kp_value p"] sel_exclusive(2) [of "kp_value p"]
      by (auto simp: super_encryption_candidate_sel Let_def split: option.splits)
  qed simp
  then show ?thesis
    by (auto simp: super_encryption_required_def split: option.splits)
qed

end
