(* ===== verification/Ks_Stateful.thy ===== *)
theory Ks_Stateful
  imports Ks_Error
begin

text \<open>
  Fallible code that changes state.  A method with \<open>&mut self\<close> (or one that locks shared
  state) that returns a \<open>Result\<close> is a function from the state to the result and the state
  it leaves behind; the state changes made before an error stay.  \<open>st_bind\<close> is Rust's
  \<open>?\<close> operator in such code.  The predicate \<open>preserves\<close> and its rules (the collection
  \<open>st_preserves\<close>) carry invariants through the sequence of calls.
\<close>

type_synonym ('s, 'a) st = "'s \<Rightarrow> 'a res \<times> 's"

named_theorems st_preserves \<open>rules for invariants of stateful code\<close>

definition st_ok :: "'a \<Rightarrow> ('s, 'a) st" where
  "st_ok v s = (Inr v, s)"

definition st_err :: "err \<Rightarrow> ('s, 'a) st" where
  "st_err e s = (Inl e, s)"

definition st_lift :: "'a res \<Rightarrow> ('s, 'a) st" where
  "st_lift r s = (r, s)"

definition st_bind :: "('s, 'a) st \<Rightarrow> ('a \<Rightarrow> ('s, 'b) st) \<Rightarrow> ('s, 'b) st" where
  "st_bind m f s = (case m s of (Inl e, s') \<Rightarrow> (Inl e, s') | (Inr v, s') \<Rightarrow> f v s')"

definition st_gets :: "('s \<Rightarrow> 'a) \<Rightarrow> ('s, 'a) st" where
  "st_gets f s = (Inr (f s), s)"

definition st_modify :: "('s \<Rightarrow> 's) \<Rightarrow> ('s, unit) st" where
  "st_modify f s = (Inr (), f s)"

text \<open>A call whose error is inspected instead of propagated.\<close>

definition st_try :: "('s, 'a) st \<Rightarrow> ('s, 'a res) st" where
  "st_try m s = (Inr (fst (m s)), snd (m s))"

lemma st_simps [simp]:
  "st_ok v s = (Inr v, s)"
  "st_err e s = (Inl e, s)"
  "st_lift r s = (r, s)"
  "st_gets f s = (Inr (f s), s)"
  "st_modify g s = (Inr (), g s)"
  "st_try m s = (Inr (fst (m s)), snd (m s))"
  by (simp_all add: st_ok_def st_err_def st_lift_def st_gets_def st_modify_def st_try_def)

lemma st_bind_simps:
  "m s = (Inr v, s') \<Longrightarrow> st_bind m f s = f v s'"
  "m s = (Inl e, s') \<Longrightarrow> st_bind m f s = (Inl e, s')"
  by (simp_all add: st_bind_def)

lemma st_bind_basic [simp]:
  "st_bind (st_ok v) f s = f v s"
  "st_bind (st_err e) f s = (Inl e, s)"
  "st_bind (st_gets g) h s = h (g s) s"
  "st_bind (st_modify g) k s = k () (g s)"
  "st_bind (st_try m) l s = l (fst (m s)) (snd (m s))"
  by (simp_all add: st_bind_def)

lemma st_bind_gets: "st_bind (st_gets g) h s = h (g s) s"
  by (simp add: st_bind_def)

lemma st_bind_lift [simp]:
  "st_bind (st_lift (Inr v)) f s = f v s"
  "st_bind (st_lift (Inl e)) f s = (Inl e, s)"
  by (simp_all add: st_bind_def)

lemma st_bind_Inr_iff:
  "st_bind m f s = (Inr w, s'') \<longleftrightarrow> (\<exists>v s'. m s = (Inr v, s') \<and> f v s' = (Inr w, s''))"
  by (auto simp: st_bind_def split: prod.splits sum.splits)

lemma st_bind_Inl_iff:
  "st_bind m f s = (Inl e, s'') \<longleftrightarrow>
     m s = (Inl e, s'') \<or> (\<exists>v s'. m s = (Inr v, s') \<and> f v s' = (Inl e, s''))"
  by (auto simp: st_bind_def split: prod.splits sum.splits)

lemma st_bind_assoc: "st_bind (st_bind m f) g s = st_bind m (\<lambda>v. st_bind (f v) g) s"
  by (simp add: st_bind_def split: prod.splits sum.splits)

section \<open>Invariants\<close>

definition preserves :: "('s \<Rightarrow> bool) \<Rightarrow> ('s, 'a) st \<Rightarrow> bool" where
  "preserves P m \<longleftrightarrow> (\<forall>s. P s \<longrightarrow> P (snd (m s)))"

lemma preservesD: "preserves P m \<Longrightarrow> P s \<Longrightarrow> m s = (r, s') \<Longrightarrow> P s'"
  by (metis preserves_def snd_conv)

lemma preserves_basic [st_preserves]:
  "preserves P (st_ok v)"
  "preserves P (st_err e)"
  "preserves P (st_lift r)"
  "preserves P (st_gets f)"
  by (simp_all add: preserves_def)

lemma preserves_modify [st_preserves]: "(\<And>s. P s \<Longrightarrow> P (f s)) \<Longrightarrow> preserves P (st_modify f)"
  by (simp add: preserves_def)

lemma preserves_bind [st_preserves]:
  "preserves P m \<Longrightarrow> (\<And>v. preserves P (f v)) \<Longrightarrow> preserves P (st_bind m f)"
  by (auto simp: preserves_def st_bind_def split: prod.splits sum.splits)

lemma preserves_try [st_preserves]: "preserves P m \<Longrightarrow> preserves P (st_try m)"
  by (simp add: preserves_def)

lemma preserves_if [st_preserves]:
  "preserves P m \<Longrightarrow> preserves P n \<Longrightarrow> preserves P (if b then m else n)"
  by simp

lemma preserves_case_option [st_preserves]:
  "preserves P m \<Longrightarrow> (\<And>v. preserves P (f v)) \<Longrightarrow> preserves P (case x of None \<Rightarrow> m | Some v \<Rightarrow> f v)"
  by (cases x) simp_all

lemma preserves_case_sum [st_preserves]:
  "(\<And>e. preserves P (f e)) \<Longrightarrow> (\<And>v. preserves P (g v)) \<Longrightarrow>
   preserves P (case x of Inl e \<Rightarrow> f e | Inr v \<Rightarrow> g v)"
  by (cases x) simp_all

lemma preserves_case_prod [st_preserves]:
  "(\<And>a b. preserves P (f a b)) \<Longrightarrow> preserves P (case x of (a, b) \<Rightarrow> f a b)"
  by (cases x) simp

end
