(* ===== verification/Ks_Operation.thy ===== *)
theory Ks_Operation
  imports Ks_Enforcements Ks_Stateful
begin

text \<open>
  Operations (\<open>src/keystore2/src/operation.rs\<close>): the life cycle of an operation, the
  operation database with its pruning strategy, and the binder proxy that serialises the
  calls of a client.

  State.  The record \<open>op_world\<close> holds the operation objects by number (an object exists as
  long as its proxy holds the strong reference), the slots of the operation database with
  their weak references (a reference can be upgraded while the object exists), the set of
  operations whose \<open>outcome\<close> mutex is held by a request in progress, the proxies with the
  set of those that are in use, the KeyMint device, the enforcements, the database, and the
  log of the fate of operations.  Instants and durations are integers in nanoseconds.

  Parameters.  \<open>km_operation\<close> is the \<open>IKeyMintOperation\<close> interface of a KeyMint
  operation handle with the device state it works on; \<open>now\<close> is \<open>Instant::now()\<close>.
\<close>

section \<open>Data\<close>

datatype outcome = Unknown | Success | Abort | Dropped | Pruned | ErrorCode error_code

record logging_info =
  li_sec_level :: i32
  li_purpose :: i32
  li_op_params :: "km_key_parameter list"
  li_key_upgraded :: bool

record operation =
  op_index :: nat
  op_km_op :: nat
  op_last_usage :: int
  op_outcome :: outcome
  op_owner :: nat
  op_auth_info :: auth_info
  op_forced :: bool
  op_logging_info :: logging_info

record 'k km_operation =
  ko_get_interface :: "nat \<Rightarrow> unit res"
  ko_update_aad :: "nat \<Rightarrow> bytes \<Rightarrow> hardware_auth_token option \<Rightarrow> time_stamp_token option \<Rightarrow> 'k \<Rightarrow>
    unit binder_result \<times> 'k"
  ko_update :: "nat \<Rightarrow> bytes \<Rightarrow> hardware_auth_token option \<Rightarrow> time_stamp_token option \<Rightarrow> 'k \<Rightarrow>
    bytes binder_result \<times> 'k"
  ko_finish :: "nat \<Rightarrow> bytes option \<Rightarrow> bytes option \<Rightarrow> hardware_auth_token option \<Rightarrow>
    time_stamp_token option \<Rightarrow> bytes option \<Rightarrow> 'k \<Rightarrow> bytes binder_result \<times> 'k"
  ko_abort :: "nat \<Rightarrow> 'k \<Rightarrow> unit binder_result \<times> 'k"

record 'k op_world =
  ow_ops :: "nat \<rightharpoonup> operation"
  ow_next :: nat
  ow_slots :: "nat list"
  ow_busy :: "nat set"
  ow_proxies :: "nat \<rightharpoonup> nat option"
  ow_proxy_busy :: "nat set"
  ow_km :: 'k
  ow_enf :: enforcements
  ow_db :: keystore_db
  ow_log :: "(logging_info \<times> outcome) list"

definition MAX_RECEIVE_DATA :: nat where
  "MAX_RECEIVE_DATA = 0x8000"

definition Operation_new ::
    "int \<Rightarrow> nat \<Rightarrow> nat \<Rightarrow> nat \<Rightarrow> auth_info \<Rightarrow> bool \<Rightarrow> logging_info \<Rightarrow> operation" where
  "Operation_new now index km_op owner auth_info forced logging_info =
     \<lparr>op_index = index, op_km_op = km_op, op_last_usage = now, op_outcome = Unknown, op_owner = owner,
      op_auth_info = auth_info, op_forced = forced, op_logging_info = logging_info\<rparr>"

text \<open>Reading and writing an operation object.\<close>

definition the_op :: "nat \<Rightarrow> ('k op_world, operation) st" where
  "the_op oid w = (case ow_ops w oid of None \<Rightarrow> (Inl Panicked, w) | Some x \<Rightarrow> (Inr x, w))"

definition set_op :: "nat \<Rightarrow> (operation \<Rightarrow> operation) \<Rightarrow> ('k op_world, unit) st" where
  "set_op oid f = st_modify (\<lambda>w. w\<lparr>ow_ops := (ow_ops w)(oid := map_option f (ow_ops w oid))\<rparr>)"

section \<open>The life cycle of an operation\<close>

definition update_outcome :: "nat \<Rightarrow> ks_error + 'a \<Rightarrow> ('k op_world, 'a) st" where
  "update_outcome oid r =
     (case r of
        Inl (Km e) \<Rightarrow> st_bind (set_op oid (\<lambda>x. x\<lparr>op_outcome := ErrorCode e\<rparr>)) (\<lambda>_. st_err (Ks (Km e)))
      | Inl e \<Rightarrow> st_bind (set_op oid (\<lambda>x. x\<lparr>op_outcome := ErrorCode EC_UNKNOWN_ERROR\<rparr>)) (\<lambda>_. st_err (Ks e))
      | Inr v \<Rightarrow> st_ok v)"

text \<open>\<open>check_active\<close> takes the outcome lock; it waits while another request holds it.\<close>

definition lock_outcome :: "nat \<Rightarrow> ('k op_world, unit) st" where
  "lock_outcome oid w = (if oid \<in> ow_busy w then Inl Blocked else Inr (), w)"

definition check_active :: "nat \<Rightarrow> ('k op_world, operation) st" where
  "check_active oid =
     st_bind (lock_outcome oid) (\<lambda>_.
     st_bind (the_op oid) (\<lambda>x.
       case op_outcome x of
         Unknown \<Rightarrow> st_ok x
       | _ \<Rightarrow> st_err (Ks (Km EC_INVALID_OPERATION_HANDLE))))"

definition check_input_length :: "bytes \<Rightarrow> ('k op_world, unit) st" where
  "check_input_length data =
     (if MAX_RECEIVE_DATA < length data then st_err (Ks (Rc RC_TOO_MUCH_DATA)) else st_ok ())"

definition touch :: "int \<Rightarrow> nat \<Rightarrow> ('k op_world, unit) st" where
  "touch now oid = set_op oid (\<lambda>x. x\<lparr>op_last_usage := now\<rparr>)"

text \<open>The authorization hooks of the operation's auth info.\<close>

definition op_before_update ::
    "nat \<Rightarrow> ('k op_world, hardware_auth_token option \<times> time_stamp_token option) st" where
  "op_before_update oid =
     st_bind (the_op oid) (\<lambda>x w.
       let (r, ai, E) = before_update (op_auth_info x) (ow_enf w)
       in (r, snd (set_op oid (\<lambda>y. y\<lparr>op_auth_info := ai\<rparr>) (w\<lparr>ow_enf := E\<rparr>))))"

definition op_before_finish ::
    "nat \<Rightarrow> ('k op_world, hardware_auth_token option \<times> time_stamp_token option \<times> bytes option) st" where
  "op_before_finish oid =
     st_bind (the_op oid) (\<lambda>x w.
       let (r, ai, E) = before_finish (op_auth_info x) (ow_enf w)
       in (r, snd (set_op oid (\<lambda>y. y\<lparr>op_auth_info := ai\<rparr>) (w\<lparr>ow_enf := E\<rparr>))))"

definition op_after_finish :: "nat \<Rightarrow> ('k op_world, unit) st" where
  "op_after_finish oid =
     st_bind (the_op oid) (\<lambda>x w.
       let (r, db) = after_finish (op_auth_info x) (ow_db w) in (r, w\<lparr>ow_db := db\<rparr>))"

text \<open>A call of the KeyMint operation.\<close>

definition km_call :: "('k \<Rightarrow> 'a binder_result \<times> 'k) \<Rightarrow> ('k op_world, 'a binder_result) st" where
  "km_call f w = (let (r, k) = f (ow_km w) in (Inr r, w\<lparr>ow_km := k\<rparr>))"

definition Operation_update_aad ::
    "aidl_codes \<Rightarrow> 'k km_operation \<Rightarrow> int \<Rightarrow> nat \<Rightarrow> bytes \<Rightarrow> ('k op_world, unit) st" where
  "Operation_update_aad A K now oid aad_input =
     st_bind (check_active oid) (\<lambda>x.
     st_bind (check_input_length aad_input) (\<lambda>_.
     st_bind (touch now oid) (\<lambda>_.
     st_bind (st_lift (ko_get_interface K (op_km_op x))) (\<lambda>_.
     st_bind (op_before_update oid) (\<lambda>(hat, tst).
     st_bind (km_call (ko_update_aad K (op_km_op x) aad_input hat tst)) (\<lambda>r.
     update_outcome oid (map_km_error A r)))))))"

text \<open>An empty output is reported as no output.\<close>

definition output_option :: "bytes \<Rightarrow> bytes option" where
  "output_option output = (if output = [] then None else Some output)"

definition Operation_update ::
    "aidl_codes \<Rightarrow> 'k km_operation \<Rightarrow> int \<Rightarrow> nat \<Rightarrow> bytes \<Rightarrow> ('k op_world, bytes option) st" where
  "Operation_update A K now oid input =
     st_bind (check_active oid) (\<lambda>x.
     st_bind (check_input_length input) (\<lambda>_.
     st_bind (touch now oid) (\<lambda>_.
     st_bind (st_lift (ko_get_interface K (op_km_op x))) (\<lambda>_.
     st_bind (op_before_update oid) (\<lambda>(hat, tst).
     st_bind (km_call (ko_update K (op_km_op x) input hat tst)) (\<lambda>r.
     st_bind (update_outcome oid (map_km_error A r)) (\<lambda>output.
     st_ok (output_option output))))))))"

definition Operation_finish ::
    "aidl_codes \<Rightarrow> 'k km_operation \<Rightarrow> int \<Rightarrow> nat \<Rightarrow> bytes option \<Rightarrow> bytes option \<Rightarrow>
     ('k op_world, bytes option) st" where
  "Operation_finish A K now oid input signature =
     st_bind (check_active oid) (\<lambda>x.
     st_bind (case input of None \<Rightarrow> st_ok () | Some i \<Rightarrow> check_input_length i) (\<lambda>_.
     st_bind (touch now oid) (\<lambda>_.
     st_bind (st_lift (ko_get_interface K (op_km_op x))) (\<lambda>_.
     st_bind (op_before_finish oid) (\<lambda>(hat, tst, confirmation_token).
     st_bind (km_call (ko_finish K (op_km_op x) input signature hat tst confirmation_token)) (\<lambda>r.
     st_bind (update_outcome oid (map_km_error A r)) (\<lambda>output.
     st_bind (op_after_finish oid) (\<lambda>_.
     st_bind (set_op oid (\<lambda>y. y\<lparr>op_outcome := Success\<rparr>)) (\<lambda>_.
     st_ok (output_option output))))))))))"

definition Operation_abort ::
    "aidl_codes \<Rightarrow> 'k km_operation \<Rightarrow> nat \<Rightarrow> outcome \<Rightarrow> ('k op_world, unit) st" where
  "Operation_abort A K oid outc =
     st_bind (check_active oid) (\<lambda>x.
     st_bind (set_op oid (\<lambda>y. y\<lparr>op_outcome := outc\<rparr>)) (\<lambda>_.
     st_bind (st_lift (ko_get_interface K (op_km_op x))) (\<lambda>_.
     st_bind (km_call (ko_abort K (op_km_op x))) (\<lambda>r.
     st_lift (case map_km_error A r of Inl e \<Rightarrow> Inl (Ks e) | Inr _ \<Rightarrow> Inr ())))))"

text \<open>
  Dropping the last reference to an operation: the outcome is logged, an operation that is
  still active is aborted, and the object with its auth info is gone.
\<close>

definition Operation_drop :: "aidl_codes \<Rightarrow> 'k km_operation \<Rightarrow> nat \<Rightarrow> ('k op_world, unit) st" where
  "Operation_drop A K oid =
     st_bind (the_op oid) (\<lambda>x.
     st_bind (st_modify (\<lambda>w. w\<lparr>ow_log := ow_log w @ [(op_logging_info x, op_outcome x)]\<rparr>)) (\<lambda>_.
     st_bind (if op_outcome x = Unknown then st_try (Operation_abort A K oid Dropped) else st_ok (Inr ())) (\<lambda>_.
     st_bind (the_op oid) (\<lambda>y.
     st_modify (\<lambda>w. w\<lparr>ow_ops := (ow_ops w)(oid := None),
                      ow_enf := AuthInfo_drop (op_auth_info y) (ow_enf w)\<rparr>)))))"

section \<open>The operation database\<close>

definition Weak_upgrade :: "nat \<Rightarrow> 'k op_world \<Rightarrow> operation option" where
  "Weak_upgrade oid w = ow_ops w oid"

text \<open>The index of the first slot whose reference is dead.\<close>

fun free_slot :: "nat list \<Rightarrow> 'k op_world \<Rightarrow> nat option" where
  "free_slot [] w = None"
| "free_slot (s # ss) w = (if Weak_upgrade s w = None then Some 0 else map_option Suc (free_slot ss w))"

definition OperationDb_create_operation ::
    "int \<Rightarrow> nat \<Rightarrow> nat \<Rightarrow> auth_info \<Rightarrow> bool \<Rightarrow> logging_info \<Rightarrow> 'k op_world \<Rightarrow> nat \<times> 'k op_world" where
  "OperationDb_create_operation now km_op owner auth_info forced logging_info w =
     (let oid = ow_next w;
          index = (case free_slot (ow_slots w) w of Some i \<Rightarrow> i | None \<Rightarrow> length (ow_slots w));
          slots = (case free_slot (ow_slots w) w of
                     Some i \<Rightarrow> (ow_slots w)[i := oid]
                   | None \<Rightarrow> ow_slots w @ [oid])
      in (oid, w\<lparr>ow_ops := (ow_ops w)(oid \<mapsto>
                    Operation_new now index km_op owner auth_info forced logging_info),
                 ow_next := Suc oid, ow_slots := slots\<rparr>))"

definition OperationDb_get :: "nat \<Rightarrow> 'k op_world \<Rightarrow> nat option" where
  "OperationDb_get index w =
     (if index < length (ow_slots w) \<and> Weak_upgrade (ow_slots w ! index) w \<noteq> None
      then Some (ow_slots w ! index) else None)"

section \<open>Pruning\<close>

record pruning_info =
  pi_last_usage :: int
  pi_owner :: nat
  pi_index :: nat
  pi_forced :: bool

definition get_pruning_info :: "'k op_world \<Rightarrow> nat \<Rightarrow> operation \<Rightarrow> pruning_info option" where
  "get_pruning_info w oid x =
     (if oid \<notin> ow_busy w \<and> op_outcome x \<noteq> Unknown then None
      else Some \<lparr>pi_last_usage = op_last_usage x, pi_owner = op_owner x, pi_index = op_index x,
                 pi_forced = op_forced x\<rparr>)"

text \<open>
  \<open>Operation::prune\<close>.  Its result is a plain \<open>Error\<close>; an abort that fails is logged and
  ignored.
\<close>

definition Operation_prune ::
    "aidl_codes \<Rightarrow> 'k km_operation \<Rightarrow> int \<Rightarrow> nat \<Rightarrow> 'k op_world \<Rightarrow> (ks_error + unit) \<times> 'k op_world" where
  "Operation_prune A K last_usage oid w =
     (case ow_ops w oid of
        None \<Rightarrow> (Inl (Km EC_INVALID_OPERATION_HANDLE), w)
      | Some x \<Rightarrow>
          if oid \<in> ow_busy w then (Inl (Rc RC_OPERATION_BUSY), w)
          else if op_outcome x \<noteq> Unknown then (Inl (Km EC_INVALID_OPERATION_HANDLE), w)
          else if op_last_usage x \<noteq> last_usage then (Inl (Rc RC_OPERATION_BUSY), w)
          else
            let w1 = snd (set_op oid (\<lambda>y. y\<lparr>op_outcome := Pruned\<rparr>) w)
            in (case ko_get_interface K (op_km_op x) of
                  Inl _ \<Rightarrow> (Inl (Rc RC_SYSTEM_ERROR), w1)
                | Inr _ \<Rightarrow> (Inr (), snd (km_call (ko_abort K (op_km_op x)) w1))))"

text \<open>\<open>floor(log6(n))\<close> for positive \<open>n\<close>.\<close>

function log6_floor :: "int \<Rightarrow> nat" where
  "log6_floor n = (if n < 6 then 0 else Suc (log6_floor (n div 6)))"
  by pat_completeness auto
termination by (relation "measure nat") auto

declare log6_floor.simps [simp del]

definition as_secs :: "int \<Rightarrow> int" where
  "as_secs age = age div 1000000000"

record candidate_info =
  cand_index :: nat
  cand_malus :: nat
  cand_last_usage :: int
  cand_age :: int

definition owner_count :: "pruning_info list \<Rightarrow> nat \<Rightarrow> nat" where
  "owner_count infos owner = length (filter (\<lambda>p. pi_owner p = owner) infos)"

definition malus_of :: "pruning_info list \<Rightarrow> int \<Rightarrow> pruning_info \<Rightarrow> nat" where
  "malus_of infos age p =
     (if pi_forced p then 0 else owner_count infos (pi_owner p) + log6_floor (as_secs age + 1))"

definition caller_malus :: "pruning_info list \<Rightarrow> nat \<Rightarrow> bool \<Rightarrow> nat" where
  "caller_malus infos caller forced = (if forced then 0 else 1 + owner_count infos caller)"

definition prune_step ::
    "pruning_info list \<Rightarrow> int \<Rightarrow> nat \<Rightarrow> bool \<Rightarrow> pruning_info \<Rightarrow>
     candidate_info option \<times> candidate_info option \<Rightarrow> candidate_info option \<times> candidate_info option" where
  "prune_step infos now caller forced p s =
     (let (acc, oldest_caller_op) = s;
          age = max 0 (now - pi_last_usage p);
          oldest =
            (if pi_owner p = caller then
               (case oldest_caller_op of
                  Some c \<Rightarrow> if cand_age c < age
                            then Some \<lparr>cand_index = pi_index p, cand_malus = 0,
                                       cand_last_usage = pi_last_usage p, cand_age = age\<rparr>
                            else Some c
                | None \<Rightarrow> Some \<lparr>cand_index = pi_index p, cand_malus = 0,
                                 cand_last_usage = pi_last_usage p, cand_age = age\<rparr>)
             else oldest_caller_op);
          malus = malus_of infos age p;
          this = \<lparr>cand_index = pi_index p, cand_malus = malus, cand_last_usage = pi_last_usage p,
                  cand_age = age\<rparr>
      in (case acc of
            None \<Rightarrow> if caller_malus infos caller forced < malus then Some this else None
          | Some c \<Rightarrow> if cand_malus c < malus \<or> malus = cand_malus c \<and> cand_age c < age
                      then Some this else Some c,
          oldest))"

definition collect_pruning_info :: "'k op_world \<Rightarrow> pruning_info list" where
  "collect_pruning_info w =
     List.map_filter (\<lambda>oid. case Weak_upgrade oid w of
                              None \<Rightarrow> None | Some x \<Rightarrow> get_pruning_info w oid x) (ow_slots w)"

definition prune_candidate :: "int \<Rightarrow> nat \<Rightarrow> bool \<Rightarrow> 'k op_world \<Rightarrow> candidate_info option" where
  "prune_candidate now caller forced w =
     (let infos = collect_pruning_info w;
          (candidate, oldest_caller_op) = fold (prune_step infos now caller forced) infos (None, None)
      in (case candidate of Some c \<Rightarrow> Some c | None \<Rightarrow> oldest_caller_op))"

text \<open>
  The loop.  Round \<open>n\<close> reads the clock \<open>now n\<close>.  No lock is held between the choice of the
  candidate and the attempt to prune it: \<open>env n\<close> is what the other threads do to the
  operations in between.  The loop goes round only after an error other than the three it
  handles.
\<close>

partial_function (option) OperationDb_prune ::
    "aidl_codes \<Rightarrow> 'k km_operation \<Rightarrow> (nat \<Rightarrow> int) \<Rightarrow> (nat \<Rightarrow> 'k op_world \<Rightarrow> 'k op_world) \<Rightarrow> nat \<Rightarrow> bool \<Rightarrow>
     nat \<Rightarrow> 'k op_world \<Rightarrow> ((ks_error + unit) \<times> 'k op_world) option" where
  "OperationDb_prune A K now env caller forced n w =
     (case prune_candidate (now n) caller forced w of
        None \<Rightarrow> Some (Inl (Rc RC_BACKEND_BUSY), w)
      | Some c \<Rightarrow>
          (case OperationDb_get (cand_index c) (env n w) of
             None \<Rightarrow> Some (Inr (), env n w)
           | Some oid \<Rightarrow>
               (case Operation_prune A K (cand_last_usage c) oid (env n w) of
                  (Inr _, w') \<Rightarrow> Some (Inr (), w')
                | (Inl e, w') \<Rightarrow>
                    if e = Km EC_INVALID_OPERATION_HANDLE \<or> e = Rc RC_OPERATION_BUSY
                    then Some (Inr (), w')
                    else OperationDb_prune A K now env caller forced (Suc n) w')))"

declare OperationDb_prune.simps [code]

section \<open>The binder proxy\<close>

definition KeystoreOperation_new_native_binder :: "nat \<Rightarrow> nat \<Rightarrow> 'k op_world \<Rightarrow> 'k op_world" where
  "KeystoreOperation_new_native_binder p oid w = w\<lparr>ow_proxies := (ow_proxies w)(p \<mapsto> Some oid)\<rparr>"

definition discard_operation :: "aidl_codes \<Rightarrow> 'k km_operation \<Rightarrow> nat \<Rightarrow> 'k op_world \<Rightarrow> 'k op_world" where
  "discard_operation A K p w =
     (case ow_proxies w p of
        Some (Some oid) \<Rightarrow> snd (Operation_drop A K oid (w\<lparr>ow_proxies := (ow_proxies w)(p \<mapsto> None)\<rparr>))
      | _ \<Rightarrow> w)"

text \<open>
  \<open>with_locked_operation\<close>: an error discards the operation.  (A call that has not returned
  has not discarded anything.)
\<close>

definition with_locked_operation ::
    "aidl_codes \<Rightarrow> 'k km_operation \<Rightarrow> (nat \<Rightarrow> ('k op_world, 'a) st) \<Rightarrow> bool \<Rightarrow> nat \<Rightarrow> ('k op_world, 'a) st" where
  "with_locked_operation A K f delete_op p w =
     (if p \<in> ow_proxy_busy w then (Inl (Ks (Rc RC_OPERATION_BUSY)), w)
      else
        (case ow_proxies w p of
           Some (Some oid) \<Rightarrow>
             (case f oid w of
                (Inl Blocked, _) \<Rightarrow> (Inl Blocked, w)
              | (Inl e, w') \<Rightarrow> (Inl e, discard_operation A K p w')
              | (Inr v, w') \<Rightarrow> (Inr v, if delete_op then discard_operation A K p w' else w'))
         | _ \<Rightarrow> (Inl (Ks (Km EC_INVALID_OPERATION_HANDLE)), w)))"

definition updateAad :: "aidl_codes \<Rightarrow> 'k km_operation \<Rightarrow> int \<Rightarrow> nat \<Rightarrow> bytes \<Rightarrow> ('k op_world, unit) st" where
  "updateAad A K now p aad_input =
     with_locked_operation A K (\<lambda>oid. Operation_update_aad A K now oid aad_input) False p"

definition update ::
    "aidl_codes \<Rightarrow> 'k km_operation \<Rightarrow> int \<Rightarrow> nat \<Rightarrow> bytes \<Rightarrow> ('k op_world, bytes option) st" where
  "update A K now p input =
     with_locked_operation A K (\<lambda>oid. Operation_update A K now oid input) False p"

definition finish ::
    "aidl_codes \<Rightarrow> 'k km_operation \<Rightarrow> int \<Rightarrow> nat \<Rightarrow> bytes option \<Rightarrow> bytes option \<Rightarrow>
     ('k op_world, bytes option) st" where
  "finish A K now p input signature =
     with_locked_operation A K (\<lambda>oid. Operation_finish A K now oid input signature) True p"

definition abort :: "aidl_codes \<Rightarrow> 'k km_operation \<Rightarrow> nat \<Rightarrow> ('k op_world, unit) st" where
  "abort A K p = with_locked_operation A K (\<lambda>oid. Operation_abort A K oid Abort) True p"

text \<open>The client drops its last reference to the proxy.\<close>

definition KeystoreOperation_drop :: "aidl_codes \<Rightarrow> 'k km_operation \<Rightarrow> nat \<Rightarrow> 'k op_world \<Rightarrow> 'k op_world" where
  "KeystoreOperation_drop A K p w =
     (let w' = discard_operation A K p w in w'\<lparr>ow_proxies := (ow_proxies w')(p := None)\<rparr>)"

text \<open>What \<open>create_operation\<close> of the security level does with a new KeyMint operation.\<close>

definition new_operation ::
    "int \<Rightarrow> nat \<Rightarrow> nat \<Rightarrow> nat \<Rightarrow> auth_info \<Rightarrow> bool \<Rightarrow> logging_info \<Rightarrow> 'k op_world \<Rightarrow> nat \<times> 'k op_world" where
  "new_operation now p km_op owner auth_info forced logging_info w =
     (let (oid, w') = OperationDb_create_operation now km_op owner auth_info forced logging_info w
      in (oid, KeystoreOperation_new_native_binder p oid w'))"

end
