(* ===== verification/Ks_OpProperties.thy ===== *)
theory Ks_OpProperties
  imports Ks_Operation
begin

text \<open>
  What the operation component guarantees.  \<open>op_evolves\<close> relates a world to a later one:
  operations keep their identity, and an outcome that is final stays.  \<open>op_inv\<close> ties the
  objects, the slots and the proxies together.  On top of these: the life cycle of an
  operation, the behaviour of finalized operations, and the pruning strategy.
\<close>

section \<open>How operations evolve\<close>

definition same_operation :: "operation \<Rightarrow> operation \<Rightarrow> bool" where
  "same_operation x y \<longleftrightarrow>
     op_index y = op_index x \<and> op_km_op y = op_km_op x \<and> op_owner y = op_owner x \<and>
     op_forced y = op_forced x \<and> op_logging_info y = op_logging_info x \<and>
     (op_outcome x \<noteq> Unknown \<longrightarrow> op_outcome y = op_outcome x)"

definition op_evolves :: "'k op_world \<Rightarrow> 'k op_world \<Rightarrow> bool" where
  "op_evolves w w' \<longleftrightarrow>
     ow_next w' = ow_next w \<and> ow_slots w' = ow_slots w \<and> ow_proxies w' = ow_proxies w \<and>
     ow_busy w' = ow_busy w \<and> ow_proxy_busy w' = ow_proxy_busy w \<and> ow_log w' = ow_log w \<and>
     rel_fun (=) (rel_option same_operation) (ow_ops w) (ow_ops w')"

lemma same_operation_refl [simp]: "same_operation x x"
  by (simp add: same_operation_def)

lemma op_evolves_refl [simp]: "op_evolves w w"
  by (simp add: op_evolves_def rel_fun_def option.rel_refl)

lemma op_evolves_ops: "op_evolves w w' \<Longrightarrow> rel_option same_operation (ow_ops w i) (ow_ops w' i)"
  by (simp add: op_evolves_def rel_fun_def)

lemma op_evolves_Some:
  "op_evolves w w' \<Longrightarrow> ow_ops w i = Some x \<Longrightarrow> \<exists>y. ow_ops w' i = Some y \<and> same_operation x y"
  using op_evolves_ops [of w w' i] by (auto simp: option_rel_Some1)

lemma op_evolves_dom: "op_evolves w w' \<Longrightarrow> ow_ops w' i = None \<longleftrightarrow> ow_ops w i = None"
  using op_evolves_ops [of w w' i] by (auto simp: rel_option_iff split: option.splits)

text \<open>Updating one operation is an evolution when the new outcome is legal for it.\<close>

lemma evolves_set_op [st_preserves]:
  assumes "\<And>x y. ow_ops w0 oid = Some x \<Longrightarrow> same_operation x y \<Longrightarrow> same_operation x (f y)"
  shows "preserves (op_evolves w0) (set_op oid f)"
  unfolding preserves_def set_op_def
proof (intro allI impI)
  fix w assume ev: "op_evolves w0 w"
  have "rel_option same_operation (ow_ops w0 oid) (map_option f (ow_ops w oid))"
    using op_evolves_ops [OF ev, of oid] assms
    by (cases "ow_ops w0 oid"; cases "ow_ops w oid") auto
  with ev show "op_evolves w0 (snd (st_modify (\<lambda>w. w\<lparr>ow_ops := (ow_ops w)(oid := map_option f (ow_ops w oid))\<rparr>) w))"
    by (auto simp: op_evolves_def rel_fun_def)
qed

lemma evolves_the_op [st_preserves]: "preserves P (the_op oid)"
  by (simp add: preserves_def the_op_def split: option.splits)

lemma evolves_lock [st_preserves]: "preserves P (lock_outcome oid)"
  by (simp add: preserves_def lock_outcome_def)

lemma evolves_check_active [st_preserves]: "preserves P (check_active oid)"
  unfolding check_active_def by (intro st_preserves) (auto intro: st_preserves split: outcome.splits)

lemma evolves_check_input_length [st_preserves]: "preserves P (check_input_length data)"
  unfolding check_input_length_def by (intro st_preserves)

lemma evolves_frame:
  assumes "op_evolves w0 w"
  shows "op_evolves w0 (w\<lparr>ow_km := k\<rparr>)" and "op_evolves w0 (w\<lparr>ow_enf := E\<rparr>)"
    and "op_evolves w0 (w\<lparr>ow_db := db\<rparr>)"
  using assms by (simp_all add: op_evolves_def)

lemma evolves_km_call [st_preserves]: "preserves (op_evolves w0) (km_call f)"
  by (simp add: preserves_def km_call_def evolves_frame split_beta Let_def)

lemma evolves_touch [st_preserves]: "preserves (op_evolves w0) (touch now oid)"
  unfolding touch_def by (intro st_preserves) (simp add: same_operation_def)

lemma evolves_auth_info:
  "preserves (op_evolves w0) (set_op oid (\<lambda>y. y\<lparr>op_auth_info := ai\<rparr>))"
  by (intro st_preserves) (simp add: same_operation_def)

lemma evolves_before_update [st_preserves]: "preserves (op_evolves w0) (op_before_update oid)"
  unfolding op_before_update_def
proof (intro st_preserves)
  fix x
  show "preserves (op_evolves w0) (\<lambda>w. let (r, ai, E) = before_update (op_auth_info x) (ow_enf w)
      in (r, snd (set_op oid (\<lambda>y. y\<lparr>op_auth_info := ai\<rparr>) (w\<lparr>ow_enf := E\<rparr>))))"
    using evolves_auth_info [of w0 oid] by (auto simp: preserves_def evolves_frame split: prod.splits)
qed

lemma evolves_before_finish [st_preserves]: "preserves (op_evolves w0) (op_before_finish oid)"
  unfolding op_before_finish_def
proof (intro st_preserves)
  fix x
  show "preserves (op_evolves w0) (\<lambda>w. let (r, ai, E) = before_finish (op_auth_info x) (ow_enf w)
      in (r, snd (set_op oid (\<lambda>y. y\<lparr>op_auth_info := ai\<rparr>) (w\<lparr>ow_enf := E\<rparr>))))"
    using evolves_auth_info [of w0 oid] by (auto simp: preserves_def evolves_frame split: prod.splits)
qed

lemma evolves_after_finish [st_preserves]: "preserves (op_evolves w0) (op_after_finish oid)"
  unfolding op_after_finish_def
  by (intro st_preserves) (auto simp: preserves_def evolves_frame split: prod.splits)

text \<open>An operation that was active at the start may take any outcome.\<close>

definition active :: "'k op_world \<Rightarrow> nat \<Rightarrow> bool" where
  "active w oid \<longleftrightarrow> (\<exists>x. ow_ops w oid = Some x \<and> op_outcome x = Unknown)"

lemma evolves_set_outcome [st_preserves]:
  "active w0 oid \<Longrightarrow> preserves (op_evolves w0) (set_op oid (\<lambda>y. y\<lparr>op_outcome := outc\<rparr>))"
  by (intro evolves_set_op) (auto simp: active_def same_operation_def)

lemma evolves_update_outcome [st_preserves]:
  "active w0 oid \<Longrightarrow> preserves (op_evolves w0) (update_outcome oid r)"
  unfolding update_outcome_def by (auto split: sum.splits ks_error.splits intro!: st_preserves)

lemma check_active_cases:
  "check_active oid w =
     (if oid \<in> ow_busy w then (Inl Blocked, w)
      else case ow_ops w oid of
        None \<Rightarrow> (Inl Panicked, w)
      | Some x \<Rightarrow> if op_outcome x = Unknown then (Inr x, w)
                  else (Inl (Ks (Km EC_INVALID_OPERATION_HANDLE)), w))"
  by (auto simp: check_active_def st_bind_def lock_outcome_def the_op_def split: option.splits outcome.splits)

lemma evolves_guarded:
  assumes "\<And>x. active w oid \<Longrightarrow> preserves (op_evolves w) (f x)"
  shows "op_evolves w (snd (st_bind (check_active oid) f w))"
  using assms
  by (auto simp: st_bind_def check_active_cases active_def preserves_def split: option.splits)

lemma Operation_evolves:
  "op_evolves w (snd (Operation_update_aad A K now oid aad w))"
  "op_evolves w (snd (Operation_update A K now oid input w))"
  "op_evolves w (snd (Operation_finish A K now oid fin sig w))"
  "op_evolves w (snd (Operation_abort A K oid outc w))"
  unfolding Operation_update_aad_def Operation_update_def Operation_finish_def Operation_abort_def
  by (intro evolves_guarded, auto intro!: st_preserves split: prod.splits option.splits)+

section \<open>The invariant\<close>

text \<open>
  Every live operation sits in the slot its index names and is held by exactly one proxy;
  numbers are fresh.
\<close>

definition op_inv :: "'k op_world \<Rightarrow> bool" where
  "op_inv w \<longleftrightarrow>
     (\<forall>i x. ow_ops w i = Some x \<longrightarrow>
        i < ow_next w \<and> op_index x < length (ow_slots w) \<and> ow_slots w ! op_index x = i \<and>
        (\<exists>p. ow_proxies w p = Some (Some i))) \<and>
     (\<forall>p i. ow_proxies w p = Some (Some i) \<longrightarrow> ow_ops w i \<noteq> None) \<and>
     (\<forall>p q i. ow_proxies w p = Some (Some i) \<and> ow_proxies w q = Some (Some i) \<longrightarrow> p = q)"

lemma op_invD:
  assumes "op_inv w"
  shows "ow_ops w i = Some x \<Longrightarrow> i < ow_next w"
    and "ow_ops w i = Some x \<Longrightarrow> op_index x < length (ow_slots w)"
    and "ow_ops w i = Some x \<Longrightarrow> ow_slots w ! op_index x = i"
    and "ow_ops w i = Some x \<Longrightarrow> \<exists>p. ow_proxies w p = Some (Some i)"
    and "ow_proxies w p = Some (Some i) \<Longrightarrow> \<exists>x. ow_ops w i = Some x"
    and "ow_proxies w p = Some (Some i) \<Longrightarrow> ow_proxies w q = Some (Some i) \<Longrightarrow> p = q"
  using assms unfolding op_inv_def by blast+

lemma op_inv_evolves:
  assumes inv: "op_inv w" and ev: "op_evolves w w'"
  shows "op_inv w'"
proof -
  have eq: "ow_next w' = ow_next w" "ow_slots w' = ow_slots w" "ow_proxies w' = ow_proxies w"
    using ev by (simp_all add: op_evolves_def)
  have "i < ow_next w \<and> op_index y < length (ow_slots w) \<and> ow_slots w ! op_index y = i \<and>
        (\<exists>p. ow_proxies w p = Some (Some i))" if "ow_ops w' i = Some y" for i y
  proof -
    from that op_evolves_ops [OF ev, of i] obtain x where x: "ow_ops w i = Some x"
      and "same_operation x y" by (auto simp: option_rel_Some2)
    then have "op_index y = op_index x" by (simp add: same_operation_def)
    with op_invD(1-4) [OF inv x] show ?thesis by simp
  qed
  moreover have "ow_ops w' i \<noteq> None" if "ow_proxies w p = Some (Some i)" for p i
    using op_invD(5) [OF inv that] op_evolves_dom [OF ev, of i] by auto
  moreover have "\<forall>p q i. ow_proxies w p = Some (Some i) \<and> ow_proxies w q = Some (Some i) \<longrightarrow> p = q"
    using inv by (simp add: op_inv_def)
  ultimately show ?thesis unfolding op_inv_def eq by blast
qed

text \<open>Creating an operation.\<close>

lemma free_slot_Some:
  "free_slot ss w = Some i \<Longrightarrow> i < length ss \<and> ow_ops w (ss ! i) = None"
  by (induction ss arbitrary: i) (auto simp: Weak_upgrade_def split: if_splits)

lemma free_slot_None:
  "free_slot ss w = None \<Longrightarrow> s \<in> set ss \<Longrightarrow> ow_ops w s \<noteq> None"
  by (induction ss) (auto simp: Weak_upgrade_def split: if_splits)

lemma op_inv_new_operation:
  assumes inv: "op_inv w" and p: "ow_proxies w p = None"
    and new: "new_operation now p km owner ai forced li w = (oid, w')"
  shows "op_inv w'" and "OperationDb_get (op_index (the (ow_ops w' oid))) w' = Some oid"
    and "i \<noteq> oid \<Longrightarrow> ow_ops w' i = ow_ops w i"
proof -
  define idx where "idx = (case free_slot (ow_slots w) w of Some i \<Rightarrow> i | None \<Rightarrow> length (ow_slots w))"
  define slots where "slots = (case free_slot (ow_slots w) w of
      Some i \<Rightarrow> (ow_slots w)[i := ow_next w] | None \<Rightarrow> ow_slots w @ [ow_next w])"
  let ?x = "Operation_new now idx km owner ai forced li"
  from new have oid: "oid = ow_next w" and
    w': "w' = w\<lparr>ow_ops := (ow_ops w)(oid \<mapsto> ?x), ow_next := Suc oid, ow_slots := slots,
                ow_proxies := (ow_proxies w)(p \<mapsto> Some oid)\<rparr>"
    by (auto simp: new_operation_def OperationDb_create_operation_def KeystoreOperation_new_native_binder_def
        Let_def idx_def slots_def)
  have idx: "idx < length slots \<and> slots ! idx = oid"
    using free_slot_Some [of "ow_slots w" w] by (auto simp: idx_def slots_def oid split: option.splits)
  have old: "op_index x < length slots \<and> slots ! op_index x = i" if "ow_ops w i = Some x" for i x
    using op_invD(2,3) [OF inv that] that free_slot_Some [of "ow_slots w" w]
    by (auto simp: slots_def nth_append nth_list_update split: option.splits)
  have fresh: "ow_ops w oid = None" using op_invD(1) [OF inv, of oid] oid by (cases "ow_ops w oid") auto
  then have noproxy: "ow_proxies w q \<noteq> Some (Some oid)" for q using op_invD(5) [OF inv, of q oid] by auto
  show "op_inv w'"
    unfolding op_inv_def w'
    using idx old op_invD(1,4,5,6) [OF inv] p noproxy
    by (auto simp: Operation_new_def oid less_Suc_eq) (metis option.distinct(1))+
  show "OperationDb_get (op_index (the (ow_ops w' oid))) w' = Some oid"
    using idx by (simp add: w' OperationDb_get_def Weak_upgrade_def Operation_new_def)
  show "i \<noteq> oid \<Longrightarrow> ow_ops w' i = ow_ops w i" by (simp add: w')
qed

section \<open>Requests touch one operation\<close>

definition others :: "nat \<Rightarrow> 'k op_world \<Rightarrow> 'k op_world \<Rightarrow> bool" where
  "others oid w w' \<longleftrightarrow> (\<forall>i. i \<noteq> oid \<longrightarrow> ow_ops w' i = ow_ops w i)"

lemma others_refl [simp]: "others oid w w"
  by (simp add: others_def)

lemma others_primitives [st_preserves]:
  "preserves (others oid w0) (set_op oid f)"
  "preserves (others oid w0) (km_call g)"
  by (auto simp: preserves_def others_def set_op_def km_call_def split: prod.splits)

lemma others_hooks [st_preserves]:
  "preserves (others oid w0) (op_before_update oid)"
  "preserves (others oid w0) (op_before_finish oid)"
  "preserves (others oid w0) (op_after_finish oid)"
  by (auto simp: preserves_def others_def op_before_update_def op_before_finish_def op_after_finish_def
      set_op_def st_bind_def the_op_def split: prod.splits option.splits)

lemma others_requests:
  "preserves (others oid w0) (Operation_update_aad A K now oid aad)"
  "preserves (others oid w0) (Operation_update A K now oid input)"
  "preserves (others oid w0) (Operation_finish A K now oid fin sig)"
  "preserves (others oid w0) (Operation_abort A K oid outc)"
  unfolding Operation_update_aad_def Operation_update_def Operation_finish_def Operation_abort_def
    update_outcome_def touch_def
  by (auto intro!: st_preserves split: prod.splits option.splits sum.splits ks_error.splits)

lemma Operation_drop_effect:
  fixes w :: "'k op_world" and K :: "'k km_operation" and A :: aidl_codes
  assumes x: "ow_ops w oid = Some x"
  defines "w' \<equiv> snd (Operation_drop A K oid w)"
  shows "ow_ops w' = (ow_ops w)(oid := None)"
    and "ow_next w' = ow_next w" and "ow_slots w' = ow_slots w" and "ow_proxies w' = ow_proxies w"
    and "ow_busy w' = ow_busy w" and "ow_proxy_busy w' = ow_proxy_busy w"
    and "ow_log w' = ow_log w @ [(op_logging_info x, op_outcome x)]"
proof -
  let ?w1 = "w\<lparr>ow_log := ow_log w @ [(op_logging_info x, op_outcome x)]\<rparr>"
  define w2 where "w2 = (if op_outcome x = Unknown then snd (Operation_abort A K oid Dropped ?w1) else ?w1)"
  have ev: "op_evolves ?w1 w2"
    unfolding w2_def by (simp only: Operation_evolves(4) op_evolves_refl split: if_split) blast
  have "others oid ?w1 (snd (Operation_abort A K oid Dropped ?w1))"
    using others_requests(4) [of oid ?w1 A K Dropped] others_refl unfolding preserves_def by blast
  then have ot: "others oid ?w1 w2"
    unfolding w2_def by (simp only: others_refl split: if_split) blast
  obtain y where y: "ow_ops w2 oid = Some y" using op_evolves_Some [OF ev, of oid x] x by auto
  have w': "w' = w2\<lparr>ow_ops := (ow_ops w2)(oid := None), ow_enf := AuthInfo_drop (op_auth_info y) (ow_enf w2)\<rparr>"
    using x y unfolding w'_def Operation_drop_def w2_def
    by (auto simp: st_bind_def the_op_def split: if_splits prod.splits)
  show "ow_ops w' = (ow_ops w)(oid := None)"
    using ot by (auto simp: w' others_def fun_eq_iff)
  show "ow_next w' = ow_next w" "ow_slots w' = ow_slots w" "ow_proxies w' = ow_proxies w"
    "ow_busy w' = ow_busy w" "ow_proxy_busy w' = ow_proxy_busy w"
    "ow_log w' = ow_log w @ [(op_logging_info x, op_outcome x)]"
    using ev by (simp_all add: w' op_evolves_def)
qed

lemma discard_effect:
  fixes w :: "'k op_world" and K :: "'k km_operation" and A :: aidl_codes
  assumes p: "ow_proxies w p = Some (Some oid)" and x: "ow_ops w oid = Some x"
  defines "w' \<equiv> discard_operation A K p w"
  shows "ow_ops w' = (ow_ops w)(oid := None)" and "ow_proxies w' = (ow_proxies w)(p \<mapsto> None)"
    and "ow_next w' = ow_next w" and "ow_slots w' = ow_slots w"
    and "ow_busy w' = ow_busy w" and "ow_proxy_busy w' = ow_proxy_busy w"
    and "ow_log w' = ow_log w @ [(op_logging_info x, op_outcome x)]"
  using Operation_drop_effect [of "w\<lparr>ow_proxies := (ow_proxies w)(p \<mapsto> None)\<rparr>" oid x A K] p x
  by (simp_all add: w'_def discard_operation_def)

lemma op_inv_discard:
  assumes inv: "op_inv w"
  shows "op_inv (discard_operation A K p w)"
proof (cases "\<exists>oid. ow_proxies w p = Some (Some oid)")
  case True
  then obtain oid where p: "ow_proxies w p = Some (Some oid)" by blast
  obtain x where x: "ow_ops w oid = Some x" using op_invD(5) [OF inv p] by blast
  have only: "q = p" if "ow_proxies w q = Some (Some oid)" for q by (rule op_invD(6) [OF inv that p])
  show ?thesis
    unfolding op_inv_def discard_effect [OF p x]
    using op_invD [OF inv] only p
    by (auto split: if_splits) (metis (no_types) option.inject)+
next
  case False
  then show ?thesis using inv by (auto simp: discard_operation_def split: option.splits)
qed

lemma op_inv_with_locked:
  assumes inv: "op_inv w" and f: "\<And>oid v. op_evolves v (snd (f oid v))"
  shows "op_inv (snd (with_locked_operation A K f del p w))"
proof -
  have "op_inv (snd (f oid w))" for oid using op_inv_evolves [OF inv f] .
  then have "op_inv w'" if "f oid w = (r, w')" for oid r w' using that by (metis snd_conv)
  then show ?thesis using inv
    by (auto simp: with_locked_operation_def op_inv_discard split: option.splits prod.splits sum.splits err.splits)
qed

lemma op_inv_drop_proxy:
  assumes "op_inv w"
  shows "op_inv (KeystoreOperation_drop A K p w)"
proof -
  let ?w = "discard_operation A K p w"
  have inv: "op_inv ?w" by (rule op_inv_discard [OF assms])
  have "ow_proxies ?w p \<noteq> Some (Some i)" for i
  proof (cases "\<exists>oid. ow_proxies w p = Some (Some oid)")
    case True
    then obtain oid x where "ow_proxies w p = Some (Some oid)" and "ow_ops w oid = Some x"
      using op_invD(5) [OF assms] by blast
    then show ?thesis by (simp add: discard_effect)
  next
    case False
    then show ?thesis by (auto simp: discard_operation_def split: option.splits)
  qed
  with inv show ?thesis
    by (auto simp: op_inv_def KeystoreOperation_drop_def Let_def) (metis option.inject)+
qed

section \<open>The pruning strategy\<close>

lemma log6_floor_spec:
  assumes "1 \<le> n"
  shows "6 ^ log6_floor n \<le> n" and "n < 6 ^ Suc (log6_floor n)"
proof -
  have "6 ^ log6_floor n \<le> n \<and> n < 6 ^ Suc (log6_floor n)"
    using assms
  proof (induction n rule: log6_floor.induct)
    case (1 n)
    show ?case
    proof (cases "n < 6")
      case True
      with 1 show ?thesis by (subst (1 2) log6_floor.simps) simp
    next
      case False
      then have "1 \<le> n div 6" by simp
      with 1 False have IH: "6 ^ log6_floor (n div 6) \<le> n div 6" "n div 6 < 6 ^ Suc (log6_floor (n div 6))"
        by simp_all
      have "n = 6 * (n div 6) + n mod 6" and "0 \<le> n mod 6" and "n mod 6 < 6" by simp_all
      with IH have "6 * 6 ^ log6_floor (n div 6) \<le> n" and "n < 6 * 6 ^ Suc (log6_floor (n div 6))"
        by linarith+
      with False show ?thesis by (subst (1 2) log6_floor.simps) simp
    qed
  qed
  then show "6 ^ log6_floor n \<le> n" and "n < 6 ^ Suc (log6_floor n)" by simp_all
qed

definition age_of :: "int \<Rightarrow> pruning_info \<Rightarrow> int" where
  "age_of now p = max 0 (now - pi_last_usage p)"

definition malus_at :: "pruning_info list \<Rightarrow> int \<Rightarrow> pruning_info \<Rightarrow> nat" where
  "malus_at infos now p = malus_of infos (age_of now p) p"

definition weakest :: "pruning_info list \<Rightarrow> int \<Rightarrow> pruning_info list \<Rightarrow> pruning_info \<Rightarrow> bool" where
  "weakest infos now ps p \<longleftrightarrow>
     (\<forall>q\<in>set ps. malus_at infos now q < malus_at infos now p \<or>
                malus_at infos now q = malus_at infos now p \<and> age_of now q \<le> age_of now p)"

definition candidate_for :: "pruning_info list \<Rightarrow> int \<Rightarrow> pruning_info \<Rightarrow> candidate_info" where
  "candidate_for infos now p =
     \<lparr>cand_index = pi_index p, cand_malus = malus_at infos now p, cand_last_usage = pi_last_usage p,
      cand_age = age_of now p\<rparr>"

definition sibling_for :: "int \<Rightarrow> pruning_info \<Rightarrow> candidate_info" where
  "sibling_for now p =
     \<lparr>cand_index = pi_index p, cand_malus = 0, cand_last_usage = pi_last_usage p, cand_age = age_of now p\<rparr>"

lemma prune_step_eq:
  "prune_step infos now caller forced p (acc, old) =
     (case acc of
        None \<Rightarrow> if caller_malus infos caller forced < malus_at infos now p
                then Some (candidate_for infos now p) else None
      | Some c \<Rightarrow> if cand_malus c < malus_at infos now p \<or>
                     malus_at infos now p = cand_malus c \<and> cand_age c < age_of now p
                  then Some (candidate_for infos now p) else Some c,
      if pi_owner p = caller then
        (case old of
           Some c \<Rightarrow> if cand_age c < age_of now p then Some (sibling_for now p) else Some c
         | None \<Rightarrow> Some (sibling_for now p))
      else old)"
  by (simp add: prune_step_def Let_def malus_at_def age_of_def candidate_for_def sibling_for_def
      split: option.splits)

text \<open>What the fold has found after the operations \<open>ps\<close>.\<close>

lemma prune_fold_candidate:
  "(case fst (fold (prune_step infos now caller forced) ps (None, None)) of
      None \<Rightarrow> \<forall>p\<in>set ps. malus_at infos now p \<le> caller_malus infos caller forced
    | Some c \<Rightarrow> \<exists>p\<in>set ps. c = candidate_for infos now p \<and>
                   caller_malus infos caller forced < malus_at infos now p \<and> weakest infos now ps p)"
proof (induction ps rule: rev_induct)
  case (snoc p ps)
  obtain acc old where st: "fold (prune_step infos now caller forced) ps (None, None) = (acc, old)" by fastforce
  show ?case
  proof (cases acc)
    case None
    with snoc st show ?thesis by (auto simp: prune_step_eq weakest_def not_less intro: le_less_trans)
  next
    case (Some c)
    with snoc st obtain q where q: "q \<in> set ps" "c = candidate_for infos now q"
      "caller_malus infos caller forced < malus_at infos now q" "weakest infos now ps q" by auto
    show ?thesis
    proof (cases "malus_at infos now q < malus_at infos now p \<or>
                  malus_at infos now p = malus_at infos now q \<and> age_of now q < age_of now p")
      case True
      with q have "weakest infos now (ps @ [p]) p" unfolding weakest_def by fastforce
      with True q Some st show ?thesis by (auto simp: prune_step_eq candidate_for_def)
    next
      case False
      with q have "weakest infos now (ps @ [p]) q" unfolding weakest_def by fastforce
      with False q Some st show ?thesis by (auto simp: prune_step_eq candidate_for_def)
    qed
  qed
qed simp

lemma prune_fold_sibling:
  "(case snd (fold (prune_step infos now caller forced) ps (None, None)) of
      None \<Rightarrow> \<forall>p\<in>set ps. pi_owner p \<noteq> caller
    | Some c \<Rightarrow> \<exists>p\<in>set ps. c = sibling_for now p \<and> pi_owner p = caller \<and>
                   (\<forall>q\<in>set ps. pi_owner q = caller \<longrightarrow> age_of now q \<le> age_of now p))"
proof (induction ps rule: rev_induct)
  case (snoc p ps)
  obtain acc old where st: "fold (prune_step infos now caller forced) ps (None, None) = (acc, old)" by fastforce
  show ?case
  proof (cases old)
    case None
    with snoc st show ?thesis by (auto simp: prune_step_eq)
  next
    case (Some c)
    with snoc st obtain q where "q \<in> set ps" "c = sibling_for now q" "pi_owner q = caller"
      "\<forall>r\<in>set ps. pi_owner r = caller \<longrightarrow> age_of now r \<le> age_of now q" by auto
    with Some st show ?thesis by (fastforce simp: prune_step_eq sibling_for_def)
  qed
qed simp

lemma prune_candidate_choice:
  fixes w :: "'k op_world"
  defines "infos \<equiv> collect_pruning_info w"
  shows "case prune_candidate now caller forced w of
      None \<Rightarrow> (\<forall>p\<in>set infos. malus_at infos now p \<le> caller_malus infos caller forced \<and> pi_owner p \<noteq> caller)
    | Some c \<Rightarrow> \<exists>p\<in>set infos. cand_index c = pi_index p \<and> cand_last_usage c = pi_last_usage p \<and>
        (if (\<exists>q\<in>set infos. caller_malus infos caller forced < malus_at infos now q)
         then caller_malus infos caller forced < malus_at infos now p \<and> weakest infos now infos p
         else pi_owner p = caller \<and>
              (\<forall>q\<in>set infos. pi_owner q = caller \<longrightarrow> age_of now q \<le> age_of now p))"
proof -
  obtain acc old where st: "fold (prune_step infos now caller forced) infos (None, None) = (acc, old)" by fastforce
  note C = prune_fold_candidate [where ps = infos and infos = infos and now = now and caller = caller and
      forced = forced, unfolded st]
  note S = prune_fold_sibling [where ps = infos and infos = infos and now = now and caller = caller and
      forced = forced, unfolded st]
  have cand: "prune_candidate now caller forced w = (case acc of Some c \<Rightarrow> Some c | None \<Rightarrow> old)"
    using st by (simp add: prune_candidate_def infos_def [symmetric] Let_def)
  show ?thesis
  proof (cases acc)
    case (Some c)
    with C obtain p where "p \<in> set infos" "c = candidate_for infos now p"
      "caller_malus infos caller forced < malus_at infos now p" "weakest infos now infos p" by auto
    with Some cand show ?thesis by (auto simp: candidate_for_def)
  next
    case None
    with C have none: "\<forall>p\<in>set infos. malus_at infos now p \<le> caller_malus infos caller forced" by simp
    with None cand S show ?thesis
      by (cases old) (auto simp: sibling_for_def not_less [symmetric])
  qed
qed

text \<open>C21. The choice of the pruning candidate.  If some operation has a malus above the
  caller's, the candidate is one with the greatest malus, and among those one with the
  greatest age.  Otherwise the candidate is the caller's own least recently used operation.
  There is no candidate exactly when no operation has a malus above the caller's and the
  caller has no operation.  (The malus of an operation is the number of operations of its
  owner plus \<open>floor(log6(age in seconds + 1))\<close>, and 0 for a forced operation; the caller's is
  one more than the number of its operations, and 0 if the new operation is forced.)\<close>

theorem prune_candidate_spec:
  "let infos = collect_pruning_info w;
       threshold = caller_malus infos caller forced
   in case prune_candidate now caller forced w of
        None \<Rightarrow> (\<forall>p\<in>set infos. malus_at infos now p \<le> threshold \<and> pi_owner p \<noteq> caller)
      | Some c \<Rightarrow> \<exists>p\<in>set infos. cand_index c = pi_index p \<and> cand_last_usage c = pi_last_usage p \<and>
          (if (\<exists>q\<in>set infos. threshold < malus_at infos now q)
           then threshold < malus_at infos now p \<and> weakest infos now infos p
           else pi_owner p = caller \<and>
                (\<forall>q\<in>set infos. pi_owner q = caller \<longrightarrow> age_of now q \<le> age_of now p))"
  unfolding Let_def by (rule prune_candidate_choice)

text \<open>An example: app 10 has two operations, app 20 one; everything is idle.\<close>

definition ex_codes :: aidl_codes where
  "ex_codes = \<lparr>ec_value = ex_ec_value, ec_make = ex_ec_make, rc_value = ex_rc_value\<rparr>"

definition ex_keymint :: "nat list km_operation" where
  "ex_keymint =
     \<lparr>ko_get_interface = (\<lambda>_. Inr ()), ko_update_aad = (\<lambda>_ _ _ _ k. (Inr (), k)),
      ko_update = (\<lambda>_ b _ _ k. (Inr b, k)), ko_finish = (\<lambda>_ _ _ _ _ _ k. (Inr [], k)),
      ko_abort = (\<lambda>h k. (Inr (), k @ [h]))\<rparr>"

definition ex_log_info :: logging_info where
  "ex_log_info = \<lparr>li_sec_level = 1, li_purpose = 2, li_op_params = [], li_key_upgraded = False\<rparr>"

definition ex_no_auth :: auth_info where
  "ex_no_auth = \<lparr>ai_state = NoAuthRequired, ai_key_usage_limited = None, ai_confirmation_token_receiver = False\<rparr>"

definition empty_world :: "'k \<Rightarrow> 'k op_world" where
  "empty_world k =
     \<lparr>ow_ops = Map.empty, ow_next = 0, ow_slots = [], ow_busy = {}, ow_proxies = Map.empty,
      ow_proxy_busy = {}, ow_km = k, ow_enf = Enforcements_default, ow_db = init_tables None, ow_log = []\<rparr>"

definition ex_new :: "int \<Rightarrow> nat \<Rightarrow> nat \<Rightarrow> bool \<Rightarrow> nat list op_world \<Rightarrow> nat list op_world" where
  "ex_new now p owner forced w = snd (new_operation (now * 1000000000) p (100 + p) owner ex_no_auth forced ex_log_info w)"

definition ex_world :: "nat list op_world" where
  "ex_world = ex_new 4 3 20 False (ex_new 3 2 10 False (ex_new 0 1 10 False (empty_world [])))"

lemma ex_candidate:
  "prune_candidate 10000000000 20 False ex_world =
     Some \<lparr>cand_index = 0, cand_malus = 3, cand_last_usage = 0, cand_age = 10000000000\<rparr>"
  by code_simp

theorem prune_candidate_spec_witness:
  "\<exists>p\<in>set (collect_pruning_info ex_world). pi_index p = 0 \<and>
     (\<exists>q\<in>set (collect_pruning_info ex_world).
        caller_malus (collect_pruning_info ex_world) 20 False < malus_at (collect_pruning_info ex_world) 10000000000 q) \<and>
     weakest (collect_pruning_info ex_world) 10000000000 (collect_pruning_info ex_world) p"
proof -
  have ex: "\<exists>q\<in>set (collect_pruning_info ex_world).
      caller_malus (collect_pruning_info ex_world) 20 False < malus_at (collect_pruning_info ex_world) 10000000000 q"
    by code_simp
  from prune_candidate_spec [of ex_world 20 False 10000000000] show ?thesis
    unfolding ex_candidate Let_def option.case using ex by auto
qed

lemma pruning_info_of:
  assumes "p \<in> set (collect_pruning_info w)"
  obtains oid x where "oid \<in> set (ow_slots w)" and "ow_ops w oid = Some x" and "get_pruning_info w oid x = Some p"
  using assms by (auto simp: collect_pruning_info_def map_filter_def Weak_upgrade_def split: option.splits)

lemma candidate_pruning_info:
  assumes "prune_candidate now caller forced w = Some c"
  obtains p where "p \<in> set (collect_pruning_info w)" and "cand_index c = pi_index p"
    and "cand_last_usage c = pi_last_usage p"
    and "caller_malus (collect_pruning_info w) caller forced < malus_at (collect_pruning_info w) now p \<or>
         pi_owner p = caller"
  using prune_candidate_choice [where now = now and caller = caller and forced = forced and w = w] assms
  by (auto split: if_splits)

text \<open>C23. Who is safe from pruning.  The candidate chosen for a caller never is a forced
  operation of another app, and for a caller that does not force its operation it never is
  the only operation of another app that was used less than five seconds ago.\<close>

theorem prune_protects:
  assumes "prune_candidate now caller forced w = Some c"
  shows "\<exists>p\<in>set (collect_pruning_info w). cand_index c = pi_index p \<and> cand_last_usage c = pi_last_usage p \<and>
    (pi_owner p = caller \<or>
     \<not> pi_forced p \<and>
     (forced \<or> 1 < owner_count (collect_pruning_info w) (pi_owner p) \<or> 5000000000 \<le> age_of now p))"
proof -
  from candidate_pruning_info [OF assms] obtain p where p: "p \<in> set (collect_pruning_info w)"
    "cand_index c = pi_index p" "cand_last_usage c = pi_last_usage p"
    and m: "caller_malus (collect_pruning_info w) caller forced < malus_at (collect_pruning_info w) now p \<or>
            pi_owner p = caller" .
  have "5000000000 \<le> age_of now p"
    if "caller_malus (collect_pruning_info w) caller forced < malus_at (collect_pruning_info w) now p"
      and "\<not> forced" and "\<not> 1 < owner_count (collect_pruning_info w) (pi_owner p)"
  proof -
    from that have "log6_floor (as_secs (age_of now p) + 1) \<noteq> 0"
      by (auto simp: malus_at_def malus_of_def caller_malus_def split: if_splits)
    then have "6 \<le> as_secs (age_of now p) + 1" by (subst (asm) log6_floor.simps) (simp split: if_splits)
    then show ?thesis by (simp add: as_secs_def)
  qed
  moreover have "\<not> pi_forced p"
    if "caller_malus (collect_pruning_info w) caller forced < malus_at (collect_pruning_info w) now p"
    using that by (auto simp: malus_at_def malus_of_def)
  ultimately show ?thesis using p m by (intro bexI [of _ p]) blast+
qed

theorem prune_protects_witness:
  "prune_candidate 4000000000 30 False (ex_new 4 3 20 False (ex_new 0 1 10 True (empty_world []))) = None \<and>
   (\<exists>p\<in>set (collect_pruning_info ex_world). pi_index p = 0 \<and>
      1 < owner_count (collect_pruning_info ex_world) (pi_owner p))"
proof
  show "prune_candidate 4000000000 30 False (ex_new 4 3 20 False (ex_new 0 1 10 True (empty_world []))) = None"
    by code_simp
  have "\<not> (\<exists>p\<in>set (collect_pruning_info ex_world). pi_index p = 0 \<and> pi_owner p = 20)" by code_simp
  moreover have "\<forall>p\<in>set (collect_pruning_info ex_world). pi_index p = 0 \<longrightarrow>
      1 < owner_count (collect_pruning_info ex_world) (pi_owner p)" by code_simp
  ultimately show "\<exists>p\<in>set (collect_pruning_info ex_world). pi_index p = 0 \<and>
      1 < owner_count (collect_pruning_info ex_world) (pi_owner p)"
    using prune_protects [OF ex_candidate] by auto
qed

section \<open>The pruning loop\<close>

lemma Operation_prune_cases:
  obtains (err) e where "Operation_prune A K u oid w = (Inl e, w)"
      and "e = Km EC_INVALID_OPERATION_HANDLE \<or> e = Rc RC_OPERATION_BUSY"
  | (sys) x where "ow_ops w oid = Some x" "op_outcome x = Unknown" "oid \<notin> ow_busy w" "op_last_usage x = u"
      and "Operation_prune A K u oid w =
             (Inl (Rc RC_SYSTEM_ERROR), w\<lparr>ow_ops := (ow_ops w)(oid \<mapsto> x\<lparr>op_outcome := Pruned\<rparr>)\<rparr>)"
  | (ok) x where "ow_ops w oid = Some x" "op_outcome x = Unknown" "oid \<notin> ow_busy w" "op_last_usage x = u"
      and "Operation_prune A K u oid w =
             (Inr (), w\<lparr>ow_ops := (ow_ops w)(oid \<mapsto> x\<lparr>op_outcome := Pruned\<rparr>),
                        ow_km := snd (ko_abort K (op_km_op x) (ow_km w))\<rparr>)"
proof (cases "ow_ops w oid")
  case None
  then show thesis by (intro err [of "Km EC_INVALID_OPERATION_HANDLE"]) (simp_all add: Operation_prune_def)
next
  case (Some x)
  consider "oid \<in> ow_busy w" | "op_outcome x \<noteq> Unknown" "oid \<notin> ow_busy w"
    | "op_outcome x = Unknown" "oid \<notin> ow_busy w" "op_last_usage x \<noteq> u"
    | "op_outcome x = Unknown" "oid \<notin> ow_busy w" "op_last_usage x = u" by blast
  then show thesis
  proof cases
    case 1
    with Some show thesis by (intro err [of "Rc RC_OPERATION_BUSY"]) (simp_all add: Operation_prune_def)
  next
    case 2
    with Some show thesis by (intro err [of "Km EC_INVALID_OPERATION_HANDLE"]) (simp_all add: Operation_prune_def)
  next
    case 3
    with Some show thesis by (intro err [of "Rc RC_OPERATION_BUSY"]) (simp_all add: Operation_prune_def)
  next
    case 4
    show thesis
    proof (cases "ko_get_interface K (op_km_op x)")
      case (Inl e)
      with 4 Some show thesis
        by (intro sys [of x]) (simp_all add: Operation_prune_def set_op_def)
    next
      case (Inr u')
      with 4 Some show thesis
        by (intro ok [of x]) (simp_all add: Operation_prune_def set_op_def km_call_def split_beta Let_def)
    qed
  qed
qed

lemma evolves_Pruned:
  "ow_ops w oid = Some x \<Longrightarrow> op_outcome x = Unknown \<Longrightarrow>
   op_evolves w (w\<lparr>ow_ops := (ow_ops w)(oid \<mapsto> x\<lparr>op_outcome := Pruned\<rparr>)\<rparr>)"
  by (auto simp: op_evolves_def rel_fun_def same_operation_def intro: option.rel_refl)

lemma Operation_prune_evolves: "op_evolves w (snd (Operation_prune A K u oid w))"
  by (rule Operation_prune_cases [of A K u oid w])
     (auto simp: evolves_Pruned dest!: evolves_Pruned [THEN evolves_frame(1)])

text \<open>The operations that are still active; a round that continues has finalized one of them.\<close>

definition active_ops :: "'k op_world \<Rightarrow> nat set" where
  "active_ops w = {oid. active w oid}"

lemma finite_active_ops: "op_inv w \<Longrightarrow> finite (active_ops w)"
  by (rule finite_subset [of _ "{..<ow_next w}"]) (auto simp: active_ops_def active_def dest: op_invD(1))

lemma Operation_prune_active:
  "active_ops (snd (Operation_prune A K u oid w)) \<subseteq> active_ops w"
  by (rule Operation_prune_cases [of A K u oid w]) (auto simp: active_ops_def active_def split: if_splits)

lemma Operation_prune_continues:
  assumes "Operation_prune A K u oid w = (Inl e, w')"
    and "e \<noteq> Km EC_INVALID_OPERATION_HANDLE" and "e \<noteq> Rc RC_OPERATION_BUSY"
  shows "active_ops w' \<subset> active_ops w"
  by (rule Operation_prune_cases [of A K u oid w])
     (use assms in \<open>auto simp: active_ops_def active_def split: if_splits\<close>)

text \<open>C25. Pruning returns.  Whatever the other threads do between the rounds, short of
  creating operations, \<open>prune\<close> returns, and it either reports success or that the caller
  may prune nobody.\<close>

theorem prune_returns:
  assumes "op_inv w" and "\<And>n v. active_ops (env n v) \<subseteq> active_ops v"
  shows "\<exists>r w'. OperationDb_prune A K now env caller forced n w = Some (r, w') \<and>
                (r = Inr () \<or> r = Inl (Rc RC_BACKEND_BUSY))"
  using finite_active_ops [OF assms(1)]
proof (induction "active_ops w" arbitrary: n w rule: finite_psubset_induct)
  case psubset
  show ?case
  proof (cases "prune_candidate (now n) caller forced w")
    case None
    then show ?thesis by (simp add: OperationDb_prune.simps)
  next
    case (Some c)
    have "active_ops w' \<subset> active_ops w"
      if "Operation_prune A K (cand_last_usage c) oid (env n w) = (Inl e, w')"
        "e \<noteq> Km EC_INVALID_OPERATION_HANDLE" "e \<noteq> Rc RC_OPERATION_BUSY" for oid e w'
      using Operation_prune_continues [OF that] assms(2) [of n w] by blast
    from psubset.hyps(2) [OF this] Some show ?thesis
      by (subst OperationDb_prune.simps) (auto split: option.splits prod.splits sum.splits)
  qed
qed

text \<open>A device that refuses the interface, so that every candidate takes another round.\<close>

definition ex_no_interface :: "nat list km_operation" where
  "ex_no_interface = ex_keymint\<lparr>ko_get_interface := \<lambda>_. Inl (OtherErr ''no interface'')\<rparr>"

lemma ex_new_inv: "op_inv w \<Longrightarrow> ow_proxies w p = None \<Longrightarrow> op_inv (ex_new now p owner forced w)"
  unfolding ex_new_def by (rule op_inv_new_operation(1)) (auto simp: prod_eq_iff)

lemma ex_new_proxies:
  "ow_proxies (ex_new now p owner forced w) q = (if q = p then Some (Some (ow_next w)) else ow_proxies w q)"
  by (simp add: ex_new_def new_operation_def OperationDb_create_operation_def
      KeystoreOperation_new_native_binder_def Let_def)

lemma empty_world_inv: "op_inv (empty_world k)"
  by (simp add: op_inv_def empty_world_def)

lemma ex_world_inv: "op_inv ex_world"
  unfolding ex_world_def
  by (intro ex_new_inv empty_world_inv) (simp_all add: ex_new_proxies empty_world_def)

theorem prune_returns_witness:
  "\<exists>r w'. OperationDb_prune ex_codes ex_no_interface (\<lambda>_. 10000000000) (\<lambda>_ v. v) 20 False 0 ex_world = Some (r, w') \<and>
          (r = Inr () \<or> r = Inl (Rc RC_BACKEND_BUSY))"
  by (rule prune_returns [OF ex_world_inv]) simp

text \<open>What pruning does when nobody interferes and the device answers: without a candidate
  nothing changes; otherwise exactly the candidate is finalized as pruned and aborted on the
  device, unless a request holds it, in which case it is left alone.\<close>

theorem prune_effect:
  assumes inv: "op_inv w" and iface: "\<And>k. ko_get_interface K k = Inr ()"
  shows "OperationDb_prune A K now (\<lambda>_ v. v) caller forced n w =
     Some (case prune_candidate (now n) caller forced w of
             None \<Rightarrow> (Inl (Rc RC_BACKEND_BUSY), w)
           | Some c \<Rightarrow>
               let oid = ow_slots w ! cand_index c; x = the (ow_ops w oid)
               in (Inr (), if oid \<in> ow_busy w then w
                           else w\<lparr>ow_ops := (ow_ops w)(oid \<mapsto> x\<lparr>op_outcome := Pruned\<rparr>),
                                  ow_km := snd (ko_abort K (op_km_op x) (ow_km w))\<rparr>))"
proof (cases "prune_candidate (now n) caller forced w")
  case None
  then show ?thesis by (simp add: OperationDb_prune.simps)
next
  case (Some c)
  from candidate_pruning_info [OF Some] obtain p where "p \<in> set (collect_pruning_info w)"
    and c: "cand_index c = pi_index p" "cand_last_usage c = pi_last_usage p" by metis
  then obtain oid x where x: "ow_ops w oid = Some x" and p: "get_pruning_info w oid x = Some p"
    by (metis pruning_info_of)
  from p c have i: "cand_index c = op_index x" and u: "cand_last_usage c = op_last_usage x"
    and act: "oid \<in> ow_busy w \<or> op_outcome x = Unknown"
    by (auto simp: get_pruning_info_def split: if_splits)
  have slot: "op_index x < length (ow_slots w)" "ow_slots w ! op_index x = oid"
    using op_invD(2,3) [OF inv x] by auto
  have get: "OperationDb_get (cand_index c) w = Some oid"
    using slot x by (simp add: OperationDb_get_def Weak_upgrade_def i)
  have "Operation_prune A K (op_last_usage x) oid w =
      (if oid \<in> ow_busy w then (Inl (Rc RC_OPERATION_BUSY), w)
       else (Inr (), w\<lparr>ow_ops := (ow_ops w)(oid \<mapsto> x\<lparr>op_outcome := Pruned\<rparr>),
                        ow_km := snd (ko_abort K (op_km_op x) (ow_km w))\<rparr>))"
    using x act iface by (auto simp: Operation_prune_def set_op_def km_call_def split_beta Let_def)
  with Some get show ?thesis by (subst OperationDb_prune.simps) (simp add: slot x i u Let_def)
qed

theorem prune_effect_witness:
  "\<exists>w'. OperationDb_prune ex_codes ex_keymint (\<lambda>_. 10000000000) (\<lambda>_ v. v) 20 False 0 ex_world = Some (Inr (), w') \<and>
        ow_km w' = [101] \<and> map_option op_outcome (ow_ops w' 0) = Some Pruned \<and> ow_ops w' 1 = ow_ops ex_world 1"
proof -
  have "ow_slots ex_world ! 0 = 0" "0 \<notin> ow_busy ex_world" "op_km_op (the (ow_ops ex_world 0)) = 101"
    "ow_km ex_world = []"
    by code_simp+
  moreover have "ko_get_interface ex_keymint k = Inr ()" and "snd (ko_abort ex_keymint k l) = l @ [k]" for k l
    by (simp_all add: ex_keymint_def)
  ultimately show ?thesis
    by (subst prune_effect [OF ex_world_inv]) (simp_all add: ex_candidate Let_def)
qed

end
