(* ===== verification/Ks_OpLife.thy ===== *)
theory Ks_OpLife
  imports Ks_OpProperties
begin

text \<open>
  Runs of the operation component: every call of a client through its proxy, the creation and
  the dropping of proxies, attempts to prune, the locks other requests take and release, and
  the work of the other components, in any order.  On runs: the invariant holds, an operation
  keeps its identity and its final outcome until it is discarded, and discarding logs its
  fate once.  On single calls: what a successful \<open>finish\<close> has done, how finalized operations
  answer, and the bound on the input.
\<close>

section \<open>The step relation\<close>

inductive op_step :: "aidl_codes \<Rightarrow> 'k km_operation \<Rightarrow> 'k op_world \<Rightarrow> 'k op_world \<Rightarrow> bool"
  for A :: aidl_codes and K :: "'k km_operation" where
  create: "ow_proxies w p = None \<Longrightarrow>
    op_step A K w (snd (new_operation now p km owner ai forced li w))"
| updateAad: "op_step A K w (snd (updateAad A K now p aad w))"
| update: "op_step A K w (snd (update A K now p input w))"
| finish: "op_step A K w (snd (finish A K now p fin sig w))"
| abort: "op_step A K w (snd (abort A K p w))"
| drop: "op_step A K w (KeystoreOperation_drop A K p w)"
| prune: "op_step A K w (snd (Operation_prune A K last_usage oid w))"
| locks: "op_step A K w (w\<lparr>ow_busy := B, ow_proxy_busy := P\<rparr>)"
| outside: "op_step A K w (w\<lparr>ow_km := k, ow_enf := E, ow_db := db\<rparr>)"

lemmas proxy_defs = updateAad_def update_def finish_def abort_def

lemma op_inv_frame:
  "op_inv (w\<lparr>ow_busy := B, ow_proxy_busy := P\<rparr>) = op_inv w"
  "op_inv (w\<lparr>ow_km := k, ow_enf := E, ow_db := db\<rparr>) = op_inv w"
  by (simp_all add: op_inv_def)

lemma op_step_inv:
  assumes "op_inv w" and "op_step A K w w'"
  shows "op_inv w'"
  using assms(2,1)
proof cases
  case (create p now km owner ai forced li)
  then show ?thesis using assms(1)
    by (auto intro: op_inv_new_operation(1) simp: prod_eq_iff)
next
  case (prune last_usage oid)
  then show ?thesis using op_inv_evolves [OF assms(1) Operation_prune_evolves] by simp
qed (simp_all add: proxy_defs op_inv_with_locked Operation_evolves op_inv_drop_proxy op_inv_frame)

interpretation ops: transition_system "\<lambda>w. \<exists>k. w = empty_world k" "op_step A K" op_inv
  by unfold_locales (auto intro: op_step_inv empty_world_inv)

section \<open>The fate of an operation\<close>

text \<open>How the operation with number \<open>oid\<close> in \<open>w\<close> is found in a later world.\<close>

definition fate :: "nat \<Rightarrow> 'k op_world \<Rightarrow> 'k op_world \<Rightarrow> bool" where
  "fate oid w w' \<longleftrightarrow>
     ow_next w \<le> ow_next w' \<and> (\<exists>new. ow_log w' = ow_log w @ new) \<and>
     (case ow_ops w oid of
        None \<Rightarrow> oid < ow_next w \<longrightarrow> ow_ops w' oid = None
      | Some x \<Rightarrow>
          (case ow_ops w' oid of
             Some y \<Rightarrow> same_operation x y
           | None \<Rightarrow> \<exists>y. same_operation x y \<and>
               (op_logging_info y, op_outcome y) \<in> set (drop (length (ow_log w)) (ow_log w'))))"

lemma same_operation_trans: "same_operation x y \<Longrightarrow> same_operation y z \<Longrightarrow> same_operation x z"
  by (auto simp: same_operation_def)

lemma fate_refl: "fate oid w w"
  by (auto simp: fate_def split: option.splits)

lemma fate_trans:
  assumes "fate oid w w'" and "fate oid w' w''" and "op_inv w" and "op_inv w'"
  shows "fate oid w w''"
proof -
  have "oid < ow_next w" if "ow_ops w oid = Some x" for x using op_invD(1) [OF assms(3) that] .
  with assms(1,2) show ?thesis
    unfolding fate_def by (auto split: option.splits intro: same_operation_trans)
qed

lemma fate_evolves: "op_evolves w w' \<Longrightarrow> fate oid w w'"
  using op_evolves_ops [of w w' oid]
  by (auto simp: fate_def op_evolves_def split: option.splits)

lemma fate_discard:
  assumes inv: "op_inv w"
  shows "fate oid w (discard_operation A K p w)"
proof (cases "\<exists>i. ow_proxies w p = Some (Some i)")
  case True
  then obtain i x where p: "ow_proxies w p = Some (Some i)" and x: "ow_ops w i = Some x"
    using op_invD(5) [OF inv] by blast
  show ?thesis
    using discard_effect [OF p x, of A K] x
    by (auto simp: fate_def split: option.splits intro!: exI [of _ x])
next
  case False
  then show ?thesis by (auto simp: discard_operation_def fate_refl split: option.splits)
qed

lemma fate_with_locked:
  assumes inv: "op_inv w" and f: "\<And>oid v. op_evolves v (snd (f oid v))"
  shows "fate oid w (snd (with_locked_operation A K f del p w))"
proof -
  have *: "fate oid w w'" "fate oid w (discard_operation A K p w')" if "f i w = (r, w')" for i r w'
  proof -
    from f [of w i] that have ev: "op_evolves w w'" by simp
    then show "fate oid w w'" by (rule fate_evolves)
    have "op_inv w'" by (rule op_inv_evolves [OF inv ev])
    with ev show "fate oid w (discard_operation A K p w')"
      by (blast intro: fate_trans fate_evolves fate_discard inv)
  qed
  show ?thesis
    by (auto simp: with_locked_operation_def fate_refl * split: option.splits prod.splits sum.splits err.splits)
qed

lemma fate_step:
  assumes inv: "op_inv w" and "op_step A K w w'"
  shows "fate oid w w'"
  using assms(2,1)
proof cases
  case (create p now km owner ai forced li)
  have "ow_ops w (ow_next w) = None"
    using op_invD(1) [OF inv, of "ow_next w"] by (cases "ow_ops w (ow_next w)") auto
  then show ?thesis
    by (auto simp: create(1) fate_def new_operation_def OperationDb_create_operation_def
        KeystoreOperation_new_native_binder_def Let_def split: option.splits)
next
  case (drop p)
  then show ?thesis using fate_discard [OF inv, of oid A K p]
    by (auto simp: fate_def KeystoreOperation_drop_def Let_def split: option.splits)
next
  case (prune last_usage oid)
  then show ?thesis by (simp add: fate_evolves Operation_prune_evolves)
qed (simp_all add: proxy_defs fate_with_locked inv Operation_evolves, simp_all add: fate_def split: option.split)

lemma fate_steps:
  assumes "(op_step A K)\<^sup>*\<^sup>* w w'" and "op_inv w"
  shows "op_inv w' \<and> fate oid w w'"
  using assms
proof (induction rule: rtranclp_induct)
  case (step u v)
  then show ?case using fate_step [of u A K v oid] op_step_inv [of u A K v] fate_trans [of oid w u v] by blast
qed (simp add: fate_refl)

section \<open>Single calls\<close>

lemma discard_final:
  assumes "ow_proxies w p = Some (Some oid)" and "ow_ops w oid = Some x" and "op_outcome x \<noteq> Unknown"
  shows "discard_operation A K p w =
     w\<lparr>ow_proxies := (ow_proxies w)(p \<mapsto> None),
       ow_log := ow_log w @ [(op_logging_info x, op_outcome x)],
       ow_ops := (ow_ops w)(oid := None), ow_enf := AuthInfo_drop (op_auth_info x) (ow_enf w)\<rparr>"
  using assms by (simp add: discard_operation_def Operation_drop_def st_bind_def the_op_def)

lemma check_active_Inr:
  "check_active oid w = (Inr x, w') \<longleftrightarrow>
     oid \<notin> ow_busy w \<and> ow_ops w oid = Some x \<and> op_outcome x = Unknown \<and> w' = w"
  by (auto simp: check_active_cases split: option.splits)

lemma check_input_length_Inr: "check_input_length data w = (Inr u, w') \<longleftrightarrow> length data \<le> MAX_RECEIVE_DATA \<and> w' = w"
  by (auto simp: check_input_length_def)

lemma op_before_finish_Inr:
  "op_before_finish oid w = (Inr v, w') \<longleftrightarrow>
     (\<exists>x ai E. ow_ops w oid = Some x \<and> before_finish (op_auth_info x) (ow_enf w) = (Inr v, ai, E) \<and>
        w' = w\<lparr>ow_enf := E, ow_ops := (ow_ops w)(oid \<mapsto> x\<lparr>op_auth_info := ai\<rparr>)\<rparr>)"
  by (cases "ow_ops w oid")
     (auto simp: op_before_finish_def st_bind_def the_op_def set_op_def split: prod.splits)

lemma op_after_finish_Inr:
  "op_after_finish oid w = (Inr u, w') \<longleftrightarrow>
     (\<exists>x db. ow_ops w oid = Some x \<and> after_finish (op_auth_info x) (ow_db w) = (Inr (), db) \<and> w' = w\<lparr>ow_db := db\<rparr>)"
  by (cases "ow_ops w oid")
     (auto simp: op_after_finish_def st_bind_def the_op_def split: prod.splits)

lemma update_outcome_Inr: "update_outcome oid r w = (Inr v, w') \<longleftrightarrow> r = Inr v \<and> w' = w"
  by (auto simp: update_outcome_def st_bind_Inr_iff split: sum.splits ks_error.splits)

lemma km_call_Inr: "km_call f w = (Inr v, w') \<longleftrightarrow> (\<exists>k. f (ow_km w) = (v, k) \<and> w' = w\<lparr>ow_km := k\<rparr>)"
  by (auto simp: km_call_def split: prod.splits)

lemmas call_Inr = st_bind_Inr_iff check_active_Inr check_input_length_Inr op_before_finish_Inr op_after_finish_Inr
  update_outcome_Inr km_call_Inr

lemma Operation_finish_Inr:
  assumes "Operation_finish A K now oid input sig w = (Inr out, w')"
  obtains x hat tst ct ai E res k db where
    "ow_ops w oid = Some x" "op_outcome x = Unknown"
    "\<forall>i. input = Some i \<longrightarrow> length i \<le> MAX_RECEIVE_DATA"
    "before_finish (op_auth_info x) (ow_enf w) = (Inr (hat, tst, ct), ai, E)"
    "ko_finish K (op_km_op x) input sig hat tst ct (ow_km w) = (Inr res, k)"
    "after_finish ai (ow_db w) = (Inr (), db)" "out = output_option res"
    "w' = w\<lparr>ow_ops := (ow_ops w)(oid \<mapsto> x\<lparr>op_last_usage := now, op_auth_info := ai, op_outcome := Success\<rparr>),
            ow_km := k, ow_enf := E, ow_db := db\<rparr>"
proof -
  have len: "(case input of None \<Rightarrow> st_ok () | Some i \<Rightarrow> check_input_length i) v = (Inr u, v') \<longleftrightarrow>
      (\<forall>i. input = Some i \<longrightarrow> length i \<le> MAX_RECEIVE_DATA) \<and> v' = v" for u and v v' :: "'a op_world"
    by (cases input) (auto simp: check_input_length_Inr)
  from assms show thesis
    unfolding Operation_finish_def
    by (simp only: call_Inr len touch_def set_op_def split_paired_Ex prod.case)
       (clarsimp, rule that, assumption+, simp)
qed

text \<open>C18. In every reachable state each live operation sits in the database slot its index
  names and belongs to exactly one proxy.\<close>

theorem operation_invariant:
  assumes "(op_step A K)\<^sup>*\<^sup>* (empty_world k) w"
  shows "op_inv w"
  using ops.invariant_reachable [OF _ assms] by blast

text \<open>The example world is reached by three creations; then the first operation is finished.\<close>

lemma ex_new_steps:
  "(op_step A K)\<^sup>*\<^sup>* w0 w \<Longrightarrow> ow_proxies w p = None \<Longrightarrow> (op_step A K)\<^sup>*\<^sup>* w0 (ex_new now p owner forced w)"
  unfolding ex_new_def by (erule rtranclp.rtrancl_into_rtrancl) (rule op_step.create)

lemma ex_world_reachable: "(op_step ex_codes ex_keymint)\<^sup>*\<^sup>* (empty_world []) ex_world"
  unfolding ex_world_def
  by (intro ex_new_steps rtranclp.rtrancl_refl)
     (simp_all add: ex_new_proxies empty_world_def)

definition ex_finished :: "nat list op_world" where
  "ex_finished = snd (finish ex_codes ex_keymint 5000000000 1 None None ex_world)"

theorem operation_invariant_witness: "op_inv ex_world \<and> ow_ops ex_world 0 \<noteq> None"
  using operation_invariant [OF ex_world_reachable] by (rule conjI) code_simp

text \<open>C14. The fate of an operation on any run of calls, prunings, drops and interference: it
  stays the same operation, its outcome is written at most once, it leaves the database only
  with an entry of the log that names its outcome, and its number never comes back.\<close>

theorem operation_fate:
  assumes "(op_step A K)\<^sup>*\<^sup>* (empty_world k) w" and "(op_step A K)\<^sup>*\<^sup>* w w'"
  shows "case ow_ops w oid of
     None \<Rightarrow> oid < ow_next w \<longrightarrow> ow_ops w' oid = None
   | Some x \<Rightarrow>
       (case ow_ops w' oid of
          Some y \<Rightarrow> same_operation x y
        | None \<Rightarrow> \<exists>y. same_operation x y \<and>
            (op_logging_info y, op_outcome y) \<in> set (drop (length (ow_log w)) (ow_log w')))"
proof -
  have "op_inv w" using ops.invariant_reachable [OF _ assms(1)] by blast
  with fate_steps [OF assms(2), of oid] show ?thesis unfolding fate_def by blast
qed

theorem operation_fate_witness:
  "ow_ops ex_world 0 \<noteq> None \<and> ow_ops ex_finished 0 = None \<and>
   (\<exists>y. same_operation (the (ow_ops ex_world 0)) y \<and>
      (op_logging_info y, op_outcome y) \<in> set (drop (length (ow_log ex_world)) (ow_log ex_finished)))"
proof -
  have "(op_step ex_codes ex_keymint)\<^sup>*\<^sup>* ex_world ex_finished"
    unfolding ex_finished_def by (rule r_into_rtranclp) (rule op_step.finish)
  from operation_fate [OF ex_world_reachable this, of 0]
  have "case ow_ops ex_world 0 of None \<Rightarrow> 0 < ow_next ex_world \<longrightarrow> ow_ops ex_finished 0 = None
    | Some x \<Rightarrow> (case ow_ops ex_finished 0 of Some y \<Rightarrow> same_operation x y
        | None \<Rightarrow> \<exists>y. same_operation x y \<and>
            (op_logging_info y, op_outcome y) \<in> set (drop (length (ow_log ex_world)) (ow_log ex_finished)))" .
  moreover have "ow_ops ex_world 0 \<noteq> None" and "ow_ops ex_finished 0 = None" by code_simp+
  ultimately show ?thesis by auto
qed

text \<open>C15. A \<open>finish\<close> that succeeds.  The operation was active, its input was within the limit,
  KeyMint finished it with the tokens that \<open>before_finish\<close> obtained, the use of a
  usage-limited key was counted, success was logged, and the operation is gone.\<close>

theorem finish_success:
  assumes "op_inv w" and "finish A K now p input sig w = (Inr out, w')"
  shows "\<exists>oid x hat tst ct ai E res.
     ow_proxies w p = Some (Some oid) \<and> ow_ops w oid = Some x \<and> op_outcome x = Unknown \<and>
     (\<forall>i. input = Some i \<longrightarrow> length i \<le> MAX_RECEIVE_DATA) \<and>
     before_finish (op_auth_info x) (ow_enf w) = (Inr (hat, tst, ct), ai, E) \<and>
     ko_finish K (op_km_op x) input sig hat tst ct (ow_km w) = (Inr res, ow_km w') \<and>
     out = output_option res \<and> after_finish ai (ow_db w) = (Inr (), ow_db w') \<and>
     ow_log w' = ow_log w @ [(op_logging_info x, Success)] \<and>
     ow_ops w' = (ow_ops w)(oid := None) \<and> ow_proxies w' = (ow_proxies w)(p \<mapsto> None)"
proof -
  from assms(2) obtain oid v where p: "ow_proxies w p = Some (Some oid)"
    and f: "Operation_finish A K now oid input sig w = (Inr out, v)" and w': "w' = discard_operation A K p v"
    by (auto simp: finish_def with_locked_operation_def split: if_splits option.splits prod.splits sum.splits err.splits)
  from f show ?thesis
    by (rule Operation_finish_Inr) (use p w' in \<open>auto simp: discard_final\<close>)
qed

theorem finish_success_witness:
  "fst (finish ex_codes ex_keymint 5000000000 1 None None ex_world) = Inr None \<and>
   (\<exists>x. ow_ops ex_world 0 = Some x \<and> ow_log ex_finished = ow_log ex_world @ [(op_logging_info x, Success)])"
proof -
  have r: "fst (finish ex_codes ex_keymint 5000000000 1 None None ex_world) = Inr None" by code_simp
  have p: "ow_proxies ex_world 1 = Some (Some 0)" by code_simp
  have "finish ex_codes ex_keymint 5000000000 1 None None ex_world = (Inr None, ex_finished)"
    using r by (simp add: ex_finished_def prod_eq_iff)
  from finish_success [OF ex_world_inv this] r p show ?thesis by auto
qed

text \<open>C31. A finalized operation is out of reach: whatever its client calls, the call fails with
  \<open>INVALID_OPERATION_HANDLE\<close>, KeyMint and the key database are not touched, and the proxy lets
  go of the operation.\<close>

theorem finalized_operation_rejects:
  assumes "ow_proxies w p = Some (Some oid)" and "ow_ops w oid = Some x" and "op_outcome x \<noteq> Unknown"
    and "p \<notin> ow_proxy_busy w" and "oid \<notin> ow_busy w"
  shows "let w' = w\<lparr>ow_proxies := (ow_proxies w)(p \<mapsto> None),
                    ow_log := ow_log w @ [(op_logging_info x, op_outcome x)],
                    ow_ops := (ow_ops w)(oid := None), ow_enf := AuthInfo_drop (op_auth_info x) (ow_enf w)\<rparr>;
             e = Ks (Km EC_INVALID_OPERATION_HANDLE)
         in updateAad A K now p aad w = (Inl e, w') \<and> update A K now p data w = (Inl e, w') \<and>
            finish A K now p input sig w = (Inl e, w') \<and> abort A K p w = (Inl e, w')"
proof -
  have "check_active oid w = (Inl (Ks (Km EC_INVALID_OPERATION_HANDLE)), w)"
    using assms by (simp add: check_active_cases)
  then show ?thesis
    using assms
    by (simp add: proxy_defs with_locked_operation_def discard_final Operation_update_aad_def Operation_update_def
        Operation_finish_def Operation_abort_def st_bind_simps(2))
qed

definition ex_pruned :: "nat list op_world" where
  "ex_pruned = snd (Operation_prune ex_codes ex_keymint 0 0 ex_world)"

theorem finalized_operation_rejects_witness:
  "ow_proxies ex_pruned 1 = Some (Some 0) \<and>
   fst (update ex_codes ex_keymint 6000000000 1 [1, 2] ex_pruned) = Inl (Ks (Km EC_INVALID_OPERATION_HANDLE)) \<and>
   ow_km (snd (finish ex_codes ex_keymint 6000000000 1 None None ex_pruned)) = ow_km ex_pruned"
proof -
  have p: "ow_proxies ex_pruned 1 = Some (Some 0)" by code_simp
  obtain x where x: "ow_ops ex_pruned 0 = Some x" and o: "op_outcome x = Pruned"
  proof -
    have "map_option op_outcome (ow_ops ex_pruned 0) = Some Pruned" by code_simp
    then show thesis using that by auto
  qed
  have "1 \<notin> ow_proxy_busy ex_pruned" and "0 \<notin> ow_busy ex_pruned" by code_simp+
  with finalized_operation_rejects [OF p x, where A = ex_codes and K = ex_keymint and now = 6000000000
      and aad = "[]" and data = "[1, 2]" and input = None and sig = None] o p
  show ?thesis by (simp add: Let_def)
qed

text \<open>Input of more than 32 KiB never reaches KeyMint: the three calls that take data fail
  with \<open>TOO_MUCH_DATA\<close>, the operation is dropped, and all the device sees is its abort.\<close>

theorem too_much_data:
  assumes "ow_proxies w p = Some (Some oid)" and "ow_ops w oid = Some x" and "op_outcome x = Unknown"
    and "p \<notin> ow_proxy_busy w" and "oid \<notin> ow_busy w" and "MAX_RECEIVE_DATA < length data"
    and "ko_get_interface K (op_km_op x) = Inr ()"
  shows "let e = Ks (Rc RC_TOO_MUCH_DATA); w' = discard_operation A K p w
         in updateAad A K now p data w = (Inl e, w') \<and> update A K now p data w = (Inl e, w') \<and>
            finish A K now p (Some data) sig w = (Inl e, w') \<and>
            ow_ops w' oid = None \<and> ow_db w' = ow_db w \<and> ow_km w' = snd (ko_abort K (op_km_op x) (ow_km w))"
proof -
  have "check_active oid w = (Inr x, w)" using assms by (simp add: check_active_cases)
  moreover have "check_input_length data w = (Inl (Ks (Rc RC_TOO_MUCH_DATA)), w)"
    using assms by (simp add: check_input_length_def)
  ultimately have
    "Operation_update_aad A K now oid data w = (Inl (Ks (Rc RC_TOO_MUCH_DATA)), w)"
    "Operation_update A K now oid data w = (Inl (Ks (Rc RC_TOO_MUCH_DATA)), w)"
    "Operation_finish A K now oid (Some data) sig w = (Inl (Ks (Rc RC_TOO_MUCH_DATA)), w)"
    by (simp_all add: Operation_update_aad_def Operation_update_def Operation_finish_def st_bind_simps)
  moreover have "ow_ops (discard_operation A K p w) oid = None"
    using discard_effect(1) [OF assms(1,2)] by simp
  moreover have "ow_db (discard_operation A K p w) = ow_db w \<and>
      ow_km (discard_operation A K p w) = snd (ko_abort K (op_km_op x) (ow_km w))"
    using assms
    by (simp add: discard_operation_def Operation_drop_def st_bind_def the_op_def Operation_abort_def
        check_active_cases set_op_def km_call_def split_beta Let_def split: sum.split)
  ultimately show ?thesis using assms by (simp add: proxy_defs with_locked_operation_def)
qed

theorem too_much_data_witness:
  "fst (update ex_codes ex_keymint 6000000000 1 (replicate 40000 0) ex_world) = Inl (Ks (Rc RC_TOO_MUCH_DATA)) \<and>
   ow_km (snd (update ex_codes ex_keymint 6000000000 1 (replicate 40000 0) ex_world)) = [101]"
proof -
  have p: "ow_proxies ex_world 1 = Some (Some 0)" by code_simp
  obtain x where x: "ow_ops ex_world 0 = Some x" and o: "op_outcome x = Unknown" "op_km_op x = 101"
  proof -
    have "map_option (\<lambda>x. (op_outcome x, op_km_op x)) (ow_ops ex_world 0) = Some (Unknown, 101)" by code_simp
    then show thesis using that by auto
  qed
  have free: "1 \<notin> ow_proxy_busy ex_world" "0 \<notin> ow_busy ex_world" "ow_km ex_world = []" by code_simp+
  have big: "MAX_RECEIVE_DATA < length (replicate 40000 (0 :: u8))" by (simp add: MAX_RECEIVE_DATA_def)
  have km: "ko_get_interface ex_keymint (op_km_op x) = Inr ()" "snd (ko_abort ex_keymint 101 []) = [101]"
    by (simp_all add: ex_keymint_def)
  from too_much_data [OF p x o(1) free(1,2) big km(1), where A = ex_codes and now = 6000000000 and sig = None]
  show ?thesis using o(2) km(2) free(3) by (simp only: Let_def) simp
qed

end
