(* ===== verification/Ks_AsyncTask.thy ===== *)
theory Ks_AsyncTask
  imports Ks_Prelude
begin

text \<open>
  The background worker (\<open>src/keystore2/src/async_task.rs\<close>): two job queues, idle callbacks
  and one worker thread that is spawned on demand and exits after a timeout.

  A job is a value \<open>'j\<close>; the parameter \<open>exec\<close> runs it on the shelf and on the world outside
  and says which jobs it queues meanwhile (True for the high priority queue).  The worker
  thread is present while \<open>at_worker\<close> holds its local variables: the shelf it took and the
  flag \<open>done_idle\<close>.  Whether the wait of the worker timed out is an argument of its step.
\<close>

section \<open>The shelf\<close>

text \<open>A map from type ids to values.\<close>

type_synonym ('t, 'v) shelf = "'t \<rightharpoonup> 'v"

definition Shelf_get_downcast_ref :: "'t \<Rightarrow> ('t, 'v) shelf \<Rightarrow> 'v option" where
  "Shelf_get_downcast_ref t s = s t"

definition Shelf_remove_downcast_ref :: "'t \<Rightarrow> ('t, 'v) shelf \<Rightarrow> 'v option \<times> ('t, 'v) shelf" where
  "Shelf_remove_downcast_ref t s = (s t, s(t := None))"

definition Shelf_put :: "'t \<Rightarrow> 'v \<Rightarrow> ('t, 'v) shelf \<Rightarrow> 'v option \<times> ('t, 'v) shelf" where
  "Shelf_put t v s = (s t, s(t \<mapsto> v))"

definition Shelf_get_or_put_with :: "'t \<Rightarrow> 'v \<Rightarrow> ('t, 'v) shelf \<Rightarrow> 'v \<times> ('t, 'v) shelf" where
  "Shelf_get_or_put_with t init s = (case s t of Some v \<Rightarrow> (v, s) | None \<Rightarrow> (init, s(t \<mapsto> init)))"

section \<open>The task\<close>

datatype task_state = Exiting | Running

record ('j, 's) async_task =
  at_state :: task_state
  at_hi_prio_req :: "'j list"
  at_lo_prio_req :: "'j list"
  at_idle_fns :: "'j list"
  at_shelf :: "'s option"
  at_worker :: "('s \<times> bool) option"

type_synonym ('j, 's, 'w) executor = "'j \<Rightarrow> 's \<Rightarrow> 'w \<Rightarrow> 's \<times> 'w \<times> (bool \<times> 'j) list"

definition AsyncTask_new :: "('j, 's) async_task" where
  "AsyncTask_new =
     \<lparr>at_state = Exiting, at_hi_prio_req = [], at_lo_prio_req = [], at_idle_fns = [], at_shelf = None,
      at_worker = None\<rparr>"

text \<open>The new thread takes the shelf, or the empty one \<open>shelf0\<close> (\<open>unwrap_or_default\<close>).\<close>

definition spawn_thread :: "'s \<Rightarrow> ('j, 's) async_task \<Rightarrow> ('j, 's) async_task" where
  "spawn_thread shelf0 a =
     a\<lparr>at_worker := Some (case at_shelf a of Some s \<Rightarrow> s | None \<Rightarrow> shelf0, False), at_shelf := None,
       at_state := Running\<rparr>"

definition queue :: "'s \<Rightarrow> 'j \<Rightarrow> bool \<Rightarrow> ('j, 's) async_task \<Rightarrow> ('j, 's) async_task" where
  "queue shelf0 f hi_prio a =
     (let a = (if hi_prio then a\<lparr>at_hi_prio_req := at_hi_prio_req a @ [f]\<rparr>
               else a\<lparr>at_lo_prio_req := at_lo_prio_req a @ [f]\<rparr>)
      in if at_state a \<noteq> Running then spawn_thread shelf0 a else a)"

definition queue_hi :: "'s \<Rightarrow> 'j \<Rightarrow> ('j, 's) async_task \<Rightarrow> ('j, 's) async_task" where
  "queue_hi shelf0 f = queue shelf0 f True"

definition queue_lo :: "'s \<Rightarrow> 'j \<Rightarrow> ('j, 's) async_task \<Rightarrow> ('j, 's) async_task" where
  "queue_lo shelf0 f = queue shelf0 f False"

definition add_idle :: "'j \<Rightarrow> ('j, 's) async_task \<Rightarrow> ('j, 's) async_task" where
  "add_idle f a = a\<lparr>at_idle_fns := at_idle_fns a @ [f]\<rparr>"

datatype 'j action = QueuedFn 'j | IdleFns "'j list"

text \<open>
  One round of the worker, the part under the lock.  The wait returns when a job is queued
  or after the timeout, so a timeout counts only when both queues are empty.
\<close>

definition next_action ::
    "bool \<Rightarrow> 's \<Rightarrow> bool \<Rightarrow> ('j, 's) async_task \<Rightarrow> 'j action option \<times> ('j, 's) async_task" where
  "next_action timed_out shelf done_idle a =
     (if \<not> done_idle \<and> at_hi_prio_req a = [] \<and> at_lo_prio_req a = [] then (Some (IdleFns (at_idle_fns a)), a)
      else
        (case (at_hi_prio_req a, at_lo_prio_req a, timed_out) of
           (f # fs, _, _) \<Rightarrow> (Some (QueuedFn f), a\<lparr>at_hi_prio_req := fs\<rparr>)
         | ([], f # fs, _) \<Rightarrow> (Some (QueuedFn f), a\<lparr>at_lo_prio_req := fs\<rparr>)
         | ([], [], True) \<Rightarrow> (None, a\<lparr>at_shelf := Some shelf, at_state := Exiting, at_worker := None\<rparr>)
         | ([], [], False) \<Rightarrow> (None, a)))"

text \<open>The part without the lock: running the jobs, which may queue others.\<close>

definition run_job ::
    "'s \<Rightarrow> ('j, 's, 'w) executor \<Rightarrow> 'j \<Rightarrow> 's \<times> ('j, 's) async_task \<times> 'w \<Rightarrow> 's \<times> ('j, 's) async_task \<times> 'w" where
  "run_job shelf0 exec f = (\<lambda>(shelf, a, w).
     let (shelf', w', reqs) = exec f shelf w
     in (shelf', fold (\<lambda>(hi, g). queue shelf0 g hi) reqs a, w'))"

definition perform ::
    "'s \<Rightarrow> ('j, 's, 'w) executor \<Rightarrow> 'j action \<Rightarrow> 's \<times> ('j, 's) async_task \<times> 'w \<Rightarrow> ('j, 's) async_task \<times> 'w" where
  "perform shelf0 exec act st =
     (case act of
        QueuedFn f \<Rightarrow>
          (let (shelf, a, w) = run_job shelf0 exec f st in (a\<lparr>at_worker := Some (shelf, False)\<rparr>, w))
      | IdleFns fs \<Rightarrow>
          (let (shelf, a, w) = fold (run_job shelf0 exec) fs st in (a\<lparr>at_worker := Some (shelf, True)\<rparr>, w)))"

definition worker_step ::
    "'s \<Rightarrow> ('j, 's, 'w) executor \<Rightarrow> bool \<Rightarrow> ('j, 's) async_task \<times> 'w \<Rightarrow> ('j, 's) async_task \<times> 'w" where
  "worker_step shelf0 exec timed_out = (\<lambda>(a, w).
     case at_worker a of
       None \<Rightarrow> (a, w)
     | Some (shelf, done_idle) \<Rightarrow>
         (case next_action timed_out shelf done_idle a of
            (None, a') \<Rightarrow> (a', w)
          | (Some act, a') \<Rightarrow> perform shelf0 exec act (shelf, a', w)))"

section \<open>No job is stranded\<close>

inductive task_step ::
    "'s \<Rightarrow> ('j, 's, 'w) executor \<Rightarrow> ('j, 's) async_task \<times> 'w \<Rightarrow> ('j, 's) async_task \<times> 'w \<Rightarrow> bool"
  for shelf0 :: 's and exec :: "('j, 's, 'w) executor" where
  queue_hi: "task_step shelf0 exec (a, w) (queue_hi shelf0 f a, w)"
| queue_lo: "task_step shelf0 exec (a, w) (queue_lo shelf0 f a, w)"
| add_idle: "task_step shelf0 exec (a, w) (add_idle f a, w)"
| worker: "task_step shelf0 exec s (worker_step shelf0 exec timed_out s)"
| outside: "task_step shelf0 exec (a, w) (a, w')"

text \<open>The worker exists exactly while the task is running, it has the shelf then, and it exists
  whenever a job is queued.\<close>

definition task_ok :: "('j, 's) async_task \<Rightarrow> bool" where
  "task_ok a \<longleftrightarrow>
     (at_state a = Running \<longleftrightarrow> at_worker a \<noteq> None) \<and> (at_worker a \<noteq> None \<longrightarrow> at_shelf a = None) \<and>
     (at_hi_prio_req a \<noteq> [] \<or> at_lo_prio_req a \<noteq> [] \<longrightarrow> at_worker a \<noteq> None)"

lemma task_ok_queue: "task_ok a \<Longrightarrow> task_ok (queue shelf0 f hi a)"
  by (auto simp: task_ok_def queue_def spawn_thread_def Let_def)

lemma queue_running:
  assumes "at_state a = Running"
  shows "at_state (queue shelf0 f hi a) = Running" and "at_worker (queue shelf0 f hi a) = at_worker a"
    and "at_shelf (queue shelf0 f hi a) = at_shelf a"
  using assms by (simp_all add: queue_def Let_def)

lemma queues_running:
  assumes "at_state a = Running"
  shows "at_state (fold (\<lambda>(hi, g). queue shelf0 g hi) reqs a) = Running \<and>
         at_worker (fold (\<lambda>(hi, g). queue shelf0 g hi) reqs a) = at_worker a \<and>
         at_shelf (fold (\<lambda>(hi, g). queue shelf0 g hi) reqs a) = at_shelf a"
  using assms
proof (induction reqs arbitrary: a)
  case (Cons r reqs)
  obtain hi g where r: "r = (hi, g)" by (cases r)
  from Cons.IH [OF queue_running(1) [OF Cons.prems, of shelf0 g hi]] queue_running(2,3) [OF Cons.prems]
  show ?case by (simp add: r)
qed simp

lemma run_job_running:
  assumes "run_job shelf0 exec f (s, a, w) = (s', a', w')" and "at_state a = Running"
  shows "at_state a' = Running \<and> at_worker a' = at_worker a \<and> at_shelf a' = at_shelf a"
  using assms queues_running [OF assms(2)] by (auto simp: run_job_def split: prod.splits)

lemma run_jobs_running:
  assumes "fold (run_job shelf0 exec) fs (s, a, w) = (s', a', w')" and "at_state a = Running"
  shows "at_state a' = Running \<and> at_worker a' = at_worker a \<and> at_shelf a' = at_shelf a"
  using assms
proof (induction fs arbitrary: s a w)
  case (Cons f fs)
  obtain s1 a1 w1 where f: "run_job shelf0 exec f (s, a, w) = (s1, a1, w1)" by (metis prod_cases3)
  with Cons show ?case using run_job_running [OF f] by (metis fold_simps(2))
qed simp

lemma perform_ok:
  assumes "at_state a = Running" and "at_shelf a = None"
  shows "task_ok (fst (perform shelf0 exec act (shelf, a, w)))"
proof (cases act)
  case (QueuedFn f)
  obtain s' a' w' where "run_job shelf0 exec f (shelf, a, w) = (s', a', w')" by (metis prod_cases3)
  with run_job_running [OF this] assms QueuedFn show ?thesis by (simp add: perform_def task_ok_def)
next
  case (IdleFns fs)
  obtain s' a' w' where "fold (run_job shelf0 exec) fs (shelf, a, w) = (s', a', w')" by (metis prod_cases3)
  with run_jobs_running [OF this] assms IdleFns show ?thesis by (simp add: perform_def task_ok_def)
qed

lemma next_action_ok:
  assumes "task_ok a" and "at_worker a = Some (shelf, done_idle)"
    and "next_action timed_out shelf done_idle a = (act, a')"
  shows "act = None \<Longrightarrow> task_ok a'" and "act \<noteq> None \<Longrightarrow> at_state a' = Running \<and> at_shelf a' = None"
  using assms by (auto simp: next_action_def task_ok_def split: if_splits list.splits bool.splits)

lemma worker_step_ok:
  assumes "task_ok (fst s)"
  shows "task_ok (fst (worker_step shelf0 exec timed_out s))"
proof (cases "at_worker (fst s)")
  case None
  then show ?thesis using assms by (simp add: worker_step_def split_beta)
next
  case (Some p)
  obtain shelf done_idle where p: "at_worker (fst s) = Some (shelf, done_idle)" using Some by (cases p) simp
  obtain act a' where n: "next_action timed_out shelf done_idle (fst s) = (act, a')" by (cases "next_action timed_out shelf done_idle (fst s)")
  show ?thesis
    using next_action_ok [OF assms p n] perform_ok [of a' shelf0 exec _ shelf "snd s"]
    by (cases act) (simp_all add: worker_step_def split_beta p n)
qed

lemma task_step_ok:
  assumes "task_ok (fst s)" and "task_step shelf0 exec s s'"
  shows "task_ok (fst s')"
  using assms(2,1)
  by cases (simp_all add: queue_hi_def queue_lo_def task_ok_queue worker_step_ok, simp add: task_ok_def add_idle_def)

interpretation tasks: transition_system "\<lambda>s. fst s = AsyncTask_new" "task_step shelf0 exec" "\<lambda>s. task_ok (fst s)"
  by unfold_locales (simp add: task_ok_def AsyncTask_new_def, rule task_step_ok)

section \<open>The order of the jobs\<close>

text \<open>Running jobs one after the other, without the queues.\<close>

fun run_all :: "('j, 's, 'w) executor \<Rightarrow> 'j list \<Rightarrow> 's \<times> 'w \<Rightarrow> 's \<times> 'w" where
  "run_all exec [] sw = sw"
| "run_all exec (f # fs) (s, w) = (let (s', w', _) = exec f s w in run_all exec fs (s', w'))"

lemma worker_step_hi:
  assumes "at_worker a = Some (s, d)" and "at_hi_prio_req a = f # fs" and "exec f s w = (s', w', [])"
  shows "worker_step shelf0 exec to (a, w) = (a\<lparr>at_hi_prio_req := fs, at_worker := Some (s', False)\<rparr>, w')"
  using assms by (simp add: worker_step_def next_action_def perform_def run_job_def)

lemma worker_step_lo:
  assumes "at_worker a = Some (s, d)" and "at_hi_prio_req a = []" and "at_lo_prio_req a = f # fs"
    and "exec f s w = (s', w', [])"
  shows "worker_step shelf0 exec to (a, w) = (a\<lparr>at_lo_prio_req := fs, at_worker := Some (s', False)\<rparr>, w')"
  using assms by (simp add: worker_step_def next_action_def perform_def run_job_def)

lemma worker_runs_queues:
  assumes "at_worker a = Some (s, d)" and "at_hi_prio_req a @ at_lo_prio_req a = fs" and "fs \<noteq> []"
    and "\<forall>f\<in>set fs. \<forall>s w. snd (snd (exec f s w)) = []"
  shows "(worker_step shelf0 exec to ^^ length fs) (a, w) =
     (a\<lparr>at_hi_prio_req := [], at_lo_prio_req := [], at_worker := Some (fst (run_all exec fs (s, w)), False)\<rparr>,
      snd (run_all exec fs (s, w)))"
  using assms
proof (induction fs arbitrary: a s d w)
  case (Cons f fs)
  obtain s' w' where e: "exec f s w = (s', w', [])" using Cons.prems(4) by (metis list.set_intros(1) prod.collapse)
  define b where "b = (case at_hi_prio_req a of
      g # gs \<Rightarrow> a\<lparr>at_hi_prio_req := gs, at_worker := Some (s', False)\<rparr>
    | [] \<Rightarrow> a\<lparr>at_lo_prio_req := fs, at_worker := Some (s', False)\<rparr>)"
  have step: "worker_step shelf0 exec to (a, w) = (b, w')"
    using Cons.prems e worker_step_hi [of a s d f _ exec w s' w' shelf0 to]
      worker_step_lo [of a s d f fs exec w s' w' shelf0 to]
    by (cases "at_hi_prio_req a") (auto simp: b_def)
  have b: "at_worker b = Some (s', False)" "at_hi_prio_req b @ at_lo_prio_req b = fs"
    "b\<lparr>at_hi_prio_req := [], at_lo_prio_req := [], at_worker := v\<rparr> =
     a\<lparr>at_hi_prio_req := [], at_lo_prio_req := [], at_worker := v\<rparr>" for v
    using Cons.prems by (auto simp: b_def split: list.splits)
  show ?case
  proof (cases fs)
    case Nil
    then have "b = a\<lparr>at_hi_prio_req := [], at_lo_prio_req := [], at_worker := Some (s', False)\<rparr>"
      using b(1,2) by (simp add: b(3) [symmetric])
    then show ?thesis using step Nil e by simp
  next
    case (Cons g gs)
    then show ?thesis
      using Cons.IH [OF b(1,2), of w'] Cons.prems step e b(3) by (simp add: funpow_swap1)
  qed
qed simp

text \<open>No job is stranded.  However jobs are queued while the worker starts, works and
  times out, a queued job always has a worker, there is one exactly while the task is marked
  as running, and the shelf is with the worker or back in the task, never lost.\<close>

theorem async_task_invariant:
  assumes "(task_step shelf0 exec)\<^sup>*\<^sup>* (AsyncTask_new, w0) (a, w)"
  shows "(at_hi_prio_req a \<noteq> [] \<or> at_lo_prio_req a \<noteq> [] \<longrightarrow> at_worker a \<noteq> None) \<and>
         (at_state a = Running \<longleftrightarrow> at_worker a \<noteq> None) \<and> (at_worker a \<noteq> None \<longrightarrow> at_shelf a = None)"
  using tasks.invariant_reachable [OF _ assms] by (simp add: task_ok_def)

theorem async_task_invariant_witness:
  "at_worker (queue_lo (0 :: nat) ''job'' AsyncTask_new) \<noteq> None"
proof -
  let ?exec = "\<lambda>f s w. (s, w, []) :: nat \<times> unit \<times> (bool \<times> string) list"
  have "(task_step 0 ?exec)\<^sup>*\<^sup>* (AsyncTask_new, ()) (queue_lo 0 ''job'' AsyncTask_new, ())"
    by (rule r_into_rtranclp) (rule task_step.queue_lo)
  from async_task_invariant [OF this] show ?thesis
    by (simp add: queue_lo_def queue_def spawn_thread_def AsyncTask_new_def)
qed

text \<open>Jobs run one at a time, in the order they were queued, those of the high priority
  queue first, on the one shelf: as many rounds as there are jobs have the effect of running
  them in a row, when none of them queues further jobs.\<close>

theorem async_task_order:
  assumes "at_worker a = Some (s, d)" and "at_hi_prio_req a @ at_lo_prio_req a = fs" and "fs \<noteq> []"
    and "\<forall>f\<in>set fs. \<forall>s w. snd (snd (exec f s w)) = []"
  shows "(worker_step shelf0 exec timed_out ^^ length fs) (a, w) =
     (a\<lparr>at_hi_prio_req := [], at_lo_prio_req := [], at_worker := Some (fst (run_all exec fs (s, w)), False)\<rparr>,
      snd (run_all exec fs (s, w)))"
  by (rule worker_runs_queues [OF assms])

text \<open>Two jobs of low priority are queued before one of high priority, which runs first.\<close>

definition ex_tasks :: "(nat, nat list) async_task" where
  "ex_tasks = queue_hi [] 3 (queue_lo [] 2 (queue_lo [] 1 AsyncTask_new))"

theorem async_task_order_witness:
  "at_worker (fst ((worker_step [] (\<lambda>f s w. (s @ [f], w, [])) False ^^ 3) (ex_tasks, ()))) = Some ([3, 1, 2], False)"
proof -
  have "at_worker ex_tasks = Some ([], False)" and "at_hi_prio_req ex_tasks @ at_lo_prio_req ex_tasks = [3, 1, 2]"
    by code_simp+
  from async_task_order [OF this, of "\<lambda>f s w. (s @ [f], w, [])" "[]" False "()"] show ?thesis
    by (simp add: numeral_3_eq_3)
qed

end
