(* ===== verification/Ks_Gc.thy ===== *)
theory Ks_Gc
  imports Ks_DbInvariant Ks_AsyncTask "HOL-Library.Multiset"
begin

text \<open>
  The garbage collector (\<open>src/keystore2/src/gc.rs\<close>) on top of the background worker and the
  database.  The state of the collector is on the shelf of the worker; the world of its jobs
  is the database, the flag \<open>notified\<close> and the KeyMint devices.

  Parameters.  \<open>unwrap\<close> stands for \<open>SuperKeyManager::unwrap_key_if_required\<close> with the super
  keys in memory, \<open>invalidate\<close> for the function that invalidates a key blob on its device.
\<close>

section \<open>The collector\<close>

record gc_internal =
  gi_deleted_blob_ids :: "int list"
  gi_superseded_blobs :: "(int \<times> bytes \<times> blob_meta_data) list"

record 'k gc_world =
  gw_db :: keystore_db
  gw_notified :: bool
  gw_panicked :: bool
  gw_km :: 'k

record 'k gc_params =
  gp_unwrap :: "blob_meta_data \<Rightarrow> bytes \<Rightarrow> bytes res"
  gp_invalidate_key :: "uuid \<Rightarrow> bytes \<Rightarrow> 'k \<Rightarrow> unit res \<times> 'k"

definition MAX_BLOBS :: nat where
  "MAX_BLOBS = 20"

text \<open>Loading the next batch when the last one is used up.\<close>

definition refill :: "gc_internal \<Rightarrow> 'k gc_world \<Rightarrow> unit res \<times> gc_internal \<times> 'k gc_world" where
  "refill g w =
     (if gi_superseded_blobs g = [] then
        (case handle_next_superseded_blobs (gi_deleted_blob_ids g) MAX_BLOBS (gw_db w) of
           (Inl e, db) \<Rightarrow> (Inl e, g, w\<lparr>gw_db := db\<rparr>)
         | (Inr blobs, db) \<Rightarrow>
             (Inr (), \<lparr>gi_deleted_blob_ids = [], gi_superseded_blobs = blobs\<rparr>, w\<lparr>gw_db := db\<rparr>))
      else (Inr (), g, w))"

text \<open>Invalidating one blob on its device.\<close>

definition dispose :: "'k gc_params \<Rightarrow> bytes \<Rightarrow> blob_meta_data \<Rightarrow> 'k gc_world \<Rightarrow> unit res \<times> 'k gc_world" where
  "dispose G blob blob_metadata w =
     (case BlobMetaData_km_uuid blob_metadata of
        None \<Rightarrow> (Inr (), w)
      | Some u \<Rightarrow>
          (case gp_unwrap G blob_metadata blob of
             Inl e \<Rightarrow> (Inl e, w)
           | Inr b \<Rightarrow> (let (r, k) = gp_invalidate_key G u b (gw_km w) in (r, w\<lparr>gw_km := k\<rparr>))))"

definition process_one_key ::
    "'k gc_params \<Rightarrow> gc_internal \<Rightarrow> 'k gc_world \<Rightarrow> unit res \<times> gc_internal \<times> 'k gc_world" where
  "process_one_key G g w =
     (case refill g w of
        (Inl e, g, w) \<Rightarrow> (Inl e, g, w)
      | (Inr _, g, w) \<Rightarrow>
          (if gi_superseded_blobs g = [] then (Inr (), g, w)
           else
             (let (blob_id, blob, blob_metadata) = last (gi_superseded_blobs g);
                  g = g\<lparr>gi_superseded_blobs := butlast (gi_superseded_blobs g),
                        gi_deleted_blob_ids := gi_deleted_blob_ids g @ [blob_id]\<rparr>;
                  (r, w) = dispose G blob blob_metadata w
              in (r, g, w))))"

text \<open>The step says whether it scheduled another one.\<close>

definition GcInternal_step :: "'k gc_params \<Rightarrow> gc_internal \<Rightarrow> 'k gc_world \<Rightarrow> bool \<times> gc_internal \<times> 'k gc_world" where
  "GcInternal_step G g w =
     (let (_, g, w) = process_one_key G g (w\<lparr>gw_notified := False\<rparr>)
      in if gi_deleted_blob_ids g \<noteq> [] \<and> \<not> gw_notified w then (True, g, w\<lparr>gw_notified := True\<rparr>)
         else (False, g, w))"

text \<open>The jobs of the collector; other users of the worker share its queues.  A step that finds
  no collector on the shelf panics (\<open>unwrap\<close>).\<close>

datatype 'w gc_job = GcInit | GcStep | OtherJob "'w \<Rightarrow> 'w"

definition gc_exec ::
    "'k gc_params \<Rightarrow> ('k gc_world gc_job, gc_internal option, 'k gc_world) executor" where
  "gc_exec G j shelf w =
     (case j of
        GcInit \<Rightarrow>
          (Some (case shelf of Some g \<Rightarrow> g | None \<Rightarrow> \<lparr>gi_deleted_blob_ids = [], gi_superseded_blobs = []\<rparr>), w, [])
      | GcStep \<Rightarrow>
          (case shelf of
             None \<Rightarrow> (None, w\<lparr>gw_panicked := True\<rparr>, [])
           | Some g \<Rightarrow>
               (let (again, g, w) = GcInternal_step G g w in (Some g, w, if again then [(False, GcStep)] else [])))
      | OtherJob f \<Rightarrow> (shelf, f w, []))"

definition Gc_new_init_with ::
    "('k gc_world gc_job, gc_internal option) async_task \<Rightarrow> ('k gc_world gc_job, gc_internal option) async_task" where
  "Gc_new_init_with a = queue_hi None GcInit a"

definition Gc_notify_gc ::
    "('k gc_world gc_job, gc_internal option) async_task \<times> 'k gc_world \<Rightarrow>
     ('k gc_world gc_job, gc_internal option) async_task \<times> 'k gc_world" where
  "Gc_notify_gc = (\<lambda>(a, w).
     if \<not> gw_notified w then (queue_lo None GcStep a, w\<lparr>gw_notified := True\<rparr>) else (a, w))"

section \<open>Superseded blobs\<close>

definition key_blob :: "blobentry_row \<Rightarrow> bool" where
  "key_blob b \<longleftrightarrow> be_subcomponent_type b = KEY_BLOB"

text \<open>A blob is in use when its key is and no newer blob of the same kind replaces it.\<close>

definition newer :: "blobentry_row \<Rightarrow> blobentry_row \<Rightarrow> bool" where
  "newer x b \<longleftrightarrow> be_keyentryid x = be_keyentryid b \<and> be_subcomponent_type x = be_subcomponent_type b \<and> be_id b < be_id x"

definition live_blob :: "keystore_db \<Rightarrow> blobentry_row \<Rightarrow> bool" where
  "live_blob db b \<longleftrightarrow>
     b \<in> set (db_blobentry db) \<and>
     (\<exists>k\<in>set (db_keyentry db). ke_id k = be_keyentryid b \<and> ke_state k \<noteq> Unreferenced) \<and>
     \<not> (\<exists>x\<in>set (db_blobentry db). newer x b)"

lemma newer_group: "newer x b \<Longrightarrow> key_blob x = key_blob b"
  by (simp add: newer_def key_blob_def)

lemma superseded_iff:
  assumes "distinct (map be_id (db_blobentry db))" and "b \<in> set (db_blobentry db)"
    and p: "\<And>x. newer x b \<Longrightarrow> p x = p b"
  shows "superseded p db b \<longleftrightarrow>
     p b \<and> ((\<exists>x\<in>set (db_blobentry db). newer x b) \<or> be_keyentryid b \<notin> ke_id ` set (db_keyentry db))"
proof -
  have eq: "c = b" if "c \<in> set (db_blobentry db)" "be_id c = be_id b" for c
    using assms(1,2) that by (auto simp: distinct_map dest: inj_onD)
  have "be_id b \<in> set (group_max_ids p (db_blobentry db)) \<longleftrightarrow>
      p b \<and> \<not> (\<exists>x\<in>set (db_blobentry db). p x \<and> newer x b)"
    using assms(2) by (auto simp: group_max_ids_def list_ex_iff newer_def dest: eq)
  then show ?thesis unfolding superseded_def using p by blast
qed

text \<open>Among the blobs of a key there is a newest one.\<close>

lemma newest_exists:
  assumes "x \<in> set t" and "newer x b"
  obtains y where "y \<in> set t" and "newer y b" and "\<not> (\<exists>z\<in>set t. newer z y)"
proof -
  let ?S = "{y \<in> set t. newer y b}"
  define m where "m = Max (be_id ` ?S)"
  have "?S \<noteq> {}" using assms by blast
  then have "m \<in> be_id ` ?S" unfolding m_def by (intro Max_in) simp_all
  then obtain y where y: "y \<in> ?S" "be_id y = m" by blast
  have "\<not> newer z y" if "z \<in> set t" for z
  proof
    assume "newer z y"
    then have "z \<in> ?S" using y(1) that by (auto simp: newer_def)
    then have "be_id z \<le> be_id y" unfolding y(2) m_def by (intro Max_ge) simp_all
    with \<open>newer z y\<close> show False by (simp add: newer_def)
  qed
  with y show thesis by (intro that [of y]) auto
qed

text \<open>Deleting blobs that are not in use does not change which blobs are.\<close>

lemma live_delete:
  assumes k: "db_keyentry db' = db_keyentry db"
    and t: "db_blobentry db' = delete_where P (db_blobentry db)" and dead: "\<And>x. P x \<Longrightarrow> \<not> live_blob db x"
  shows "live_blob db' b \<longleftrightarrow> live_blob db b"
proof
  assume b: "live_blob db' b"
  have "\<not> newer x b" if "x \<in> set (db_blobentry db)" for x
  proof
    assume "newer x b"
    with that obtain y where y: "y \<in> set (db_blobentry db)" "newer y b" "\<not> (\<exists>z\<in>set (db_blobentry db). newer z y)"
      by (rule newest_exists)
    then have "live_blob db y" using b by (auto simp: live_blob_def k newer_def)
    then have "y \<in> set (db_blobentry db')" using y(1) dead by (auto simp: t)
    with y(2) b show False by (auto simp: live_blob_def)
  qed
  with b show "live_blob db b" by (auto simp: live_blob_def k t)
next
  assume "live_blob db b"
  moreover from this have "\<not> P b" using dead by blast
  ultimately show "live_blob db' b" by (auto simp: live_blob_def k t)
qed

lemma delete_blobs_eq:
  "db_blobentry (fold delete_blob ids db) = delete_where (\<lambda>b. be_id b \<in> set ids) (db_blobentry db)"
  "db_keyentry (fold delete_blob ids db) = db_keyentry db"
  "db_blobmetadata (fold delete_blob ids db) = delete_where (\<lambda>m. bm_blobentryid m \<in> set ids) (db_blobmetadata db)"
  by (induction ids arbitrary: db)
     (auto simp: delete_blob_def delete_where_def intro!: filter_cong)

lemma cleanup_eq:
  "db_blobentry (cleanup_unreferenced db) = db_blobentry db"
  "db_blobmetadata (cleanup_unreferenced db) = db_blobmetadata db"
  "db_keyentry (cleanup_unreferenced db) = delete_where (\<lambda>k. ke_state k = Unreferenced) (db_keyentry db)"
  by (simp_all add: cleanup_unreferenced_def delete_keys_where_def Let_def)

lemma live_cleanup [simp]: "live_blob (cleanup_unreferenced db) b \<longleftrightarrow> live_blob db b"
  by (auto simp: live_blob_def cleanup_eq)

lemma blob_ids_distinct: "db_inv db \<Longrightarrow> distinct (map be_id (db_blobentry db))"
  by (simp add: db_inv_def blobs_inv_def)

lemma not_live_iff:
  assumes "b \<in> set (db_blobentry db)"
  shows "\<not> live_blob db b \<longleftrightarrow> (\<exists>x\<in>set (db_blobentry db). newer x b) \<or>
     be_keyentryid b \<notin> ke_id ` set (db_keyentry (cleanup_unreferenced db))"
proof -
  have "be_keyentryid b \<in> ke_id ` set (db_keyentry (cleanup_unreferenced db)) \<longleftrightarrow>
      (\<exists>k\<in>set (db_keyentry db). ke_id k = be_keyentryid b \<and> ke_state k \<noteq> Unreferenced)"
    by (force simp: cleanup_eq)
  with assms show ?thesis unfolding live_blob_def by blast
qed

lemma superseded_live:
  assumes "distinct (map be_id (db_blobentry db))" and "b \<in> set (db_blobentry db)"
  shows "superseded key_blob (cleanup_unreferenced db) b \<longleftrightarrow> key_blob b \<and> \<not> live_blob db b"
    and "superseded (\<lambda>b. \<not> key_blob b) (cleanup_unreferenced db) b \<longleftrightarrow> \<not> key_blob b \<and> \<not> live_blob db b"
  using superseded_iff [of "cleanup_unreferenced db" b key_blob]
    superseded_iff [of "cleanup_unreferenced db" b "\<lambda>b. \<not> key_blob b"] assms newer_group [of _ b]
  by (simp_all only: cleanup_eq(1) not_live_iff)

text \<open>The blob ids of a collection run are dead: their rows, if still there, are key blobs not in
  use.\<close>

definition dead_id :: "keystore_db \<Rightarrow> int \<Rightarrow> bool" where
  "dead_id db i \<longleftrightarrow> (\<forall>b\<in>set (db_blobentry db). be_id b = i \<longrightarrow> key_blob b \<and> \<not> live_blob db b)"

lemma live_delete_blobs:
  assumes "\<forall>i\<in>set ids. dead_id db i"
  shows "live_blob (fold delete_blob ids db) b \<longleftrightarrow> live_blob db b"
  by (rule live_delete [OF delete_blobs_eq(2,1)]) (use assms in \<open>auto simp: dead_id_def live_blob_def\<close>)

definition collectable :: "keystore_db \<Rightarrow> blobentry_row list" where
  "collectable db = filter (\<lambda>b. key_blob b \<and> \<not> live_blob db b) (db_blobentry db)"

lemma handle_next_eq:
  assumes inv: "db_inv db" and dead: "\<forall>i\<in>set ids. dead_id db i"
  defines "tx \<equiv> cleanup_unreferenced (fold delete_blob ids db)"
  shows "handle_next_superseded_blobs ids n db =
    (case map_res_list (\<lambda>b. map_res (\<lambda>m. (be_id b, be_blob b, m)) (BlobMetaData_load_from_db (be_id b) tx))
            (take n (filter (\<lambda>b. be_id b \<notin> set ids) (collectable db))) of
       Inl e \<Rightarrow> (Inl e, db)
     | Inr [] \<Rightarrow> (Inr [], tx\<lparr>db_blobentry := filter (\<lambda>b. key_blob b \<or> live_blob db b) (db_blobentry tx)\<rparr>)
     | Inr rows \<Rightarrow> (Inr rows, tx))"
proof -
  let ?d = "fold delete_blob ids db"
  have live: "live_blob ?d b \<longleftrightarrow> live_blob db b" for b
    by (rule live_delete_blobs [OF dead])
  have "distinct (map be_id (db_blobentry ?d))" by (rule blob_ids_distinct) (rule delete_blobs_inv [OF inv])
  note sup = superseded_live [OF this]
  have kb: "(\<lambda>b. be_subcomponent_type b = KEY_BLOB) = key_blob" "(\<lambda>b. be_subcomponent_type b \<noteq> KEY_BLOB) = (\<lambda>b. \<not> key_blob b)"
    by (auto simp: key_blob_def)
  have "filter (superseded key_blob tx) (db_blobentry tx) = filter (\<lambda>b. be_id b \<notin> set ids) (collectable db)"
    unfolding tx_def cleanup_eq using sup(1)
    by (auto simp: delete_blobs_eq collectable_def delete_where_def live intro!: filter_cong)
  moreover have "delete_where (superseded (\<lambda>b. \<not> key_blob b) tx) (db_blobentry tx) =
      filter (\<lambda>b. key_blob b \<or> live_blob db b) (db_blobentry tx)"
    unfolding tx_def cleanup_eq delete_where_def [of "superseded _ _"]
    by (rule filter_cong) (use sup(2) in \<open>auto simp: live cleanup_eq\<close>)
  ultimately show ?thesis
    unfolding handle_next_superseded_blobs_def with_transaction_def Let_def tx_def kb
    by (simp split: sum.split list.split)
qed

section \<open>Safety\<close>

definition gc_ok :: "keystore_db \<Rightarrow> gc_internal \<Rightarrow> bool" where
  "gc_ok db g \<longleftrightarrow> (\<forall>i \<in> set (gi_deleted_blob_ids g) \<union> fst ` set (gi_superseded_blobs g). dead_id db i)"

text \<open>What one database has of another: the blobs in use with their metadata, and the key
  entries in use.\<close>

definition keeps_live :: "keystore_db \<Rightarrow> keystore_db \<Rightarrow> bool" where
  "keeps_live db db' \<longleftrightarrow>
     (\<forall>b. live_blob db' b \<longleftrightarrow> live_blob db b) \<and>
     (\<forall>b. live_blob db b \<longrightarrow> BlobMetaData_load_from_db (be_id b) db' = BlobMetaData_load_from_db (be_id b) db) \<and>
     filter (\<lambda>k. ke_state k \<noteq> Unreferenced) (db_keyentry db') = filter (\<lambda>k. ke_state k \<noteq> Unreferenced) (db_keyentry db)"

lemma keeps_live_refl [simp]: "keeps_live db db"
  by (simp add: keeps_live_def)

lemma load_metadata_delete:
  assumes "i \<notin> set ids"
  shows "BlobMetaData_load_from_db i (fold delete_blob ids db) = BlobMetaData_load_from_db i db"
proof -
  have "filter (\<lambda>r. bm_blobentryid r = i) (delete_where (\<lambda>m. bm_blobentryid m \<in> set ids) (db_blobmetadata db)) =
      filter (\<lambda>r. bm_blobentryid r = i) (db_blobmetadata db)"
    using assms by (auto simp: delete_where_def intro!: filter_cong)
  then show ?thesis by (simp add: BlobMetaData_load_from_db_def delete_blobs_eq)
qed

lemma handle_next_keeps:
  assumes inv: "db_inv db" and dead: "\<forall>i\<in>set ids. dead_id db i"
    and h: "handle_next_superseded_blobs ids n db = (r, db')"
  shows "keeps_live db db'" and "set (db_blobentry db') \<subseteq> set (db_blobentry db)"
    and "r = Inr rows \<Longrightarrow> (i, x) \<in> set rows \<Longrightarrow> \<exists>b\<in>set (collectable db). be_id b = i"
proof -
  let ?d = "fold delete_blob ids db" and ?tx = "cleanup_unreferenced (fold delete_blob ids db)"
  have live: "live_blob ?d b \<longleftrightarrow> live_blob db b" for b
    by (rule live_delete_blobs [OF dead])
  define purged where "purged = ?tx\<lparr>db_blobentry := filter (\<lambda>b. key_blob b \<or> live_blob db b) (db_blobentry ?tx)\<rparr>"
  have pl: "live_blob purged b \<longleftrightarrow> live_blob db b" for b
  proof -
    have "live_blob purged b \<longleftrightarrow> live_blob ?tx b"
      by (rule live_delete [of _ _ "\<lambda>b. \<not> (key_blob b \<or> live_blob db b)"])
         (simp_all add: purged_def delete_where_def live)
    then show ?thesis by (simp add: live)
  qed
  have meta: "BlobMetaData_load_from_db i purged = BlobMetaData_load_from_db i ?d"
    "BlobMetaData_load_from_db i ?tx = BlobMetaData_load_from_db i ?d" for i
    by (simp_all add: BlobMetaData_load_from_db_def purged_def cleanup_eq)
  have notin: "be_id b \<notin> set ids" if "live_blob db b" for b
    using dead that by (auto simp: dead_id_def live_blob_def)
  have keys: "filter (\<lambda>k. ke_state k \<noteq> Unreferenced) (db_keyentry ?tx) = filter (\<lambda>k. ke_state k \<noteq> Unreferenced) (db_keyentry db)"
    by (simp add: cleanup_eq delete_blobs_eq delete_where_def)
  have "keeps_live db ?tx" "keeps_live db purged"
    using keys by (auto simp: keeps_live_def live pl meta load_metadata_delete notin purged_def [symmetric])
       (simp_all add: purged_def)
  then show "keeps_live db db'"
    using h unfolding handle_next_eq [OF inv dead] purged_def
    by (auto split: sum.splits list.splits)
  show "set (db_blobentry db') \<subseteq> set (db_blobentry db)"
    using h unfolding handle_next_eq [OF inv dead]
    by (auto split: sum.splits list.splits simp: cleanup_eq delete_blobs_eq)
  show "\<exists>b\<in>set (collectable db). be_id b = i" if "r = Inr rows" "(i, x) \<in> set rows"
  proof -
    from that h obtain ys where "map_res_list (\<lambda>b. map_res (\<lambda>m. (be_id b, be_blob b, m)) (BlobMetaData_load_from_db (be_id b) ?tx))
        (take n (filter (\<lambda>b. be_id b \<notin> set ids) (collectable db))) = Inr ys" and "(i, x) \<in> set ys"
      unfolding handle_next_eq [OF inv dead] by (auto split: sum.splits list.splits)
    then obtain b where "b \<in> set (take n (filter (\<lambda>b. be_id b \<notin> set ids) (collectable db)))"
      and "map_res (\<lambda>m. (be_id b, be_blob b, m)) (BlobMetaData_load_from_db (be_id b) ?tx) = Inr (i, x)"
      by (rule map_res_list_Inr_mem)
    then show ?thesis by (auto simp: res_iffs dest!: in_set_takeD)
  qed
qed

lemma dead_id_keeps:
  assumes "keeps_live db db'" and "set (db_blobentry db') \<subseteq> set (db_blobentry db)" and "dead_id db i"
  shows "dead_id db' i"
  using assms by (auto simp: dead_id_def keeps_live_def)

lemma collectable_dead:
  assumes "db_inv db" and "b \<in> set (collectable db)"
  shows "dead_id db (be_id b)"
proof -
  have "c = b" if "c \<in> set (db_blobentry db)" "be_id c = be_id b" for c
    using blob_ids_distinct [OF assms(1)] assms(2) that by (auto simp: collectable_def distinct_map dest: inj_onD)
  then show ?thesis using assms(2) unfolding dead_id_def collectable_def by auto
qed

lemma refill_ok:
  assumes inv: "db_inv (gw_db w)" and ok: "gc_ok (gw_db w) g" and r: "refill g w = (r, g', w')"
  shows "db_inv (gw_db w') \<and> gc_ok (gw_db w') g' \<and> keeps_live (gw_db w) (gw_db w')"
proof (cases "gi_superseded_blobs g = []")
  case False
  then show ?thesis using assms by (simp add: refill_def)
next
  case True
  obtain h db' where h: "handle_next_superseded_blobs (gi_deleted_blob_ids g) MAX_BLOBS (gw_db w) = (h, db')"
    by fastforce
  have dead: "\<forall>i\<in>set (gi_deleted_blob_ids g). dead_id (gw_db w) i" using ok by (simp add: gc_ok_def)
  note k = handle_next_keeps [OF inv dead h]
  have inv': "db_inv db'" using handle_next_superseded_blobs_inv [OF inv] h by (metis snd_conv)
  have "dead_id db' i" if "h = Inr rows" "(i, x) \<in> set rows" for rows i x
  proof -
    from k(3) [OF that] obtain b where b: "b \<in> set (collectable (gw_db w))" "be_id b = i" by blast
    show ?thesis using dead_id_keeps [OF k(1,2) collectable_dead [OF inv b(1)]] b(2) by simp
  qed
  moreover have "\<forall>i\<in>set (gi_deleted_blob_ids g). dead_id db' i"
    using dead dead_id_keeps [OF k(1,2)] by blast
  ultimately show ?thesis using True h k(1) inv' r by (auto simp: refill_def gc_ok_def split: sum.splits)
qed

lemma dispose_frame:
  assumes "dispose G blob m w = (r, w')"
  shows "gw_db w' = gw_db w" and "gw_notified w' = gw_notified w" and "gw_panicked w' = gw_panicked w"
  using assms by (auto simp: dispose_def split: option.splits sum.splits prod.splits)

lemma process_one_key_ok:
  assumes "db_inv (gw_db w)" and "gc_ok (gw_db w) g" and p: "process_one_key G g w = (r, g', w')"
  shows "db_inv (gw_db w') \<and> gc_ok (gw_db w') g' \<and> keeps_live (gw_db w) (gw_db w')"
proof -
  obtain r1 g1 w1 where f: "refill g w = (r1, g1, w1)" by (metis prod_cases3)
  note ok = refill_ok [OF assms(1,2) f]
  have pop: "gc_ok db (g1\<lparr>gi_superseded_blobs := butlast (gi_superseded_blobs g1),
      gi_deleted_blob_ids := gi_deleted_blob_ids g1 @ [i]\<rparr>)"
    if "gc_ok db g1" "gi_superseded_blobs g1 \<noteq> []" "last (gi_superseded_blobs g1) = (i, x)" for db i x
  proof -
    have "(i, x) \<in> set (gi_superseded_blobs g1)" using that(2,3) by (metis last_in_set)
    then show ?thesis using that(1) by (auto simp: gc_ok_def dest: in_set_butlastD) force
  qed
  show ?thesis
  proof (cases "gi_superseded_blobs g1 = [] \<or> r1 \<noteq> Inr ()")
    case True
    then show ?thesis using ok p f by (cases r1) (auto simp: process_one_key_def)
  next
    case False
    obtain i b m where l: "last (gi_superseded_blobs g1) = (i, b, m)" by (metis prod_cases3)
    have "gw_db w' = gw_db w1"
      using False p f l by (auto simp: process_one_key_def Let_def dest: dispose_frame split: prod.splits)
    moreover have "g' = g1\<lparr>gi_superseded_blobs := butlast (gi_superseded_blobs g1),
        gi_deleted_blob_ids := gi_deleted_blob_ids g1 @ [i]\<rparr>"
      using False p f l by (auto simp: process_one_key_def Let_def split: prod.splits)
    ultimately show ?thesis using ok pop l False by auto
  qed
qed

lemma GcInternal_step_ok:
  assumes "db_inv (gw_db w)" and "gc_ok (gw_db w) g" and "GcInternal_step G g w = (again, g', w')"
  shows "db_inv (gw_db w') \<and> gc_ok (gw_db w') g' \<and> keeps_live (gw_db w) (gw_db w')"
  using process_one_key_ok [of "w\<lparr>gw_notified := False\<rparr>" g G] assms
  by (auto simp: GcInternal_step_def Let_def split: prod.splits if_splits)

text \<open>
  A run of the collector among other threads: they may do anything to the database that
  keeps its invariant and does not revive a blob the collector is about to delete.
\<close>

inductive gc_run :: "'k gc_params \<Rightarrow> gc_internal \<times> 'k gc_world \<Rightarrow> gc_internal \<times> 'k gc_world \<Rightarrow> bool"
  for G :: "'k gc_params" where
  collect: "GcInternal_step G g w = (again, g', w') \<Longrightarrow> gc_run G (g, w) (g', w')"
| others: "db_inv (gw_db w') \<Longrightarrow> gc_ok (gw_db w') g \<Longrightarrow> gc_run G (g, w) (g, w')"

interpretation gc: transition_system
  "\<lambda>(g, w). g = \<lparr>gi_deleted_blob_ids = [], gi_superseded_blobs = []\<rparr> \<and> db_inv (gw_db w)" "gc_run G"
  "\<lambda>(g, w). db_inv (gw_db w) \<and> gc_ok (gw_db w) g"
proof
  show "case s' of (g, w) \<Rightarrow> db_inv (gw_db w) \<and> gc_ok (gw_db w) g"
    if "case s of (g, w) \<Rightarrow> db_inv (gw_db w) \<and> gc_ok (gw_db w) g" and "gc_run G s s'" for s s'
    using that(2,1) by cases (auto dest: GcInternal_step_ok)
qed (auto simp: gc_ok_def)


section \<open>Progress\<close>

text \<open>The blobs still to be disposed of, and what is known of a run without interference.\<close>

definition gc_todo :: "gc_internal \<Rightarrow> keystore_db \<Rightarrow> blobentry_row list" where
  "gc_todo g db = filter (\<lambda>b. be_id b \<notin> set (gi_deleted_blob_ids g)) (collectable db)"

definition drain_ok :: "(blobentry_row \<Rightarrow> blob_meta_data) \<Rightarrow> gc_internal \<Rightarrow> keystore_db \<Rightarrow> bool" where
  "drain_ok meta g db \<longleftrightarrow>
     db_inv db \<and> (\<forall>i\<in>set (gi_deleted_blob_ids g). dead_id db i) \<and>
     (\<forall>b\<in>set (gc_todo g db). BlobMetaData_load_from_db (be_id b) db = Inr (meta b)) \<and>
     (\<exists>rows. gi_superseded_blobs g = map (\<lambda>b. (be_id b, be_blob b, meta b)) rows \<and>
        distinct rows \<and> set rows \<subseteq> set (gc_todo g db))"

lemma gc_todo_ids:
  assumes "db_inv db" and "b \<in> set (gc_todo g db)" and "c \<in> set (gc_todo g db)"
  shows "be_id b = be_id c \<longleftrightarrow> b = c"
  using blob_ids_distinct [OF assms(1)] assms(2,3)
  by (auto simp: gc_todo_def collectable_def distinct_map dest: inj_onD)

lemma gc_todo_distinct: "db_inv db \<Longrightarrow> distinct (gc_todo g db)"
  using blob_ids_distinct [of db] by (simp add: gc_todo_def collectable_def distinct_map)

text \<open>Handing out the last blob of the batch.\<close>

definition pop :: "gc_internal \<Rightarrow> gc_internal" where
  "pop g = g\<lparr>gi_superseded_blobs := butlast (gi_superseded_blobs g),
             gi_deleted_blob_ids := gi_deleted_blob_ids g @ [fst (last (gi_superseded_blobs g))]\<rparr>"

lemma drain_pop:
  assumes ok: "drain_ok meta g db" and ne: "gi_superseded_blobs g \<noteq> []"
  obtains b where "last (gi_superseded_blobs g) = (be_id b, be_blob b, meta b)" and "drain_ok meta (pop g) db"
    and "mset (gc_todo g db) = add_mset b (mset (gc_todo (pop g) db))"
proof -
  from ok ne obtain rows where rows: "gi_superseded_blobs g = map (\<lambda>b. (be_id b, be_blob b, meta b)) rows"
    "distinct rows" "set rows \<subseteq> set (gc_todo g db)" "rows \<noteq> []" and inv: "db_inv db"
    by (auto simp: drain_ok_def)
  let ?b = "last rows"
  have b: "?b \<in> set (gc_todo g db)" using rows(3,4) by auto
  have todo: "gc_todo (pop g) db = remove1 ?b (gc_todo g db)"
  proof -
    have "gc_todo (pop g) db = filter (\<lambda>c. be_id c \<noteq> be_id ?b) (gc_todo g db)"
      using rows(1,4) by (simp add: gc_todo_def pop_def last_map) (rule filter_cong, auto)
    also have "\<dots> = filter (\<lambda>c. ?b \<noteq> c) (gc_todo g db)"
      by (rule filter_cong) (auto simp: gc_todo_ids [OF inv _ b])
    finally show ?thesis by (simp add: distinct_remove1_removeAll gc_todo_distinct [OF inv] removeAll_filter_not_eq)
  qed
  have eq: "butlast rows @ [?b] = rows" using rows(4) by simp
  have "distinct (butlast rows @ [?b])" using rows(2) by (simp only: eq)
  then have dist: "?b \<notin> set (butlast rows)" by simp
  have sub: "set (butlast rows) \<subseteq> set (gc_todo (pop g) db)"
    using rows(3) dist by (auto simp: todo set_remove1_eq gc_todo_distinct [OF inv] dest: in_set_butlastD)
  have dead: "dead_id db (be_id ?b)"
    using b by (intro collectable_dead [OF inv]) (simp add: gc_todo_def)
  show thesis
  proof (rule that [of ?b])
    show "last (gi_superseded_blobs g) = (be_id ?b, be_blob ?b, meta ?b)" using rows(1,4) by (simp add: last_map)
    show "mset (gc_todo g db) = add_mset ?b (mset (gc_todo (pop g) db))" using b by (simp add: todo mset_remove1)
    show "drain_ok meta (pop g) db"
      using ok rows(1,2,4) sub dead unfolding drain_ok_def
      by (auto simp: pop_def last_map map_butlast distinct_butlast todo notin_set_remove1
          dest: notin_set_remove1 intro!: exI [of _ "butlast rows"])
         (simp add: gc_todo_def)
  qed
qed

text \<open>Loading a batch: everything disposed of so far is deleted, nothing else is.\<close>

lemma collectable_delete:
  assumes "\<forall>i\<in>set ids. dead_id db i"
  shows "collectable (cleanup_unreferenced (fold delete_blob ids db)) = filter (\<lambda>b. be_id b \<notin> set ids) (collectable db)"
proof -
  have "live_blob (fold delete_blob ids db) b \<longleftrightarrow> live_blob db b" for b
    by (rule live_delete_blobs [OF assms])
  then show ?thesis
    by (simp add: collectable_def cleanup_eq delete_blobs_eq delete_where_def) (rule filter_cong, auto)
qed

definition all_live :: "keystore_db \<Rightarrow> bool" where
  "all_live db \<longleftrightarrow> (\<forall>b\<in>set (db_blobentry db). live_blob db b) \<and> (\<forall>k\<in>set (db_keyentry db). ke_state k \<noteq> Unreferenced)"

lemma drain_refill:
  assumes ok: "drain_ok meta g (gw_db w)" and e: "gi_superseded_blobs g = []"
  obtains g' w' where "refill g w = (Inr (), g', w')" and "gi_deleted_blob_ids g' = []"
    and "drain_ok meta g' (gw_db w')" and "gw_km w' = gw_km w" and "gw_notified w' = gw_notified w"
    and "gc_todo g (gw_db w) \<noteq> [] \<Longrightarrow> gi_superseded_blobs g' \<noteq> [] \<and> gc_todo g' (gw_db w') = gc_todo g (gw_db w)"
    and "gc_todo g (gw_db w) = [] \<Longrightarrow> gi_superseded_blobs g' = [] \<and> all_live (gw_db w')"
proof -
  let ?db = "gw_db w" and ?ids = "gi_deleted_blob_ids g"
  let ?tx = "cleanup_unreferenced (fold delete_blob ?ids ?db)"
  from ok have inv: "db_inv ?db" and dead: "\<forall>i\<in>set ?ids. dead_id ?db i"
    and meta: "\<And>b. b \<in> set (gc_todo g ?db) \<Longrightarrow> BlobMetaData_load_from_db (be_id b) ?db = Inr (meta b)"
    by (auto simp: drain_ok_def)
  have todo: "collectable ?tx = gc_todo g ?db" using collectable_delete [OF dead] by (simp add: gc_todo_def)
  have meta': "BlobMetaData_load_from_db (be_id b) ?tx = Inr (meta b)" if "b \<in> set (gc_todo g ?db)" for b
    using meta [OF that] load_metadata_delete [of "be_id b" ?ids ?db] that
    by (simp add: gc_todo_def BlobMetaData_load_from_db_def cleanup_eq)
  define rows where "rows = take MAX_BLOBS (gc_todo g ?db)"
  let ?out = "map (\<lambda>b. (be_id b, be_blob b, meta b)) rows"
  have load: "map_res_list (\<lambda>b. map_res (\<lambda>m. (be_id b, be_blob b, m)) (BlobMetaData_load_from_db (be_id b) ?tx)) rows = Inr ?out"
    by (rule map_res_list_total) (auto simp: rows_def meta' dest: in_set_takeD)
  define db' where "db' = (if rows = [] then ?tx\<lparr>db_blobentry := filter (\<lambda>b. key_blob b \<or> live_blob ?db b) (db_blobentry ?tx)\<rparr> else ?tx)"
  have "handle_next_superseded_blobs ?ids MAX_BLOBS ?db =
      (case Inr ?out of Inl e \<Rightarrow> (Inl e, ?db)
       | Inr [] \<Rightarrow> (Inr [], ?tx\<lparr>db_blobentry := filter (\<lambda>b. key_blob b \<or> live_blob ?db b) (db_blobentry ?tx)\<rparr>)
       | Inr rs \<Rightarrow> (Inr rs, ?tx))"
    using handle_next_eq [OF inv dead, of MAX_BLOBS] load unfolding rows_def gc_todo_def by (simp only:)
  then have h: "handle_next_superseded_blobs ?ids MAX_BLOBS ?db = (Inr ?out, db')"
    by (cases rows) (simp_all add: db'_def)
  have inv': "db_inv db'" using handle_next_superseded_blobs_inv [OF inv, of ?ids MAX_BLOBS] unfolding h by simp
  let ?g = "\<lparr>gi_deleted_blob_ids = [], gi_superseded_blobs = ?out\<rparr>"
  have r0: "rows = [] \<longleftrightarrow> gc_todo g ?db = []" by (simp add: rows_def MAX_BLOBS_def)
  have k: "keeps_live ?db db'" by (rule handle_next_keeps(1) [OF inv dead h])
  have todo': "gc_todo ?g db' = gc_todo g ?db"
  proof (cases "rows = []")
    case True
    then have "collectable ?tx = []" using r0 todo by simp
    then have "collectable db' = []"
      using k True live_delete_blobs [OF dead] by (auto simp: collectable_def filter_empty_conv keeps_live_def db'_def cleanup_eq)
    then show ?thesis using r0 True by (simp add: gc_todo_def)
  next
    case False
    then show ?thesis using todo by (simp add: gc_todo_def db'_def)
  qed
  show thesis
  proof (rule that [of ?g "w\<lparr>gw_db := db'\<rparr>"])
    show "refill g w = (Inr (), ?g, w\<lparr>gw_db := db'\<rparr>)" using e h by (simp add: refill_def)
    have "\<forall>b\<in>set (gc_todo ?g db'). BlobMetaData_load_from_db (be_id b) db' = Inr (meta b)"
      unfolding todo' using meta' r0 by (auto simp: db'_def)
    moreover have "distinct rows" by (simp add: rows_def gc_todo_distinct [OF inv])
    moreover have "set rows \<subseteq> set (gc_todo ?g db')" unfolding todo' unfolding rows_def by (rule set_take_subset)
    ultimately show "drain_ok meta ?g (gw_db (w\<lparr>gw_db := db'\<rparr>))"
      using inv' by (auto simp: drain_ok_def intro!: exI [of _ rows])
    show "gi_superseded_blobs ?g = [] \<and> all_live (gw_db (w\<lparr>gw_db := db'\<rparr>))" if "gc_todo g (gw_db w) = []"
    proof -
      have "rows = []" using that r0 by simp
      moreover have "live_blob db' b" if "b \<in> set (db_blobentry db')" for b
      proof -
        have "\<not> (key_blob b \<and> \<not> live_blob db' b)"
          using todo' \<open>rows = []\<close> r0 that by (auto simp: gc_todo_def collectable_def filter_empty_conv)
        then show ?thesis using that \<open>rows = []\<close> k by (auto simp: db'_def keeps_live_def)
      qed
      ultimately show ?thesis by (simp add: all_live_def db'_def cleanup_eq)
    qed
  qed (use r0 todo' in auto)
qed

definition dispose_row :: "'k gc_params \<Rightarrow> (blobentry_row \<Rightarrow> blob_meta_data) \<Rightarrow> blobentry_row \<Rightarrow> 'k \<Rightarrow> 'k" where
  "dispose_row G meta b k =
     (case BlobMetaData_km_uuid (meta b) of
        None \<Rightarrow> k
      | Some u \<Rightarrow> (case gp_unwrap G (meta b) (be_blob b) of
                      Inl _ \<Rightarrow> k | Inr kb \<Rightarrow> snd (gp_invalidate_key G u kb k)))"

lemma dispose_km: "gw_km (snd (dispose G (be_blob b) (meta b) w)) = dispose_row G meta b (gw_km w)"
  by (simp add: dispose_def dispose_row_def split: option.splits sum.splits prod.splits)

text \<open>One step with work left, and the step that finds none.\<close>

lemma gc_step_works:
  assumes ok: "drain_ok meta g (gw_db w)" and todo: "gc_todo g (gw_db w) \<noteq> []"
  obtains b g' w' where "GcInternal_step G g w = (True, g', w')" and "drain_ok meta g' (gw_db w')"
    and "mset (gc_todo g (gw_db w)) = add_mset b (mset (gc_todo g' (gw_db w')))"
    and "gw_km w' = dispose_row G meta b (gw_km w)"
proof -
  let ?w = "w\<lparr>gw_notified := False\<rparr>"
  obtain g1 w1 where f: "refill g ?w = (Inr (), g1, w1)" and ne: "gi_superseded_blobs g1 \<noteq> []"
    and ok1: "drain_ok meta g1 (gw_db w1)" and todo1: "gc_todo g1 (gw_db w1) = gc_todo g (gw_db w)"
    and w1: "gw_km w1 = gw_km w" "\<not> gw_notified w1"
  proof (cases "gi_superseded_blobs g = []")
    case True
    have ok': "drain_ok meta g (gw_db ?w)" using ok by simp
    obtain g' w' where "refill g ?w = (Inr (), g', w')" "drain_ok meta g' (gw_db w')" "gw_km w' = gw_km ?w"
      "gw_notified w' = gw_notified ?w" "gi_superseded_blobs g' \<noteq> [] \<and> gc_todo g' (gw_db w') = gc_todo g (gw_db ?w)"
      by (rule drain_refill [OF ok' True]) (use todo in auto)
    then show thesis using that [of g' w'] by simp
  next
    case False
    then show thesis using that [of g ?w] ok by (simp add: refill_def)
  qed
  obtain b where b: "last (gi_superseded_blobs g1) = (be_id b, be_blob b, meta b)"
    "drain_ok meta (pop g1) (gw_db w1)" "mset (gc_todo g1 (gw_db w1)) = add_mset b (mset (gc_todo (pop g1) (gw_db w1)))"
    by (rule drain_pop [OF ok1 ne])
  obtain r w2 where d: "dispose G (be_blob b) (meta b) w1 = (r, w2)" by fastforce
  have w2: "gw_db w2 = gw_db w1" "\<not> gw_notified w2" using dispose_frame [OF d] w1 by simp_all
  have "process_one_key G g ?w = (r, pop g1, w2)"
    using f ne b(1) d by (simp add: process_one_key_def pop_def)
  then have step: "GcInternal_step G g w = (True, pop g1, w2\<lparr>gw_notified := True\<rparr>)"
    using w2 by (simp add: GcInternal_step_def Let_def) (simp add: pop_def)
  show thesis
    by (rule that [OF step]) (use b todo1 w2 w1 dispose_km [of G b meta w1] d in auto)
qed

lemma gc_step_idle:
  assumes ok: "drain_ok meta g (gw_db w)" and todo: "gc_todo g (gw_db w) = []"
  obtains w' where "GcInternal_step G g w = (False, \<lparr>gi_deleted_blob_ids = [], gi_superseded_blobs = []\<rparr>, w')"
    and "all_live (gw_db w')" and "gw_km w' = gw_km w"
proof -
  let ?w = "w\<lparr>gw_notified := False\<rparr>"
  have e: "gi_superseded_blobs g = []" using ok todo by (auto simp: drain_ok_def)
  have ok': "drain_ok meta g (gw_db ?w)" using ok by simp
  obtain g' w' where "refill g ?w = (Inr (), g', w')" "gi_deleted_blob_ids g' = []" "gw_km w' = gw_km ?w"
    "gi_superseded_blobs g' = [] \<and> all_live (gw_db w')"
    by (rule drain_refill [OF ok' e]) (use todo in auto)
  then show thesis
    by (intro that [of w']) (simp_all add: GcInternal_step_def process_one_key_def)
qed

definition gc_rounds :: "'k gc_params \<Rightarrow> nat \<Rightarrow> gc_internal \<times> 'k gc_world \<Rightarrow> gc_internal \<times> 'k gc_world" where
  "gc_rounds G n = (\<lambda>(g, w). snd (GcInternal_step G g w)) ^^ n"

lemma gc_rounds_Suc: "GcInternal_step G g w = (b, s) \<Longrightarrow> gc_rounds G (Suc n) (g, w) = gc_rounds G n s"
  by (simp add: gc_rounds_def funpow_swap1)

lemma gc_rounds_drain:
  assumes "drain_ok meta g (gw_db w)"
  shows "\<exists>bs w'. mset bs = mset (gc_todo g (gw_db w)) \<and>
     gc_rounds G (Suc (length bs)) (g, w) = (\<lparr>gi_deleted_blob_ids = [], gi_superseded_blobs = []\<rparr>, w') \<and>
     all_live (gw_db w') \<and> gw_km w' = fold (dispose_row G meta) bs (gw_km w) \<and>
     (\<forall>i \<le> length bs. case gc_rounds G i (g, w) of (gi, wi) \<Rightarrow> fst (GcInternal_step G gi wi) = (i < length bs))"
  using assms
proof (induction "length (gc_todo g (gw_db w))" arbitrary: g w)
  case 0
  then have "gc_todo g (gw_db w) = []" by simp
  from gc_step_idle [OF 0(2) this, of G] obtain w' where
    s: "GcInternal_step G g w = (False, \<lparr>gi_deleted_blob_ids = [], gi_superseded_blobs = []\<rparr>, w')"
    and "all_live (gw_db w')" "gw_km w' = gw_km w" .
  then show ?case
    using gc_rounds_Suc [OF s, of 0] 0 by (intro exI [of _ "[]"] exI [of _ w']) (simp add: gc_rounds_def)
next
  case (Suc n)
  have "gc_todo g (gw_db w) \<noteq> []" using Suc.hyps(2) by auto
  from gc_step_works [OF Suc.prems this, of G] obtain b g1 w1 where
    s: "GcInternal_step G g w = (True, g1, w1)" and ok: "drain_ok meta g1 (gw_db w1)"
    and ms: "mset (gc_todo g (gw_db w)) = add_mset b (mset (gc_todo g1 (gw_db w1)))"
    and km: "gw_km w1 = dispose_row G meta b (gw_km w)" .
  have "n = length (gc_todo g1 (gw_db w1))" using Suc.hyps(2) ms by (metis size_mset size_add_mset nat.inject)
  from Suc.hyps(1) [OF this ok] obtain bs w' where bs: "mset bs = mset (gc_todo g1 (gw_db w1))"
    "gc_rounds G (Suc (length bs)) (g1, w1) = (\<lparr>gi_deleted_blob_ids = [], gi_superseded_blobs = []\<rparr>, w')"
    "all_live (gw_db w')" "gw_km w' = fold (dispose_row G meta) bs (gw_km w1)"
    "\<forall>i \<le> length bs. case gc_rounds G i (g1, w1) of (gi, wi) \<Rightarrow> fst (GcInternal_step G gi wi) = (i < length bs)"
    by blast
  have flags: "case gc_rounds G i (g, w) of (gi, wi) \<Rightarrow> fst (GcInternal_step G gi wi) = (i < length (b # bs))"
    if "i \<le> length (b # bs)" for i
  proof (cases i)
    case 0
    then show ?thesis using s by (simp add: gc_rounds_def)
  next
    case (Suc j)
    then show ?thesis using bs(5) that by (simp add: gc_rounds_Suc [OF s])
  qed
  show ?case
    by (intro exI [of _ "b # bs"] exI [of _ w'])
       (use bs ms km flags gc_rounds_Suc [OF s] in auto)
qed


text \<open>An example: one blob is left over from a deleted key.\<close>

definition ex_gc_db :: keystore_db where
  "ex_gc_db = (init_tables None)\<lparr>db_blobentry :=
     [\<lparr>be_id = 1, be_subcomponent_type = KEY_BLOB, be_keyentryid = 7, be_blob = [1, 2]\<rparr>]\<rparr>"

definition ex_gc_params :: "bytes list gc_params" where
  "ex_gc_params = \<lparr>gp_unwrap = \<lambda>_ b. Inr b, gp_invalidate_key = \<lambda>_ b k. (Inr (), k @ [b])\<rparr>"

definition ex_gc_world :: "bytes list gc_world" where
  "ex_gc_world = \<lparr>gw_db = ex_gc_db, gw_notified = True, gw_panicked = False, gw_km = []\<rparr>"

lemma ex_gc_inv: "db_inv (gw_db ex_gc_world)"
  by (simp add: ex_gc_world_def ex_gc_db_def init_tables_def db_inv_def keys_inv_def blobs_inv_def refs_inv_def key_ids_def)

lemma ex_gc_collectable: "collectable (gw_db ex_gc_world) = db_blobentry ex_gc_db"
  by (simp add: collectable_def ex_gc_world_def ex_gc_db_def init_tables_def key_blob_def live_blob_def)



section \<open>The collector on the worker\<close>

fun is_gc_step :: "'w gc_job \<Rightarrow> bool" where
  "is_gc_step GcStep = True"
| "is_gc_step _ = False"

text \<open>Jobs of others leave the flags of the collector alone.\<close>

definition polite :: "('k gc_world \<Rightarrow> 'k gc_world) \<Rightarrow> bool" where
  "polite f \<longleftrightarrow> (\<forall>w. gw_notified (f w) = gw_notified w \<and> gw_panicked (f w) = gw_panicked w)"

type_synonym 'k gc_state = "('k gc_world gc_job, gc_internal option) async_task \<times> 'k gc_world"

inductive gc_task_step :: "'k gc_params \<Rightarrow> 'k gc_state \<Rightarrow> 'k gc_state \<Rightarrow> bool"
  for G :: "'k gc_params" where
  notify: "gc_task_step G s (Gc_notify_gc s)"
| other_hi: "polite f \<Longrightarrow> gc_task_step G (a, w) (queue_hi None (OtherJob f) a, w)"
| other_lo: "polite f \<Longrightarrow> gc_task_step G (a, w) (queue_lo None (OtherJob f) a, w)"
| work: "gc_task_step G s (worker_step None (gc_exec G) timed_out s)"
| outside: "polite f \<Longrightarrow> gc_task_step G (a, w) (a, f w)"

text \<open>The collector is on its way to the shelf or there; a step is queued exactly when the
  flag says so, and then only one.\<close>

definition shelved :: "('j, gc_internal option) async_task \<Rightarrow> bool" where
  "shelved a \<longleftrightarrow>
     (case at_worker a of Some (sh, _) \<Rightarrow> sh \<noteq> None | None \<Rightarrow> \<exists>g. at_shelf a = Some (Some g))"

definition gc_task_inv :: "'k gc_state \<Rightarrow> bool" where
  "gc_task_inv = (\<lambda>(a, w).
     task_ok a \<and> at_idle_fns a = [] \<and> (GcInit \<in> set (at_hi_prio_req a) \<or> shelved a) \<and>
     (\<forall>j\<in>set (at_hi_prio_req a). j = GcInit \<or> (\<exists>f. j = OtherJob f \<and> polite f)) \<and>
     (\<forall>j\<in>set (at_lo_prio_req a). j = GcStep \<or> (\<exists>f. j = OtherJob f \<and> polite f)) \<and>
     length (filter is_gc_step (at_lo_prio_req a)) = of_bool (gw_notified w) \<and> \<not> gw_panicked w)"

lemma queue_fields:
  "at_hi_prio_req (queue s0 j hi a) = (if hi then at_hi_prio_req a @ [j] else at_hi_prio_req a)"
  "at_lo_prio_req (queue s0 j hi a) = (if hi then at_lo_prio_req a else at_lo_prio_req a @ [j])"
  "at_idle_fns (queue s0 j hi a) = at_idle_fns a"
  by (simp_all add: queue_def spawn_thread_def Let_def)

lemma shelved_queue: "task_ok a \<Longrightarrow> shelved a \<Longrightarrow> shelved (queue None j hi a)"
  by (auto simp: shelved_def queue_def spawn_thread_def Let_def task_ok_def split: option.splits)

lemma gc_inv_queue_other:
  assumes "gc_task_inv (a, w)" and "polite f"
  shows "gc_task_inv (queue None (OtherJob f) hi a, w)"
  using assms by (auto simp: gc_task_inv_def queue_fields task_ok_queue shelved_queue)

lemma gc_inv_queue_step:
  assumes "gc_task_inv (a, w)" and "\<not> gw_notified w"
  shows "gc_task_inv (queue None GcStep False a, w\<lparr>gw_notified := True\<rparr>)"
  using assms by (auto simp: gc_task_inv_def queue_fields task_ok_queue shelved_queue)

lemma refill_frame:
  "refill g w = (r, g', w') \<Longrightarrow> gw_notified w' = gw_notified w \<and> gw_panicked w' = gw_panicked w"
  by (auto simp: refill_def split: if_splits prod.splits sum.splits)

lemma process_one_key_frame:
  assumes "process_one_key G g w = (r, g', w')"
  shows "gw_notified w' = gw_notified w \<and> gw_panicked w' = gw_panicked w"
proof -
  obtain r1 g1 w1 where f: "refill g w = (r1, g1, w1)" by (metis prod_cases3)
  obtain i b m where l: "last (gi_superseded_blobs g1) = (i, b, m)" by (metis prod_cases3)
  obtain r2 w2 where d: "dispose G b m w1 = (r2, w2)" by fastforce
  have "w' = w1 \<or> w' = w2"
    using assms f l d by (auto simp: process_one_key_def Let_def split: sum.splits if_splits)
  then show ?thesis using refill_frame [OF f] dispose_frame(2,3) [OF d] by auto
qed

lemma GcInternal_step_frame:
  assumes "GcInternal_step G g w = (again, g', w')"
  shows "gw_notified w' = again \<and> gw_panicked w' = gw_panicked w"
proof -
  obtain r g1 w1 where p: "process_one_key G g (w\<lparr>gw_notified := False\<rparr>) = (r, g1, w1)" by (metis prod_cases3)
  with process_one_key_frame [OF p] assms show ?thesis
    by (auto simp: GcInternal_step_def Let_def split: if_splits)
qed

text \<open>The worker takes a job: from the high priority queue the initialization or a job of
  others, from the low priority queue a step or a job of others.\<close>

lemma gc_inv_worker_hi:
  assumes inv: "gc_task_inv (a, w)" and wk: "at_worker a = Some (sh, d)" and hi: "at_hi_prio_req a = j # js"
  shows "gc_task_inv (worker_step None (gc_exec G) timed_out (a, w))"
proof -
  have ok: "task_ok (fst (worker_step None (gc_exec G) timed_out (a, w)))"
    by (rule worker_step_ok) (use inv in \<open>simp add: gc_task_inv_def\<close>)
  note step = worker_step_hi [where exec = "gc_exec G", OF wk hi]
  have "j = GcInit \<or> (\<exists>f. j = OtherJob f \<and> polite f)" using inv hi by (simp add: gc_task_inv_def)
  then show ?thesis
  proof
    assume j: "j = GcInit"
    obtain g where e: "gc_exec G j sh w = (Some g, w, [])" by (simp add: j gc_exec_def)
    show ?thesis using inv ok hi unfolding step [OF e] by (simp add: gc_task_inv_def shelved_def)
  next
    assume "\<exists>f. j = OtherJob f \<and> polite f"
    then obtain f where j: "j = OtherJob f" and f: "polite f" by blast
    have e: "gc_exec G j sh w = (sh, f w, [])" by (simp add: j gc_exec_def)
    show ?thesis using inv ok hi wk f j unfolding step [OF e] by (simp add: gc_task_inv_def shelved_def polite_def)
  qed
qed

lemma gc_inv_worker_lo:
  assumes inv: "gc_task_inv (a, w)" and wk: "at_worker a = Some (sh, d)"
    and hi: "at_hi_prio_req a = []" and lo: "at_lo_prio_req a = j # js"
  shows "gc_task_inv (worker_step None (gc_exec G) timed_out (a, w))"
proof -
  have ok: "task_ok (fst (worker_step None (gc_exec G) timed_out (a, w)))"
    by (rule worker_step_ok) (use inv in \<open>simp add: gc_task_inv_def\<close>)
  have run: "at_state a = Running" using inv wk by (simp add: gc_task_inv_def task_ok_def)
  obtain g where g: "sh = Some g" using inv hi wk by (auto simp: gc_task_inv_def shelved_def)
  have "j = GcStep \<or> (\<exists>f. j = OtherJob f \<and> polite f)" using inv lo by (simp add: gc_task_inv_def)
  then show ?thesis
  proof
    assume j: "j = GcStep"
    obtain again g' w' where s: "GcInternal_step G g w = (again, g', w')" by (metis prod_cases3)
    have "worker_step None (gc_exec G) timed_out (a, w) =
        (a\<lparr>at_lo_prio_req := js @ (if again then [GcStep] else []), at_worker := Some (Some g', False)\<rparr>, w')"
      using wk hi lo run
      by (simp add: worker_step_def next_action_def perform_def run_job_def gc_exec_def s j g queue_def)
    moreover have "filter is_gc_step js = []"
      using inv lo j by (cases "gw_notified w") (auto simp: gc_task_inv_def)
    ultimately show ?thesis using ok GcInternal_step_frame [OF s] inv hi lo j
      by (cases again) (simp_all add: gc_task_inv_def shelved_def)
  next
    assume "\<exists>f. j = OtherJob f \<and> polite f"
    then obtain f where j: "j = OtherJob f" and f: "polite f" by blast
    have e: "gc_exec G j sh w = (sh, f w, [])" by (simp add: j gc_exec_def)
    show ?thesis using inv ok hi lo g f j unfolding worker_step_lo [where exec = "gc_exec G", OF wk hi lo e]
      by (simp add: gc_task_inv_def shelved_def polite_def)
  qed
qed

lemma gc_inv_worker_empty:
  assumes inv: "gc_task_inv (a, w)" and wk: "at_worker a = Some (sh, d)"
    and e: "at_hi_prio_req a = []" "at_lo_prio_req a = []"
  shows "gc_task_inv (worker_step None (gc_exec G) timed_out (a, w))"
proof -
  obtain g where g: "sh = Some g" using inv e wk by (auto simp: gc_task_inv_def shelved_def)
  have "task_ok (fst (worker_step None (gc_exec G) timed_out (a, w)))"
    by (rule worker_step_ok) (use inv in \<open>simp add: gc_task_inv_def\<close>)
  then show ?thesis
    using inv wk e
    by (cases d; cases timed_out) (simp_all add: worker_step_def next_action_def perform_def gc_task_inv_def shelved_def g)
qed

lemma gc_inv_worker:
  assumes "gc_task_inv (a, w)"
  shows "gc_task_inv (worker_step None (gc_exec G) timed_out (a, w))"
proof (cases "at_worker a")
  case None
  then show ?thesis using assms by (simp add: worker_step_def)
next
  case (Some p)
  then obtain sh d where wk: "at_worker a = Some (sh, d)" by (cases p) simp
  note cases = gc_inv_worker_hi [OF assms wk] gc_inv_worker_lo [OF assms wk] gc_inv_worker_empty [OF assms wk]
  show ?thesis by (cases "at_hi_prio_req a"; cases "at_lo_prio_req a") (auto intro: cases)
qed

lemma gc_task_step_inv:
  assumes inv: "gc_task_inv s" and step: "gc_task_step G s s'"
  shows "gc_task_inv s'"
  using step
proof cases
  case notify
  then show ?thesis using inv gc_inv_queue_step by (auto simp: Gc_notify_gc_def queue_lo_def split: prod.splits)
next
  case (work timed_out)
  then show ?thesis using gc_inv_worker [of "fst s" "snd s"] inv by simp
next
  case (outside f a w)
  then show ?thesis using inv by (auto simp: gc_task_inv_def polite_def)
qed (use inv in \<open>auto simp: queue_hi_def queue_lo_def intro: gc_inv_queue_other\<close>)

interpretation gc_tasks: transition_system
  "\<lambda>(a, w). a = Gc_new_init_with AsyncTask_new \<and> \<not> gw_notified w \<and> \<not> gw_panicked w" "gc_task_step G" gc_task_inv
proof
  show "gc_task_inv s" if "case s of (a, w) \<Rightarrow> a = Gc_new_init_with AsyncTask_new \<and> \<not> gw_notified w \<and> \<not> gw_panicked w"
    for s :: "'a gc_state"
    using that by (auto simp: gc_task_inv_def Gc_new_init_with_def AsyncTask_new_def queue_hi_def queue_def spawn_thread_def
        task_ok_def)
qed (rule gc_task_step_inv)

text \<open>Notifications of the collector are neither lost nor multiplied.  Whatever is queued on
  the shared worker, a step of the collector never runs before the collector is set up (so it
  never panics), one step is waiting exactly when the flag \<open>notified\<close> is set, and then there
  is a worker to run it.\<close>

theorem gc_notifications:
  assumes "(gc_task_step G)\<^sup>*\<^sup>* (Gc_new_init_with AsyncTask_new, w0) (a, w)"
    and "\<not> gw_notified w0" and "\<not> gw_panicked w0"
  shows "\<not> gw_panicked w \<and> length (filter is_gc_step (at_lo_prio_req a)) = of_bool (gw_notified w) \<and>
    (gw_notified w \<longrightarrow> at_worker a \<noteq> None)"
proof -
  have "gc_task_inv (a, w)" using gc_tasks.invariant_reachable [OF _ assms(1)] assms(2,3) by simp
  then show ?thesis by (auto simp: gc_task_inv_def task_ok_def)
qed

definition ex_quiet_world :: "bytes list gc_world" where
  "ex_quiet_world = \<lparr>gw_db = ex_gc_db, gw_notified = False, gw_panicked = False, gw_km = []\<rparr>"

theorem gc_notifications_witness:
  "\<not> gw_panicked (snd (worker_step None (gc_exec ex_gc_params) False
     (Gc_notify_gc (Gc_new_init_with AsyncTask_new, ex_quiet_world))))"
proof -
  let ?s = "(Gc_new_init_with AsyncTask_new, ex_quiet_world)"
  have "(gc_task_step ex_gc_params)\<^sup>*\<^sup>* ?s (worker_step None (gc_exec ex_gc_params) False (Gc_notify_gc ?s))"
    by (rule rtranclp.rtrancl_into_rtrancl [OF r_into_rtranclp]) (rule gc_task_step.notify, rule gc_task_step.work)
  then have "(gc_task_step ex_gc_params)\<^sup>*\<^sup>* ?s
      (fst (worker_step None (gc_exec ex_gc_params) False (Gc_notify_gc ?s)),
       snd (worker_step None (gc_exec ex_gc_params) False (Gc_notify_gc ?s)))" by simp
  from gc_notifications [OF this] show ?thesis by (simp add: ex_quiet_world_def)
qed

end
