(* ===== verification/Ks_Crypto.thy ===== *)
theory Ks_Crypto
  imports Ks_BootLevel
begin

text \<open>
  The Rust side of the cryptography: the zeroing vector (\<open>src/keystore2/src/crypto/zvec.rs\<close>),
  the wrappers around BoringSSL (\<open>src/keystore2/src/crypto/lib.rs\<close>) and the encryption to a
  public key (\<open>src/keystore2/src/ec_crypto.rs\<close>).

  BoringSSL is the parameter \<open>boringssl\<close>, one field per function the wrappers call; the
  types of EC keys and of points are parameters too.  A random draw is numbered, and a
  function that draws takes the number of its first draw.  What the documentation of
  BoringSSL promises is stated by \<open>random_law\<close>, \<open>gcm_law\<close> and \<open>ecdh_law\<close>.  Memory locking
  (\<open>mlock\<close>) is taken to succeed.  Outside zvec.rs a \<open>ZVec\<close> is the list of bytes it
  dereferences to.
\<close>

section \<open>The zeroing vector\<close>

record zvec =
  zv_elems :: bytes
  zv_len :: nat

definition ZVec_new :: "nat \<Rightarrow> zvec" where
  "ZVec_new sz = \<lparr>zv_elems = replicate sz 0, zv_len = sz\<rparr>"

definition ZVec_reduce_len :: "nat \<Rightarrow> zvec \<Rightarrow> zvec" where
  "ZVec_reduce_len len z = (if len \<le> length (zv_elems z) then z\<lparr>zv_len := len\<rparr> else z)"

text \<open>The slice \<open>elems[0..len]\<close>, which panics when the length is out of range.\<close>

definition ZVec_deref :: "zvec \<Rightarrow> bytes res" where
  "ZVec_deref z = (if zv_len z \<le> length (zv_elems z) then Inr (take (zv_len z) (zv_elems z)) else Inl Panicked)"

text \<open>\<open>clone_from_slice\<close> into the dereferenced slice panics when the lengths differ.\<close>

definition ZVec_clone_from_slice :: "bytes \<Rightarrow> zvec \<Rightarrow> zvec res" where
  "ZVec_clone_from_slice v z =
     and_then (ZVec_deref z) (\<lambda>d.
       if length d = length v then Inr (z\<lparr>zv_elems := v @ drop (zv_len z) (zv_elems z)\<rparr>) else Inl Panicked)"

definition ZVec_try_from_slice :: "bytes \<Rightarrow> zvec res" where
  "ZVec_try_from_slice v =
     (let z = ZVec_new (length v) in if v \<noteq> [] then ZVec_clone_from_slice v z else Inr z)"

text \<open>A vector with spare capacity is filled up with zeros first, so that it does not move.\<close>

definition ZVec_try_from_vec :: "nat \<Rightarrow> bytes \<Rightarrow> zvec" where
  "ZVec_try_from_vec capacity v =
     \<lparr>zv_elems = v @ replicate (capacity - length v) 0, zv_len = length v\<rparr>"

text \<open>The memory when the vector is dropped.\<close>

definition ZVec_drop :: "zvec \<Rightarrow> bytes" where
  "ZVec_drop z = map (\<lambda>_. 0) (zv_elems z)"

inductive zvec_made :: "zvec \<Rightarrow> bool" where
  "zvec_made (ZVec_new n)"
| "ZVec_try_from_slice v = Inr z \<Longrightarrow> zvec_made z"
| "length v \<le> capacity \<Longrightarrow> zvec_made (ZVec_try_from_vec capacity v)"
| "zvec_made z \<Longrightarrow> zvec_made (ZVec_reduce_len n z)"
| "zvec_made z \<Longrightarrow> ZVec_clone_from_slice v z = Inr z' \<Longrightarrow> zvec_made z'"

lemma ZVec_deref_new: "ZVec_deref (ZVec_new n) = Inr (replicate n 0)"
  by (simp add: ZVec_deref_def ZVec_new_def)

lemma ZVec_clone_from_slice_Inr:
  "ZVec_clone_from_slice v z = Inr z' \<longleftrightarrow>
     zv_len z \<le> length (zv_elems z) \<and> length v = zv_len z \<and>
     z' = z\<lparr>zv_elems := v @ drop (zv_len z) (zv_elems z)\<rparr>"
  by (auto simp: ZVec_clone_from_slice_def ZVec_deref_def)

lemma ZVec_try_from_slice_Inr:
  "ZVec_try_from_slice v = Inr \<lparr>zv_elems = v, zv_len = length v\<rparr>"
  by (simp add: ZVec_try_from_slice_def ZVec_clone_from_slice_Inr ZVec_new_def Let_def)

lemma zvec_made_len: "zvec_made z \<Longrightarrow> zv_len z \<le> length (zv_elems z)"
  by (induction rule: zvec_made.induct)
    (auto simp: ZVec_new_def ZVec_try_from_slice_Inr ZVec_try_from_vec_def ZVec_reduce_len_def
      ZVec_clone_from_slice_Inr)

text \<open>C38. Whatever is done to it, a zeroing vector never dereferences outside of its memory: it
  always shows as many bytes as its length says.  A vector made from data shows exactly this
  data, whether it is copied or taken over with its spare capacity; shortening it shows a
  prefix; and when it is dropped all of its memory is zero, the hidden rest included.\<close>

theorem zvec_type:
  assumes "zvec_made z"
  shows "\<exists>d. ZVec_deref z = Inr d \<and> length d = zv_len z \<and>
           (\<forall>n \<le> length d. ZVec_deref (ZVec_reduce_len n z) = Inr (take n d)) \<and>
           and_then (ZVec_try_from_slice d) ZVec_deref = Inr d \<and>
           ZVec_deref (ZVec_try_from_vec capacity d) = Inr d \<and>
           ZVec_drop z = replicate (length (zv_elems z)) 0"
  using zvec_made_len [OF assms]
  by (simp add: ZVec_deref_def ZVec_try_from_slice_Inr ZVec_try_from_vec_def ZVec_reduce_len_def
      ZVec_drop_def map_replicate_const)

theorem zvec_type_witness:
  "ZVec_deref (ZVec_reduce_len 1 (ZVec_try_from_vec 4 [7, 8])) = Inr [7]"
  using zvec_type [OF zvec_made.intros(3) [of "[7, 8]" 4]]
  by (auto simp: ZVec_deref_def ZVec_try_from_vec_def)

section \<open>Wrappers around BoringSSL\<close>

datatype crypto_error =
    DecryptionFailed | EncryptionFailed | InvalidIvLength | InvalidAeadTagLength | InvalidKeyLength
  | InvalidDataLength | InvalidSaltLength | RandomNumberGenerationFailed | HKDFExtractFailed
  | HKDFExpandFailed | ECDHComputeKeyFailed | ECKEYGenerateKeyFailed | ECKEYMarshalPrivateKeyFailed
  | ECKEYParsePrivateKeyFailed | ECPoint2OctFailed | ECOct2PointFailed | ExtractSubjectFailed

text \<open>The message of an error, which is all that is left of it behind \<open>anyhow\<close>.\<close>

fun crypto_err :: "crypto_error \<Rightarrow> err" where
  "crypto_err DecryptionFailed = OtherErr ''Failed to decrypt.''"
| "crypto_err EncryptionFailed = OtherErr ''Failed to encrypt.''"
| "crypto_err InvalidIvLength = OtherErr ''Invalid IV length.''"
| "crypto_err InvalidAeadTagLength = OtherErr ''Invalid AEAD tag length.''"
| "crypto_err InvalidKeyLength = OtherErr ''Invalid key length.''"
| "crypto_err InvalidDataLength = OtherErr ''Invalid data length.''"
| "crypto_err InvalidSaltLength = OtherErr ''Invalid salt length.''"
| "crypto_err RandomNumberGenerationFailed = OtherErr ''Random number generation failed.''"
| "crypto_err HKDFExtractFailed = OtherErr ''Failed to extract.''"
| "crypto_err HKDFExpandFailed = OtherErr ''Failed to expand.''"
| "crypto_err ECDHComputeKeyFailed = OtherErr ''Failed to compute ecdh key.''"
| "crypto_err ECKEYGenerateKeyFailed = OtherErr ''Failed to generate key.''"
| "crypto_err ECKEYMarshalPrivateKeyFailed = OtherErr ''Failed to marshal private key.''"
| "crypto_err ECKEYParsePrivateKeyFailed = OtherErr ''Failed to parse private key.''"
| "crypto_err ECPoint2OctFailed = OtherErr ''Failed to convert point to oct.''"
| "crypto_err ECOct2PointFailed = OtherErr ''Failed to convert oct to point.''"
| "crypto_err ExtractSubjectFailed = OtherErr ''Failed to extract certificate subject.''"

text \<open>
  The functions of BoringSSL.  Random bytes by draw number and size; encryption of data
  with key and IV into ciphertext and tag; decryption of data with key, IV and tag; key
  derivation for a length, a password and a salt; HKDF; and the EC functions.  A function
  that reports failure gives None.
\<close>

record ('e, 'p) boringssl =
  randomBytes :: "nat \<Rightarrow> nat \<Rightarrow> bytes option"
  AES_gcm_encrypt :: "bytes \<Rightarrow> bytes \<Rightarrow> bytes \<Rightarrow> (bytes \<times> bytes) option"
  AES_gcm_decrypt :: "bytes \<Rightarrow> bytes \<Rightarrow> bytes \<Rightarrow> bytes \<Rightarrow> bytes option"
  generateKeyFromPassword :: "nat \<Rightarrow> bytes \<Rightarrow> bytes option \<Rightarrow> bytes"
  HKDFExtract :: "bytes \<Rightarrow> bytes \<Rightarrow> bytes option"
  HKDFExpand :: "nat \<Rightarrow> bytes \<Rightarrow> bytes \<Rightarrow> bytes option"
  ECDHComputeKey :: "'p \<Rightarrow> 'e \<Rightarrow> bytes option"
  ECKEYGenerateKey :: "nat \<Rightarrow> 'e option"
  ECKEYMarshalPrivateKey :: "'e \<Rightarrow> bytes"
  ECKEYParsePrivateKey :: "bytes \<Rightarrow> 'e option"
  EC_KEY_get0_public_key :: "'e \<Rightarrow> 'p"
  ECPOINTPoint2Oct :: "'p \<Rightarrow> bytes"
  ECPOINTOct2Point :: "bytes \<Rightarrow> 'p option"
  extractSubjectFromCertificate :: "bytes \<Rightarrow> nat \<Rightarrow> int \<times> bytes"
  EC_MAX_BYTES :: nat
  EVP_MAX_MD_SIZE :: nat

definition GCM_IV_LENGTH :: nat where "GCM_IV_LENGTH = 12"

definition TAG_LENGTH :: nat where "TAG_LENGTH = 16"

definition AES_128_KEY_LENGTH :: nat where "AES_128_KEY_LENGTH = 16"

definition SALT_LENGTH :: nat where "SALT_LENGTH = 16"

definition LEGACY_IV_LENGTH :: nat where "LEGACY_IV_LENGTH = 16"

lemmas crypto_lengths =
  GCM_IV_LENGTH_def TAG_LENGTH_def AES_128_KEY_LENGTH_def AES_256_KEY_LENGTH_def SALT_LENGTH_def
  LEGACY_IV_LENGTH_def

definition generate_aes256_key :: "('e, 'p) boringssl \<Rightarrow> nat \<Rightarrow> bytes res" where
  "generate_aes256_key L r =
     ok_or (randomBytes L r AES_256_KEY_LENGTH) (crypto_err RandomNumberGenerationFailed)"

definition generate_random_data :: "('e, 'p) boringssl \<Rightarrow> nat \<Rightarrow> nat \<Rightarrow> bytes res" where
  "generate_random_data L r sz = ok_or (randomBytes L r sz) (crypto_err RandomNumberGenerationFailed)"

definition generate_salt :: "('e, 'p) boringssl \<Rightarrow> nat \<Rightarrow> bytes res" where
  "generate_salt L r = generate_random_data L r SALT_LENGTH"

definition key_length_ok :: "nat \<Rightarrow> bool" where
  "key_length_ok n \<longleftrightarrow> n = AES_128_KEY_LENGTH \<or> n = AES_256_KEY_LENGTH"

definition aes_gcm_decrypt :: "('e, 'p) boringssl \<Rightarrow> bytes \<Rightarrow> bytes \<Rightarrow> bytes \<Rightarrow> bytes \<Rightarrow> bytes res" where
  "aes_gcm_decrypt L data iv tag key =
     and_then
       (if length iv = GCM_IV_LENGTH then Inr iv
        else if length iv = LEGACY_IV_LENGTH then Inr (take GCM_IV_LENGTH iv)
        else Inl (crypto_err InvalidIvLength))
       (\<lambda>iv.
          if length tag \<noteq> TAG_LENGTH then Inl (crypto_err InvalidAeadTagLength)
          else if \<not> key_length_ok (length key) then Inl (crypto_err InvalidKeyLength)
          else ok_or (AES_gcm_decrypt L data key iv tag) (crypto_err DecryptionFailed))"

definition aes_gcm_encrypt :: "('e, 'p) boringssl \<Rightarrow> nat \<Rightarrow> bytes \<Rightarrow> bytes \<Rightarrow> (bytes \<times> bytes \<times> bytes) res" where
  "aes_gcm_encrypt L r plaintext key =
     and_then (ok_or (randomBytes L r GCM_IV_LENGTH) (crypto_err RandomNumberGenerationFailed)) (\<lambda>iv.
       if \<not> key_length_ok (length key) then Inl (crypto_err InvalidKeyLength)
       else (case AES_gcm_encrypt L plaintext key iv of
               Some (ciphertext, tag) \<Rightarrow> Inr (ciphertext, iv, tag)
             | None \<Rightarrow> Inl (crypto_err EncryptionFailed)))"

text \<open>A \<open>Password\<close> is the bytes it borrows or owns (\<open>get_key\<close>).\<close>

datatype password = Ref bytes | Owned bytes

fun get_key :: "password \<Rightarrow> bytes" where
  "get_key (Ref b) = b"
| "get_key (Owned z) = z"

definition try_clone :: "password \<Rightarrow> password" where
  "try_clone pw = Owned (get_key pw)"

definition derive_key :: "('e, 'p) boringssl \<Rightarrow> password \<Rightarrow> bytes option \<Rightarrow> nat \<Rightarrow> bytes res" where
  "derive_key L pw salt key_length =
     (if (case salt of Some s \<Rightarrow> length s \<noteq> SALT_LENGTH | None \<Rightarrow> False) then Inl (crypto_err InvalidSaltLength)
      else if \<not> key_length_ok key_length then Inl (crypto_err InvalidKeyLength)
      else Inr (generateKeyFromPassword L key_length (get_key pw) salt))"

definition hkdf_extract :: "('e, 'p) boringssl \<Rightarrow> bytes \<Rightarrow> bytes \<Rightarrow> bytes res" where
  "hkdf_extract L secret salt =
     (case HKDFExtract L secret salt of
        None \<Rightarrow> Inl (crypto_err HKDFExtractFailed)
      | Some buf \<Rightarrow> if length buf > EVP_MAX_MD_SIZE L then Inl (crypto_err HKDFExtractFailed) else Inr buf)"

definition hkdf_expand :: "('e, 'p) boringssl \<Rightarrow> hkdf" where
  "hkdf_expand L out_len prk info = ok_or (HKDFExpand L out_len prk info) (crypto_err HKDFExpandFailed)"

definition ecdh_compute_key :: "('e, 'p) boringssl \<Rightarrow> 'p \<Rightarrow> 'e \<Rightarrow> bytes res" where
  "ecdh_compute_key L pub_key priv_key =
     (case ECDHComputeKey L pub_key priv_key of
        None \<Rightarrow> Inl (crypto_err ECDHComputeKeyFailed)
      | Some buf \<Rightarrow> if length buf > EC_MAX_BYTES L then Inl (crypto_err ECDHComputeKeyFailed) else Inr buf)"

definition ec_key_generate_key :: "('e, 'p) boringssl \<Rightarrow> nat \<Rightarrow> 'e res" where
  "ec_key_generate_key L r = ok_or (ECKEYGenerateKey L r) (crypto_err ECKEYGenerateKeyFailed)"

text \<open>Only serializations of 73 bytes are accepted.\<close>

definition ec_key_marshal_private_key :: "('e, 'p) boringssl \<Rightarrow> 'e \<Rightarrow> bytes res" where
  "ec_key_marshal_private_key L key =
     (let buf = ECKEYMarshalPrivateKey L key
      in if length buf = 73 then Inr buf else Inl (crypto_err ECKEYMarshalPrivateKeyFailed))"

definition ec_key_parse_private_key :: "('e, 'p) boringssl \<Rightarrow> bytes \<Rightarrow> 'e res" where
  "ec_key_parse_private_key L buf = ok_or (ECKEYParsePrivateKey L buf) (crypto_err ECKEYParsePrivateKeyFailed)"

definition ec_point_point_to_oct :: "('e, 'p) boringssl \<Rightarrow> 'p \<Rightarrow> bytes res" where
  "ec_point_point_to_oct L point =
     (let buf = ECPOINTPoint2Oct L point
      in if buf = [] \<or> length buf > 133 then Inl (crypto_err ECPoint2OctFailed) else Inr buf)"

text \<open>The error for bytes that are no point is the one of the opposite conversion.\<close>

definition ec_point_oct_to_point :: "('e, 'p) boringssl \<Rightarrow> bytes \<Rightarrow> 'p res" where
  "ec_point_oct_to_point L buf = ok_or (ECPOINTOct2Point L buf) (crypto_err ECPoint2OctFailed)"

text \<open>
  The subject of a certificate: a first call with 200 bytes, and a second one with the size
  the first one asks for.  Negating the lowest 32 bit number gives it back.
\<close>

definition parse_subject_from_certificate :: "('e, 'p) boringssl \<Rightarrow> bytes \<Rightarrow> bytes res" where
  "parse_subject_from_certificate L cert_buf =
     (let (sz, retval) = extractSubjectFromCertificate L cert_buf 200
      in if sz = 0 then Inl (crypto_err ExtractSubjectFailed)
         else if sz < 0 then
           (if sz \<le> - (2 ^ 31) then Inl (crypto_err ExtractSubjectFailed)
            else (let (sz, retval) = extractSubjectFromCertificate L cert_buf (nat (- sz))
                  in if sz \<le> 0 then Inl (crypto_err ExtractSubjectFailed)
                     else Inr (take (nat sz) retval)))
         else Inr (take (nat sz) retval))"

section \<open>Laws\<close>

definition random_law :: "('e, 'p) boringssl \<Rightarrow> bool" where
  "random_law L \<longleftrightarrow> (\<forall>r n b. randomBytes L r n = Some b \<longrightarrow> length b = n)"

definition gcm_law :: "('e, 'p) boringssl \<Rightarrow> bool" where
  "gcm_law L \<longleftrightarrow>
     (\<forall>p k iv c t. AES_gcm_encrypt L p k iv = Some (c, t) \<longrightarrow>
        length t = TAG_LENGTH \<and> length c = length p \<and> AES_gcm_decrypt L c k iv t = Some p)"

definition ecdh_law :: "('e, 'p) boringssl \<Rightarrow> bool" where
  "ecdh_law L \<longleftrightarrow>
     (\<forall>a b. ECDHComputeKey L (EC_KEY_get0_public_key L a) b = ECDHComputeKey L (EC_KEY_get0_public_key L b) a) \<and>
     (\<forall>p. ECPOINTPoint2Oct L p \<noteq> [] \<longrightarrow> ECPOINTOct2Point L (ECPOINTPoint2Oct L p) = Some p)"

lemma aes_gcm_encrypt_Inr:
  assumes "random_law L" and "gcm_law L" and "aes_gcm_encrypt L r p k = Inr (c, iv, t)"
  shows "length iv = GCM_IV_LENGTH" and "length t = TAG_LENGTH" and "length c = length p"
    and "aes_gcm_decrypt L c iv t k = Inr p"
  using assms
  by (fastforce simp: aes_gcm_encrypt_def aes_gcm_decrypt_def random_law_def gcm_law_def res_iffs
      split: if_splits option.splits)+

section \<open>Encryption to a public key\<close>

definition ECDHPrivateKey_generate :: "('e, 'p) boringssl \<Rightarrow> nat \<Rightarrow> 'e res" where
  "ECDHPrivateKey_generate L r = ec_key_generate_key L r"

definition ECDHPrivateKey_from_private_key :: "('e, 'p) boringssl \<Rightarrow> bytes \<Rightarrow> 'e res" where
  "ECDHPrivateKey_from_private_key L buf = ec_key_parse_private_key L buf"

definition ECDHPrivateKey_private_key :: "('e, 'p) boringssl \<Rightarrow> 'e \<Rightarrow> bytes res" where
  "ECDHPrivateKey_private_key L key = ec_key_marshal_private_key L key"

definition ECDHPrivateKey_public_key :: "('e, 'p) boringssl \<Rightarrow> 'e \<Rightarrow> bytes res" where
  "ECDHPrivateKey_public_key L key = ec_point_point_to_oct L (EC_KEY_get0_public_key L key)"

definition agree_key :: "('e, 'p) boringssl \<Rightarrow> 'e \<Rightarrow> bytes \<Rightarrow> bytes \<Rightarrow> bytes \<Rightarrow> bytes \<Rightarrow> bytes res" where
  "agree_key L key salt other_public_key sender_public_key recipient_public_key =
     and_then (hkdf_extract L sender_public_key salt) (\<lambda>hkdf.
     and_then (hkdf_extract L recipient_public_key hkdf) (\<lambda>hkdf.
     and_then (ec_point_oct_to_point L other_public_key) (\<lambda>other.
     and_then (ecdh_compute_key L other key) (\<lambda>secret.
     and_then (hkdf_extract L secret hkdf) (\<lambda>prk.
       hkdf_expand L AES_256_KEY_LENGTH prk (ascii_bytes ''AES-256-GCM key''))))))"

definition encrypt_message ::
    "('e, 'p) boringssl \<Rightarrow> nat \<Rightarrow> bytes \<Rightarrow> bytes \<Rightarrow> (bytes \<times> bytes \<times> bytes \<times> bytes \<times> bytes) res" where
  "encrypt_message L r recipient_public_key message =
     and_then (ECDHPrivateKey_generate L r) (\<lambda>sender_key.
     and_then (ECDHPrivateKey_public_key L sender_key) (\<lambda>sender_public_key.
     and_then (generate_salt L (r + 1)) (\<lambda>salt.
     and_then (agree_key L sender_key salt recipient_public_key sender_public_key recipient_public_key) (\<lambda>aes_key.
     and_then (aes_gcm_encrypt L (r + 2) message aes_key) (\<lambda>(ciphertext, iv, tag).
       Inr (sender_public_key, salt, iv, ciphertext, tag))))))"

definition decrypt_message ::
    "('e, 'p) boringssl \<Rightarrow> 'e \<Rightarrow> bytes \<Rightarrow> bytes \<Rightarrow> bytes \<Rightarrow> bytes \<Rightarrow> bytes \<Rightarrow> bytes res" where
  "decrypt_message L key sender_public_key salt iv ciphertext tag =
     and_then (ECDHPrivateKey_public_key L key) (\<lambda>recipient_public_key.
     and_then (agree_key L key salt sender_public_key sender_public_key recipient_public_key) (\<lambda>aes_key.
       aes_gcm_decrypt L ciphertext iv tag aes_key))"

lemma oct_to_point_public_key:
  "ecdh_law L \<Longrightarrow> ECDHPrivateKey_public_key L k = Inr pub \<Longrightarrow>
   ec_point_oct_to_point L pub = Inr (EC_KEY_get0_public_key L k)"
  by (auto simp: ECDHPrivateKey_public_key_def ec_point_point_to_oct_def ec_point_oct_to_point_def ecdh_law_def
      Let_def split: if_splits)

lemma ecdh_compute_key_commute:
  "ecdh_law L \<Longrightarrow>
   ecdh_compute_key L (EC_KEY_get0_public_key L a) b = ecdh_compute_key L (EC_KEY_get0_public_key L b) a"
  by (simp add: ecdh_compute_key_def ecdh_law_def)

text \<open>Both parties agree on the key: each combines its own private key with the other's public one.\<close>

lemma agree_key_commute:
  assumes "ecdh_law L"
    and "ECDHPrivateKey_public_key L a = Inr pa" and "ECDHPrivateKey_public_key L b = Inr pb"
  shows "agree_key L a salt pb s t = agree_key L b salt pa s t"
  using oct_to_point_public_key [OF assms(1,2)] oct_to_point_public_key [OF assms(1,3)]
  by (simp add: agree_key_def ecdh_compute_key_commute [OF assms(1), of b a])

text \<open>A message encrypted to the public key of a key pair is decrypted by the private key.\<close>

lemma encrypt_message_decrypts:
  assumes "random_law L" and "gcm_law L" and "ecdh_law L"
    and "ECDHPrivateKey_public_key L key = Inr pub"
    and "encrypt_message L r pub message = Inr (sender, salt, iv, ciphertext, tag)"
  shows "decrypt_message L key sender salt iv ciphertext tag = Inr message"
proof -
  from assms(5) obtain k aes_key where k: "ECDHPrivateKey_public_key L k = Inr sender"
    and agree: "agree_key L k salt pub sender pub = Inr aes_key"
    and enc: "aes_gcm_encrypt L (r + 2) message aes_key = Inr (ciphertext, iv, tag)"
    by (auto simp: encrypt_message_def res_iffs)
  from agree have "agree_key L key salt sender sender pub = Inr aes_key"
    by (simp add: agree_key_commute [OF assms(3,4) k])
  with aes_gcm_encrypt_Inr(4) [OF assms(1,2) enc] show ?thesis
    by (simp add: decrypt_message_def assms(4))
qed

text \<open>A small instance of the library, on which the laws hold.\<close>

definition ex_ssl :: "(u8, u8) boringssl" where
  "ex_ssl =
     \<lparr>randomBytes = (\<lambda>r n. Some (replicate n (of_nat r))),
      AES_gcm_encrypt = (\<lambda>p k iv. Some (map (\<lambda>b. b + hd k) p, replicate 16 (hd iv))),
      AES_gcm_decrypt = (\<lambda>c k iv t. if t = replicate 16 (hd iv) then Some (map (\<lambda>b. b - hd k) c) else None),
      generateKeyFromPassword = (\<lambda>n p s. replicate n (sum_list p + (case s of None \<Rightarrow> 0 | Some s \<Rightarrow> sum_list s))),
      HKDFExtract = (\<lambda>a b. Some [sum_list a + sum_list b]),
      HKDFExpand = (\<lambda>n a b. Some (replicate n (sum_list a + sum_list b))),
      ECDHComputeKey = (\<lambda>p e. Some [p * e]),
      ECKEYGenerateKey = (\<lambda>r. Some (of_nat r + 5)),
      ECKEYMarshalPrivateKey = (\<lambda>e. replicate 73 e),
      ECKEYParsePrivateKey = (\<lambda>b. if length b = 73 then Some (hd b) else None),
      EC_KEY_get0_public_key = (\<lambda>e. 3 * e),
      ECPOINTPoint2Oct = (\<lambda>p. [p]),
      ECPOINTOct2Point = (\<lambda>b. if length b = 1 then Some (hd b) else None),
      extractSubjectFromCertificate = (\<lambda>c n. (1, c)),
      EC_MAX_BYTES = 32, EVP_MAX_MD_SIZE = 64\<rparr>"

lemma ex_ssl_laws: "random_law ex_ssl" "gcm_law ex_ssl" "ecdh_law ex_ssl"
  by (auto simp: random_law_def gcm_law_def ecdh_law_def ex_ssl_def TAG_LENGTH_def comp_def mult.commute mult.left_commute)

end
