(* ===== verification/Ks_LegacyBlob.thy ===== *)
theory Ks_LegacyBlob
  imports Ks_Crypto Ks_KeyParameter
begin

text \<open>
  The file formats of the legacy key store (\<open>src/keystore2/src/legacy_blob.rs\<close>, first half):
  the encoding of aliases as file names, the parser of blob files and the parser of key
  characteristics.  Strings are the sequences of their bytes.  Indexing and slicing panic out of
  range, as in Rust.  Numbers in native byte order are read in little endian order.

  The numbers of the KeyMint tags and of the tag types are declared outside this
  repository; they are the parameter \<open>tag_numbers\<close>.
\<close>

unbundle bit_operations_syntax

abbreviation ord :: "char \<Rightarrow> nat" where
  "ord c \<equiv> of_char c"

section \<open>UTF-8\<close>

text \<open>What may follow a first byte: the number of bytes and the range of the first of them.\<close>

definition utf8_lead :: "nat \<Rightarrow> (nat \<times> nat \<times> nat) option" where
  "utf8_lead b =
     (if 0xC2 \<le> b \<and> b \<le> 0xDF then Some (1, 0x80, 0xBF)
      else if b = 0xE0 then Some (2, 0xA0, 0xBF)
      else if b = 0xED then Some (2, 0x80, 0x9F)
      else if 0xE1 \<le> b \<and> b \<le> 0xEF then Some (2, 0x80, 0xBF)
      else if b = 0xF0 then Some (3, 0x90, 0xBF)
      else if 0xF1 \<le> b \<and> b \<le> 0xF3 then Some (3, 0x80, 0xBF)
      else if b = 0xF4 then Some (3, 0x80, 0x8F)
      else None)"

definition utf8_continues :: "nat \<Rightarrow> nat \<Rightarrow> nat \<Rightarrow> string \<Rightarrow> bool" where
  "utf8_continues n lo hi cs \<longleftrightarrow>
     n \<le> length cs \<and> lo \<le> ord (cs ! 0) \<and> ord (cs ! 0) \<le> hi \<and>
     list_all (\<lambda>c. 0x80 \<le> ord c \<and> ord c \<le> 0xBF) (take n cs)"

function valid_utf8 :: "string \<Rightarrow> bool" where
  "valid_utf8 [] = True"
| "valid_utf8 (c # cs) =
     (if ord c < 0x80 then valid_utf8 cs
      else (case utf8_lead (ord c) of
              None \<Rightarrow> False
            | Some (n, lo, hi) \<Rightarrow> utf8_continues n lo hi cs \<and> valid_utf8 (drop n cs)))"
  by pat_completeness auto

termination
  by (relation "measure length") auto

section \<open>Aliases as file names\<close>

definition encode_byte :: "char \<Rightarrow> string" where
  "encode_byte c =
     (if 0x30 \<le> ord c \<and> ord c \<le> 0x7E then [c]
      else [char_of (0x2B + drop_bit 6 (ord c)), char_of (0x30 + (ord c AND 0x3F))])"

definition encode_alias :: "string \<Rightarrow> string" where
  "encode_alias name = concat (map encode_byte name)"

text \<open>The loop of \<open>decode_alias\<close> with its variable \<open>multi\<close>; it gives the bytes decoded.\<close>

fun decode_bytes :: "string \<Rightarrow> nat option \<Rightarrow> string res" where
  "decode_bytes [] None = Inr []"
| "decode_bytes [] (Some m) = Inl (LegacyBlob BadEncoding)"
| "decode_bytes (c # cs) (Some m) =
     (if 0x30 \<le> ord c \<and> ord c \<le> 0x6F
      then map_res (\<lambda>s. char_of (m OR (ord c - 0x30)) # s) (decode_bytes cs None)
      else Inl (LegacyBlob BadEncoding))"
| "decode_bytes (c # cs) None =
     (if 0x2B \<le> ord c \<and> ord c \<le> 0x2E then decode_bytes cs (Some (push_bit 6 (ord c - 0x2B)))
      else if 0x30 \<le> ord c \<and> ord c \<le> 0x7E then map_res (\<lambda>s. c # s) (decode_bytes cs None)
      else Inl (LegacyBlob BadEncoding))"

definition decode_alias :: "string \<Rightarrow> string res" where
  "decode_alias name =
     and_then (decode_bytes name None) (\<lambda>s. if valid_utf8 s then Inr s else Inl (OtherErr ''FromUtf8Error''))"

lemma ord_less: "ord c < 256"
  using of_char_mod_256 [of c, where ?'a = nat] mod_less_divisor [of 256 "ord c"] by simp

lemma split_byte: "push_bit 6 (drop_bit 6 n) OR (n AND 0x3F) = (n :: nat)"
proof -
  have "n AND 0x3F = take_bit 6 n" by (simp add: take_bit_eq_mask mask_eq_exp_minus_1)
  then have "push_bit 6 (drop_bit 6 n) OR (n AND 0x3F) = push_bit 6 (drop_bit 6 n) OR take_bit 6 n" by simp
  also have "\<dots> = n"
    by (rule bit_eqI) (auto simp: bit_or_iff bit_push_bit_iff bit_drop_bit_eq bit_take_bit_iff)
  finally show ?thesis .
qed

lemma low_bits_less: "n AND 0x3F < (64 :: nat)"
proof -
  have "n AND 0x3F = take_bit 6 n" by (simp add: take_bit_eq_mask mask_eq_exp_minus_1)
  then show ?thesis using take_bit_nat_less_exp [of 6 n] by simp
qed

lemma high_bits_less: "drop_bit 6 (ord c) < 4"
proof -
  have "ord c div 64 < 4" using ord_less [of c] by (simp add: less_mult_imp_div_less)
  then show ?thesis by (simp add: drop_bit_eq_div)
qed

lemma decode_encode_byte: "decode_bytes (encode_byte c @ cs) None = map_res (\<lambda>s. c # s) (decode_bytes cs None)"
proof (cases "0x30 \<le> ord c \<and> ord c \<le> 0x7E")
  case True
  then show ?thesis by (simp add: encode_byte_def)
next
  case False
  have hi: "ord (char_of (0x2B + drop_bit 6 (ord c)) :: char) = 0x2B + drop_bit 6 (ord c)"
    using high_bits_less [of c] by simp
  have lo: "ord (char_of (0x30 + (ord c AND 0x3F)) :: char) = 0x30 + (ord c AND 0x3F)"
    using low_bits_less [of "ord c"] by simp
  show ?thesis
    using False high_bits_less [of c] low_bits_less [of "ord c"]
    by (simp add: encode_byte_def hi lo split_byte del: of_char_of)
qed

lemma decode_encode_bytes: "decode_bytes (encode_alias s) None = Inr s"
  by (induction s) (simp_all add: encode_alias_def decode_encode_byte)

lemma encode_byte_safe: "x \<in> set (encode_byte c) \<Longrightarrow> 0x2B \<le> ord x \<and> ord x \<le> 0x7E \<and> ord x \<noteq> 0x2F"
  using high_bits_less [of c] low_bits_less [of "ord c"]
  by (auto simp: encode_byte_def split: if_splits)

lemma encode_alias_inj: "encode_alias s = encode_alias t \<longleftrightarrow> s = t"
  by (metis decode_encode_bytes sum.inject(2))

lemma encode_alias_append: "encode_alias (s @ t) = encode_alias s @ encode_alias t"
  by (simp add: encode_alias_def)

lemma encode_alias_plain: "list_all (\<lambda>c. 0x30 \<le> ord c \<and> ord c \<le> 0x7E) s \<Longrightarrow> encode_alias s = s"
  by (induction s) (simp_all add: encode_alias_def encode_byte_def)

text \<open>Decoding the file name of an alias gives the alias back, so different aliases have
  different file names; and every character of the file name is a printable one other than the
  slash, so that the name denotes one directory entry.\<close>

theorem alias_roundtrip:
  assumes "valid_utf8 s"
  shows "decode_alias (encode_alias s) = Inr s \<and>
         (\<forall>t. encode_alias t = encode_alias s \<longrightarrow> t = s) \<and>
         (\<forall>c\<in>set (encode_alias s). 0x2B \<le> ord c \<and> ord c \<le> 0x7E \<and> c \<noteq> CHR ''/'')"
proof -
  have "c \<noteq> CHR ''/''" if "ord c \<noteq> 0x2F" for c using that by auto
  moreover have "\<exists>d\<in>set s. c \<in> set (encode_byte d)" if "c \<in> set (encode_alias s)" for c
    using that by (auto simp: encode_alias_def)
  ultimately show ?thesis
    using assms encode_byte_safe
    by (fastforce simp: decode_alias_def decode_encode_bytes encode_alias_inj)
qed

theorem alias_roundtrip_witness:
  "decode_alias (encode_alias [CHR ''a'', CHR '' '', char_of (0xC3 :: nat), char_of (0xA9 :: nat)]) =
     Inr [CHR ''a'', CHR '' '', char_of (0xC3 :: nat), char_of (0xA9 :: nat)]"
  by (rule alias_roundtrip [THEN conjunct1])
    (simp add: utf8_lead_def utf8_continues_def)

section \<open>Blob files\<close>

definition index :: "bytes \<Rightarrow> nat \<Rightarrow> u8 res" where
  "index b i = (if i < length b then Inr (b ! i) else Inl Panicked)"

definition slice :: "nat \<Rightarrow> nat \<Rightarrow> bytes \<Rightarrow> bytes res" where
  "slice i j b = (if i \<le> j \<and> j \<le> length b then Inr (take (j - i) (drop i b)) else Inl Panicked)"

definition from_be_bytes :: "bytes \<Rightarrow> nat" where
  "from_be_bytes b = foldl (\<lambda>n x. 256 * n + unat x) 0 b"

definition SUPPORTED_LEGACY_BLOB_VERSION :: u8 where
  "SUPPORTED_LEGACY_BLOB_VERSION = 3"

definition ENCRYPTED :: u8 where "ENCRYPTED = push_bit 0 1"

definition FALLBACK :: u8 where "FALLBACK = push_bit 1 1"

definition SUPER_ENCRYPTED :: u8 where "SUPER_ENCRYPTED = push_bit 2 1"

definition CRITICAL_TO_DEVICE_ENCRYPTION :: u8 where "CRITICAL_TO_DEVICE_ENCRYPTION = push_bit 3 1"

definition STRONGBOX_FLAG :: u8 where "STRONGBOX_FLAG = push_bit 4 1"

text \<open>The types of blobs.\<close>

definition GENERIC :: u8 where "GENERIC = 1"

definition SUPER_KEY :: u8 where "SUPER_KEY = 2"

definition KM_BLOB :: u8 where "KM_BLOB = 4"

definition KEY_CHARACTERISTICS :: u8 where "KEY_CHARACTERISTICS = 5"

definition KEY_CHARACTERISTICS_CACHE :: u8 where "KEY_CHARACTERISTICS_CACHE = 6"

definition SUPER_KEY_AES256 :: u8 where "SUPER_KEY_AES256 = 7"

lemmas blob_type_defs =
  GENERIC_def SUPER_KEY_def KM_BLOB_def KEY_CHARACTERISTICS_def KEY_CHARACTERISTICS_CACHE_def SUPER_KEY_AES256_def

datatype blob_value =
    Generic bytes
  | Characteristics bytes
  | CharacteristicsCache bytes
  | PwEncrypted (bv_iv: bytes) (bv_tag: bytes) (bv_data: bytes) (bv_salt: bytes) (bv_key_size: nat)
  | Encrypted (bv_iv: bytes) (bv_tag: bytes) (bv_data: bytes)
  | Decrypted bytes

record blob =
  bl_flags :: u8
  bl_value :: blob_value

definition is_fallback :: "blob \<Rightarrow> bool" where
  "is_fallback b \<longleftrightarrow> bl_flags b AND FALLBACK \<noteq> 0"

definition is_encrypted :: "blob \<Rightarrow> bool" where
  "is_encrypted b \<longleftrightarrow> bl_flags b AND (SUPER_ENCRYPTED OR ENCRYPTED) \<noteq> 0"

definition is_critical_to_device_encryption :: "blob \<Rightarrow> bool" where
  "is_critical_to_device_encryption b \<longleftrightarrow> bl_flags b AND CRITICAL_TO_DEVICE_ENCRYPTION \<noteq> 0"

definition is_strongbox :: "blob \<Rightarrow> bool" where
  "is_strongbox b \<longleftrightarrow> bl_flags b AND STRONGBOX_FLAG \<noteq> 0"

definition IV_SIZE :: nat where "IV_SIZE = LEGACY_IV_LENGTH"

definition GCM_TAG_LENGTH :: nat where "GCM_TAG_LENGTH = TAG_LENGTH"

definition SALT_SIZE :: nat where "SALT_SIZE = SALT_LENGTH"

definition COMMON_HEADER_SIZE :: nat where "COMMON_HEADER_SIZE = 4 + IV_SIZE + GCM_TAG_LENGTH + 4"

definition VERSION_OFFSET :: nat where "VERSION_OFFSET = 0"

definition TYPE_OFFSET :: nat where "TYPE_OFFSET = 1"

definition FLAGS_OFFSET :: nat where "FLAGS_OFFSET = 2"

definition SALT_SIZE_OFFSET :: nat where "SALT_SIZE_OFFSET = 3"

definition LENGTH_OFFSET :: nat where "LENGTH_OFFSET = 4 + IV_SIZE + GCM_TAG_LENGTH"

definition IV_OFFSET :: nat where "IV_OFFSET = 4"

definition AEAD_TAG_OFFSET :: nat where "AEAD_TAG_OFFSET = IV_OFFSET + IV_SIZE"

lemmas header_defs =
  IV_SIZE_def GCM_TAG_LENGTH_def SALT_SIZE_def COMMON_HEADER_SIZE_def VERSION_OFFSET_def TYPE_OFFSET_def
  FLAGS_OFFSET_def SALT_SIZE_OFFSET_def LENGTH_OFFSET_def IV_OFFSET_def AEAD_TAG_OFFSET_def crypto_lengths

abbreviation value_corrupted :: err where
  "value_corrupted \<equiv> Ks (Rc RC_VALUE_CORRUPTED)"

text \<open>The value of a blob by its type, its flags and the presence of a salt.\<close>

definition blob_of_type :: "u8 \<Rightarrow> u8 \<Rightarrow> bytes option \<Rightarrow> bytes \<Rightarrow> bytes \<Rightarrow> bytes \<Rightarrow> blob res" where
  "blob_of_type blob_type flags salt iv tag v =
     (let is_enc = flags AND (ENCRYPTED OR SUPER_ENCRYPTED) \<noteq> 0;
          mk = (\<lambda>v. Inr \<lparr>bl_flags = flags, bl_value = v\<rparr>)
      in if blob_type = GENERIC then mk (Generic v)
         else if blob_type = KEY_CHARACTERISTICS then mk (Characteristics v)
         else if blob_type = KEY_CHARACTERISTICS_CACHE then mk (CharacteristicsCache v)
         else if blob_type = SUPER_KEY \<or> blob_type = SUPER_KEY_AES256 then
           (case salt of
              Some s \<Rightarrow>
                mk (PwEncrypted iv tag v s
                      (if blob_type = SUPER_KEY then AES_128_KEY_LENGTH else AES_256_KEY_LENGTH))
            | None \<Rightarrow> Inl value_corrupted)
         else if blob_type = KM_BLOB then mk (if is_enc then Encrypted iv tag v else Decrypted v)
         else Inl value_corrupted)"

definition new_from_stream :: "bytes \<Rightarrow> blob res" where
  "new_from_stream buffer =
     (if length buffer < COMMON_HEADER_SIZE then Inl (LegacyBlob BadLen)
      else
        and_then (index buffer VERSION_OFFSET) (\<lambda>version.
        and_then (index buffer FLAGS_OFFSET) (\<lambda>flags.
        and_then (index buffer TYPE_OFFSET) (\<lambda>blob_type.
        and_then (index buffer SALT_SIZE_OFFSET) (\<lambda>salt_size.
        and_then
          (if unat salt_size = SALT_SIZE
           then map_res Some (slice (length buffer - SALT_SIZE) (length buffer) buffer)
           else Inr None) (\<lambda>salt.
        if version \<noteq> SUPPORTED_LEGACY_BLOB_VERSION then Inl value_corrupted
        else
        and_then (map_res from_be_bytes (slice LENGTH_OFFSET (LENGTH_OFFSET + 4) buffer)) (\<lambda>len.
        if length buffer < COMMON_HEADER_SIZE + len then Inl (LegacyBlob BadLen)
        else
        and_then (slice COMMON_HEADER_SIZE (COMMON_HEADER_SIZE + len) buffer) (\<lambda>v.
        and_then (slice IV_OFFSET (IV_OFFSET + IV_SIZE) buffer) (\<lambda>iv.
        and_then (slice AEAD_TAG_OFFSET (AEAD_TAG_OFFSET + GCM_TAG_LENGTH) buffer) (\<lambda>tag.
          blob_of_type blob_type flags salt iv tag v))))))))))"

definition new_from_stream_decrypt_with ::
    "(bytes \<Rightarrow> bytes \<Rightarrow> bytes \<Rightarrow> bytes option \<Rightarrow> nat option \<Rightarrow> bytes res) \<Rightarrow> bytes \<Rightarrow> blob res" where
  "new_from_stream_decrypt_with decrypt stream =
     and_then (new_from_stream stream) (\<lambda>blob.
       case bl_value blob of
         Encrypted iv tag data \<Rightarrow>
           map_res (\<lambda>v. blob\<lparr>bl_value := Decrypted v\<rparr>) (decrypt data iv tag None None)
       | PwEncrypted iv tag data salt key_size \<Rightarrow>
           map_res (\<lambda>v. blob\<lparr>bl_value := Decrypted v\<rparr>) (decrypt data iv tag (Some salt) (Some key_size))
       | _ \<Rightarrow> Inr blob)"

text \<open>The layout of a file as the comment of \<open>COMMON_HEADER_SIZE\<close> has it.\<close>

definition be32 :: "nat \<Rightarrow> bytes" where
  "be32 n = [of_nat (n div 2 ^ 24), of_nat (n div 2 ^ 16), of_nat (n div 2 ^ 8), of_nat n]"

definition blob_file :: "u8 \<Rightarrow> u8 \<Rightarrow> u8 \<Rightarrow> bytes \<Rightarrow> bytes \<Rightarrow> bytes \<Rightarrow> bytes \<Rightarrow> bytes" where
  "blob_file blob_type flags info iv tag data rest =
     [SUPPORTED_LEGACY_BLOB_VERSION, blob_type, flags, info] @ iv @ tag @ be32 (length data) @ data @ rest"

text \<open>The salt is at the very end of the file.\<close>

definition salt_of :: "u8 \<Rightarrow> bytes \<Rightarrow> bytes option" where
  "salt_of info buffer = (if info = 16 then Some (drop (length buffer - 16) buffer) else None)"

lemma be32_inverse:
  assumes "n < 2 ^ 32"
  shows "from_be_bytes (be32 n) = n"
proof -
  have d: "n div 65536 = n div 256 div 256" "n div 16777216 = n div 256 div 256 div 256"
    by (simp_all flip: div_mult2_eq)
  show ?thesis
    using assms mult_div_mod_eq [of 256 n] mult_div_mod_eq [of 256 "n div 256"]
      mult_div_mod_eq [of 256 "n div 256 div 256"]
    by (simp add: from_be_bytes_def be32_def unat_of_nat d)
qed

lemma from_be_bytes_4:
  "from_be_bytes [a, b, c, d] = 256 * (256 * (256 * unat a + unat b) + unat c) + unat d"
  by (simp add: from_be_bytes_def)

lemma byte_less: "unat (x :: u8) < 256"
  using unsigned_less [of x, where ?'a = nat] by simp

lemma of_nat_byte: "of_nat (256 * n + unat x) = (x :: u8)"
proof -
  have "of_nat 256 = (0 :: u8)" by simp
  then show ?thesis by (simp only: of_nat_add of_nat_mult) simp
qed

lemma div_byte: "(256 * n + unat (x :: u8)) div 256 = n"
  using byte_less [of x] by simp

lemma be32_from_be_bytes: "length b = 4 \<Longrightarrow> be32 (from_be_bytes b) = b"
proof -
  assume "length b = 4"
  then obtain w x y z where b: "b = [w, x, y, z]"
    by (auto simp: numeral_eq_Suc length_Suc_conv)
  have d: "n div 2 ^ 16 = n div 256 div 256" "n div 2 ^ 24 = n div 256 div 256 div 256"
    "n div 2 ^ 8 = n div 256" for n :: nat
    by (simp_all flip: div_mult2_eq)
  show ?thesis
    using of_nat_byte [of 0]
    by (simp only: b from_be_bytes_4 be32_def d div_byte of_nat_byte) simp
qed

lemma from_be_bytes_less: "length b = 4 \<Longrightarrow> from_be_bytes b < 2 ^ 32"
proof -
  assume "length b = 4"
  then obtain w x y z where b: "b = [w, x, y, z]"
    by (auto simp: numeral_eq_Suc length_Suc_conv)
  show ?thesis
    using byte_less [of w] byte_less [of x] byte_less [of y] byte_less [of z]
    by (simp add: b from_be_bytes_4)
qed

text \<open>A buffer that is long enough is a header, the data its length field announces, and a rest.\<close>

lemma blob_file_cases:
  assumes "40 \<le> length buf"
  obtains ty fl info iv tag len rest where
    "buf = [buf ! 0, ty, fl, info] @ iv @ tag @ be32 len @ rest"
    "length iv = 16" "length tag = 16" "len < 2 ^ 32"
proof
  let ?l = "take 4 (drop 36 buf)"
  have "buf = take 4 buf @ drop 4 buf" by simp
  moreover have "drop 4 buf = take 16 (drop 4 buf) @ drop 20 buf"
    using append_take_drop_id [of 16 "drop 4 buf"] by (simp del: append_take_drop_id)
  moreover have "drop 20 buf = take 16 (drop 20 buf) @ drop 36 buf"
    using append_take_drop_id [of 16 "drop 20 buf"] by (simp del: append_take_drop_id)
  moreover have "drop 36 buf = ?l @ drop 40 buf"
    using append_take_drop_id [of 4 "drop 36 buf"] by (simp del: append_take_drop_id)
  ultimately have "buf = take 4 buf @ take 16 (drop 4 buf) @ take 16 (drop 20 buf) @ ?l @ drop 40 buf"
    by metis
  moreover have "take 4 buf = [buf ! 0, buf ! 1, buf ! 2, buf ! 3]"
  proof -
    have "length buf > 0" "length buf > 1" "length buf > 2" "length buf > 3" using assms by linarith+
    then show ?thesis by (simp add: take_Suc_conv_app_nth numeral_eq_Suc)
  qed
  moreover have "be32 (from_be_bytes ?l) = ?l"
    by (rule be32_from_be_bytes) (use assms in simp)
  ultimately show "buf = [buf ! 0, buf ! 1, buf ! 2, buf ! 3] @ take 16 (drop 4 buf) @ take 16 (drop 20 buf) @
      be32 (from_be_bytes ?l) @ drop 40 buf"
    by simp
  show "length (take 16 (drop 4 buf)) = 16" "length (take 16 (drop 20 buf)) = 16"
    using assms by simp_all
  show "from_be_bytes ?l < 2 ^ 32"
    by (rule from_be_bytes_less) (use assms in simp)
qed

lemma new_from_stream_parts:
  assumes "buf = [ver, ty, fl, info] @ iv @ tag @ be32 len @ rest"
    and "length iv = 16" and "length tag = 16" and "len < 2 ^ 32"
  shows "new_from_stream buf =
    (if ver \<noteq> SUPPORTED_LEGACY_BLOB_VERSION then Inl value_corrupted
     else if length rest < len then Inl (LegacyBlob BadLen)
     else blob_of_type ty fl (salt_of info buf) iv tag (take len rest))"
proof -
  have l: "length buf = 40 + length rest" using assms by (simp add: be32_def)
  have n: "buf ! 0 = ver" "buf ! 1 = ty" "buf ! 2 = fl" "buf ! 3 = info" using assms(1) by simp_all
  have d: "take 16 (drop 4 buf) = iv" "take 16 (drop 20 buf) = tag" "take 4 (drop 36 buf) = be32 len"
    "drop 40 buf = rest"
    using assms by (simp_all add: be32_def)
  have salt: "salt_of info buf = (if unat info = 16 then Some (drop (24 + length rest) buf) else None)"
    using l by (simp add: salt_of_def word_unat_eq_iff)
  show ?thesis
    using l assms(4) n(2)
    by (simp add: new_from_stream_def salt index_def slice_def header_defs n d be32_inverse)
qed

text \<open>C19. The parser accepts exactly the files with the documented layout, of the supported version
  and with a type, flags and a salt that make a blob; what it takes as IV, tag and data are the
  parts of the layout, the salt being the last sixteen bytes.  On every input it returns: it
  never indexes outside of the file.\<close>

theorem new_from_stream_equiv:
  "new_from_stream buf \<noteq> Inl Panicked \<and>
   (new_from_stream buf = Inr b \<longleftrightarrow>
     (\<exists>ty fl info iv tag data rest.
        length iv = 16 \<and> length tag = 16 \<and> length data < 2 ^ 32 \<and>
        buf = blob_file ty fl info iv tag data rest \<and>
        blob_of_type ty fl (salt_of info buf) iv tag data = Inr b))"
proof (cases "length buf < 40")
  case True
  then show ?thesis by (auto simp: new_from_stream_def header_defs blob_file_def be32_def)
next
  case False
  then obtain ty fl info iv tag len rest where
    parts: "buf = [buf ! 0, ty, fl, info] @ iv @ tag @ be32 len @ rest"
      "length iv = 16" "length tag = 16" "len < 2 ^ 32"
    using blob_file_cases [of buf] by (metis not_le)
  note eq = new_from_stream_parts [OF parts]
  have np: "blob_of_type t f s i g d \<noteq> Inl Panicked" for t f s i g d
    by (simp add: blob_of_type_def Let_def split: option.splits)
  have layout: "buf = blob_file ty fl info iv tag (take len rest) (drop len rest)"
    if "buf ! 0 = SUPPORTED_LEGACY_BLOB_VERSION" "len \<le> length rest"
    using parts(1) that by (simp add: blob_file_def)
  have conv: "new_from_stream buf = blob_of_type ty fl (salt_of info buf) iv tag data"
    if "length iv = 16" "length tag = 16" "length data < 2 ^ 32" "buf = blob_file ty fl info iv tag data rest"
    for ty fl info iv tag data rest
    using new_from_stream_parts [of buf SUPPORTED_LEGACY_BLOB_VERSION ty fl info iv tag "length data" "data @ rest"] that
    by (simp add: blob_file_def)
  show ?thesis
  proof (intro conjI iffI)
    show "new_from_stream buf \<noteq> Inl Panicked" using np by (simp add: eq)
  next
    assume ok: "new_from_stream buf = Inr b"
    then have v: "buf ! 0 = SUPPORTED_LEGACY_BLOB_VERSION" and n: "len \<le> length rest"
      and t: "blob_of_type ty fl (salt_of info buf) iv tag (take len rest) = Inr b"
      by (simp_all add: eq split: if_splits)
    have "length (take len rest) < 2 ^ 32" using n parts(4) by simp
    with parts(2,3) layout [OF v n] t show "\<exists>ty fl info iv tag data rest.
        length iv = 16 \<and> length tag = 16 \<and> length data < 2 ^ 32 \<and>
        buf = blob_file ty fl info iv tag data rest \<and>
        blob_of_type ty fl (salt_of info buf) iv tag data = Inr b"
      by blast
  next
    assume "\<exists>ty fl info iv tag data rest.
        length iv = 16 \<and> length tag = 16 \<and> length data < 2 ^ 32 \<and>
        buf = blob_file ty fl info iv tag data rest \<and>
        blob_of_type ty fl (salt_of info buf) iv tag data = Inr b"
    then show "new_from_stream buf = Inr b" using conv by auto
  qed
qed

section \<open>Key characteristics\<close>

definition from_le_bytes :: "bytes \<Rightarrow> nat" where
  "from_le_bytes b = foldr (\<lambda>x n. unat x + 256 * n) b 0"

text \<open>Reading from a slice: the bytes read and the rest, or the error of \<open>read_exact\<close>.\<close>

definition read_exact :: "nat \<Rightarrow> bytes \<Rightarrow> (bytes \<times> bytes) res" where
  "read_exact n stream = (if n \<le> length stream then Inr (take n stream, drop n stream) else Inl IoError)"

definition read_bool :: "bytes \<Rightarrow> (bool \<times> bytes) res" where
  "read_bool stream = map_res (\<lambda>(b, rest). (hd b \<noteq> 0, rest)) (read_exact 1 stream)"

definition read_ne_u32 :: "bytes \<Rightarrow> (nat \<times> bytes) res" where
  "read_ne_u32 stream = map_res (\<lambda>(b, rest). (from_le_bytes b, rest)) (read_exact 4 stream)"

definition read_ne_i32 :: "bytes \<Rightarrow> (i32 \<times> bytes) res" where
  "read_ne_i32 stream = map_res (\<lambda>(b, rest). (of_nat (from_le_bytes b), rest)) (read_exact 4 stream)"

definition read_ne_i64 :: "bytes \<Rightarrow> (i64 \<times> bytes) res" where
  "read_ne_i64 stream = map_res (\<lambda>(b, rest). (of_nat (from_le_bytes b), rest)) (read_exact 8 stream)"

text \<open>\<open>stream.get(i..j)\<close>\<close>

definition get_slice :: "nat \<Rightarrow> nat \<Rightarrow> bytes \<Rightarrow> bytes option" where
  "get_slice i j b = (if i \<le> j \<and> j \<le> length b then Some (take (j - i) (drop i b)) else None)"

record tag_numbers =
  tn_tag :: "i32 \<Rightarrow> tag"
  TT_INVALID :: i32
  TT_ENUM :: i32
  TT_ENUM_REP :: i32
  TT_UINT :: i32
  TT_UINT_REP :: i32
  TT_ULONG :: i32
  TT_DATE :: i32
  TT_BOOL :: i32
  TT_BIGNUM :: i32
  TT_BYTES :: i32
  TT_ULONG_REP :: i32

definition tag_type :: "i32 \<Rightarrow> i32" where
  "tag_type t = t AND 0xFF000000"

definition ok_value :: "'e + 'a \<Rightarrow> 'a option" where
  "ok_value r = (case r of Inr v \<Rightarrow> Some v | Inl _ \<Rightarrow> None)"

text \<open>
  One round of the loop: the parameter, if it is one, and the rest of the elements.  Errors
  of reading end the parser; a parameter that cannot be made from the payload is left out.
\<close>

definition read_element ::
    "tag_numbers \<Rightarrow> bytes \<Rightarrow> bytes \<Rightarrow> (key_parameter_value option \<times> bytes) res" where
  "read_element N indirect_buffer stream =
     and_then (read_ne_i32 stream) (\<lambda>(t, stream).
       let tag = tn_tag N t; ty = tag_type t
       in if ty \<in> {TT_ENUM N, TT_ENUM_REP N, TT_UINT N, TT_UINT_REP N} then
            map_res (\<lambda>(v, stream). (ok_value (new_from_tag_primitive_pair tag (PrimI32 v)), stream))
              (read_ne_i32 stream)
          else if ty \<in> {TT_ULONG N, TT_ULONG_REP N, TT_DATE N} then
            map_res (\<lambda>(v, stream). (ok_value (new_from_tag_primitive_pair tag (PrimI64 v)), stream))
              (read_ne_i64 stream)
          else if ty = TT_BOOL N then
            map_res (\<lambda>(v, stream).
                (if v then ok_value (new_from_tag_primitive_pair tag (PrimI32 1)) else None, stream))
              (read_bool stream)
          else if ty \<in> {TT_BYTES N, TT_BIGNUM N} then
            and_then (read_ne_u32 stream) (\<lambda>(blob_size, stream).
            and_then (read_ne_u32 stream) (\<lambda>(indirect_offset, stream).
            and_then (ok_or (get_slice indirect_offset (indirect_offset + blob_size) indirect_buffer)
                       (OtherErr ''While reading blob value.'')) (\<lambda>b.
              Inr (ok_value (new_from_tag_primitive_pair tag (PrimVec b)), stream))))
          else if ty = TT_INVALID N then Inr (None, stream)
          else Inl value_corrupted)"

fun read_elements :: "tag_numbers \<Rightarrow> bytes \<Rightarrow> nat \<Rightarrow> bytes \<Rightarrow> key_parameter_value list res" where
  "read_elements N indirect_buffer 0 stream = Inr []"
| "read_elements N indirect_buffer (Suc n) stream =
     and_then (read_element N indirect_buffer stream) (\<lambda>(p, stream).
       map_res (\<lambda>ps. (case p of Some v \<Rightarrow> [v] | None \<Rightarrow> []) @ ps) (read_elements N indirect_buffer n stream))"

definition read_key_parameters :: "tag_numbers \<Rightarrow> bytes \<Rightarrow> (key_parameter_value list \<times> bytes) res" where
  "read_key_parameters N stream =
     and_then (read_ne_u32 stream) (\<lambda>(indirect_size, stream).
     and_then (ok_or (get_slice 0 indirect_size stream) value_corrupted) (\<lambda>indirect_buffer.
     and_then (slice indirect_size (length stream) stream) (\<lambda>stream.
     and_then (read_ne_u32 stream) (\<lambda>(element_count, stream).
     and_then (read_ne_u32 stream) (\<lambda>(element_size, stream).
     and_then (ok_or (get_slice 0 element_size stream) value_corrupted) (\<lambda>element_stream.
     and_then (slice element_size (length stream) stream) (\<lambda>stream.
       map_res (\<lambda>params. (params, stream)) (read_elements N indirect_buffer element_count element_stream))))))))"

subsection \<open>The documented format\<close>

text \<open>
  The lists that the comment of \<open>read_key_parameters\<close> describes: elements with a tag and a
  payload, where the payload of a byte string is its length and its offset in the indirect
  section.
\<close>

fun to_le :: "nat \<Rightarrow> nat \<Rightarrow> bytes" where
  "to_le 0 n = []"
| "to_le (Suc k) n = of_nat n # to_le k (n div 256)"

datatype element =
    IntElement i32 i32
  | LongElement i32 i64
  | BoolElement i32 bool
  | BytesElement i32 bytes
  | InvalidElement i32

fun element_type_ok :: "tag_numbers \<Rightarrow> element \<Rightarrow> bool" where
  "element_type_ok N (IntElement t v) \<longleftrightarrow> tag_type t \<in> {TT_ENUM N, TT_ENUM_REP N, TT_UINT N, TT_UINT_REP N}"
| "element_type_ok N (LongElement t v) \<longleftrightarrow> tag_type t \<in> {TT_ULONG N, TT_ULONG_REP N, TT_DATE N}"
| "element_type_ok N (BoolElement t v) \<longleftrightarrow> tag_type t = TT_BOOL N"
| "element_type_ok N (BytesElement t v) \<longleftrightarrow> tag_type t \<in> {TT_BYTES N, TT_BIGNUM N}"
| "element_type_ok N (InvalidElement t) \<longleftrightarrow> tag_type t = TT_INVALID N"

fun element_value :: "tag_numbers \<Rightarrow> element \<Rightarrow> key_parameter_value option" where
  "element_value N (IntElement t v) = ok_value (new_from_tag_primitive_pair (tn_tag N t) (PrimI32 v))"
| "element_value N (LongElement t v) = ok_value (new_from_tag_primitive_pair (tn_tag N t) (PrimI64 v))"
| "element_value N (BoolElement t v) =
     (if v then ok_value (new_from_tag_primitive_pair (tn_tag N t) (PrimI32 1)) else None)"
| "element_value N (BytesElement t v) = ok_value (new_from_tag_primitive_pair (tn_tag N t) (PrimVec v))"
| "element_value N (InvalidElement t) = None"

fun element_bytes :: "element \<Rightarrow> bytes" where
  "element_bytes (BytesElement t v) = v"
| "element_bytes _ = []"

fun write_element :: "nat \<Rightarrow> element \<Rightarrow> bytes" where
  "write_element offset (IntElement t v) = to_le 4 (unat t) @ to_le 4 (unat v)"
| "write_element offset (LongElement t v) = to_le 4 (unat t) @ to_le 8 (unat v)"
| "write_element offset (BoolElement t v) = to_le 4 (unat t) @ [if v then 1 else 0]"
| "write_element offset (BytesElement t v) = to_le 4 (unat t) @ to_le 4 (length v) @ to_le 4 offset"
| "write_element offset (InvalidElement t) = to_le 4 (unat t)"

fun write_elements :: "nat \<Rightarrow> element list \<Rightarrow> bytes" where
  "write_elements offset [] = []"
| "write_elements offset (e # es) =
     write_element offset e @ write_elements (offset + length (element_bytes e)) es"

definition indirect_section :: "element list \<Rightarrow> bytes" where
  "indirect_section es = concat (map element_bytes es)"

definition write_key_parameters :: "element list \<Rightarrow> bytes" where
  "write_key_parameters es =
     to_le 4 (length (indirect_section es)) @ indirect_section es @
     to_le 4 (length es) @ to_le 4 (length (write_elements 0 es)) @ write_elements 0 es"

definition tag_types_distinct :: "tag_numbers \<Rightarrow> bool" where
  "tag_types_distinct N \<longleftrightarrow>
     distinct [TT_INVALID N, TT_ENUM N, TT_ENUM_REP N, TT_UINT N, TT_UINT_REP N, TT_ULONG N, TT_DATE N,
               TT_BOOL N, TT_BIGNUM N, TT_BYTES N, TT_ULONG_REP N]"

lemma length_to_le [simp]: "length (to_le k n) = k"
  by (induction k arbitrary: n) simp_all

lemma from_le_bytes_Cons: "from_le_bytes (x # b) = unat x + 256 * from_le_bytes b"
  by (simp add: from_le_bytes_def)

lemma from_le_to_le: "n < 256 ^ k \<Longrightarrow> from_le_bytes (to_le k n) = n"
proof (induction k arbitrary: n)
  case 0
  then show ?case by (simp add: from_le_bytes_def)
next
  case (Suc k)
  then have "n div 256 < 256 ^ k" by (simp add: less_mult_imp_div_less mult.commute)
  with Suc show ?case by (simp add: from_le_bytes_Cons unat_of_nat)
qed

lemma read_exact_append: "length b = n \<Longrightarrow> read_exact n (b @ rest) = Inr (b, rest)"
  by (simp add: read_exact_def)

lemma word32_less: "unat (v :: i32) < 2 ^ 32"
  using unsigned_less [of v, where ?'a = nat] by simp

lemma word64_less: "unat (v :: i64) < 2 ^ 64"
  using unsigned_less [of v, where ?'a = nat] by simp

lemma read_ne_append [simp]:
  "n < 2 ^ 32 \<Longrightarrow> read_ne_u32 (to_le 4 n @ rest) = Inr (n, rest)"
  "read_ne_i32 (to_le 4 (unat v) @ rest) = Inr (v, rest)"
  "read_ne_i64 (to_le 8 (unat w) @ rest) = Inr (w, rest)"
  "read_bool ((if b then 1 else 0) # rest) = Inr (b, rest)"
  using word32_less [of v] word64_less [of w]
  by (simp_all add: read_ne_u32_def read_ne_i32_def read_ne_i64_def read_bool_def read_exact_append from_le_to_le
      read_exact_def)

lemma get_slice_middle: "get_slice (length a) (length a + length b) (a @ b @ c) = Some b"
  by (simp add: get_slice_def)

lemma tag_classes:
  assumes "tag_types_distinct N"
  shows "x \<in> {TT_ULONG N, TT_ULONG_REP N, TT_DATE N} \<Longrightarrow>
           x \<notin> {TT_ENUM N, TT_ENUM_REP N, TT_UINT N, TT_UINT_REP N}"
    and "TT_BOOL N \<notin> {TT_ENUM N, TT_ENUM_REP N, TT_UINT N, TT_UINT_REP N}"
    and "TT_BOOL N \<notin> {TT_ULONG N, TT_ULONG_REP N, TT_DATE N}"
    and "x \<in> {TT_BYTES N, TT_BIGNUM N} \<Longrightarrow>
           x \<notin> {TT_ENUM N, TT_ENUM_REP N, TT_UINT N, TT_UINT_REP N} \<and>
           x \<notin> {TT_ULONG N, TT_ULONG_REP N, TT_DATE N} \<and> x \<noteq> TT_BOOL N"
    and "TT_INVALID N \<notin> {TT_ENUM N, TT_ENUM_REP N, TT_UINT N, TT_UINT_REP N}"
    and "TT_INVALID N \<notin> {TT_ULONG N, TT_ULONG_REP N, TT_DATE N}"
    and "TT_INVALID N \<noteq> TT_BOOL N" and "TT_INVALID N \<notin> {TT_BYTES N, TT_BIGNUM N}"
  using assms unfolding tag_types_distinct_def by auto

lemmas read_write_simps =
  read_element_def write_element.simps element_type_ok.simps element_value.simps element_bytes.simps
  append.assoc append_Cons append_Nil read_ne_append and_then_simps map_res_simps ok_or_simps split_conv Let_def
  if_True if_False simp_thms

lemma read_element_write:
  assumes "tag_types_distinct N" and "element_type_ok N e"
    and "length before < 2 ^ 32" and "length (element_bytes e) < 2 ^ 32"
  shows "read_element N (before @ element_bytes e @ after) (write_element (length before) e @ rest) =
         Inr (element_value N e, rest)"
proof (cases e)
  case (IntElement t v)
  with assms(2) show ?thesis by (simp only: read_write_simps)
next
  case (LongElement t v)
  with assms(2) have "tag_type t \<in> {TT_ULONG N, TT_ULONG_REP N, TT_DATE N}" by simp
  with tag_classes(1) [OF assms(1) this] LongElement show ?thesis
    by (simp only: read_write_simps)
next
  case (BoolElement t v)
  with assms(2) have "tag_type t = TT_BOOL N" by simp
  with tag_classes(2,3) [OF assms(1)] BoolElement show ?thesis
    by (simp only: read_write_simps)
next
  case (BytesElement t v)
  with assms(2) have "tag_type t \<in> {TT_BYTES N, TT_BIGNUM N}" by simp
  with tag_classes(4) [OF assms(1) this] BytesElement assms(3,4) get_slice_middle [of before v "after"] show ?thesis
    by (simp only: read_write_simps)
next
  case (InvalidElement t)
  with assms(2) have "tag_type t = TT_INVALID N" by simp
  with tag_classes(5-8) [OF assms(1)] InvalidElement show ?thesis
    by (simp only: read_write_simps)
qed

lemma read_elements_write:
  assumes "tag_types_distinct N" and "list_all (element_type_ok N) es"
    and "length before + length (indirect_section es) < 2 ^ 32"
  shows "read_elements N (before @ indirect_section es @ after) (length es)
           (write_elements (length before) es @ rest) =
         Inr (List.map_filter (element_value N) es)"
  using assms(2,3)
proof (induction es arbitrary: before)
  case Nil
  then show ?case by (simp add: map_filter_simps)
next
  case (Cons e es)
  have split: "indirect_section (e # es) = element_bytes e @ indirect_section es"
    by (simp add: indirect_section_def)
  have "read_element N (before @ element_bytes e @ (indirect_section es @ after))
      (write_element (length before) e @ write_elements (length before + length (element_bytes e)) es @ rest) =
      Inr (element_value N e, write_elements (length before + length (element_bytes e)) es @ rest)"
    using Cons.prems assms(1) by (intro read_element_write) (simp_all add: split)
  moreover have "read_elements N ((before @ element_bytes e) @ indirect_section es @ after) (length es)
      (write_elements (length (before @ element_bytes e)) es @ rest) = Inr (List.map_filter (element_value N) es)"
    using Cons.prems by (intro Cons.IH) (simp_all add: split)
  ultimately show ?case
    by (simp add: split map_filter_simps split: option.splits)
qed

text \<open>A list of key parameters written in the documented format is read back: the parser
  gives the values of the elements in their order, without those that are no parameters, and
  leaves exactly the bytes after the list.\<close>

theorem read_key_parameters_roundtrip:
  assumes "tag_types_distinct N" and "list_all (element_type_ok N) es"
    and "length (indirect_section es) < 2 ^ 32" and "length (write_elements 0 es) < 2 ^ 32"
    and "length es < 2 ^ 32"
  shows "read_key_parameters N (write_key_parameters es @ rest) =
         Inr (List.map_filter (element_value N) es, rest)"
  using assms read_elements_write [of N es "[]" "[]" "[]"]
  by (simp add: read_key_parameters_def write_key_parameters_def get_slice_def slice_def)

definition ex_tag_numbers :: tag_numbers where
  "ex_tag_numbers =
     \<lparr>tn_tag = (\<lambda>t. if t = 0x20000001 then T_PURPOSE else if t = 0x90000258 then T_ROOT_OF_TRUST else T_other t),
      TT_INVALID = 0, TT_ENUM = 0x10000000, TT_ENUM_REP = 0x20000000, TT_UINT = 0x30000000,
      TT_UINT_REP = 0x40000000, TT_ULONG = 0x50000000, TT_DATE = 0x60000000, TT_BOOL = 0x70000000,
      TT_BIGNUM = 0x80000000, TT_BYTES = 0x90000000, TT_ULONG_REP = 0xA0000000\<rparr>"

theorem read_key_parameters_roundtrip_witness:
  "read_key_parameters ex_tag_numbers
     (write_key_parameters [IntElement 0x20000001 2, BytesElement 0x90000258 [1, 2]] @ [9]) =
   Inr ([KpKeyPurpose 2, KpRootOfTrust [1, 2]], [9])"
proof -
  let ?es = "[IntElement 0x20000001 2, BytesElement 0x90000258 [1, 2]]"
  have "tag_types_distinct ex_tag_numbers" by (simp add: tag_types_distinct_def ex_tag_numbers_def)
  moreover have "list_all (element_type_ok ex_tag_numbers) ?es"
    by (simp add: ex_tag_numbers_def tag_type_def)
  ultimately have "read_key_parameters ex_tag_numbers (write_key_parameters ?es @ [9]) =
      Inr (List.map_filter (element_value ex_tag_numbers) ?es, [9])"
    by (rule read_key_parameters_roundtrip) (simp_all add: indirect_section_def)
  moreover have "List.map_filter (element_value ex_tag_numbers) ?es = [KpKeyPurpose 2, KpRootOfTrust [1, 2]]"
    by (simp add: map_filter_simps ex_tag_numbers_def ok_value_def Primitive_try_into_i32_def Primitive_try_into_vec_def)
  ultimately show ?thesis by simp
qed

text \<open>The parser never panics: it checks the sizes before it slices.\<close>

lemma read_elements_no_panic: "read_elements N b n s \<noteq> Inl Panicked"
proof (induction n arbitrary: s)
  case 0
  then show ?case by simp
next
  case (Suc n)
  have "read_element N b s \<noteq> Inl Panicked"
    by (auto simp: read_element_def read_ne_i32_def read_ne_u32_def read_ne_i64_def read_bool_def read_exact_def
        Let_def res_errors split: if_splits)
  with Suc show ?case by (auto simp: res_errors)
qed

lemma read_key_parameters_no_panic: "read_key_parameters N s \<noteq> Inl Panicked"
  using read_elements_no_panic
  by (auto simp: read_key_parameters_def read_ne_u32_def read_exact_def get_slice_def slice_def res_errors
      split: if_splits)

end
