(* ===== verification/Ks_LegacyFiles.thy ===== *)
theory Ks_LegacyFiles
  imports Ks_LegacyBlob Ks_Stateful Ks_Types "HOL-Library.Char_ord" "HOL-Library.List_Lexorder"
begin

text \<open>
  The directory of the legacy key store (\<open>src/keystore2/src/legacy_blob.rs\<close>, second half):
  \<open>LegacyBlobLoader\<close> with the names of its files, the listings, the loading and the
  removal of entries.

  The file system below the root path is two levels of association lists in directory order:
  the directories and their files.  \<open>lf_fault\<close> says which operations fail with an error other than
  \<open>NotFound\<close>; operations that are interrupted are repeated by the code, so only their
  last outcome counts.  Parameters: the Android user of a uid (\<open>multiuser_get_user_id\<close> of
  libcutils), the numbers of the KeyMint tags and the security levels.
\<close>

section \<open>The file system\<close>

datatype fs_op = OpOpen | OpStat | OpRemove | OpReadDir | OpRemoveDir

datatype io_error_kind = NotFound | OtherKind

type_synonym 'a io = "io_error_kind + 'a"

record legacy_fs =
  lf_dirs :: "(string \<times> (string \<times> bytes) list) list"
  lf_fault :: "fs_op \<Rightarrow> string \<Rightarrow> string \<Rightarrow> bool"

type_synonym path = "string \<times> string"

definition fs_file :: "legacy_fs \<Rightarrow> path \<Rightarrow> bytes option" where
  "fs_file fs = (\<lambda>(d, f). Option.bind (map_of (lf_dirs fs) d) (\<lambda>files. map_of files f))"

definition fs_open :: "path \<Rightarrow> legacy_fs \<Rightarrow> bytes io" where
  "fs_open p fs =
     (if lf_fault fs OpOpen (fst p) (snd p) then Inl OtherKind else ok_or (fs_file fs p) NotFound)"

definition fs_is_file :: "path \<Rightarrow> legacy_fs \<Rightarrow> bool" where
  "fs_is_file p fs \<longleftrightarrow> \<not> lf_fault fs OpStat (fst p) (snd p) \<and> fs_file fs p \<noteq> None"

definition fs_is_dir :: "string \<Rightarrow> legacy_fs \<Rightarrow> bool" where
  "fs_is_dir d fs \<longleftrightarrow> \<not> lf_fault fs OpStat d [] \<and> map_of (lf_dirs fs) d \<noteq> None"

definition fs_read_dir :: "string \<Rightarrow> legacy_fs \<Rightarrow> string list io" where
  "fs_read_dir d fs =
     (if lf_fault fs OpReadDir d [] then Inl OtherKind
      else map_res (map fst) (ok_or (map_of (lf_dirs fs) d) NotFound))"

definition fs_read_root :: "legacy_fs \<Rightarrow> string list io" where
  "fs_read_root fs = (if lf_fault fs OpReadDir [] [] then Inl OtherKind else Inr (map fst (lf_dirs fs)))"

definition drop_file :: "path \<Rightarrow> legacy_fs \<Rightarrow> legacy_fs" where
  "drop_file p fs =
     fs\<lparr>lf_dirs := map (\<lambda>(d, files). (d, if d = fst p then filter (\<lambda>(f, _). f \<noteq> snd p) files else files)) (lf_dirs fs)\<rparr>"

definition fs_remove_file :: "path \<Rightarrow> legacy_fs \<Rightarrow> unit io \<times> legacy_fs" where
  "fs_remove_file p fs =
     (if lf_fault fs OpRemove (fst p) (snd p) then (Inl OtherKind, fs)
      else if fs_file fs p = None then (Inl NotFound, fs)
      else (Inr (), drop_file p fs))"

text \<open>Only empty directories can be removed.\<close>

definition fs_remove_dir :: "string \<Rightarrow> legacy_fs \<Rightarrow> unit io \<times> legacy_fs" where
  "fs_remove_dir d fs =
     (if lf_fault fs OpRemoveDir d [] then (Inl OtherKind, fs)
      else (case map_of (lf_dirs fs) d of
              None \<Rightarrow> (Inl NotFound, fs)
            | Some [] \<Rightarrow> (Inr (), fs\<lparr>lf_dirs := filter (\<lambda>(d', _). d' \<noteq> d) (lf_dirs fs)\<rparr>)
            | Some _ \<Rightarrow> (Inl OtherKind, fs)))"

section \<open>Strings\<close>

definition starts_with :: "string \<Rightarrow> string \<Rightarrow> bool" where
  "starts_with p s \<longleftrightarrow> take (length p) s = p"

definition strip_prefix :: "string \<Rightarrow> string \<Rightarrow> string option" where
  "strip_prefix p s = (if starts_with p s then Some (drop (length p) s) else None)"

text \<open>\<open>&s[n..]\<close> panics out of range and inside of a character.\<close>

definition str_slice_from :: "nat \<Rightarrow> string \<Rightarrow> string res" where
  "str_slice_from n s =
     (if n = length s \<or> n < length s \<and> \<not> (0x80 \<le> ord (s ! n) \<and> ord (s ! n) \<le> 0xBF) then Inr (drop n s)
      else Inl Panicked)"

definition is_digit :: "char \<Rightarrow> bool" where
  "is_digit c \<longleftrightarrow> 0x30 \<le> ord c \<and> ord c \<le> 0x39"

text \<open>\<open>str::parse::<u32>()\<close>, which allows a leading plus.\<close>

definition parse_u32 :: "string \<Rightarrow> nat option" where
  "parse_u32 s =
     (let digits = (case s of c # cs \<Rightarrow> if c = CHR ''+'' then cs else s | [] \<Rightarrow> [])
      in if digits \<noteq> [] \<and> list_all is_digit digits \<and> string_to_nat_acc 0 digits < 2 ^ 32
         then Some (string_to_nat_acc 0 digits) else None)"

text \<open>\<open>find('_')\<close> with the parts before and after it.\<close>

definition split_underscore :: "string \<Rightarrow> (string \<times> string) option" where
  "split_underscore s =
     (let before = takeWhile (\<lambda>c. c \<noteq> CHR ''_'') s
      in if length before < length s then Some (before, drop (length before + 1) s) else None)"

section \<open>File names\<close>

record legacy_env =
  le_uid_to_android_user :: "nat \<Rightarrow> nat"
  le_tags :: tag_numbers
  SL_STRONGBOX :: i32
  SL_TRUSTED_ENVIRONMENT :: i32
  SL_KEYSTORE :: i32

definition KNOWN_KEYSTORE_PREFIXES :: "string list" where
  "KNOWN_KEYSTORE_PREFIXES = [''USRPKEY_'', ''USRSKEY_'', ''USRCERT_'', ''CACERT_'']"

definition is_keystore_alias :: "string \<Rightarrow> bool" where
  "is_keystore_alias encoded_alias \<longleftrightarrow> list_ex (\<lambda>prefix. starts_with prefix encoded_alias) KNOWN_KEYSTORE_PREFIXES"

definition make_user_path_name :: "nat \<Rightarrow> string" where
  "make_user_path_name user_id = ''user_'' @ nat_to_string user_id"

definition make_legacy_keystore_entry_filename :: "legacy_env \<Rightarrow> nat \<Rightarrow> string \<Rightarrow> path option" where
  "make_legacy_keystore_entry_filename E uid alias =
     (if is_keystore_alias alias then None
      else Some (make_user_path_name (le_uid_to_android_user E uid),
                 nat_to_string uid @ ''_'' @ encode_alias alias))"

definition make_blob_filename :: "legacy_env \<Rightarrow> nat \<Rightarrow> string \<Rightarrow> string \<Rightarrow> path" where
  "make_blob_filename E uid alias prefix =
     (make_user_path_name (le_uid_to_android_user E uid),
      nat_to_string uid @ ''_'' @ encode_alias (prefix @ ''_'' @ alias))"

definition make_chr_filename :: "legacy_env \<Rightarrow> nat \<Rightarrow> string \<Rightarrow> string \<Rightarrow> path" where
  "make_chr_filename E uid alias prefix =
     (make_user_path_name (le_uid_to_android_user E uid),
      ''.'' @ nat_to_string uid @ ''_chr_'' @ encode_alias (prefix @ ''_'' @ alias))"

definition make_super_key_filename :: "nat \<Rightarrow> path" where
  "make_super_key_filename user_id = (make_user_path_name user_id, ''.masterkey'')"

section \<open>Reading\<close>

definition read_generic_blob :: "path \<Rightarrow> legacy_fs \<Rightarrow> blob option res" where
  "read_generic_blob p fs =
     (case fs_open p fs of
        Inl NotFound \<Rightarrow> Inr None
      | Inl OtherKind \<Rightarrow> Inl IoError
      | Inr content \<Rightarrow> map_res Some (new_from_stream content))"

fun first_blob :: "legacy_env \<Rightarrow> nat \<Rightarrow> string \<Rightarrow> legacy_fs \<Rightarrow> string list \<Rightarrow> (blob \<times> string) option res" where
  "first_blob E uid alias fs [] = Inr None"
| "first_blob E uid alias fs (prefix # prefixes) =
     and_then (read_generic_blob (make_blob_filename E uid alias prefix) fs) (\<lambda>b.
       case b of Some blob \<Rightarrow> Inr (Some (blob, prefix)) | None \<Rightarrow> first_blob E uid alias fs prefixes)"

definition read_km_blob_file :: "legacy_env \<Rightarrow> nat \<Rightarrow> string \<Rightarrow> legacy_fs \<Rightarrow> (blob \<times> string) option res" where
  "read_km_blob_file E uid alias fs = first_blob E uid alias fs [''USRPKEY'', ''USRSKEY'']"

definition read_characteristics_file ::
    "legacy_env \<Rightarrow> nat \<Rightarrow> string \<Rightarrow> string \<Rightarrow> i32 \<Rightarrow> legacy_fs \<Rightarrow> key_parameter list res" where
  "read_characteristics_file E uid prefix alias hw_sec_level fs =
     and_then (read_generic_blob (make_chr_filename E uid alias prefix) fs) (\<lambda>b.
       case b of
         None \<Rightarrow> Inr []
       | Some blob \<Rightarrow>
           (case bl_value blob of
              Characteristics data \<Rightarrow>
                map_res (\<lambda>(sw, _). map (\<lambda>v. KeyParameter_new v (SL_KEYSTORE E)) sw)
                  (read_key_parameters (le_tags E) data)
            | CharacteristicsCache data \<Rightarrow>
                and_then (read_key_parameters (le_tags E) data) (\<lambda>(hw, stream).
                  map_res (\<lambda>(sw, _). map (\<lambda>v. KeyParameter_new v hw_sec_level) hw @
                                      map (\<lambda>v. KeyParameter_new v (SL_KEYSTORE E)) sw)
                    (read_key_parameters (le_tags E) stream))
            | _ \<Rightarrow> Inl value_corrupted))"

text \<open>The super key manager is needed only for the per-boot key of a user: decryption of data, IV and tag.\<close>

type_synonym per_boot_keys = "nat \<Rightarrow> (bytes \<Rightarrow> bytes \<Rightarrow> bytes \<Rightarrow> bytes res) option"

definition unwrap_km_blob ::
    "legacy_env \<Rightarrow> nat \<Rightarrow> per_boot_keys option \<Rightarrow> blob \<Rightarrow> blob res" where
  "unwrap_km_blob E uid key_manager km_blob =
     (case bl_value km_blob of
        Decrypted _ \<Rightarrow> Inr km_blob
      | Encrypted iv tag data \<Rightarrow>
          (case key_manager of
             Some get_per_boot_key \<Rightarrow>
               (case get_per_boot_key (le_uid_to_android_user E uid) of
                  Some decrypt \<Rightarrow> map_res (\<lambda>d. km_blob\<lparr>bl_value := Decrypted d\<rparr>) (decrypt data iv tag)
                | None \<Rightarrow> Inl (Ks (Rc RC_LOCKED)))
           | None \<Rightarrow> Inr km_blob)
      | _ \<Rightarrow> Inl value_corrupted)"

definition read_certificate :: "path \<Rightarrow> legacy_fs \<Rightarrow> bytes option res" where
  "read_certificate p fs =
     and_then (read_generic_blob p fs) (\<lambda>b.
       case b of
         None \<Rightarrow> Inr None
       | Some blob \<Rightarrow> (case bl_value blob of Generic data \<Rightarrow> Inr (Some data) | _ \<Rightarrow> Inl value_corrupted))"

type_synonym legacy_entry = "(blob \<times> key_parameter list) option \<times> bytes option \<times> bytes option"

definition load_by_uid_alias ::
    "legacy_env \<Rightarrow> nat \<Rightarrow> string \<Rightarrow> per_boot_keys option \<Rightarrow> legacy_fs \<Rightarrow> legacy_entry res" where
  "load_by_uid_alias E uid alias key_manager fs =
     and_then (read_km_blob_file E uid alias fs) (\<lambda>km_blob.
     and_then
       (case km_blob of
          None \<Rightarrow> Inr None
        | Some (km_blob, prefix) \<Rightarrow>
            and_then (unwrap_km_blob E uid key_manager km_blob) (\<lambda>km_blob.
            map_res (\<lambda>params. Some (km_blob, params))
              (read_characteristics_file E uid prefix alias
                (if is_strongbox km_blob then SL_STRONGBOX E else SL_TRUSTED_ENVIRONMENT E) fs)))
       (\<lambda>km_blob.
     and_then (read_certificate (make_blob_filename E uid alias ''USRCERT'') fs) (\<lambda>user_cert.
     and_then (read_certificate (make_blob_filename E uid alias ''CACERT'') fs) (\<lambda>ca_cert.
       Inr (km_blob, user_cert, ca_cert)))))"

definition LegacyBlobLoader_has_super_key :: "nat \<Rightarrow> legacy_fs \<Rightarrow> bool" where
  "LegacyBlobLoader_has_super_key user_id fs = fs_is_file (make_super_key_filename user_id) fs"

definition LegacyBlobLoader_load_super_key :: "('e, 'p) boringssl \<Rightarrow> nat \<Rightarrow> password \<Rightarrow> legacy_fs \<Rightarrow> bytes option res" where
  "LegacyBlobLoader_load_super_key L user_id pw fs =
     and_then (read_generic_blob (make_super_key_filename user_id) fs) (\<lambda>b.
       case b of
         None \<Rightarrow> Inr None
       | Some blob \<Rightarrow>
           (case bl_value blob of
              PwEncrypted iv tag data salt key_size \<Rightarrow>
                (if bl_flags blob AND ENCRYPTED \<noteq> 0
                 then and_then (derive_key L pw (Some salt) key_size) (\<lambda>key.
                        map_res Some (aes_gcm_decrypt L data iv tag key))
                 else Inr (Some data))
            | _ \<Rightarrow> Inl value_corrupted))"

definition read_legacy_keystore_entry :: "legacy_env \<Rightarrow> nat \<Rightarrow> string \<Rightarrow> legacy_fs \<Rightarrow> bytes option res" where
  "read_legacy_keystore_entry E uid alias fs =
     (case make_legacy_keystore_entry_filename E uid alias of
        None \<Rightarrow> Inr None
      | Some p \<Rightarrow>
          map_res (\<lambda>b. Option.bind b (\<lambda>blob. case bl_value blob of Generic d \<Rightarrow> Some d | _ \<Rightarrow> None))
            (read_generic_blob p fs))"

section \<open>Listing\<close>

text \<open>A directory that does not exist has no entries; names that are not UTF-8 are passed over.\<close>

definition list_user :: "nat \<Rightarrow> legacy_fs \<Rightarrow> string list res" where
  "list_user user_id fs =
     (case fs_read_dir (make_user_path_name user_id) fs of
        Inl NotFound \<Rightarrow> Inr []
      | Inl OtherKind \<Rightarrow> Inl IoError
      | Inr names \<Rightarrow> Inr (filter valid_utf8 names))"

definition is_empty :: "legacy_fs \<Rightarrow> bool res" where
  "is_empty fs =
     (case fs_read_root fs of
        Inl _ \<Rightarrow> Inl IoError
      | Inr names \<Rightarrow> Inr (\<not> list_ex (\<lambda>f. valid_utf8 f \<and> starts_with ''user_'' f) names))"

definition is_empty_user :: "nat \<Rightarrow> legacy_fs \<Rightarrow> bool res" where
  "is_empty_user user_id fs =
     (let d = make_user_path_name user_id
      in if \<not> fs_is_dir d fs then Inr True
         else (case fs_read_dir d fs of Inl _ \<Rightarrow> Inl IoError | Inr names \<Rightarrow> Inr (names = [])))"

fun extract_with :: "string list \<Rightarrow> string \<Rightarrow> string option" where
  "extract_with [] encoded_alias = None"
| "extract_with (prefix # prefixes) encoded_alias =
     (case strip_prefix prefix encoded_alias of
        Some alias \<Rightarrow> ok_value (decode_alias alias)
      | None \<Rightarrow> extract_with prefixes encoded_alias)"

definition extract_keystore_alias :: "string \<Rightarrow> string option" where
  "extract_keystore_alias encoded_alias = extract_with KNOWN_KEYSTORE_PREFIXES encoded_alias"

definition extract_legacy_alias :: "string \<Rightarrow> string option" where
  "extract_legacy_alias encoded_alias =
     (if \<not> is_keystore_alias encoded_alias then ok_value (decode_alias encoded_alias) else None)"

text \<open>A map from uids to sets of aliases, in the order of insertion.\<close>

type_synonym uid_aliases = "(nat \<times> string list) list"

definition add_alias :: "nat \<Rightarrow> string \<Rightarrow> uid_aliases \<Rightarrow> uid_aliases" where
  "add_alias uid alias m =
     (if uid \<in> set (map fst m)
      then map (\<lambda>(u, as). (u, if u = uid \<and> alias \<notin> set as then as @ [alias] else as)) m
      else m @ [(uid, [alias])])"

definition collect_entry :: "(string \<Rightarrow> string option) \<Rightarrow> string \<Rightarrow> uid_aliases \<Rightarrow> uid_aliases" where
  "collect_entry extract v acc =
     (case split_underscore v of
        None \<Rightarrow> acc
      | Some (before, rest) \<Rightarrow>
          (case parse_u32 before of
             None \<Rightarrow> acc
           | Some uid \<Rightarrow> (case extract rest of None \<Rightarrow> acc | Some alias \<Rightarrow> add_alias uid alias acc)))"

definition list_keystore_entries_for_user :: "nat \<Rightarrow> legacy_fs \<Rightarrow> uid_aliases res" where
  "list_keystore_entries_for_user user_id fs =
     map_res (\<lambda>names. fold (collect_entry extract_keystore_alias) names []) (list_user user_id fs)"

definition list_legacy_keystore_entries_for_user :: "nat \<Rightarrow> legacy_fs \<Rightarrow> uid_aliases res" where
  "list_legacy_keystore_entries_for_user user_id fs =
     map_res (\<lambda>names. fold (collect_entry extract_legacy_alias) names []) (list_user user_id fs)"

definition list_keystore_entries_for_uid :: "legacy_env \<Rightarrow> nat \<Rightarrow> legacy_fs \<Rightarrow> string list res" where
  "list_keystore_entries_for_uid E uid fs =
     and_then (list_user (le_uid_to_android_user E uid) fs) (\<lambda>user_entries.
       let uid_str = nat_to_string uid @ ''_''
       in map_res (\<lambda>rs. remdups_adj (sort (List.map_filter id rs)))
            (map_res_list (\<lambda>v. if \<not> starts_with uid_str v then Inr None
                               else map_res extract_keystore_alias (str_slice_from (length uid_str) v))
              user_entries))"

text \<open>One round of the loop; the name is sliced before its beginning is looked at.\<close>

definition legacy_entry_of :: "string \<Rightarrow> string \<Rightarrow> string option res" where
  "legacy_entry_of uid_str f =
     and_then (str_slice_from (length uid_str + 1) f) (\<lambda>encoded_alias.
       if starts_with uid_str f \<and> \<not> is_keystore_alias encoded_alias
       then map_res Some (decode_alias encoded_alias) else Inr None)"

definition list_legacy_keystore_entries_for_uid :: "legacy_env \<Rightarrow> nat \<Rightarrow> legacy_fs \<Rightarrow> string list res" where
  "list_legacy_keystore_entries_for_uid E uid fs =
     (case fs_read_dir (make_user_path_name (le_uid_to_android_user E uid)) fs of
        Inl NotFound \<Rightarrow> Inr []
      | Inl OtherKind \<Rightarrow> Inl IoError
      | Inr names \<Rightarrow>
          map_res (List.map_filter id)
            (map_res_list (legacy_entry_of (nat_to_string uid)) (filter valid_utf8 names)))"

section \<open>Removing\<close>

text \<open>\<open>remove_dir(...).ok()\<close>: whether it worked is not looked at.\<close>

definition remove_user_dir_if_empty :: "nat \<Rightarrow> (legacy_fs, unit) st" where
  "remove_user_dir_if_empty user_id =
     st_bind (st_gets (is_empty_user user_id)) (\<lambda>r.
     st_bind (st_lift r) (\<lambda>empty.
       if empty then st_modify (\<lambda>fs. snd (fs_remove_dir (make_user_path_name user_id) fs)) else st_ok ()))"

text \<open>The first loop: it ends after the first key blob that is not missing.\<close>

fun remove_key_blobs :: "legacy_env \<Rightarrow> nat \<Rightarrow> string \<Rightarrow> string list \<Rightarrow> legacy_fs \<Rightarrow> bool \<times> legacy_fs" where
  "remove_key_blobs E uid alias [] fs = (False, fs)"
| "remove_key_blobs E uid alias (prefix # prefixes) fs =
     (case fs_remove_file (make_blob_filename E uid alias prefix) fs of
        (Inl NotFound, fs) \<Rightarrow> remove_key_blobs E uid alias prefixes fs
      | (_, fs) \<Rightarrow> (True, snd (fs_remove_file (make_chr_filename E uid alias prefix) fs)))"

text \<open>
  The second loop: the flag is set only when removing a certificate fails with an error
  other than \<open>NotFound\<close>.
\<close>

fun remove_certificates :: "legacy_env \<Rightarrow> nat \<Rightarrow> string \<Rightarrow> string list \<Rightarrow> bool \<times> legacy_fs \<Rightarrow> bool \<times> legacy_fs" where
  "remove_certificates E uid alias [] s = s"
| "remove_certificates E uid alias (prefix # prefixes) (deleted, fs) =
     remove_certificates E uid alias prefixes
       (case fs_remove_file (make_blob_filename E uid alias prefix) fs of
          (Inl NotFound, fs) \<Rightarrow> (deleted, fs)
        | (Inl OtherKind, fs) \<Rightarrow> (True, fs)
        | (Inr _, fs) \<Rightarrow> (deleted, fs))"

definition remove_keystore_entry :: "legacy_env \<Rightarrow> nat \<Rightarrow> string \<Rightarrow> (legacy_fs, bool) st" where
  "remove_keystore_entry E uid alias fs =
     (let (deleted, fs) =
        remove_certificates E uid alias [''USRCERT'', ''CACERT'']
          (remove_key_blobs E uid alias [''USRPKEY'', ''USRSKEY''] fs)
      in st_bind (if deleted then remove_user_dir_if_empty (le_uid_to_android_user E uid) else st_ok ())
           (\<lambda>_. st_ok deleted) fs)"

definition remove_legacy_keystore_entry :: "legacy_env \<Rightarrow> nat \<Rightarrow> string \<Rightarrow> (legacy_fs, unit) st" where
  "remove_legacy_keystore_entry E uid alias fs =
     (case make_legacy_keystore_entry_filename E uid alias of
        None \<Rightarrow> (Inr (), fs)
      | Some p \<Rightarrow>
          (case fs_remove_file p fs of
             (Inl NotFound, fs) \<Rightarrow> (Inr (), fs)
           | (Inl OtherKind, fs) \<Rightarrow> (Inl IoError, fs)
           | (Inr _, fs) \<Rightarrow> remove_user_dir_if_empty (le_uid_to_android_user E uid) fs))"

definition remove_super_key :: "nat \<Rightarrow> legacy_fs \<Rightarrow> legacy_fs" where
  "remove_super_key user_id fs =
     (let fs = snd (fs_remove_file (make_super_key_filename user_id) fs)
      in if is_empty_user user_id fs = Inr True
         then snd (fs_remove_dir (make_user_path_name user_id) fs) else fs)"

section \<open>File names do not clash\<close>

lemma nat_to_string_digits:
  assumes "c \<in> set (nat_to_string n)"
  shows "is_digit c"
proof -
  from assms obtain k where "k \<le> 9" and c: "c = digit_char k"
    using set_nat_to_string [of n] by (auto simp del: digit_char.simps)
  from this(1) have "ord c = 48 + k" unfolding c by simp
  with \<open>k \<le> 9\<close> show ?thesis by (simp add: is_digit_def)
qed

lemma underscore_not_digit: "CHR ''_'' \<notin> set (nat_to_string n)"
  using nat_to_string_digits [of "CHR ''_''" n] by (auto simp: is_digit_def)

lemma split_at_underscore:
  "nat_to_string m @ CHR ''_'' # s = nat_to_string n @ CHR ''_'' # t \<longleftrightarrow> m = n \<and> s = t"
proof
  assume eq: "nat_to_string m @ CHR ''_'' # s = nat_to_string n @ CHR ''_'' # t"
  have "takeWhile (\<lambda>c. c \<noteq> CHR ''_'') (nat_to_string k @ CHR ''_'' # u) = nat_to_string k" for k u
    using underscore_not_digit [of k] by (subst takeWhile_append2) auto
  from this [of m s] this [of n t] eq have "nat_to_string m = nat_to_string n" by simp
  with eq show "m = n \<and> s = t" by (simp add: nat_to_string_inj)
qed simp

lemma nat_to_string_not_dot: "nat_to_string n @ s \<noteq> CHR ''.'' # t"
proof
  assume eq: "nat_to_string n @ s = CHR ''.'' # t"
  have "nat_to_string n \<noteq> []" by (subst nat_to_string.simps) simp
  with eq have "CHR ''.'' \<in> set (nat_to_string n)" by (metis hd_append list.sel(1) list.set_sel(1))
  then show False using nat_to_string_digits [of "CHR ''.''" n] by (simp add: is_digit_def)
qed

definition entry_prefixes :: "string list" where
  "entry_prefixes = [''USRPKEY'', ''USRSKEY'', ''USRCERT'', ''CACERT'']"

lemma prefix_inj:
  "p \<in> set entry_prefixes \<Longrightarrow> q \<in> set entry_prefixes \<Longrightarrow>
   encode_alias (p @ ''_'' @ a) = encode_alias (q @ ''_'' @ b) \<longleftrightarrow> p = q \<and> a = b"
  by (auto simp: encode_alias_inj entry_prefixes_def)

lemma blob_filename_inj:
  "p \<in> set entry_prefixes \<Longrightarrow> q \<in> set entry_prefixes \<Longrightarrow>
   make_blob_filename E u a p = make_blob_filename E v b q \<longleftrightarrow> u = v \<and> a = b \<and> p = q"
  using prefix_inj [of p q a b] by (auto simp: make_blob_filename_def split_at_underscore)

lemma chr_filename_inj:
  "p \<in> set entry_prefixes \<Longrightarrow> q \<in> set entry_prefixes \<Longrightarrow>
   make_chr_filename E u a p = make_chr_filename E v b q \<longleftrightarrow> u = v \<and> a = b \<and> p = q"
  using prefix_inj [of p q a b] by (auto simp: make_chr_filename_def split_at_underscore)

lemma blob_filename_not_chr: "make_blob_filename E u a p \<noteq> make_chr_filename E v b q"
  using nat_to_string_not_dot by (simp add: make_blob_filename_def make_chr_filename_def)

lemma filename_not_super_key:
  "make_blob_filename E u a p \<noteq> make_super_key_filename n" "make_chr_filename E u a p \<noteq> make_super_key_filename n"
proof -
  show "make_blob_filename E u a p \<noteq> make_super_key_filename n"
    using nat_to_string_not_dot by (simp add: make_blob_filename_def make_super_key_filename_def)
  have "nat_to_string u @ ''_chr_'' @ s \<noteq> ''masterkey''" for s
  proof
    assume "nat_to_string u @ ''_chr_'' @ s = ''masterkey''"
    then have "CHR ''_'' \<in> set ''masterkey''" by (metis in_set_conv_decomp append_Cons)
    then show False by simp
  qed
  then show "make_chr_filename E u a p \<noteq> make_super_key_filename n"
    by (simp add: make_chr_filename_def make_super_key_filename_def)
qed

section \<open>What removing an entry does\<close>

definition no_faults :: "legacy_fs \<Rightarrow> bool" where
  "no_faults fs \<longleftrightarrow> lf_fault fs = (\<lambda>_ _ _. False)"

lemma map_of_filter_key: "map_of (filter (\<lambda>(k, _). k \<noteq> x) m) y = (if y = x then None else map_of m y)"
  by (induction m) auto

lemma map_of_map_dirs:
  "map_of (map (\<lambda>(d, files). (d, g d files)) m) x = map_option (g x) (map_of m x)"
  by (induction m) auto

lemma fs_file_drop_file [simp]: "fs_file (drop_file p fs) q = (if q = p then None else fs_file fs q)"
proof -
  have "map_of (lf_dirs (drop_file p fs)) d =
      map_option (\<lambda>files. if d = fst p then filter (\<lambda>(f, _). f \<noteq> snd p) files else files) (map_of (lf_dirs fs) d)" for d
    by (simp add: drop_file_def map_of_map_dirs)
  then show ?thesis
    by (cases p; cases q; cases "map_of (lf_dirs fs) (fst q)") (auto simp: fs_file_def map_of_filter_key)
qed

lemma lf_fault_drop_file [simp]: "lf_fault (drop_file p fs) = lf_fault fs"
  by (simp add: drop_file_def)

lemma no_faults_drop_file [simp]: "no_faults (drop_file p fs) = no_faults fs"
  by (simp add: no_faults_def)

lemma fs_file_remove_dir [simp]: "fs_file (snd (fs_remove_dir d fs)) q = fs_file fs q"
  by (cases q) (auto simp: fs_remove_dir_def fs_file_def map_of_filter_key split: option.splits list.splits)

lemma lf_fault_remove_dir [simp]: "lf_fault (snd (fs_remove_dir d fs)) = lf_fault fs"
  by (auto simp: fs_remove_dir_def split: option.splits list.splits)

text \<open>Nothing but the given files is gone, and they are.\<close>

definition removed :: "path set \<Rightarrow> legacy_fs \<Rightarrow> legacy_fs \<Rightarrow> bool" where
  "removed P fs fs' \<longleftrightarrow> no_faults fs' \<and> fs_file fs' = (\<lambda>q. if q \<in> P then None else fs_file fs q)"

lemma removed_trans: "removed P fs fs1 \<Longrightarrow> removed Q fs1 fs2 \<Longrightarrow> removed (P \<union> Q) fs fs2"
  by (auto simp: removed_def fun_eq_iff)

lemma removed_refl: "no_faults fs \<Longrightarrow> removed {} fs fs"
  by (simp add: removed_def)

lemma fs_remove_file_removed:
  assumes "no_faults fs"
  shows "fst (fs_remove_file p fs) = (if fs_file fs p = None then Inl NotFound else Inr ())"
    and "removed {p} fs (snd (fs_remove_file p fs))"
proof -
  have eq: "fs_remove_file p fs = (if fs_file fs p = None then (Inl NotFound, fs) else (Inr (), drop_file p fs))"
    using assms by (simp add: fs_remove_file_def no_faults_def)
  show "fst (fs_remove_file p fs) = (if fs_file fs p = None then Inl NotFound else Inr ())"
    by (simp add: eq)
  have "fs_file fs = (\<lambda>q. if q = p then None else fs_file fs q)" if "fs_file fs p = None"
    using that by auto
  then show "removed {p} fs (snd (fs_remove_file p fs))"
    using assms by (auto simp: eq removed_def)
qed

lemma remove_user_dir_removed:
  assumes "no_faults fs"
  shows "fst (remove_user_dir_if_empty u fs) = Inr ()" and "removed {} fs (snd (remove_user_dir_if_empty u fs))"
proof -
  have "is_empty_user u fs \<noteq> Inl e" for e
    using assms by (auto simp: is_empty_user_def fs_is_dir_def fs_read_dir_def no_faults_def Let_def)
  then obtain b where b: "is_empty_user u fs = Inr b" by (cases "is_empty_user u fs") auto
  have eq: "remove_user_dir_if_empty u fs =
      (Inr (), if b then snd (fs_remove_dir (make_user_path_name u) fs) else fs)"
    by (simp add: remove_user_dir_if_empty_def st_bind_gets b)
  show "fst (remove_user_dir_if_empty u fs) = Inr ()" by (simp add: eq)
  show "removed {} fs (snd (remove_user_dir_if_empty u fs))"
    using assms by (simp add: eq removed_def no_faults_def fun_eq_iff)
qed

definition entry_has :: "legacy_env \<Rightarrow> nat \<Rightarrow> string \<Rightarrow> legacy_fs \<Rightarrow> string \<Rightarrow> bool" where
  "entry_has E uid alias fs prefix \<longleftrightarrow> fs_file fs (make_blob_filename E uid alias prefix) \<noteq> None"

text \<open>The files of the first key blob there is.\<close>

fun key_paths :: "legacy_env \<Rightarrow> nat \<Rightarrow> string \<Rightarrow> legacy_fs \<Rightarrow> string list \<Rightarrow> path set" where
  "key_paths E uid alias fs [] = {}"
| "key_paths E uid alias fs (prefix # prefixes) =
     (if entry_has E uid alias fs prefix
      then {make_blob_filename E uid alias prefix, make_chr_filename E uid alias prefix}
      else key_paths E uid alias fs prefixes)"

lemma remove_key_blobs_removed:
  assumes "no_faults fs"
  shows "fst (remove_key_blobs E uid alias prefixes fs) = list_ex (entry_has E uid alias fs) prefixes \<and>
         removed (key_paths E uid alias fs prefixes) fs (snd (remove_key_blobs E uid alias prefixes fs))"
proof (induction prefixes)
  case Nil
  then show ?case using removed_refl [OF assms] by simp
next
  case (Cons prefix prefixes)
  let ?p = "make_blob_filename E uid alias prefix" and ?c = "make_chr_filename E uid alias prefix"
  obtain r fs1 where 1: "fs_remove_file ?p fs = (r, fs1)" by fastforce
  note p = fs_remove_file_removed [OF assms, of ?p, unfolded 1, simplified]
  show ?case
  proof (cases "entry_has E uid alias fs prefix")
    case True
    from p(2) have "no_faults fs1" by (simp add: removed_def)
    from removed_trans [OF p(2) fs_remove_file_removed(2) [OF this, of ?c]] True p(1) 1 show ?thesis
      by (auto simp: entry_has_def insert_commute)
  next
    case False
    with assms have "fs_remove_file ?p fs = (Inl NotFound, fs)"
      by (simp add: fs_remove_file_def no_faults_def entry_has_def)
    with False Cons.IH show ?thesis by simp
  qed
qed

lemma remove_certificates_removed:
  "no_faults fs \<Longrightarrow>
   fst (remove_certificates E uid alias prefixes (deleted, fs)) = deleted \<and>
   removed (make_blob_filename E uid alias ` set prefixes) fs
     (snd (remove_certificates E uid alias prefixes (deleted, fs)))"
proof (induction prefixes arbitrary: fs)
  case Nil
  then show ?case using removed_refl by simp
next
  case (Cons prefix prefixes)
  let ?p = "make_blob_filename E uid alias prefix"
  obtain r fs1 where 1: "fs_remove_file ?p fs = (r, fs1)" by fastforce
  note p = fs_remove_file_removed [OF Cons.prems, of ?p, unfolded 1, simplified]
  from p(2) have "no_faults fs1" by (simp add: removed_def)
  from Cons.IH [OF this] removed_trans [OF p(2)] p(1) 1 show ?case by auto
qed

text \<open>The value says whether there was a key blob; certificates alone do not count.\<close>

lemma remove_keystore_entry_removed:
  assumes "no_faults fs"
  shows "fst (remove_keystore_entry E uid alias fs) =
           Inr (entry_has E uid alias fs ''USRPKEY'' \<or> entry_has E uid alias fs ''USRSKEY'')"
    and "removed (key_paths E uid alias fs [''USRPKEY'', ''USRSKEY''] \<union>
           make_blob_filename E uid alias ` {''USRCERT'', ''CACERT''}) fs
           (snd (remove_keystore_entry E uid alias fs))"
proof -
  obtain del fs1 where 1: "remove_key_blobs E uid alias [''USRPKEY'', ''USRSKEY''] fs = (del, fs1)" by fastforce
  obtain del' fs2 where 2: "remove_certificates E uid alias [''USRCERT'', ''CACERT''] (del, fs1) = (del', fs2)" by fastforce
  have k: "del = (entry_has E uid alias fs ''USRPKEY'' \<or> entry_has E uid alias fs ''USRSKEY'')"
    "removed (key_paths E uid alias fs [''USRPKEY'', ''USRSKEY'']) fs fs1"
    using remove_key_blobs_removed [OF assms, of E uid "alias" "[''USRPKEY'', ''USRSKEY'']"]
    unfolding 1 by simp_all
  then have nf1: "no_faults fs1" by (simp add: removed_def)
  have c: "del' = del" "removed (make_blob_filename E uid alias ` {''USRCERT'', ''CACERT''}) fs1 fs2"
    using remove_certificates_removed [OF nf1, of E uid "alias" "[''USRCERT'', ''CACERT'']" del]
    unfolding 2 by simp_all
  note r = removed_trans [OF k(2) c(2)]
  from r have "no_faults fs2" by (simp add: removed_def)
  note d = remove_user_dir_removed [OF this, of "le_uid_to_android_user E uid"]
  have eq: "remove_keystore_entry E uid alias fs =
      (Inr del, if del then snd (remove_user_dir_if_empty (le_uid_to_android_user E uid) fs2) else fs2)"
    unfolding remove_keystore_entry_def 1 2 c(1)
    using d(1) by (cases "remove_user_dir_if_empty (le_uid_to_android_user E uid) fs2") (simp add: st_bind_def)
  show "fst (remove_keystore_entry E uid alias fs) =
      Inr (entry_has E uid alias fs ''USRPKEY'' \<or> entry_has E uid alias fs ''USRSKEY'')"
    unfolding eq k(1) by simp
  show "removed (key_paths E uid alias fs [''USRPKEY'', ''USRSKEY''] \<union>
      make_blob_filename E uid alias ` {''USRCERT'', ''CACERT''}) fs (snd (remove_keystore_entry E uid alias fs))"
    unfolding eq using r removed_trans [OF r d(2)] by auto
qed

lemma read_generic_blob_cong: "fs_open p fs = fs_open p fs' \<Longrightarrow> read_generic_blob p fs = read_generic_blob p fs'"
  by (simp add: read_generic_blob_def)

text \<open>What is loaded depends on the files of the entry alone.\<close>

lemma load_by_uid_alias_cong:
  assumes "\<And>prefix. prefix \<in> set entry_prefixes \<Longrightarrow>
      fs_open (make_blob_filename E uid alias prefix) fs = fs_open (make_blob_filename E uid alias prefix) fs' \<and>
      fs_open (make_chr_filename E uid alias prefix) fs = fs_open (make_chr_filename E uid alias prefix) fs'"
  shows "load_by_uid_alias E uid alias km fs = load_by_uid_alias E uid alias km fs'"
proof -
  have b: "read_generic_blob (make_blob_filename E uid alias p) fs = read_generic_blob (make_blob_filename E uid alias p) fs'"
    and c: "read_generic_blob (make_chr_filename E uid alias p) fs = read_generic_blob (make_chr_filename E uid alias p) fs'"
    if "p \<in> set entry_prefixes" for p
    using assms [OF that] by (auto intro: read_generic_blob_cong)
  have m: "''USRPKEY'' \<in> set entry_prefixes" "''USRSKEY'' \<in> set entry_prefixes"
    "''USRCERT'' \<in> set entry_prefixes" "''CACERT'' \<in> set entry_prefixes"
    by (simp_all add: entry_prefixes_def)
  have f: "first_blob E uid alias fs ps = first_blob E uid alias fs' ps" if "set ps \<subseteq> set entry_prefixes" for ps
    using that by (induction ps) (simp_all add: b)
  have p: "p \<in> set ps" if "first_blob E uid alias fs ps = Inr (Some (bl, p))" for ps bl p
    using that by (induction ps) (auto simp: res_iffs split: option.splits)
  have k: "read_km_blob_file E uid alias fs = read_km_blob_file E uid alias fs'"
    unfolding read_km_blob_file_def by (rule f) (use m in simp)
  have r: "read_characteristics_file E uid p alias l fs = read_characteristics_file E uid p alias l fs'"
    if "read_km_blob_file E uid alias fs = Inr (Some (bl, p))" for p l bl
  proof -
    have "p \<in> set entry_prefixes" using p [OF that [unfolded read_km_blob_file_def]] m by auto
    then show ?thesis by (simp add: read_characteristics_file_def c)
  qed
  have ce: "read_certificate (make_blob_filename E uid alias p) fs = read_certificate (make_blob_filename E uid alias p) fs'"
    if "p \<in> set entry_prefixes" for p
    using b [OF that] by (simp add: read_certificate_def)
  show ?thesis
    unfolding load_by_uid_alias_def k [symmetric] ce [OF m(3)] ce [OF m(4)]
    using r by (cases "read_km_blob_file E uid alias fs") (auto split: option.splits intro!: arg_cong2 [where f = and_then])
qed

lemma load_by_uid_alias_none:
  assumes "\<And>prefix. prefix \<in> set entry_prefixes \<Longrightarrow> fs_open (make_blob_filename E uid alias prefix) fs = Inl NotFound"
  shows "load_by_uid_alias E uid alias km fs = Inr (None, None, None)"
  using assms
  by (simp add: load_by_uid_alias_def read_km_blob_file_def read_certificate_def read_generic_blob_def entry_prefixes_def)

lemma fs_open_no_faults: "no_faults fs \<Longrightarrow> fs_open p fs = ok_or (fs_file fs p) NotFound"
  by (simp add: fs_open_def no_faults_def)


definition ex_legacy_env :: legacy_env where
  "ex_legacy_env =
     \<lparr>le_uid_to_android_user = (\<lambda>uid. uid div 100000), le_tags = ex_tag_numbers,
      SL_STRONGBOX = 2, SL_TRUSTED_ENVIRONMENT = 1, SL_KEYSTORE = 100\<rparr>"

definition ex_cert :: bytes where
  "ex_cert = blob_file GENERIC 0 0 (replicate 16 0) (replicate 16 0) [1, 2] []"

definition ex_legacy_fs :: legacy_fs where
  "ex_legacy_fs =
     \<lparr>lf_dirs = [(''user_0'', [(''7_USRPKEY_a'', [1]), (''7_USRCERT_a'', ex_cert), (''7_CACERT_b'', ex_cert)])],
      lf_fault = (\<lambda>_ _ _. False)\<rparr>"

lemma nat_to_string_7: "nat_to_string 7 = ''7''" "nat_to_string 0 = ''0''"
  by code_simp+


section \<open>What listing the entries of a uid gives\<close>

lemma map_res_list_iff: "map_res_list f xs = Inr ys \<longleftrightarrow> list_all2 (\<lambda>x y. f x = Inr y) xs ys"
proof (induction xs arbitrary: ys)
  case Nil
  then show ?case by auto
next
  case (Cons x xs)
  then show ?case by (cases ys) (auto simp: res_iffs)
qed

lemma starts_with_iff: "starts_with p s \<longleftrightarrow> (\<exists>t. s = p @ t)"
proof
  assume "starts_with p s"
  then have "s = p @ drop (length p) s" by (metis append_take_drop_id starts_with_def)
  then show "\<exists>t. s = p @ t" ..
qed (auto simp: starts_with_def)

lemma strip_prefix_append [simp]: "strip_prefix p (p @ t) = Some t"
  by (simp add: strip_prefix_def starts_with_def)

lemma strip_prefix_Some: "strip_prefix p s = Some t \<longleftrightarrow> s = p @ t"
  by (auto simp: strip_prefix_def starts_with_iff)

lemma strip_prefix_None: "strip_prefix p s = None \<longleftrightarrow> (\<forall>t. s \<noteq> p @ t)"
  by (auto simp: strip_prefix_def starts_with_iff)

lemma ok_value_Some: "ok_value r = Some a \<longleftrightarrow> r = Inr a"
  by (auto simp: ok_value_def split: sum.splits)

lemma extract_with_Some:
  "extract_with ps s = Some a \<Longrightarrow> \<exists>p\<in>set ps. \<exists>enc. s = p @ enc \<and> decode_alias enc = Inr a"
  by (induction ps) (auto simp: ok_value_Some strip_prefix_Some split: option.splits)

lemma extract_with_prefix:
  assumes "decode_alias enc = Inr a" and "p \<in> set ps" and "\<forall>q\<in>set ps. q \<noteq> p \<longrightarrow> \<not> starts_with q (p @ enc)"
  shows "extract_with ps (p @ enc) = Some a"
  using assms(2,3)
proof (induction ps)
  case (Cons q ps)
  then show ?case
    using assms(1) by (cases "q = p") (auto simp: ok_value_Some strip_prefix_def starts_with_def)
qed simp

lemma known_prefixes_apart:
  "p \<in> set KNOWN_KEYSTORE_PREFIXES \<Longrightarrow> q \<in> set KNOWN_KEYSTORE_PREFIXES \<Longrightarrow> q \<noteq> p \<Longrightarrow> \<not> starts_with q (p @ enc)"
  by (auto simp: KNOWN_KEYSTORE_PREFIXES_def starts_with_def)

lemma extract_keystore_alias_iff:
  "extract_keystore_alias s = Some a \<longleftrightarrow>
     (\<exists>p\<in>set KNOWN_KEYSTORE_PREFIXES. \<exists>enc. s = p @ enc \<and> decode_alias enc = Inr a)"
  unfolding extract_keystore_alias_def
  using extract_with_Some extract_with_prefix known_prefixes_apart by metis

text \<open>Cutting off the ASCII prefix of a valid string leaves a valid string, which does not begin
  inside of a character.\<close>

lemma valid_utf8_ascii: "list_all (\<lambda>c. ord c < 0x80) p \<Longrightarrow> valid_utf8 (p @ s) = valid_utf8 s"
  by (induction p) simp_all

lemma valid_utf8_begin: "valid_utf8 (c # cs) \<Longrightarrow> \<not> (0x80 \<le> ord c \<and> ord c \<le> 0xBF)"
  by (auto simp: utf8_lead_def)

lemma str_slice_from_ascii:
  assumes "list_all (\<lambda>c. ord c < 0x80) p" and "valid_utf8 (p @ s)"
  shows "str_slice_from (length p) (p @ s) = Inr s"
  using assms valid_utf8_begin by (cases s) (auto simp: str_slice_from_def valid_utf8_ascii)

lemma uid_str_ascii: "list_all (\<lambda>c. ord c < 0x80) (nat_to_string uid @ ''_'')"
proof -
  have "ord c < 0x80" if "c \<in> set (nat_to_string uid)" for c
    using nat_to_string_digits [OF that] by (simp add: is_digit_def)
  then show ?thesis by (auto simp: list_all_iff)
qed

definition uid_alias_of :: "nat \<Rightarrow> string \<Rightarrow> string option" where
  "uid_alias_of uid v =
     Option.bind (strip_prefix (nat_to_string uid @ ''_'') v) extract_keystore_alias"

lemma uid_alias_of_Some:
  "uid_alias_of uid v = Some a \<longleftrightarrow>
     (\<exists>p\<in>set KNOWN_KEYSTORE_PREFIXES. \<exists>enc. v = nat_to_string uid @ ''_'' @ p @ enc \<and> decode_alias enc = Inr a)"
  by (auto simp: uid_alias_of_def bind_eq_Some_conv strip_prefix_Some extract_keystore_alias_iff)

lemma distinct_remdups_adj: "sorted xs \<Longrightarrow> distinct (remdups_adj xs)"
  by (induction xs rule: remdups_adj.induct) (auto dest: order.antisym)

lemma set_map_filter_id: "a \<in> set (List.map_filter id (map f xs)) \<longleftrightarrow> (\<exists>x\<in>set xs. f x = Some a)"
  by (induction xs) (auto simp: map_filter_simps split: option.splits)

text \<open>Listing the entries of a uid.  It fails only when the directory cannot be read, and never
  panics; the list is sorted and without repetitions, and it holds exactly the aliases that the
  names of the uid's files encode behind a known prefix.  In particular every entry with a key
  blob or a certificate is listed under its alias.\<close>

theorem list_keystore_entries_for_uid_spec:
  assumes "list_user (le_uid_to_android_user E uid) fs = Inr names"
  shows "\<exists>aliases. list_keystore_entries_for_uid E uid fs = Inr aliases \<and> sorted aliases \<and> distinct aliases \<and>
           set aliases =
             {a. \<exists>p\<in>set KNOWN_KEYSTORE_PREFIXES. \<exists>enc.
                   nat_to_string uid @ ''_'' @ p @ enc \<in> set names \<and> decode_alias enc = Inr a} \<and>
           (\<forall>a p. valid_utf8 a \<longrightarrow> p \<in> set entry_prefixes \<longrightarrow>
              snd (make_blob_filename E uid a p) \<in> set names \<longrightarrow> a \<in> set aliases)"
proof -
  let ?u = "nat_to_string uid @ ''_''"
  have v: "valid_utf8 n" if "n \<in> set names" for n
    using assms that by (auto simp: list_user_def split: sum.splits io_error_kind.splits)
  have "map_res_list (\<lambda>v. if \<not> starts_with ?u v then Inr None
      else map_res extract_keystore_alias (str_slice_from (length ?u) v)) names = Inr (map (uid_alias_of uid) names)"
  proof (rule map_res_list_total)
    fix n assume "n \<in> set names"
    from v [OF this] show "(if \<not> starts_with ?u n then Inr None
        else map_res extract_keystore_alias (str_slice_from (length ?u) n)) = Inr (uid_alias_of uid n)"
      using str_slice_from_ascii [OF uid_str_ascii, of uid]
      by (auto simp: uid_alias_of_def strip_prefix_def starts_with_iff simp del: append_assoc)
  qed
  then have list: "list_keystore_entries_for_uid E uid fs =
      Inr (remdups_adj (sort (List.map_filter id (map (uid_alias_of uid) names))))"
    by (simp add: list_keystore_entries_for_uid_def assms Let_def)
  let ?as = "remdups_adj (sort (List.map_filter id (map (uid_alias_of uid) names)))"
  have set: "set ?as = {a. \<exists>p\<in>set KNOWN_KEYSTORE_PREFIXES. \<exists>enc.
      nat_to_string uid @ ''_'' @ p @ enc \<in> set names \<and> decode_alias enc = Inr a}"
    by (simp add: set_eq_iff set_map_filter_id uid_alias_of_Some) blast
  have listed: "a \<in> set ?as" if "valid_utf8 a" "p \<in> set entry_prefixes" "snd (make_blob_filename E uid a p) \<in> set names" for a p
  proof -
    have "encode_alias (p @ ''_'' @ a) = (p @ ''_'') @ encode_alias a"
      using that(2) encode_alias_append [of "p @ ''_''" a] by (auto simp: entry_prefixes_def encode_alias_plain)
    moreover have "p @ ''_'' \<in> set KNOWN_KEYSTORE_PREFIXES"
      using that(2) by (auto simp: entry_prefixes_def KNOWN_KEYSTORE_PREFIXES_def)
    moreover have "decode_alias (encode_alias a) = Inr a"
      using that(1) by (simp add: decode_alias_def decode_encode_bytes)
    ultimately show ?thesis
      using that(3) unfolding set
      by (intro CollectI bexI [of _ "p @ ''_''"] exI [of _ "encode_alias a"]) (simp_all add: make_blob_filename_def)
  qed
  have "sorted ?as" and "distinct ?as"
    by (simp_all add: sorted_remdups_adj distinct_remdups_adj)
  with list set listed show ?thesis by blast
qed

theorem list_keystore_entries_for_uid_spec_witness:
  "\<exists>aliases. list_keystore_entries_for_uid ex_legacy_env 7 ex_legacy_fs = Inr aliases \<and>
     ''a'' \<in> set aliases \<and> distinct aliases"
proof -
  let ?names = "[''7_USRPKEY_a'', ''7_USRCERT_a'', ''7_CACERT_b'']"
  have names: "list_user (le_uid_to_android_user ex_legacy_env 7) ex_legacy_fs = Inr ?names"
    by (simp add: list_user_def fs_read_dir_def ex_legacy_fs_def ex_legacy_env_def make_user_path_name_def nat_to_string_7)
  have "snd (make_blob_filename ex_legacy_env 7 ''a'' ''USRPKEY'') \<in> set ?names"
    by (simp add: make_blob_filename_def nat_to_string_7 encode_alias_plain)
  with list_keystore_entries_for_uid_spec [OF names] show ?thesis
    by (auto simp: entry_prefixes_def)
qed

text \<open>
  The listing of the other kind of entries looks for the uid without the underscore and slices
  before it looks.  So a file of uid 77 shows up as an entry of uid 7, and a short name
  makes it panic.
\<close>

lemma list_legacy_keystore_entries_foreign:
  "list_legacy_keystore_entries_for_uid ex_legacy_env 7
     \<lparr>lf_dirs = [(''user_0'', [(''77_vpn'', ex_cert)])], lf_fault = (\<lambda>_ _ _. False)\<rparr> \<noteq> Inr []"
  by (simp add: list_legacy_keystore_entries_for_uid_def fs_read_dir_def ex_legacy_env_def make_user_path_name_def
      nat_to_string_7 legacy_entry_of_def str_slice_from_def starts_with_def is_keystore_alias_def
      KNOWN_KEYSTORE_PREFIXES_def decode_alias_def map_filter_simps)

lemma list_legacy_keystore_entries_panics:
  "list_legacy_keystore_entries_for_uid ex_legacy_env 7
     \<lparr>lf_dirs = [(''user_0'', [(''x'', [])])], lf_fault = (\<lambda>_ _ _. False)\<rparr> = Inl Panicked"
  by (simp add: list_legacy_keystore_entries_for_uid_def fs_read_dir_def ex_legacy_env_def make_user_path_name_def
      nat_to_string_7 legacy_entry_of_def str_slice_from_def)

end
