(* ===== verification/Ks_World.thy ===== *)
theory Ks_World
  imports Ks_Database Ks_Perboot Ks_LegacyFiles
begin

text \<open>
  What the components above the database share: the state they work on and the services
  outside of the program.

  The state is an extensible record: \<open>base_world\<close> has the database, the number of the next
  random draw and the state of the KeyMint devices; the legacy migrator and the super key manager
  extend it by theirs.  \<open>ks_env\<close> collects the parameters: BoringSSL, the random
  numbers for new database ids, the wall clock, the KeyMint devices by security level, the
  numbers of AIDL constants, the legacy key store's parameters, the KeyMint instances that
  legacy keys belong to, and what other threads do while a call waits for a key id lock.
\<close>

record 'k base_world =
  kw_db :: keystore_db
  kw_perboot :: perboot_db
  kw_rng :: nat
  kw_km :: 'k

record key_creation_result =
  kcr_key_blob :: bytes
  kcr_characteristics :: "key_characteristics list"
  kcr_certificate_chain :: "bytes list"

record attestation_key =
  ak_key_blob :: bytes
  ak_attest_key_params :: "km_key_parameter list"
  ak_issuer_subject_name :: bytes

record begin_result =
  br_challenge :: i64
  br_params :: "km_key_parameter list"
  br_operation :: "nat option"

text \<open>\<open>IKeyMintDevice\<close>, with what \<open>get_keymint_device\<close> tells about it.\<close>

record 'k keymint =
  kmi_uuid :: uuid
  kmi_version :: int
  kmi_security_level :: i32
  kmi_timestamp_token_required :: bool
  kmi_generateKey ::
    "km_key_parameter list \<Rightarrow> attestation_key option \<Rightarrow> 'k \<Rightarrow> key_creation_result binder_result \<times> 'k"
  kmi_importKey ::
    "km_key_parameter list \<Rightarrow> i32 \<Rightarrow> bytes \<Rightarrow> attestation_key option \<Rightarrow> 'k \<Rightarrow> key_creation_result binder_result \<times> 'k"
  kmi_importWrappedKey ::
    "bytes \<Rightarrow> bytes \<Rightarrow> bytes \<Rightarrow> km_key_parameter list \<Rightarrow> i64 \<Rightarrow> i64 \<Rightarrow> 'k \<Rightarrow> key_creation_result binder_result \<times> 'k"
  kmi_upgradeKey :: "bytes \<Rightarrow> km_key_parameter list \<Rightarrow> 'k \<Rightarrow> bytes binder_result \<times> 'k"
  kmi_deleteKey :: "bytes \<Rightarrow> 'k \<Rightarrow> unit binder_result \<times> 'k"
  kmi_deleteAllKeys :: "'k \<Rightarrow> unit binder_result \<times> 'k"
  kmi_earlyBootEnded :: "'k \<Rightarrow> unit binder_result \<times> 'k"
  kmi_convertStorageKeyToEphemeral :: "bytes \<Rightarrow> 'k \<Rightarrow> bytes binder_result \<times> 'k"
  kmi_getKeyCharacteristics :: "bytes \<Rightarrow> 'k \<Rightarrow> key_characteristics list binder_result \<times> 'k"
  kmi_begin ::
    "i32 \<Rightarrow> bytes \<Rightarrow> km_key_parameter list \<Rightarrow> hardware_auth_token option \<Rightarrow> 'k \<Rightarrow> begin_result binder_result \<times> 'k"
  kmi_finish :: "nat \<Rightarrow> bytes \<Rightarrow> 'k \<Rightarrow> bytes binder_result \<times> 'k"

record key_consts =
  KC_ALGORITHM_AES :: i32
  KC_ALGORITHM_HMAC :: i32
  KC_BLOCK_MODE_GCM :: i32
  KC_PADDING_NONE :: i32
  KC_DIGEST_SHA_2_256 :: i32
  KC_PURPOSE_DECRYPT :: i32
  KC_PURPOSE_SIGN :: i32
  KC_FINGERPRINT :: i32
  KC_STRONGBOX :: i32
  KC_TRUSTED_ENVIRONMENT :: i32
  KC_SOFTWARE :: i32
  KC_ALGORITHM_TRIPLE_DES :: i32
  KC_FORMAT_RAW :: i32
  KC_FORMAT_PKCS8 :: i32
  KC_PASSWORD :: i32

record ('e, 'p, 'k) ks_env =
  nv_ssl :: "('e, 'p) boringssl"
  nv_ids :: "nat \<Rightarrow> int list"
  nv_now :: "nat \<Rightarrow> date_time res"
  nv_wait :: "int \<Rightarrow> keystore_db \<Rightarrow> keystore_db"
  nv_keymint :: "i32 \<Rightarrow> 'k keymint res"
  nv_codes :: aidl_codes
  nv_consts :: key_consts
  nv_aid_keystore :: nat
  nv_legacy :: legacy_env
  nv_sec_level_to_km_uuid :: "i32 \<Rightarrow> uuid option"
  nv_aid_user_offset :: int

text \<open>A call of the database; a random draw, or a reading of the clock, takes the next number.\<close>

definition on_db :: "(keystore_db \<Rightarrow> 'a res \<times> keystore_db) \<Rightarrow> (('k, 'z) base_world_scheme, 'a) st" where
  "on_db f w = (let (r, db) = f (kw_db w) in (r, w\<lparr>kw_db := db\<rparr>))"

definition draw :: "nat \<Rightarrow> (('k, 'z) base_world_scheme, nat) st" where
  "draw n w = (Inr (kw_rng w), w\<lparr>kw_rng := kw_rng w + n\<rparr>)"

definition drop_guard :: "int \<Rightarrow> (('k, 'z) base_world_scheme, unit) st" where
  "drop_guard g = st_modify (\<lambda>w. w\<lparr>kw_db := KeyIdGuard_drop g (kw_db w)\<rparr>)"

text \<open>The guard is dropped however the code ends.\<close>

definition with_guard :: "int \<Rightarrow> (('k, 'z) base_world_scheme, 'a) st \<Rightarrow> (('k, 'z) base_world_scheme, 'a) st" where
  "with_guard g m w = (let (r, w') = m w in (r, w'\<lparr>kw_db := KeyIdGuard_drop g (kw_db w')\<rparr>))"

text \<open>A call of a KeyMint device, with the error of a binder status translated.\<close>

definition km_device_call ::
    "('e, 'p, 'k) ks_env \<Rightarrow> ('k \<Rightarrow> 'a binder_result \<times> 'k) \<Rightarrow> (('k, 'z) base_world_scheme, 'a) st" where
  "km_device_call E f w =
     (let (r, km) = f (kw_km w)
      in (case map_km_error (nv_codes E) r of Inl e \<Rightarrow> Inl (Ks e) | Inr v \<Rightarrow> Inr v, w\<lparr>kw_km := km\<rparr>))"

lemma on_db_simps [simp]:
  "f (kw_db w) = (r, db) \<Longrightarrow> on_db f w = (r, w\<lparr>kw_db := db\<rparr>)"
  by (simp add: on_db_def)

lemma draw_simps [simp]: "draw n w = (Inr (kw_rng w), w\<lparr>kw_rng := kw_rng w + n\<rparr>)"
  by (simp add: draw_def)

lemma drop_guard_simps [simp]: "drop_guard g w = (Inr (), w\<lparr>kw_db := KeyIdGuard_drop g (kw_db w)\<rparr>)"
  by (simp add: drop_guard_def)

text \<open>The invariants of the database are the ones that matter to its callers.\<close>

lemma preserves_draw [st_preserves]: "preserves (\<lambda>w. P (kw_db w)) (draw n)"
  by (simp add: preserves_def)

lemma preserves_km_device_call [st_preserves]: "preserves (\<lambda>w. P (kw_db w)) (km_device_call E f)"
  by (simp add: preserves_def km_device_call_def split: prod.splits)

lemma preserves_on_db:
  "(\<And>db r db'. P db \<Longrightarrow> f db = (r, db') \<Longrightarrow> P db') \<Longrightarrow> preserves (\<lambda>w. P (kw_db w)) (on_db f)"
  by (auto simp: preserves_def on_db_def split: prod.splits)

lemma preserves_drop_guard:
  "(\<And>db. P db \<Longrightarrow> P (KeyIdGuard_drop g db)) \<Longrightarrow> preserves (\<lambda>w. P (kw_db w)) (drop_guard g)"
  by (simp add: preserves_def)

lemma preserves_with_guard:
  "preserves (\<lambda>w. P (kw_db w)) m \<Longrightarrow> (\<And>db. P db \<Longrightarrow> P (KeyIdGuard_drop g db)) \<Longrightarrow>
   preserves (\<lambda>w. P (kw_db w)) (with_guard g m)"
  by (auto simp: preserves_def with_guard_def split: prod.splits)

end
