(* ===== verification/Ks_SuperKeyTypes.thy ===== *)
theory Ks_SuperKeyTypes
  imports Ks_Crypto Ks_DbTypes Ks_Enforcements
begin

text \<open>
  Super keys and what is encrypted with them (\<open>src/keystore2/src/super_key.rs\<close>, the parts
  without the state of the manager): the identifiers of super keys and their place in the
  metadata of a blob, the encryption of super keys with a password, and the encryption of key
  blobs with super keys, symmetric and to a public key.

  Super keys are shared through reference counts.  An object is a value with a number,
  \<open>sk_obj\<close>, which its creation hands out; two references are the same object when their
  numbers are equal.  Random draws are numbered as in \<open>Ks_Crypto\<close>.
\<close>

section \<open>Types\<close>

definition BIOMETRIC_AUTH_TIMEOUT_S :: i32 where
  "BIOMETRIC_AUTH_TIMEOUT_S = 15"

datatype super_encryption_algorithm = Aes256Gcm | EcdhP521

record super_key_type =
  skt_alias :: string
  skt_algorithm :: super_encryption_algorithm

definition USER_SUPER_KEY :: super_key_type where
  "USER_SUPER_KEY = \<lparr>skt_alias = ''USER_SUPER_KEY'', skt_algorithm = Aes256Gcm\<rparr>"

definition USER_SCREEN_LOCK_BOUND_KEY :: super_key_type where
  "USER_SCREEN_LOCK_BOUND_KEY = \<lparr>skt_alias = ''USER_SCREEN_LOCK_BOUND_KEY'', skt_algorithm = Aes256Gcm\<rparr>"

definition USER_SCREEN_LOCK_BOUND_P521_KEY :: super_key_type where
  "USER_SCREEN_LOCK_BOUND_P521_KEY = \<lparr>skt_alias = ''USER_SCREEN_LOCK_BOUND_P521_KEY'', skt_algorithm = EcdhP521\<rparr>"

datatype super_key_identifier = DatabaseId int | BootLevelId i32

definition SuperKeyIdentifier_from_metadata :: "blob_meta_data \<Rightarrow> super_key_identifier option" where
  "SuperKeyIdentifier_from_metadata metadata =
     (case BlobMetaData_encrypted_by metadata of
        Some (KeyId key_id) \<Rightarrow> Some (DatabaseId key_id)
      | _ \<Rightarrow> map_option BootLevelId (BlobMetaData_max_boot_level metadata))"

fun SuperKeyIdentifier_add_to_metadata :: "super_key_identifier \<Rightarrow> blob_meta_data \<Rightarrow> blob_meta_data" where
  "SuperKeyIdentifier_add_to_metadata (DatabaseId i) metadata = BlobMetaData_add (EncryptedBy (KeyId i)) metadata"
| "SuperKeyIdentifier_add_to_metadata (BootLevelId level) metadata = BlobMetaData_add (MaxBootLevel level) metadata"

datatype super_key =
  SuperKey (sk_obj: nat) (sk_algorithm: super_encryption_algorithm) (sk_key: bytes) (sk_id: super_key_identifier)
    (sk_reencrypt_with: "super_key option")

definition SuperKey_aes_gcm_decrypt ::
    "('e, 'p) boringssl \<Rightarrow> super_key \<Rightarrow> bytes \<Rightarrow> bytes \<Rightarrow> bytes \<Rightarrow> bytes res" where
  "SuperKey_aes_gcm_decrypt L k data iv tag =
     (if sk_algorithm k = Aes256Gcm then aes_gcm_decrypt L data iv tag (sk_key k) else Inl sys)"

record locked_key =
  lk_algorithm :: super_encryption_algorithm
  lk_id :: super_key_identifier
  lk_nonce :: bytes
  lk_ciphertext :: bytes

definition LockedKey_new :: "('e, 'p) boringssl \<Rightarrow> nat \<Rightarrow> bytes \<Rightarrow> super_key \<Rightarrow> locked_key res" where
  "LockedKey_new L r key to_encrypt =
     map_res (\<lambda>(ciphertext, nonce, tag).
         \<lparr>lk_algorithm = sk_algorithm to_encrypt, lk_id = sk_id to_encrypt, lk_nonce = nonce,
          lk_ciphertext = ciphertext @ tag\<rparr>)
       (aes_gcm_encrypt L r (sk_key to_encrypt) key)"

datatype key_blob =
    Sensitive (kb_key: bytes) (kb_reencrypt_with: super_key) (kb_force_reencrypt: bool)
  | NonSensitive (kb_key: bytes)
  | KB_Ref (kb_key: bytes)

fun KeyBlob_force_reencrypt :: "key_blob \<Rightarrow> bool" where
  "KeyBlob_force_reencrypt (Sensitive _ _ b) = b"
| "KeyBlob_force_reencrypt _ = False"

definition KeyBlob_deref :: "key_blob \<Rightarrow> bytes" where
  "KeyBlob_deref b = kb_key b"

section \<open>Password encryption\<close>

definition encrypt_with_password ::
    "('e, 'p) boringssl \<Rightarrow> nat \<Rightarrow> bytes \<Rightarrow> password \<Rightarrow> (bytes \<times> blob_meta_data) res" where
  "encrypt_with_password L r super_key pw =
     and_then (generate_salt L r) (\<lambda>salt.
     and_then (derive_key L pw (Some salt) AES_256_KEY_LENGTH) (\<lambda>derived_key.
     let metadata = BlobMetaData_add (Salt salt) (BlobMetaData_add (EncryptedBy Password) BlobMetaData_new)
     in map_res (\<lambda>(encrypted_key, iv, tag).
            (encrypted_key, BlobMetaData_add (AeadTag tag) (BlobMetaData_add (Iv iv) metadata)))
          (aes_gcm_encrypt L (r + 1) super_key derived_key)))"

definition extract_super_key_from_key_entry ::
    "('e, 'p) boringssl \<Rightarrow> nat \<Rightarrow> super_encryption_algorithm \<Rightarrow> key_entry \<Rightarrow> password \<Rightarrow> super_key option
     \<Rightarrow> super_key res" where
  "extract_super_key_from_key_entry L obj algorithm entry pw reencrypt_with =
     (case e_key_blob_info entry of
        None \<Rightarrow> Inl (Ks (Rc RC_VALUE_CORRUPTED))
      | Some (blob, metadata) \<Rightarrow>
          (case (BlobMetaData_encrypted_by metadata, BlobMetaData_salt metadata, BlobMetaData_iv metadata,
                 BlobMetaData_aead_tag metadata) of
             (Some Password, Some salt, Some iv, Some tag) \<Rightarrow>
               and_then (derive_key L pw (Some salt) AES_256_KEY_LENGTH) (\<lambda>key.
               map_res (\<lambda>key. SuperKey obj algorithm key (DatabaseId (e_id entry)) reencrypt_with)
                 (aes_gcm_decrypt L blob iv tag key))
           | _ \<Rightarrow> Inl (Ks (Rc RC_VALUE_CORRUPTED))))"

section \<open>Super encryption\<close>

definition encrypt_with_aes_super_key ::
    "('e, 'p) boringssl \<Rightarrow> nat \<Rightarrow> bytes \<Rightarrow> super_key \<Rightarrow> (bytes \<times> blob_meta_data) res" where
  "encrypt_with_aes_super_key L r key_blob super_key =
     (if sk_algorithm super_key \<noteq> Aes256Gcm then Inl sys
      else
        map_res (\<lambda>(encrypted_key, iv, tag).
            (encrypted_key,
             SuperKeyIdentifier_add_to_metadata (sk_id super_key)
               (BlobMetaData_add (AeadTag tag) (BlobMetaData_add (Iv iv) BlobMetaData_new))))
          (aes_gcm_encrypt L r key_blob (sk_key super_key)))"

text \<open>The branch of \<open>handle_super_encryption_on_key_init\<close> that encrypts to the public key.\<close>

definition encrypt_with_public_super_key ::
    "('e, 'p) boringssl \<Rightarrow> nat \<Rightarrow> int \<Rightarrow> bytes \<Rightarrow> bytes \<Rightarrow> (bytes \<times> blob_meta_data) res" where
  "encrypt_with_public_super_key L r key_id public_key key_blob =
     map_res (\<lambda>(ephem_key, salt, iv, encrypted_key, aead_tag).
         (encrypted_key,
          SuperKeyIdentifier_add_to_metadata (DatabaseId key_id)
            (BlobMetaData_add (AeadTag aead_tag) (BlobMetaData_add (Iv iv)
               (BlobMetaData_add (Salt salt) (BlobMetaData_add (PublicKey ephem_key) BlobMetaData_new))))))
       (encrypt_message L r public_key key_blob)"

definition unwrap_key_with_key ::
    "('e, 'p) boringssl \<Rightarrow> bytes \<Rightarrow> blob_meta_data \<Rightarrow> super_key \<Rightarrow> bytes res" where
  "unwrap_key_with_key L blob metadata key =
     (case sk_algorithm key of
        Aes256Gcm \<Rightarrow>
          (case (BlobMetaData_iv metadata, BlobMetaData_aead_tag metadata) of
             (Some iv, Some tag) \<Rightarrow> SuperKey_aes_gcm_decrypt L key blob iv tag
           | _ \<Rightarrow> Inl (Ks (Rc RC_VALUE_CORRUPTED)))
      | EcdhP521 \<Rightarrow>
          (case (BlobMetaData_public_key metadata, BlobMetaData_salt metadata, BlobMetaData_iv metadata,
                 BlobMetaData_aead_tag metadata) of
             (Some public_key, Some salt, Some iv, Some aead_tag) \<Rightarrow>
               and_then (ECDHPrivateKey_from_private_key L (sk_key key)) (\<lambda>k.
                 decrypt_message L k public_key salt iv blob aead_tag)
           | _ \<Rightarrow> Inl (Ks (Rc RC_VALUE_CORRUPTED))))"

text \<open>The blob a super key gives: re-encryption uses the symmetric key, and is forced when it was
  decrypted with the private key.\<close>

definition sensitive_blob :: "bytes \<Rightarrow> super_key \<Rightarrow> key_blob" where
  "sensitive_blob key super_key =
     Sensitive key (case sk_reencrypt_with super_key of Some k \<Rightarrow> k | None \<Rightarrow> super_key)
       (sk_reencrypt_with super_key \<noteq> None)"

definition reencrypt_if_required ::
    "('e, 'p) boringssl \<Rightarrow> nat \<Rightarrow> key_blob \<Rightarrow> bytes \<Rightarrow> (key_blob \<times> blob_meta_data option) res" where
  "reencrypt_if_required L r key_blob_before_upgrade key_after_upgrade =
     (case key_blob_before_upgrade of
        Sensitive _ super_key _ \<Rightarrow>
          map_res (\<lambda>(key, metadata). (NonSensitive key, Some metadata))
            (encrypt_with_aes_super_key L r key_after_upgrade super_key)
      | _ \<Rightarrow> Inr (KB_Ref key_after_upgrade, None))"

section \<open>Round trips\<close>

lemma map_of_hash_insert_eq [simp]: "map_of (hash_insert k v m) k' = (if k' = k then Some v else map_of m k')"
proof -
  have "map_of (filter (\<lambda>e. fst e \<noteq> k) m) k' = (if k' = k then None else map_of m k')"
    by (induction m) auto
  then show ?thesis by (auto simp: hash_insert_def map_add_def split: option.splits)
qed

lemmas blob_meta_data_simps =
  BlobMetaData_add_def BlobMetaData_new_def BlobMetaData_encrypted_by_def BlobMetaData_salt_def BlobMetaData_iv_def
  BlobMetaData_aead_tag_def BlobMetaData_km_uuid_def BlobMetaData_public_key_def BlobMetaData_max_boot_level_def
  SuperKeyIdentifier_from_metadata_def

lemma derive_key_length: "derive_key L pw salt n = Inr k \<Longrightarrow> key_length_ok n"
  by (simp add: derive_key_def split: if_splits)

text \<open>A super key encrypted with a password is recovered from the stored blob and its metadata with
  the same password, byte for byte, whatever the length of the key.\<close>

theorem password_encryption_roundtrip:
  assumes "random_law L" and "gcm_law L"
    and "encrypt_with_password L r key pw = Inr (blob, metadata)"
    and "e_key_blob_info entry = Some (blob, metadata)"
  shows "extract_super_key_from_key_entry L obj algorithm entry pw reencrypt_with =
         Inr (SuperKey obj algorithm key (DatabaseId (e_id entry)) reencrypt_with)"
proof -
  from assms(3) obtain salt derived iv tag where
    key: "derive_key L pw (Some salt) AES_256_KEY_LENGTH = Inr derived"
    and enc: "aes_gcm_encrypt L (r + 1) key derived = Inr (blob, iv, tag)"
    and md: "metadata = BlobMetaData_add (AeadTag tag) (BlobMetaData_add (Iv iv)
        (BlobMetaData_add (Salt salt) (BlobMetaData_add (EncryptedBy Password) BlobMetaData_new)))"
    by (auto simp: encrypt_with_password_def res_iffs Let_def)
  show ?thesis
    using key aes_gcm_encrypt_Inr(4) [OF assms(1,2) enc]
    by (simp add: extract_super_key_from_key_entry_def assms(4) md blob_meta_data_simps)
qed

text \<open>Only the algorithm and the key matter, not the object.\<close>

lemma encrypt_with_aes_super_key_unwraps:
  assumes "random_law L" and "gcm_law L"
    and "encrypt_with_aes_super_key L r key_blob k = Inr (blob, metadata)"
  shows "SuperKeyIdentifier_from_metadata metadata = Some (sk_id k)"
    and "sk_algorithm k' = sk_algorithm k \<Longrightarrow> sk_key k' = sk_key k \<Longrightarrow> unwrap_key_with_key L blob metadata k' = Inr key_blob"
proof -
  from assms(3) obtain iv tag where alg: "sk_algorithm k = Aes256Gcm"
    and enc: "aes_gcm_encrypt L r key_blob (sk_key k) = Inr (blob, iv, tag)"
    and md: "metadata = SuperKeyIdentifier_add_to_metadata (sk_id k)
        (BlobMetaData_add (AeadTag tag) (BlobMetaData_add (Iv iv) BlobMetaData_new))"
    by (auto simp: encrypt_with_aes_super_key_def res_iffs split: if_splits)
  show "SuperKeyIdentifier_from_metadata metadata = Some (sk_id k)"
    and "sk_algorithm k' = sk_algorithm k \<Longrightarrow> sk_key k' = sk_key k \<Longrightarrow> unwrap_key_with_key L blob metadata k' = Inr key_blob"
    using aes_gcm_encrypt_Inr(4) [OF assms(1,2) enc] alg
    by (cases "sk_id k"; simp add: unwrap_key_with_key_def SuperKey_aes_gcm_decrypt_def md blob_meta_data_simps)+
qed

text \<open>C22. A key blob encrypted with a symmetric super key names this super key in its metadata and is
  unwrapped by it to the blob itself; and when the blob is re-encrypted after an upgrade, the new
  blob is again unwrapped by the key it names.\<close>

theorem super_encryption_roundtrip:
  assumes "random_law L" and "gcm_law L"
    and "encrypt_with_aes_super_key L r key_blob k = Inr (blob, metadata)"
  shows "SuperKeyIdentifier_from_metadata metadata = Some (sk_id k) \<and>
         unwrap_key_with_key L blob metadata k = Inr key_blob \<and>
         reencrypt_if_required L r (sensitive_blob old k) key_blob =
           (case sk_reencrypt_with k of
              None \<Rightarrow> Inr (NonSensitive blob, Some metadata)
            | Some k' \<Rightarrow> map_res (\<lambda>(b, m). (NonSensitive b, Some m)) (encrypt_with_aes_super_key L r key_blob k'))"
proof -
  have "reencrypt_if_required L r (sensitive_blob old k) key_blob =
      (case sk_reencrypt_with k of
         None \<Rightarrow> Inr (NonSensitive blob, Some metadata)
       | Some k' \<Rightarrow> map_res (\<lambda>(b, m). (NonSensitive b, Some m)) (encrypt_with_aes_super_key L r key_blob k'))"
    using assms(3) by (simp add: reencrypt_if_required_def sensitive_blob_def split: option.splits)
  then show ?thesis using encrypt_with_aes_super_key_unwraps [OF assms] by blast
qed

text \<open>C24. A key blob encrypted to the public key while the device is locked names the private super key in
  its metadata and is unwrapped by it, once the private key is in memory again.\<close>

theorem public_super_encryption_roundtrip:
  assumes "random_law L" and "gcm_law L" and "ecdh_law L"
    and "ECKEYParsePrivateKey L (sk_key k) = Some e" and "sk_algorithm k = EcdhP521"
    and "ECDHPrivateKey_public_key L e = Inr public_key"
    and "encrypt_with_public_super_key L r key_id public_key key_blob = Inr (blob, metadata)"
  shows "SuperKeyIdentifier_from_metadata metadata = Some (DatabaseId key_id) \<and>
         unwrap_key_with_key L blob metadata k = Inr key_blob"
proof -
  from assms(7) obtain sender salt iv tag where
    enc: "encrypt_message L r public_key key_blob = Inr (sender, salt, iv, blob, tag)"
    and md: "metadata = SuperKeyIdentifier_add_to_metadata (DatabaseId key_id)
       (BlobMetaData_add (AeadTag tag) (BlobMetaData_add (Iv iv)
         (BlobMetaData_add (Salt salt) (BlobMetaData_add (PublicKey sender) BlobMetaData_new))))"
    by (auto simp: encrypt_with_public_super_key_def res_iffs)
  show ?thesis
    using assms(4,5) encrypt_message_decrypts [OF assms(1-3,6) enc]
    by (simp add: unwrap_key_with_key_def ECDHPrivateKey_from_private_key_def ec_key_parse_private_key_def md
        blob_meta_data_simps)
qed

subsection \<open>Examples\<close>

lemmas ex_crypto_simps =
  generate_salt_def generate_random_data_def derive_key_def aes_gcm_encrypt_def key_length_ok_def crypto_lengths
  ex_ssl_def Let_def

definition ex_super_key :: super_key where
  "ex_super_key = SuperKey 0 Aes256Gcm (replicate 32 7) (DatabaseId 5) None"

definition ex_private_key :: super_key where
  "ex_private_key = SuperKey 1 EcdhP521 (replicate 73 7) (DatabaseId 6) (Some ex_super_key)"

theorem password_encryption_roundtrip_witness:
  "\<exists>blob metadata. encrypt_with_password ex_ssl 0 [1, 2, 3] (Ref [9]) = Inr (blob, metadata) \<and> blob \<noteq> [1, 2, 3] \<and>
     extract_super_key_from_key_entry ex_ssl 4 Aes256Gcm
       \<lparr>e_id = 8, e_key_blob_info = Some (blob, metadata), e_cert = None, e_cert_chain = None, e_km_uuid = Uuid_default,
        e_parameters = [], e_metadata = [], e_pure_cert = False\<rparr> (Owned [9]) None =
     Inr (SuperKey 4 Aes256Gcm [1, 2, 3] (DatabaseId 8) None)"
proof -
  have "encrypt_with_password ex_ssl 0 [1, 2, 3] (Ref [9]) = encrypt_with_password ex_ssl 0 [1, 2, 3] (Owned [9])"
    by (simp add: encrypt_with_password_def derive_key_def cong: if_cong)
  moreover have "\<exists>blob metadata. encrypt_with_password ex_ssl 0 [1, 2, 3] (Ref [9]) = Inr (blob, metadata) \<and> blob \<noteq> [1, 2, 3]"
    by (simp add: encrypt_with_password_def sum_list_replicate ex_crypto_simps)
  ultimately obtain blob metadata where
    enc: "encrypt_with_password ex_ssl 0 [1, 2, 3] (Owned [9]) = Inr (blob, metadata)" and "blob \<noteq> [1, 2, 3]"
    and "encrypt_with_password ex_ssl 0 [1, 2, 3] (Ref [9]) = Inr (blob, metadata)"
    by auto
  with password_encryption_roundtrip [OF ex_ssl_laws(1,2) enc] show ?thesis by auto
qed

theorem super_encryption_roundtrip_witness:
  "\<exists>blob metadata. encrypt_with_aes_super_key ex_ssl 0 [1, 2, 3] ex_super_key = Inr (blob, metadata) \<and>
     blob \<noteq> [1, 2, 3] \<and> unwrap_key_with_key ex_ssl blob metadata ex_super_key = Inr [1, 2, 3]"
proof -
  have "\<exists>blob metadata. encrypt_with_aes_super_key ex_ssl 0 [1, 2, 3] ex_super_key = Inr (blob, metadata) \<and>
     blob \<noteq> [1, 2, 3]"
    by (simp add: encrypt_with_aes_super_key_def ex_super_key_def ex_crypto_simps)
  with super_encryption_roundtrip [OF ex_ssl_laws(1,2)] show ?thesis by blast
qed

theorem public_super_encryption_roundtrip_witness:
  "\<exists>blob metadata. encrypt_with_public_super_key ex_ssl 0 6 [21] [1, 2, 3] = Inr (blob, metadata) \<and>
     blob \<noteq> [1, 2, 3] \<and> unwrap_key_with_key ex_ssl blob metadata ex_private_key = Inr [1, 2, 3]"
proof -
  have parse: "ECKEYParsePrivateKey ex_ssl (sk_key ex_private_key) = Some 7"
    by (simp add: ex_ssl_def ex_private_key_def)
  have pub: "ECDHPrivateKey_public_key ex_ssl 7 = Inr [21]"
    by (simp add: ECDHPrivateKey_public_key_def ec_point_point_to_oct_def ex_ssl_def Let_def)
  have "\<exists>blob metadata. encrypt_with_public_super_key ex_ssl 0 6 [21] [1, 2, 3] = Inr (blob, metadata) \<and>
     blob \<noteq> [1, 2, 3]"
    by (simp add: encrypt_with_public_super_key_def encrypt_message_def ECDHPrivateKey_generate_def
        ec_key_generate_key_def ECDHPrivateKey_public_key_def ec_point_point_to_oct_def agree_key_def hkdf_extract_def
        ec_point_oct_to_point_def ecdh_compute_key_def hkdf_expand_def ascii_bytes_def sum_list_replicate ex_crypto_simps)
  with public_super_encryption_roundtrip [OF ex_ssl_laws parse _ pub] show ?thesis
    by (fastforce simp: ex_private_key_def)
qed

end
