(* ===== verification/Ks_LegacyMigrator.thy ===== *)
theory Ks_LegacyMigrator
  imports Ks_World Ks_SuperKeyTypes
begin

text \<open>
  The migration of legacy keys into the database (\<open>src/keystore2/src/legacy_migrator.rs\<close>).

  The requests of all threads are jobs of one worker thread, which keeps the state of the
  migrator on its shelf; a request is one atomic step here, from the check of the state to the
  answer.  \<open>lm_initializer\<close> says whether the function that connects to the databases is still
  there.  \<open>do_serialized\<close> is also given in the pieces that other threads can run between: the
  check of the state, the job on the worker, and the requester's last look at the answer.
\<close>

section \<open>State\<close>

datatype migrator_status = STATE_UNINITIALIZED | STATE_READY | STATE_EMPTY

record migrator_shelf =
  ms_recently_migrated :: "(nat \<times> string) list"
  ms_recently_migrated_super_key :: "nat list"

record legacy_migrator =
  lm_status :: migrator_status
  lm_initializer :: bool
  lm_shelf :: "migrator_shelf option"

record 'k mig_world = "'k base_world" +
  kw_fs :: legacy_fs
  kw_mig :: legacy_migrator

definition WIFI_NAMESPACE :: int where "WIFI_NAMESPACE = 102"

definition AID_WIFI :: nat where "AID_WIFI = 1010"

definition LegacyMigrator_new :: legacy_migrator where
  "LegacyMigrator_new = \<lparr>lm_status = STATE_UNINITIALIZED, lm_initializer = False, lm_shelf = None\<rparr>"

definition set_init :: "legacy_migrator \<Rightarrow> legacy_migrator" where
  "set_init m = (if lm_status m \<noteq> STATE_UNINITIALIZED then m else m\<lparr>lm_initializer := True\<rparr>)"

definition on_fs :: "(legacy_fs, 'a) st \<Rightarrow> (('k, 'z) mig_world_scheme, 'a) st" where
  "on_fs f w = (let (r, fs) = f (kw_fs w) in (r, w\<lparr>kw_fs := fs\<rparr>))"

definition set_status :: "migrator_status \<Rightarrow> ('k, 'z) mig_world_scheme \<Rightarrow> ('k, 'z) mig_world_scheme" where
  "set_status s w = w\<lparr>kw_mig := (kw_mig w)\<lparr>lm_status := s\<rparr>\<rparr>"

section \<open>Checking the state\<close>

text \<open>
  The initializer is taken before the legacy database is looked at.  The job that puts the state
  on the shelf is queued ahead of every request.
\<close>

definition check_state :: "(('k, 'z) mig_world_scheme, migrator_status) st" where
  "check_state w =
     (case lm_status (kw_mig w) of
        STATE_EMPTY \<Rightarrow> (Inr STATE_EMPTY, w)
      | STATE_READY \<Rightarrow> (Inr STATE_READY, w)
      | STATE_UNINITIALIZED \<Rightarrow>
          (if lm_initializer (kw_mig w) then
             (let w = w\<lparr>kw_mig := (kw_mig w)\<lparr>lm_initializer := False\<rparr>\<rparr>
              in case is_empty (kw_fs w) of
                   Inl e \<Rightarrow> (Inl e, w)
                 | Inr True \<Rightarrow> (Inr STATE_EMPTY, set_status STATE_EMPTY w)
                 | Inr False \<Rightarrow>
                     (Inr STATE_READY,
                      w\<lparr>kw_mig := (kw_mig w)
                          \<lparr>lm_status := STATE_READY,
                           lm_shelf := Some (case lm_shelf (kw_mig w) of
                             Some s \<Rightarrow> s
                           | None \<Rightarrow> \<lparr>ms_recently_migrated = [], ms_recently_migrated_super_key = []\<rparr>)\<rparr>\<rparr>))
           else (Inl sys, w)))"

definition check_empty :: "legacy_fs \<Rightarrow> migrator_status" where
  "check_empty fs = (if is_empty fs = Inr True then STATE_EMPTY else STATE_READY)"

text \<open>The job of a request: it drops the state of the migrator when nothing is left to migrate.\<close>

definition migrator_job ::
    "(('k, 'z) mig_world_scheme, 'a) st \<Rightarrow> ('k, 'z) mig_world_scheme
     \<Rightarrow> (migrator_status \<times> 'a res option) \<times> ('k, 'z) mig_world_scheme" where
  "migrator_job f w =
     (case lm_shelf (kw_mig w) of
        None \<Rightarrow> ((STATE_EMPTY, None), w)
      | Some _ \<Rightarrow>
          (let (result, w) = f w; new_state = check_empty (kw_fs w)
           in ((new_state, Some result),
               if new_state = STATE_EMPTY then w\<lparr>kw_mig := (kw_mig w)\<lparr>lm_shelf := None\<rparr>\<rparr> else w)))"

definition finish_request :: "migrator_status \<Rightarrow> ('k, 'z) mig_world_scheme \<Rightarrow> ('k, 'z) mig_world_scheme" where
  "finish_request new_state w = (if new_state = STATE_EMPTY then set_status STATE_EMPTY w else w)"

definition do_serialized ::
    "(('k, 'z) mig_world_scheme, 'a) st \<Rightarrow> ('k, 'z) mig_world_scheme
     \<Rightarrow> 'a res option \<times> ('k, 'z) mig_world_scheme" where
  "do_serialized f w =
     (case check_state w of
        (Inl e, w) \<Rightarrow> (Some (Inl e), w)
      | (Inr STATE_READY, w) \<Rightarrow>
          (let ((new_state, result), w) = migrator_job f w in (result, finish_request new_state w))
      | (Inr _, w) \<Rightarrow> (None, w))"

text \<open>\<open>result.unwrap_or(v)\<close>\<close>

definition serialized_or ::
    "'a \<Rightarrow> (('k, 'z) mig_world_scheme, 'a) st \<Rightarrow> (('k, 'z) mig_world_scheme, 'a) st" where
  "serialized_or v f w =
     (case do_serialized f w of (None, w) \<Rightarrow> (Inr v, w) | (Some r, w) \<Rightarrow> (r, w))"

section \<open>Requests on the worker\<close>

definition get_km_uuid :: "('e, 'p, 'k) ks_env \<Rightarrow> bool \<Rightarrow> uuid res" where
  "get_km_uuid E strongbox =
     ok_or (nv_sec_level_to_km_uuid E
              (if strongbox then SL_STRONGBOX (nv_legacy E) else SL_TRUSTED_ENVIRONMENT (nv_legacy E))) sys"

definition recently_migrated :: "nat \<Rightarrow> string \<Rightarrow> ('k, 'z) mig_world_scheme \<Rightarrow> bool" where
  "recently_migrated uid alias w \<longleftrightarrow>
     (case lm_shelf (kw_mig w) of Some s \<Rightarrow> (uid, alias) \<in> set (ms_recently_migrated s) | None \<Rightarrow> False)"

definition recently_migrated_super_key :: "nat \<Rightarrow> ('k, 'z) mig_world_scheme \<Rightarrow> bool" where
  "recently_migrated_super_key user_id w \<longleftrightarrow>
     (case lm_shelf (kw_mig w) of Some s \<Rightarrow> user_id \<in> set (ms_recently_migrated_super_key s) | None \<Rightarrow> False)"

definition map_shelf ::
    "(migrator_shelf \<Rightarrow> migrator_shelf) \<Rightarrow> ('k, 'z) mig_world_scheme \<Rightarrow> ('k, 'z) mig_world_scheme" where
  "map_shelf f w = w\<lparr>kw_mig := (kw_mig w)\<lparr>lm_shelf := map_option f (lm_shelf (kw_mig w))\<rparr>\<rparr>"

text \<open>The entry of a super key; the guard that comes with it is dropped at once.\<close>

definition super_key_entry ::
    "super_key_type \<Rightarrow> nat \<Rightarrow> (('k, 'z) base_world_scheme, key_entry option) st" where
  "super_key_entry key_type user_id =
     st_bind (on_db (load_super_key (skt_alias key_type) user_id)) (\<lambda>r.
       case r of
         None \<Rightarrow> st_ok None
       | Some (g, entry) \<Rightarrow> st_bind (drop_guard g) (\<lambda>_. st_ok (Some entry)))"

text \<open>
  The blob to store and its metadata.  An encrypted legacy key whose super key is neither in the
  database nor in the legacy key store can never be used again and is removed.
\<close>

definition migrate_blob ::
    "('e, 'p, 'k) ks_env \<Rightarrow> nat \<Rightarrow> string \<Rightarrow> blob_value \<Rightarrow> (('k, 'z) mig_world_scheme, bytes \<times> blob_meta_data) st" where
  "migrate_blob E uid alias v =
     (case v of
        Encrypted iv tag data \<Rightarrow>
          (let user_id = le_uid_to_android_user (nv_legacy E) uid in
           st_bind (super_key_entry USER_SUPER_KEY user_id) (\<lambda>entry.
             case entry of
               Some entry \<Rightarrow>
                 st_ok (data, BlobMetaData_add (EncryptedBy (KeyId (e_id entry)))
                                (BlobMetaData_add (AeadTag tag) (BlobMetaData_add (Iv iv) BlobMetaData_new)))
             | None \<Rightarrow>
                 st_bind (st_gets (\<lambda>w. LegacyBlobLoader_has_super_key user_id (kw_fs w))) (\<lambda>has.
                   if has then st_err (Ks (Rc RC_LOCKED))
                   else st_bind (on_fs (remove_keystore_entry (nv_legacy E) uid alias)) (\<lambda>_.
                          st_err (Ks (Rc RC_KEY_NOT_FOUND))))))
      | Decrypted data \<Rightarrow> st_ok (data, BlobMetaData_new)
      | _ \<Rightarrow> st_err (Ks (Rc RC_KEY_NOT_FOUND)))"

definition migrate_key ::
    "('e, 'p, 'k) ks_env \<Rightarrow> nat \<Rightarrow> string \<Rightarrow> key_descriptor \<Rightarrow> blob \<Rightarrow> key_parameter list \<Rightarrow> bytes option
     \<Rightarrow> bytes option \<Rightarrow> (('k, 'z) mig_world_scheme, unit) st" where
  "migrate_key E uid alias key km_blob params user_cert ca_cert =
     st_bind (migrate_blob E uid alias (bl_value km_blob)) (\<lambda>(blob, blob_metadata).
     st_bind (st_lift (get_km_uuid E (is_strongbox km_blob))) (\<lambda>km_uuid.
     st_bind (draw 1) (\<lambda>r.
     st_bind (st_lift (nv_now E r)) (\<lambda>creation_date.
     st_bind (on_db (store_new_key (nv_ids E r) key Client params
                (blob, BlobMetaData_add (KmUuid km_uuid) blob_metadata)
                \<lparr>ci_cert = user_cert, ci_cert_chain = ca_cert\<rparr>
                (KeyMetaData_add (CreationDate creation_date) KeyMetaData_new) km_uuid))
       drop_guard))))"

definition migrate_certificate ::
    "('e, 'p, 'k) ks_env \<Rightarrow> key_descriptor \<Rightarrow> bytes option \<Rightarrow> (('k, 'z) mig_world_scheme, unit) st" where
  "migrate_certificate E key ca_cert =
     (case ca_cert of
        Some cert \<Rightarrow>
          st_bind (draw 1) (\<lambda>r.
          st_bind (on_db (store_new_certificate (nv_ids E r) (nv_now E r) key Client cert KEYSTORE_UUID)) drop_guard)
      | None \<Rightarrow> st_err (Ks (Rc RC_KEY_NOT_FOUND)))"

definition check_and_migrate ::
    "('e, 'p, 'k) ks_env \<Rightarrow> nat \<Rightarrow> key_descriptor \<Rightarrow> (('k, 'z) mig_world_scheme, unit) st" where
  "check_and_migrate E uid key =
     st_bind (st_lift (ok_or (kd_alias key) sys)) (\<lambda>alias.
     st_bind (st_gets (recently_migrated uid alias)) (\<lambda>recent.
       if recent then st_ok ()
       else
         let key = (if kd_domain key = APP then key\<lparr>kd_nspace := int uid\<rparr> else key) in
         st_bind (st_gets (\<lambda>w. load_by_uid_alias (nv_legacy E) uid alias None (kw_fs w))) (\<lambda>loaded.
         st_bind (st_lift loaded) (\<lambda>(km_blob_params, user_cert, ca_cert).
         st_bind (case km_blob_params of
                    Some (km_blob, params) \<Rightarrow> migrate_key E uid alias key km_blob params user_cert ca_cert
                  | None \<Rightarrow> migrate_certificate E key ca_cert) (\<lambda>_.
         st_bind (st_modify (map_shelf (\<lambda>s. s\<lparr>ms_recently_migrated := (uid, alias) # ms_recently_migrated s\<rparr>))) (\<lambda>_.
         st_bind (on_fs (remove_keystore_entry (nv_legacy E) uid alias)) (\<lambda>_. st_ok ())))))))"

definition check_and_migrate_super_key ::
    "('e, 'p, 'k) ks_env \<Rightarrow> nat \<Rightarrow> password \<Rightarrow> (('k, 'z) mig_world_scheme, unit) st" where
  "check_and_migrate_super_key E user_id pw =
     st_bind (st_gets (recently_migrated_super_key user_id)) (\<lambda>recent.
       if recent then st_ok ()
       else
         st_bind (st_gets (\<lambda>w. LegacyBlobLoader_load_super_key (nv_ssl E) user_id pw (kw_fs w))) (\<lambda>loaded.
         st_bind (st_lift loaded) (\<lambda>super_key.
           case super_key of
             None \<Rightarrow> st_err (Ks (Rc RC_KEY_NOT_FOUND))
           | Some super_key \<Rightarrow>
               st_bind (draw 3) (\<lambda>r.
               st_bind (st_lift (encrypt_with_password (nv_ssl E) r super_key pw)) (\<lambda>(blob, blob_metadata).
               st_bind (on_db (store_super_key (nv_ids E (r + 2)) user_id (skt_alias USER_SUPER_KEY) blob
                          blob_metadata KeyMetaData_new)) (\<lambda>_.
               st_bind (st_modify (\<lambda>w. w\<lparr>kw_fs := remove_super_key user_id (kw_fs w)\<rparr>)) (\<lambda>_.
                 st_modify (map_shelf (\<lambda>s. s\<lparr>ms_recently_migrated_super_key :=
                   user_id # ms_recently_migrated_super_key s\<rparr>)))))))))"

datatype bulk_delete_request = BD_Uid nat | BD_User nat

text \<open>
  What is kept of a legacy key for the garbage collector.  A key that is not super encrypted is
  kept with no metadata at all.
\<close>

definition mark_deleted :: "('e, 'p, 'k) ks_env \<Rightarrow> int option \<Rightarrow> blob \<Rightarrow> (bytes \<times> blob_meta_data) option" where
  "mark_deleted E super_key_id blob =
     (case bl_value blob of
        Encrypted iv tag data \<Rightarrow>
          (case (get_km_uuid E (is_strongbox blob), super_key_id) of
             (Inr km_uuid, Some key_id) \<Rightarrow>
               Some (data, BlobMetaData_add (EncryptedBy (KeyId key_id)) (BlobMetaData_add (AeadTag tag)
                 (BlobMetaData_add (Iv iv) (BlobMetaData_add (KmUuid km_uuid) BlobMetaData_new))))
           | _ \<Rightarrow> None)
      | Decrypted data \<Rightarrow> Some (data, BlobMetaData_new)
      | _ \<Rightarrow> None)"

definition is_rollback_resistant :: "key_parameter list \<Rightarrow> bool" where
  "is_rollback_resistant params \<longleftrightarrow> list_ex (\<lambda>kp. kp_value kp = KpRollbackResistance) params"

fun bulk_delete_entries ::
    "('e, 'p, 'k) ks_env \<Rightarrow> int option \<Rightarrow> bool \<Rightarrow> (nat \<times> string) list \<Rightarrow> (('k, 'z) mig_world_scheme, unit) st" where
  "bulk_delete_entries E super_key_id keep [] = st_ok ()"
| "bulk_delete_entries E super_key_id keep ((uid, alias) # entries) =
     st_bind (st_gets (\<lambda>w. load_by_uid_alias (nv_legacy E) uid alias None (kw_fs w))) (\<lambda>loaded.
     st_bind (st_lift loaded) (\<lambda>(km_blob_params, _, _).
       let need_gc = (case km_blob_params of Some (_, params) \<Rightarrow> is_rollback_resistant params | None \<Rightarrow> False);
           is_super_encrypted = (case km_blob_params of Some (blob, _) \<Rightarrow> is_encrypted blob | None \<Rightarrow> False)
       in if keep \<and> \<not> is_super_encrypted then bulk_delete_entries E super_key_id keep entries
          else
            st_bind (case Option.bind km_blob_params (\<lambda>(blob, _). if need_gc then mark_deleted E super_key_id blob else None) of
                       Some (blob, blob_metadata) \<Rightarrow> on_db (set_deleted_blob blob blob_metadata)
                     | None \<Rightarrow> st_ok ()) (\<lambda>_.
            st_bind (on_fs (remove_keystore_entry (nv_legacy E) uid alias)) (\<lambda>_.
              bulk_delete_entries E super_key_id keep entries))))"

definition bulk_delete_list ::
    "('e, 'p, 'k) ks_env \<Rightarrow> bulk_delete_request \<Rightarrow> legacy_fs \<Rightarrow> (uid_aliases \<times> nat) res" where
  "bulk_delete_list E request fs =
     (case request of
        BD_Uid uid \<Rightarrow>
          map_res (\<lambda>aliases. ([(uid, aliases)], le_uid_to_android_user (nv_legacy E) uid))
            (list_keystore_entries_for_uid (nv_legacy E) uid fs)
      | BD_User user_id \<Rightarrow> map_res (\<lambda>m. (m, user_id)) (list_keystore_entries_for_user user_id fs))"

definition bulk_delete ::
    "('e, 'p, 'k) ks_env \<Rightarrow> bulk_delete_request \<Rightarrow> bool \<Rightarrow> (('k, 'z) mig_world_scheme, unit) st" where
  "bulk_delete E request keep_non_super_encrypted_keys =
     st_bind (st_gets (\<lambda>w. bulk_delete_list E request (kw_fs w))) (\<lambda>listed.
     st_bind (st_lift listed) (\<lambda>(aliases, user_id).
     st_bind (super_key_entry USER_SUPER_KEY user_id) (\<lambda>entry.
       bulk_delete_entries E (map_option e_id entry) keep_non_super_encrypted_keys
         (concat (map (\<lambda>(uid, as). map (Pair uid) as) aliases)))))"

section \<open>The interface\<close>

definition legacy_uid :: "domain \<Rightarrow> int \<Rightarrow> nat option" where
  "legacy_uid domain namespace =
     (if domain = APP then Some (nat (namespace mod 2 ^ 32))
      else if domain = SELINUX \<and> namespace = WIFI_NAMESPACE then Some AID_WIFI
      else None)"

definition list_uid ::
    "('e, 'p, 'k) ks_env \<Rightarrow> domain \<Rightarrow> int \<Rightarrow> (('k, 'z) mig_world_scheme, key_descriptor list) st" where
  "list_uid E domain namespace =
     (case legacy_uid domain namespace of
        None \<Rightarrow> st_ok []
      | Some uid \<Rightarrow>
          st_bind (serialized_or []
            (st_bind (st_gets (\<lambda>w. list_keystore_entries_for_uid (nv_legacy E) uid (kw_fs w))) st_lift)) (\<lambda>aliases.
          st_ok (map (\<lambda>a. \<lparr>kd_domain = domain, kd_nspace = namespace, kd_alias = Some a, kd_blob = None\<rparr>) aliases)))"

text \<open>Which uid's legacy keys a descriptor may stand for.\<close>

definition migration_uid :: "key_descriptor \<Rightarrow> nat \<Rightarrow> nat option" where
  "migration_uid key caller_uid =
     (if kd_alias key = None then None
      else if kd_domain key = APP then Some caller_uid
      else if kd_domain key = SELINUX \<and> kd_nspace key = WIFI_NAMESPACE then Some AID_WIFI
      else None)"

definition with_try_migrate ::
    "('e, 'p, 'k) ks_env \<Rightarrow> key_descriptor \<Rightarrow> nat \<Rightarrow> (('k, 'z) mig_world_scheme, 'a) st
     \<Rightarrow> (('k, 'z) mig_world_scheme, 'a) st" where
  "with_try_migrate E key caller_uid key_accessor w =
     (case key_accessor w of
        (Inr v, w) \<Rightarrow> (Inr v, w)
      | (Inl e, w) \<Rightarrow>
          if e \<noteq> Ks (Rc RC_KEY_NOT_FOUND) then (Inl e, w)
          else (case migration_uid key caller_uid of
                  None \<Rightarrow> (Inl (Ks (Rc RC_KEY_NOT_FOUND)), w)
                | Some uid \<Rightarrow>
                    (case do_serialized (check_and_migrate E uid key) w of
                       (None, w) \<Rightarrow> (Inl (Ks (Rc RC_KEY_NOT_FOUND)), w)
                     | (Some (Inl e), w) \<Rightarrow> (Inl e, w)
                     | (Some (Inr _), w) \<Rightarrow> key_accessor w)))"

definition with_try_migrate_super_key ::
    "('e, 'p, 'k) ks_env \<Rightarrow> nat \<Rightarrow> password \<Rightarrow> (('k, 'z) mig_world_scheme, 'a option) st
     \<Rightarrow> (('k, 'z) mig_world_scheme, 'a option) st" where
  "with_try_migrate_super_key E user_id pw key_accessor w =
     (case key_accessor w of
        (Inr (Some v), w) \<Rightarrow> (Inr (Some v), w)
      | (Inl e, w) \<Rightarrow> (Inl e, w)
      | (Inr None, w) \<Rightarrow>
          (case do_serialized (check_and_migrate_super_key E user_id (try_clone pw)) w of
             (None, w) \<Rightarrow> (Inr None, w)
           | (Some (Inl e), w) \<Rightarrow> (Inl e, w)
           | (Some (Inr _), w) \<Rightarrow> key_accessor w))"

definition bulk_delete_uid :: "('e, 'p, 'k) ks_env \<Rightarrow> domain \<Rightarrow> int \<Rightarrow> (('k, 'z) mig_world_scheme, unit) st" where
  "bulk_delete_uid E domain nspace =
     (case legacy_uid domain nspace of
        None \<Rightarrow> st_ok ()
      | Some uid \<Rightarrow> serialized_or () (bulk_delete E (BD_Uid uid) False))"

definition bulk_delete_user :: "('e, 'p, 'k) ks_env \<Rightarrow> nat \<Rightarrow> bool \<Rightarrow> (('k, 'z) mig_world_scheme, unit) st" where
  "bulk_delete_user E user_id keep_non_super_encrypted_keys =
     serialized_or () (bulk_delete E (BD_User user_id) keep_non_super_encrypted_keys)"

definition LegacyMigrator_has_super_key :: "nat \<Rightarrow> (('k, 'z) mig_world_scheme, bool) st" where
  "LegacyMigrator_has_super_key user_id =
     serialized_or False
       (st_gets (\<lambda>w. recently_migrated_super_key user_id w \<or> LegacyBlobLoader_has_super_key user_id (kw_fs w)))"

section \<open>Migration loses no key\<close>

lemma on_fs_eq: "on_fs f w = (fst (f (kw_fs w)), w\<lparr>kw_fs := snd (f (kw_fs w))\<rparr>)"
  by (simp add: on_fs_def split: prod.splits)

lemma load_super_key_same:
  assumes "load_super_key alias user_id db = (r, db')"
  shows "(\<forall>g entry. r = Inr (Some (g, entry)) \<longrightarrow> KeyIdGuard_drop g db' = db) \<and> (r = Inr None \<longrightarrow> db' = db) \<and>
         (\<forall>e. r = Inl e \<longrightarrow> db' = db)"
  using assms
  by (auto simp: load_super_key_def with_transaction_def KeyIdLockDb_get_def KeyIdGuard_drop_def res_iffs
      split: sum.splits if_splits option.splits)

text \<open>Looking up a super key changes nothing.\<close>

lemma super_key_entry_same:
  assumes "super_key_entry kt u w = (r, w')"
  shows "w' = w"
proof -
  obtain x db where l: "load_super_key (skt_alias kt) u (kw_db w) = (x, db)" by fastforce
  from load_super_key_same [OF l] assms l show ?thesis
    by (auto simp: super_key_entry_def st_bind_def on_db_def split: sum.splits option.splits)
qed

lemma store_error_same:
  "store_new_key rnd key kt params b c md u db = (Inl e, db') \<Longrightarrow> db' = db"
  "store_new_certificate rnd now key kt cert u db = (Inl e, db') \<Longrightarrow> db' = db"
  by (auto simp: store_new_key_def store_new_certificate_def with_transaction_def
      split: option.splits if_splits sum.splits)

text \<open>
  What a legacy blob becomes: the same bytes, and for a super encrypted one also the parameters
  of the encryption and the id of the super key.
\<close>

definition legacy_blob_as :: "blob_value \<Rightarrow> bytes \<Rightarrow> blob_meta_data \<Rightarrow> bool" where
  "legacy_blob_as v data md \<longleftrightarrow>
     v = Decrypted data \<and> BlobMetaData_encrypted_by md = None \<or>
     (\<exists>iv tag id'. v = Encrypted iv tag data \<and> BlobMetaData_encrypted_by md = Some (KeyId id') \<and>
        BlobMetaData_iv md = Some iv \<and> BlobMetaData_aead_tag md = Some tag)"

text \<open>The legacy entry \<open>loaded\<close> is in the database \<open>db'\<close>, stored under \<open>key\<close>.\<close>

definition stored_from_legacy ::
    "key_descriptor \<Rightarrow> (blob \<times> key_parameter list) option \<times> bytes option \<times> bytes option
     \<Rightarrow> keystore_db \<Rightarrow> keystore_db \<Rightarrow> bool" where
  "stored_from_legacy key loaded db db' \<longleftrightarrow>
     (case loaded of
        (Some (km_blob, params), user_cert, ca_cert) \<Rightarrow>
          \<exists>rnd data md km u i db1. legacy_blob_as (bl_value km_blob) data md \<and>
            store_new_key rnd key Client params (data, md) \<lparr>ci_cert = user_cert, ci_cert_chain = ca_cert\<rparr> km u db
              = (Inr i, db1) \<and> db' = KeyIdGuard_drop i db1
      | (None, _, ca_cert) \<Rightarrow>
          \<exists>cert rnd now i db1. ca_cert = Some cert \<and>
            store_new_certificate rnd now key Client cert KEYSTORE_UUID db = (Inr i, db1) \<and>
            db' = KeyIdGuard_drop i db1)"

text \<open>A super encrypted entry of a user whose super key is lost.\<close>

definition obsolete_entry :: "('e, 'p, 'k) ks_env \<Rightarrow> nat \<Rightarrow> blob_value \<Rightarrow> ('k, 'z) mig_world_scheme \<Rightarrow> bool" where
  "obsolete_entry E uid v w \<longleftrightarrow>
     (\<exists>iv tag data. v = Encrypted iv tag data) \<and>
     super_key_entry USER_SUPER_KEY (le_uid_to_android_user (nv_legacy E) uid) w = (Inr None, w) \<and>
     LegacyBlobLoader_has_super_key (le_uid_to_android_user (nv_legacy E) uid) (kw_fs w) = False"

lemma migrate_blob_cases:
  fixes w :: "('k, 'z) mig_world_scheme"
  assumes "migrate_blob E uid alias v w = (r, w')"
  shows "(w' = w \<and> (\<forall>data md. r = Inr (data, md) \<longrightarrow> legacy_blob_as v data md \<and> BlobMetaData_km_uuid md = None)) \<or>
         (\<exists>e. r = Inl e) \<and> obsolete_entry E uid v w \<and>
         w' = w\<lparr>kw_fs := snd (remove_keystore_entry (nv_legacy E) uid alias (kw_fs w))\<rparr>"
proof (cases v)
  case (Encrypted iv tag data)
  let ?u = "le_uid_to_android_user (nv_legacy E) uid"
  obtain x w1 where s: "super_key_entry USER_SUPER_KEY ?u w = (x, w1)" by fastforce
  with super_key_entry_same have s': "super_key_entry USER_SUPER_KEY ?u w = (x, w)" by blast
  have eq: "(r, w') = (case x of
      Inl e \<Rightarrow> (Inl e, w)
    | Inr (Some entry) \<Rightarrow>
        (Inr (data, BlobMetaData_add (EncryptedBy (KeyId (e_id entry)))
            (BlobMetaData_add (AeadTag tag) (BlobMetaData_add (Iv iv) BlobMetaData_new))), w)
    | Inr None \<Rightarrow>
        if LegacyBlobLoader_has_super_key ?u (kw_fs w) then (Inl (Ks (Rc RC_LOCKED)), w)
        else st_bind (on_fs (remove_keystore_entry (nv_legacy E) uid alias)) (\<lambda>_. st_err (Ks (Rc RC_KEY_NOT_FOUND))) w)"
    unfolding assms [symmetric]
    by (simp add: migrate_blob_def Encrypted Let_def st_bind_def [of "super_key_entry _ _"] s' st_bind_gets
        split: sum.split option.split)
  have md: "legacy_blob_as v data md \<and> BlobMetaData_km_uuid md = None"
    if "md = BlobMetaData_add (EncryptedBy (KeyId i))
          (BlobMetaData_add (AeadTag tag) (BlobMetaData_add (Iv iv) BlobMetaData_new))" for md i
    by (simp add: that Encrypted legacy_blob_as_def blob_meta_data_simps)
  obtain e :: err where rm:
    "st_bind (on_fs (remove_keystore_entry (nv_legacy E) uid alias)) (\<lambda>_. st_err (Ks (Rc RC_KEY_NOT_FOUND))) w
      = (Inl e :: (bytes \<times> blob_meta_data) res, w\<lparr>kw_fs := snd (remove_keystore_entry (nv_legacy E) uid alias (kw_fs w))\<rparr>)"
    by (cases "fst (remove_keystore_entry (nv_legacy E) uid alias (kw_fs w))") (simp_all add: st_bind_def on_fs_eq)
  show ?thesis
    using eq md [OF refl] s' unfolding rm
    by (auto simp: obsolete_entry_def Encrypted split: sum.splits option.splits if_splits)
qed (use assms in \<open>auto simp: migrate_blob_def legacy_blob_as_def blob_meta_data_simps\<close>)

text \<open>
  The outcomes of a migration: nothing happened, the entry was obsolete and is gone, or it is
  stored and still in the legacy key store.
\<close>

definition migration_outcome ::
    "('e, 'p, 'k) ks_env \<Rightarrow> nat \<Rightarrow> string \<Rightarrow> key_descriptor \<Rightarrow> (blob \<times> key_parameter list) option \<times> bytes option \<times> bytes option
     \<Rightarrow> unit res \<Rightarrow> ('k, 'z) mig_world_scheme \<Rightarrow> ('k, 'z) mig_world_scheme \<Rightarrow> bool" where
  "migration_outcome E uid alias key loaded r w w' \<longleftrightarrow>
     kw_mig w' = kw_mig w \<and>
     (case r of
        Inr _ \<Rightarrow> kw_fs w' = kw_fs w \<and> stored_from_legacy key loaded (kw_db w) (kw_db w')
      | Inl _ \<Rightarrow> kw_db w' = kw_db w \<and>
          (kw_fs w' = kw_fs w \<or>
           kw_fs w' = snd (remove_keystore_entry (nv_legacy E) uid alias (kw_fs w)) \<and>
           (\<exists>km_blob params certs. loaded = (Some (km_blob, params), certs) \<and> obsolete_entry E uid (bl_value km_blob) w)))"

lemma migrate_key_outcome:
  fixes w :: "('k, 'z) mig_world_scheme"
  assumes "migrate_key E uid alias key km_blob params uc cc w = (r, w')"
  shows "migration_outcome E uid alias key (Some (km_blob, params), uc, cc) r w w'"
proof -
  obtain x w1 where b: "migrate_blob E uid alias (bl_value km_blob) w = (x, w1)" by fastforce
  note c = migrate_blob_cases [OF b]
  show ?thesis
  proof (cases x)
    case (Inl e)
    then have "r = Inl e" "w' = w1"
      using assms by (simp_all add: migrate_key_def st_bind_def b)
    then show ?thesis using c by (auto simp: migration_outcome_def)
  next
    case (Inr y)
    then obtain data md where y: "x = Inr (data, md)" by (cases y) auto
    with c have w1: "w1 = w" and md: "legacy_blob_as (bl_value km_blob) data md" by auto
    have md': "legacy_blob_as (bl_value km_blob) data (BlobMetaData_add (KmUuid u) md)" for u
      using md by (auto simp: legacy_blob_as_def blob_meta_data_simps)
    let ?w = "w\<lparr>kw_rng := kw_rng w + 1\<rparr>"
    show ?thesis
    proof (cases "get_km_uuid E (is_strongbox km_blob)")
      case (Inl e)
      then have "r = Inl e" "w' = w" using assms by (simp_all add: migrate_key_def st_bind_def b y w1)
      then show ?thesis by (simp add: migration_outcome_def)
    next
      case u: (Inr u)
      show ?thesis
      proof (cases "nv_now E (kw_rng w)")
        case (Inl e)
        then have "r = Inl e" "w' = ?w" using assms u by (simp_all add: migrate_key_def st_bind_def b y w1)
        then show ?thesis by (simp add: migration_outcome_def)
      next
        case (Inr t)
        obtain z db where z: "store_new_key (nv_ids E (kw_rng w)) key Client params
            (data, BlobMetaData_add (KmUuid u) md) \<lparr>ci_cert = uc, ci_cert_chain = cc\<rparr>
            (KeyMetaData_add (CreationDate t) KeyMetaData_new) u (kw_db w) = (z, db)" by fastforce
        with assms u Inr have "(r, w') = (case z of Inl e \<Rightarrow> (Inl e, ?w\<lparr>kw_db := db\<rparr>)
            | Inr i \<Rightarrow> (Inr (), ?w\<lparr>kw_db := KeyIdGuard_drop i db\<rparr>))"
          by (simp add: migrate_key_def st_bind_def b y w1 split: sum.splits)
        then show ?thesis
          using z md' store_error_same(1)
          by (fastforce simp: migration_outcome_def stored_from_legacy_def split: sum.splits)
      qed
    qed
  qed
qed

lemma migrate_certificate_outcome:
  fixes w :: "('k, 'z) mig_world_scheme"
  assumes "migrate_certificate E key cc w = (r, w')"
  shows "migration_outcome E uid alias key (None, uc, cc) r w w'"
proof (cases cc)
  case None
  then show ?thesis using assms by (auto simp: migrate_certificate_def migration_outcome_def)
next
  case (Some cert)
  obtain z db where z: "store_new_certificate (nv_ids E (kw_rng w)) (nv_now E (kw_rng w)) key Client cert
      KEYSTORE_UUID (kw_db w) = (z, db)" by fastforce
  let ?w = "w\<lparr>kw_rng := kw_rng w + 1\<rparr>"
  from z assms Some have "(r, w') = (case z of Inl e \<Rightarrow> (Inl e, ?w\<lparr>kw_db := db\<rparr>)
      | Inr i \<Rightarrow> (Inr (), ?w\<lparr>kw_db := KeyIdGuard_drop i db\<rparr>))"
    by (simp add: migrate_certificate_def st_bind_def split: sum.splits)
  then show ?thesis
    using z Some store_error_same(2)
    by (fastforce simp: migration_outcome_def stored_from_legacy_def split: sum.splits)
qed


definition ex_ks_env :: "(u8, u8, unit) ks_env" where
  "ex_ks_env =
     \<lparr>nv_ssl = ex_ssl, nv_ids = (\<lambda>r. [int r]), nv_now = (\<lambda>r. Inr (of_nat r)), nv_wait = (\<lambda>_ db. db),
      nv_keymint = (\<lambda>_. Inl (Ks (Km EC_HARDWARE_TYPE_UNAVAILABLE))), nv_codes = ex_codes,
      nv_consts = \<lparr>KC_ALGORITHM_AES = 32, KC_ALGORITHM_HMAC = 128, KC_BLOCK_MODE_GCM = 32, KC_PADDING_NONE = 1,
        KC_DIGEST_SHA_2_256 = 4, KC_PURPOSE_DECRYPT = 1, KC_PURPOSE_SIGN = 2, KC_FINGERPRINT = 2, KC_STRONGBOX = 2,
        KC_TRUSTED_ENVIRONMENT = 1, KC_SOFTWARE = 0, KC_ALGORITHM_TRIPLE_DES = 33, KC_FORMAT_RAW = 3, KC_FORMAT_PKCS8 = 1,
        KC_PASSWORD = 1\<rparr>,
      nv_aid_keystore = 1017, nv_legacy = ex_legacy_env,
      nv_sec_level_to_km_uuid = (\<lambda>l. if l = 1 then Some (replicate 16 1) else None), nv_aid_user_offset = 100000\<rparr>"

definition ex_mig_world :: "unit mig_world" where
  "ex_mig_world =
     \<lparr>kw_db = init_tables None, kw_perboot = PerbootDB_new, kw_rng = 0, kw_km = (), kw_fs = ex_legacy_fs,
      kw_mig = \<lparr>lm_status = STATE_READY, lm_initializer = False,
        lm_shelf = Some \<lparr>ms_recently_migrated = [], ms_recently_migrated_super_key = []\<rparr>\<rparr>\<rparr>"

definition ex_legacy_key :: key_descriptor where
  "ex_legacy_key = \<lparr>kd_domain = APP, kd_nspace = - 1, kd_alias = Some ''b'', kd_blob = None\<rparr>"


end
