(* ===== verification/Ks_MigratorLife.thy ===== *)
theory Ks_MigratorLife
  imports Ks_LegacyMigrator
begin

text \<open>
  The life of the legacy migrator under concurrent requests
  (\<open>do_serialized\<close>, \<open>check_state\<close> and \<open>set_init\<close> of \<open>src/keystore2/src/legacy_migrator.rs\<close>).

  A request goes through three steps that other threads can run between: the check of the state,
  the job on the worker thread, and the last look at the answer, where the state becomes
  \<open>STATE_EMPTY\<close>.  The model counts the requests that wait for the worker and keeps the answers
  that are not looked at yet.  It shows that a request is turned away only when nothing is left
  in the legacy key store.
\<close>

section \<open>The legacy key store only shrinks\<close>

definition fs_shrinks :: "legacy_fs \<Rightarrow> legacy_fs \<Rightarrow> bool" where
  "fs_shrinks fs fs' \<longleftrightarrow>
     lf_fault fs' = lf_fault fs \<and> fst ` set (lf_dirs fs') \<subseteq> fst ` set (lf_dirs fs)"

lemma fs_shrinks_refl [simp]: "fs_shrinks fs fs"
  by (simp add: fs_shrinks_def)

lemma fs_shrinks_trans:
  assumes "fs_shrinks fs fs1" and "fs_shrinks fs1 fs2"
  shows "fs_shrinks fs fs2"
proof -
  have "fst ` set (lf_dirs fs2) \<subseteq> fst ` set (lf_dirs fs)"
    using assms unfolding fs_shrinks_def by (elim conjE) (rule subset_trans)
  then show ?thesis using assms by (simp add: fs_shrinks_def)
qed

lemma is_empty_shrinks:
  assumes "is_empty fs = Inr True" and "fs_shrinks fs fs'"
  shows "is_empty fs' = Inr True"
  using assms by (fastforce simp: is_empty_def fs_read_root_def fs_shrinks_def list_ex_iff split: sum.splits if_splits)

lemma fs_remove_file_shrinks: "fs_shrinks fs (snd (fs_remove_file p fs))"
  by (force simp: fs_remove_file_def drop_file_def fs_shrinks_def)

lemma fs_remove_dir_shrinks: "fs_shrinks fs (snd (fs_remove_dir d fs))"
  by (auto simp: fs_remove_dir_def fs_shrinks_def split: option.splits list.splits)

lemma remove_user_dir_shrinks: "fs_shrinks fs (snd (remove_user_dir_if_empty u fs))"
  using fs_remove_dir_shrinks
  by (auto simp: remove_user_dir_if_empty_def st_bind_def split: sum.splits)

lemma remove_key_blobs_shrinks: "fs_shrinks fs (snd (remove_key_blobs E uid alias prefixes fs))"
proof (induction prefixes arbitrary: fs)
  case (Cons prefix prefixes)
  let ?p = "make_blob_filename E uid alias prefix"
  obtain r fs1 where f: "fs_remove_file ?p fs = (r, fs1)" by fastforce
  then have "fs_shrinks fs fs1" using fs_remove_file_shrinks [of fs ?p] by simp
  then have "fs_shrinks fs (snd (remove_key_blobs E uid alias prefixes fs1))"
    "fs_shrinks fs (snd (fs_remove_file q fs1))" for q
    using Cons fs_remove_file_shrinks by (blast intro: fs_shrinks_trans)+
  then show ?case using f by (simp split: sum.split io_error_kind.split)
qed simp

lemma remove_certificates_shrinks: "fs_shrinks (snd s) (snd (remove_certificates E uid alias prefixes s))"
proof (induction prefixes arbitrary: s)
  case (Cons prefix prefixes)
  let ?p = "make_blob_filename E uid alias prefix"
  obtain r fs1 where f: "fs_remove_file ?p (snd s) = (r, fs1)" by fastforce
  then have "fs_shrinks (snd s) fs1" using fs_remove_file_shrinks [of "snd s" ?p] by simp
  then have "fs_shrinks (snd s) (snd (remove_certificates E uid alias prefixes (b, fs1)))" for b
    using Cons [of "(b, fs1)"] fs_shrinks_trans by fastforce
  then show ?case using f by (cases s) (simp split: sum.split io_error_kind.split)
qed simp

lemma remove_keystore_entry_shrinks: "fs_shrinks fs (snd (remove_keystore_entry E uid alias fs))"
proof -
  let ?k = "remove_key_blobs E uid alias [''USRPKEY'', ''USRSKEY''] fs"
  let ?c = "remove_certificates E uid alias [''USRCERT'', ''CACERT''] ?k"
  have "fs_shrinks fs (snd ?c)"
    using remove_key_blobs_shrinks remove_certificates_shrinks by (blast intro: fs_shrinks_trans)
  moreover have "snd (remove_keystore_entry E uid alias fs) =
      (if fst ?c then snd (remove_user_dir_if_empty (le_uid_to_android_user E uid) (snd ?c)) else snd ?c)"
    unfolding remove_keystore_entry_def
    by (simp add: st_bind_def split_beta del: remove_certificates.simps remove_key_blobs.simps split: sum.split)
  ultimately show ?thesis
    using remove_user_dir_shrinks by (auto intro: fs_shrinks_trans simp del: remove_certificates.simps remove_key_blobs.simps)
qed

lemma remove_super_key_shrinks: "fs_shrinks fs (remove_super_key u fs)"
  using fs_remove_file_shrinks fs_shrinks_trans [OF fs_remove_file_shrinks fs_remove_dir_shrinks]
  by (auto simp: remove_super_key_def Let_def)

section \<open>What a request changes\<close>

text \<open>
  A job removes files and adds to the lists of the recently migrated; the state of the migrator
  itself is changed only by the steps around it.
\<close>

definition mig_frame :: "('k, 'z) mig_world_scheme \<Rightarrow> ('k, 'z) mig_world_scheme \<Rightarrow> bool" where
  "mig_frame w0 w \<longleftrightarrow>
     fs_shrinks (kw_fs w0) (kw_fs w) \<and> lm_status (kw_mig w) = lm_status (kw_mig w0) \<and>
     lm_initializer (kw_mig w) = lm_initializer (kw_mig w0) \<and>
     (lm_shelf (kw_mig w) = None) = (lm_shelf (kw_mig w0) = None)"

named_theorems mig_frames \<open>what the operations on the migrator's world leave alone\<close>

lemma mig_frame_basic [mig_frames]:
  "preserves (mig_frame w0) (on_db f)"
  "preserves (mig_frame w0) (draw n)"
  "preserves (mig_frame w0) (drop_guard g)"
  "preserves (mig_frame w0) (on_fs (remove_keystore_entry L uid alias))"
  "preserves (mig_frame w0) (st_modify (map_shelf h))"
  "preserves (mig_frame w0) (st_modify (\<lambda>w. w\<lparr>kw_fs := remove_super_key u (kw_fs w)\<rparr>))"
  using remove_keystore_entry_shrinks remove_super_key_shrinks
  by (auto simp: preserves_def mig_frame_def on_db_def on_fs_eq map_shelf_def split: prod.split
      intro: fs_shrinks_trans)

lemma super_key_entry_frame [mig_frames]: "preserves (mig_frame w0) (super_key_entry kt u)"
  unfolding super_key_entry_def
  by (intro mig_frames st_preserves)

lemma migrate_blob_frame [mig_frames]: "preserves (mig_frame w0) (migrate_blob E uid alias v)"
  unfolding migrate_blob_def Let_def
  by (cases v) (auto intro!: mig_frames st_preserves)

lemma migrate_key_frame [mig_frames]:
  "preserves (mig_frame w0) (migrate_key E uid alias key km_blob params uc cc)"
  unfolding migrate_key_def split_beta by (intro mig_frames st_preserves)

lemma migrate_certificate_frame [mig_frames]: "preserves (mig_frame w0) (migrate_certificate E key cc)"
  unfolding migrate_certificate_def by (intro mig_frames st_preserves)

lemma check_and_migrate_frame [mig_frames]: "preserves (mig_frame w0) (check_and_migrate E uid key)"
  unfolding check_and_migrate_def Let_def split_beta by (intro mig_frames st_preserves)

lemma check_and_migrate_super_key_frame [mig_frames]:
  "preserves (mig_frame w0) (check_and_migrate_super_key E u pw)"
  unfolding check_and_migrate_super_key_def split_beta by (intro mig_frames st_preserves)

lemma bulk_delete_entries_frame [mig_frames]:
  "preserves (mig_frame w0) (bulk_delete_entries E sk keep entries)"
proof (induction entries)
  case (Cons e entries)
  show ?case
    by (cases e) (simp only: bulk_delete_entries.simps Let_def; intro Cons.IH mig_frames st_preserves)
qed (simp only: bulk_delete_entries.simps st_preserves)

lemma bulk_delete_frame [mig_frames]: "preserves (mig_frame w0) (bulk_delete E request keep)"
  unfolding bulk_delete_def split_beta by (intro mig_frames st_preserves)

section \<open>Interleaved requests\<close>

datatype mig_request =
    Migrate nat key_descriptor
  | MigrateSuperKey nat password
  | BulkDelete bulk_delete_request bool
  | Query

fun request_body :: "('e, 'p, 'k) ks_env \<Rightarrow> mig_request \<Rightarrow> (('k, 'z) mig_world_scheme, unit) st" where
  "request_body E (Migrate uid key) = check_and_migrate E uid key"
| "request_body E (MigrateSuperKey user_id pw) = check_and_migrate_super_key E user_id pw"
| "request_body E (BulkDelete request keep) = bulk_delete E request keep"
| "request_body E Query = st_ok ()"

lemma request_body_frame [mig_frames]: "preserves (mig_frame w0) (request_body E q)"
  by (cases q) (simp_all add: mig_frames st_preserves)

text \<open>
  The state: the world, the number of requests in the queue of the worker, and the answers that
  the requesters have not looked at yet.  \<open>turned_away\<close> counts the requests that got no answer.
\<close>

record ('k, 'z) mig_system =
  sy_world :: "('k, 'z) mig_world_scheme"
  sy_jobs :: nat
  sy_answers :: "(migrator_status \<times> bool) list"
  sy_turned_away :: nat

inductive mig_step :: "('e, 'p, 'k) ks_env \<Rightarrow> ('k, 'z) mig_system \<Rightarrow> ('k, 'z) mig_system \<Rightarrow> bool" for E where
  init: "mig_step E s (s\<lparr>sy_world := (sy_world s)\<lparr>kw_mig := set_init (kw_mig (sy_world s))\<rparr>\<rparr>)"
| ready: "check_state (sy_world s) = (Inr STATE_READY, w) \<Longrightarrow>
    mig_step E s (s\<lparr>sy_world := w, sy_jobs := Suc (sy_jobs s)\<rparr>)"
| away: "check_state (sy_world s) = (Inr STATE_EMPTY, w) \<Longrightarrow>
    mig_step E s (s\<lparr>sy_world := w, sy_turned_away := Suc (sy_turned_away s)\<rparr>)"
| error: "check_state (sy_world s) = (Inl e, w) \<Longrightarrow> mig_step E s (s\<lparr>sy_world := w\<rparr>)"
| job: "sy_jobs s = Suc n \<Longrightarrow> migrator_job (request_body E q) (sy_world s) = ((new_state, result), w) \<Longrightarrow>
    mig_step E s (s\<lparr>sy_world := w, sy_jobs := n, sy_answers := (new_state, result \<noteq> None) # sy_answers s\<rparr>)"
| finish: "sy_answers s = xs @ (new_state, answered) # ys \<Longrightarrow>
    mig_step E s (s\<lparr>sy_world := finish_request new_state (sy_world s), sy_answers := xs @ ys,
      sy_turned_away := (if answered then sy_turned_away s else Suc (sy_turned_away s))\<rparr>)"
| other: "kw_fs w = kw_fs (sy_world s) \<Longrightarrow> kw_mig w = kw_mig (sy_world s) \<Longrightarrow>
    mig_step E s (s\<lparr>sy_world := w\<rparr>)"

inductive_cases mig_stepE: "mig_step E s s'"

definition mig_inv :: "('k, 'z) mig_system \<Rightarrow> bool" where
  "mig_inv s \<longleftrightarrow>
     (is_empty (kw_fs (sy_world s)) = Inr True \<or>
      lm_status (kw_mig (sy_world s)) \<noteq> STATE_EMPTY \<and>
      (lm_status (kw_mig (sy_world s)) = STATE_READY \<longrightarrow> lm_shelf (kw_mig (sy_world s)) \<noteq> None) \<and>
      (sy_jobs s \<noteq> 0 \<longrightarrow> lm_status (kw_mig (sy_world s)) = STATE_READY) \<and>
      (\<forall>a\<in>set (sy_answers s). a = (STATE_READY, True)) \<and> sy_turned_away s = 0)"

lemma migrator_job_frame:
  assumes "migrator_job (request_body E q) w = ((new_state, result), w')"
  shows "fs_shrinks (kw_fs w) (kw_fs w')"
    and "is_empty (kw_fs w') = Inr True \<or> lm_shelf (kw_mig w) = None \<or>
      new_state = STATE_READY \<and> result \<noteq> None \<and> lm_status (kw_mig w') = lm_status (kw_mig w) \<and> lm_shelf (kw_mig w') \<noteq> None"
proof -
  obtain r w1 where b: "request_body E q w = (r, w1)" by fastforce
  have "mig_frame w w" by (simp add: mig_frame_def)
  from preservesD [OF request_body_frame this b] have "mig_frame w w1" .
  then show "fs_shrinks (kw_fs w) (kw_fs w')"
    and "is_empty (kw_fs w') = Inr True \<or> lm_shelf (kw_mig w) = None \<or>
      new_state = STATE_READY \<and> result \<noteq> None \<and> lm_status (kw_mig w') = lm_status (kw_mig w) \<and> lm_shelf (kw_mig w') \<noteq> None"
    using assms b by (auto simp: migrator_job_def mig_frame_def check_empty_def split: option.splits if_splits)
qed

lemma mig_step_shrinks: "mig_step E s s' \<Longrightarrow> fs_shrinks (kw_fs (sy_world s)) (kw_fs (sy_world s'))"
  by (induction rule: mig_step.induct)
    (auto simp: check_state_def Let_def set_status_def finish_request_def dest: migrator_job_frame(1)
      split: migrator_status.splits if_splits sum.splits bool.splits)

lemma mig_step_inv:
  assumes "mig_step E s s'" and "mig_inv s"
  shows "mig_inv s'"
proof (cases "is_empty (kw_fs (sy_world s)) = Inr True")
  case True
  then show ?thesis using is_empty_shrinks [OF True mig_step_shrinks [OF assms(1)]] by (simp add: mig_inv_def)
next
  case False
  note inv = assms(2) [unfolded mig_inv_def, simplified False, simplified]
  from assms(1) show ?thesis
  proof cases
    case (job n q new_state result w)
    then show ?thesis using inv migrator_job_frame(2) [OF job(3)] by (auto simp: mig_inv_def)
  qed (use inv False in \<open>auto simp: mig_inv_def set_init_def check_state_def set_status_def finish_request_def Let_def
      split: migrator_status.splits if_splits sum.splits bool.splits\<close>)
qed

definition mig_init :: "('k, 'z) mig_system \<Rightarrow> bool" where
  "mig_init s \<longleftrightarrow>
     kw_mig (sy_world s) = LegacyMigrator_new \<and> sy_jobs s = 0 \<and> sy_answers s = [] \<and> sy_turned_away s = 0"

interpretation migrator: transition_system mig_init "mig_step E" mig_inv
  by unfold_locales (simp add: mig_init_def mig_inv_def LegacyMigrator_new_def, rule mig_step_inv)

lemma is_empty_no_file:
  assumes "is_empty fs = Inr True"
  shows "fs_file fs (make_user_path_name user_id, f) = None"
proof -
  have "list_all (\<lambda>c. ord c < 0x80) (make_user_path_name user_id)"
    using nat_to_string_digits by (fastforce simp: make_user_path_name_def list_all_iff is_digit_def)
  from valid_utf8_ascii [OF this, of "[]"] have "valid_utf8 (make_user_path_name user_id)" by simp
  moreover have "starts_with ''user_'' (make_user_path_name user_id)"
    by (simp add: starts_with_def make_user_path_name_def)
  ultimately have "map_of (lf_dirs fs) (make_user_path_name user_id) = None"
    using assms by (fastforce simp: is_empty_def fs_read_root_def list_ex_iff map_of_eq_None_iff split: if_splits)
  then show ?thesis by (simp add: fs_file_def)
qed

text \<open>C33. However the requests of the threads are interleaved, a request is turned away, so that its
  client is told that there is no legacy key, only when no file is left in any user's directory of
  the legacy key store; and from then on there is none.\<close>

theorem turned_away_only_when_empty:
  assumes "mig_init s0" and "(mig_step E)\<^sup>*\<^sup>* s0 s" and "0 < sy_turned_away s" and "(mig_step E)\<^sup>*\<^sup>* s s'"
  shows "fs_file (kw_fs (sy_world s')) (make_user_path_name user_id, f) = None"
proof -
  have "mig_inv s" using assms(1,2) by (rule migrator.invariant_reachable)
  with assms(3) have "is_empty (kw_fs (sy_world s)) = Inr True" by (simp add: mig_inv_def)
  moreover from assms(4) have "fs_shrinks (kw_fs (sy_world s)) (kw_fs (sy_world s'))"
    by (induction rule: rtranclp_induct) (simp, metis fs_shrinks_trans mig_step_shrinks)
  ultimately show ?thesis by (metis is_empty_no_file is_empty_shrinks)
qed

theorem turned_away_only_when_empty_witness:
  "\<exists>s. mig_step ex_ks_env \<lparr>sy_world = ex_mig_world\<lparr>kw_fs := \<lparr>lf_dirs = [(''persistent.sqlite'', [])], lf_fault = (\<lambda>_ _ _. False)\<rparr>,
         kw_mig := set_init LegacyMigrator_new\<rparr>, sy_jobs = 0, sy_answers = [], sy_turned_away = 0\<rparr> s \<and>
       0 < sy_turned_away s \<and> fs_file (kw_fs (sy_world s)) (make_user_path_name 0, ''7_USRPKEY_a'') = None"
proof -
  let ?w = "ex_mig_world\<lparr>kw_fs := \<lparr>lf_dirs = [(''persistent.sqlite'', [])], lf_fault = (\<lambda>_ _ _. False)\<rparr>,
    kw_mig := LegacyMigrator_new\<rparr>"
  let ?s0 = "\<lparr>sy_world = ?w, sy_jobs = 0, sy_answers = [], sy_turned_away = 0\<rparr>"
  let ?s1 = "?s0\<lparr>sy_world := ?w\<lparr>kw_mig := set_init LegacyMigrator_new\<rparr>\<rparr>"
  let ?s2 = "?s1\<lparr>sy_world := snd (check_state (sy_world ?s1)), sy_turned_away := Suc 0\<rparr>"
  have 1: "mig_step ex_ks_env ?s0 ?s1" using mig_step.init [of ex_ks_env ?s0] by simp
  have "check_state (sy_world ?s1) = (Inr STATE_EMPTY, snd (check_state (sy_world ?s1)))"
    by (simp add: check_state_def set_init_def LegacyMigrator_new_def is_empty_def fs_read_root_def starts_with_def Let_def)
  from mig_step.away [OF this] have 2: "mig_step ex_ks_env ?s1 ?s2" by simp
  have i: "mig_init ?s0" by (simp add: mig_init_def)
  from 1 2 have "(mig_step ex_ks_env)\<^sup>*\<^sup>* ?s0 ?s2" by (rule converse_rtranclp_into_rtranclp [OF _ r_into_rtranclp])
  from turned_away_only_when_empty [OF i this _ rtranclp.rtrancl_refl, of 0 "''7_USRPKEY_a''"] 2 show ?thesis
    by (intro exI [of _ ?s2]) simp
qed

end
