(* ===== verification/Ks_RawDevice.thy ===== *)
theory Ks_RawDevice
  imports Ks_World Ks_SuperKeyTypes
begin

text \<open>
  Keys that Keystore uses itself (\<open>src/keystore2/src/raw_device.rs\<close>), and the one the boot level
  keys are derived from (\<open>get_level_zero_key\<close> of \<open>src/keystore2/src/boot_level_keys.rs\<close>).  The
  calls of KeyMint change the state of the device even when they fail.
\<close>

definition KEY_MASTER_V4_0 :: int where "KEY_MASTER_V4_0 = 40"

definition KEY_MASTER_V4_1 :: int where "KEY_MASTER_V4_1 = 41"

definition KEY_MINT_V1 :: int where "KEY_MINT_V1 = 100"

definition KeyMintDevice_get_or_none :: "('e, 'p, 'k) ks_env \<Rightarrow> i32 \<Rightarrow> 'k keymint option res" where
  "KeyMintDevice_get_or_none E security_level =
     (case nv_keymint E security_level of
        Inr dev \<Rightarrow> Inr (Some dev)
      | Inl e \<Rightarrow> if e = Ks (Km EC_HARDWARE_TYPE_UNAVAILABLE) then Inr None else Inl e)"

definition create_and_store_key ::
    "('e, 'p, 'k) ks_env \<Rightarrow> 'k keymint \<Rightarrow> key_descriptor \<Rightarrow> key_type
     \<Rightarrow> ('k \<Rightarrow> key_creation_result binder_result \<times> 'k) \<Rightarrow> (('k, 'z) base_world_scheme, unit) st" where
  "create_and_store_key E dev key_desc key_type creator =
     st_bind (km_device_call E creator) (\<lambda>creation_result.
     st_bind (draw 1) (\<lambda>r.
     st_bind (st_lift (nv_now E r)) (\<lambda>creation_date.
     st_bind (on_db (store_new_key (nv_ids E r) key_desc key_type
                (key_characteristics_to_internal (kcr_characteristics creation_result))
                (kcr_key_blob creation_result, BlobMetaData_add (KmUuid (kmi_uuid dev)) BlobMetaData_new)
                \<lparr>ci_cert = None, ci_cert_chain = None\<rparr>
                (KeyMetaData_add (CreationDate creation_date) KeyMetaData_new) (kmi_uuid dev)))
       drop_guard)))"

definition internal_descriptor :: "('e, 'p, 'k) ks_env \<Rightarrow> string \<Rightarrow> key_descriptor" where
  "internal_descriptor E alias =
     \<lparr>kd_domain = APP, kd_nspace = int (nv_aid_keystore E), kd_alias = Some alias, kd_blob = None\<rparr>"

definition lookup_from_desc ::
    "('e, 'p, 'k) ks_env \<Rightarrow> key_descriptor \<Rightarrow> key_type \<Rightarrow> (('k, 'z) base_world_scheme, int \<times> key_entry) st" where
  "lookup_from_desc E key_desc key_type =
     on_db (load_key_entry (nv_wait E) key_desc key_type LB_KM (nv_aid_keystore E) (\<lambda>_ _. Inr ()))"

definition not_found_is_none :: "'a res \<Rightarrow> 'a option res" where
  "not_found_is_none lookup =
     (case lookup of
        Inr v \<Rightarrow> Inr (Some v)
      | Inl e \<Rightarrow> if e = Ks (Rc RC_KEY_NOT_FOUND) then Inr None else Inl e)"

text \<open>The closure is called again with the upgraded blob.\<close>

definition upgrade_keyblob_if_required_with ::
    "('e, 'p, 'k) ks_env \<Rightarrow> 'k keymint \<Rightarrow> int \<Rightarrow> key_blob \<Rightarrow> (bytes \<Rightarrow> (('k, 'z) base_world_scheme, 'a) st)
     \<Rightarrow> (('k, 'z) base_world_scheme, 'a \<times> key_blob) st" where
  "upgrade_keyblob_if_required_with E dev key_id_guard key_blob f =
     st_bind (st_try (f (KeyBlob_deref key_blob))) (\<lambda>result.
       if result = Inl (Ks (Km EC_KEY_REQUIRES_UPGRADE)) then
         st_bind (km_device_call E (kmi_upgradeKey dev (KeyBlob_deref key_blob) [])) (\<lambda>upgraded_blob.
         st_bind (on_db (set_blob key_id_guard KEY_BLOB (Some upgraded_blob)
                    (Some (BlobMetaData_add (KmUuid (kmi_uuid dev)) BlobMetaData_new)))) (\<lambda>_.
         st_bind (f upgraded_blob) (\<lambda>v. st_ok (v, NonSensitive upgraded_blob))))
       else st_bind (st_lift result) (\<lambda>v. st_ok (v, key_blob)))"

text \<open>
  The answer has the guard of the key; it is dropped when the key found is not the right one, which
  the code does by leaving the block of the lookup.
\<close>

definition lookup_or_generate_key ::
    "('e, 'p, 'k) ks_env \<Rightarrow> 'k keymint \<Rightarrow> key_descriptor \<Rightarrow> key_type \<Rightarrow> km_key_parameter list
     \<Rightarrow> (key_characteristics list \<Rightarrow> bool) \<Rightarrow> (('k, 'z) base_world_scheme, int \<times> key_blob) st" where
  "lookup_or_generate_key E dev key_desc key_type params validate_characteristics =
     (let generate =
        st_bind (create_and_store_key E dev key_desc key_type (kmi_generateKey dev params None)) (\<lambda>_.
        st_bind (lookup_from_desc E key_desc key_type) (\<lambda>(g, key_entry).
          case e_key_blob_info key_entry of
            Some (key_blob, _) \<Rightarrow> st_ok (g, NonSensitive key_blob)
          | None \<Rightarrow> st_bind (drop_guard g) (\<lambda>_. st_err (Ks (Rc RC_KEY_NOT_FOUND)))))
      in
        st_bind (st_try (lookup_from_desc E key_desc key_type)) (\<lambda>r.
        st_bind (st_lift (not_found_is_none r)) (\<lambda>lookup.
          case lookup of
            None \<Rightarrow> generate
          | Some (g, key_entry) \<Rightarrow>
              (case e_key_blob_info key_entry of
                 Some (key_blob, blob_metadata) \<Rightarrow>
                   (if BlobMetaData_km_uuid blob_metadata = Some (kmi_uuid dev) then
                      st_bind (st_try (upgrade_keyblob_if_required_with E dev g (NonSensitive key_blob)
                                 (\<lambda>b. km_device_call E (kmi_getKeyCharacteristics dev b)))) (\<lambda>r.
                        case r of
                          Inl e \<Rightarrow> st_bind (drop_guard g) (\<lambda>_. st_err e)
                        | Inr (key_characteristics, key_blob) \<Rightarrow>
                            if validate_characteristics key_characteristics then st_ok (g, key_blob)
                            else st_bind (drop_guard g) (\<lambda>_. generate))
                    else st_bind (drop_guard g) (\<lambda>_. generate))
               | None \<Rightarrow> st_bind (drop_guard g) (\<lambda>_. generate)))))"

definition use_key_in_one_step ::
    "('e, 'p, 'k) ks_env \<Rightarrow> 'k keymint \<Rightarrow> int \<Rightarrow> bytes \<Rightarrow> i32 \<Rightarrow> km_key_parameter list
     \<Rightarrow> hardware_auth_token option \<Rightarrow> bytes \<Rightarrow> (('k, 'z) base_world_scheme, bytes) st" where
  "use_key_in_one_step E dev key_id_guard key_blob purpose operation_parameters auth_token data =
     st_bind (upgrade_keyblob_if_required_with E dev key_id_guard (KB_Ref key_blob)
                (\<lambda>blob. km_device_call E (kmi_begin dev purpose blob operation_parameters auth_token))) (\<lambda>(begin_result, _).
     st_bind (st_lift (ok_or (br_operation begin_result) sys)) (\<lambda>op.
       km_device_call E (kmi_finish dev op data)))"

section \<open>The level zero key\<close>

definition get_preferred_km_instance_for_level_zero_key :: "('e, 'p, 'k) ks_env \<Rightarrow> 'k keymint res" where
  "get_preferred_km_instance_for_level_zero_key E =
     and_then (nv_keymint E (KC_TRUSTED_ENVIRONMENT (nv_consts E))) (\<lambda>tee.
       if KEY_MASTER_V4_1 \<le> kmi_version tee then Inr tee
       else
         and_then (KeyMintDevice_get_or_none E (KC_STRONGBOX (nv_consts E))) (\<lambda>strongbox.
           case strongbox of
             Some dev \<Rightarrow> if KEY_MASTER_V4_1 \<le> kmi_version dev then Inr dev else Inr tee
           | None \<Rightarrow> Inr tee))"

definition level_zero_params :: "key_consts \<Rightarrow> bool \<Rightarrow> km_key_parameter list" where
  "level_zero_params K has_early_boot_only =
     map KeyParameterValue_into_km
       [KpAlgorithm (KC_ALGORITHM_HMAC K), KpDigest (KC_DIGEST_SHA_2_256 K), KpKeySize 256, KpMinMacLength 256,
        KpKeyPurpose (KC_PURPOSE_SIGN K), KpNoAuthRequired,
        if has_early_boot_only then KpEarlyBootOnly else KpMaxUsesPerBoot 1]"

text \<open>The key must be restricted to early boot, or to one use per boot, by the device itself.\<close>

definition level_zero_valid :: "i32 \<Rightarrow> bool \<Rightarrow> key_characteristics list \<Rightarrow> bool" where
  "level_zero_valid security_level has_early_boot_only key_characteristics \<longleftrightarrow>
     list_ex (\<lambda>kc. kc_security_level kc = security_level \<and>
       list_ex (\<lambda>a. if has_early_boot_only then a = \<lparr>km_tag = T_EARLY_BOOT_ONLY, km_val = KmBoolValue True\<rparr>
                   else a = \<lparr>km_tag = T_MAX_USES_PER_BOOT, km_val = KmInteger 1\<rparr>) (kc_authorizations kc))
     key_characteristics"

definition get_level_zero_key :: "('e, 'p, 'k) ks_env \<Rightarrow> (('k, 'z) base_world_scheme, bytes) st" where
  "get_level_zero_key E =
     st_bind (st_lift (get_preferred_km_instance_for_level_zero_key E)) (\<lambda>dev.
     let K = nv_consts E; has_early_boot_only = (KEY_MASTER_V4_1 \<le> kmi_version dev) in
     st_bind (lookup_or_generate_key E dev (internal_descriptor E ''boot_level_key'') Client
                (level_zero_params K has_early_boot_only)
                (level_zero_valid (kmi_security_level dev) has_early_boot_only)) (\<lambda>(g, key_blob).
       with_guard g
         (use_key_in_one_step E dev g (KeyBlob_deref key_blob) (KC_PURPOSE_SIGN K)
            (map KeyParameterValue_into_km [KpMacLength 256, KpDigest (KC_DIGEST_SHA_2_256 K)]) None
            (ascii_bytes ''Create boot level key''))))"

end
