(* ===== verification/Ks_SuperKey.thy ===== *)
theory Ks_SuperKey
  imports Ks_RawDevice Ks_LegacyMigrator
begin

text \<open>
  The super key manager and the life cycle of a user (\<open>src/keystore2/src/super_key.rs\<close>), with
  \<open>src/keystore2/src/try_insert.rs\<close>.

  The manager's lock is held during each of its operations, so an operation is one step.  The
  key index holds weak references: an entry is the number of an object, and it can be upgraded
  while the object is alive, i.e. while it is reachable from the keys of some user or from
  \<open>sm_held\<close>, the references that requests in progress hold.  Object numbers are handed out by
  \<open>new_object\<close>.
\<close>

section \<open>State\<close>

record biometric_unlock =
  bu_sids :: "i64 list"
  bu_key_desc :: key_descriptor
  bu_screen_lock_bound :: locked_key
  bu_screen_lock_bound_private :: locked_key

record user_super_keys =
  us_per_boot :: "super_key option"
  us_screen_lock_bound :: "super_key option"
  us_screen_lock_bound_private :: "super_key option"
  us_biometric_unlock :: "biometric_unlock option"

definition no_user_keys :: user_super_keys where
  "no_user_keys =
     \<lparr>us_per_boot = None, us_screen_lock_bound = None, us_screen_lock_bound_private = None, us_biometric_unlock = None\<rparr>"

record skm_state =
  sm_user_keys :: "(nat \<times> user_super_keys) list"
  sm_key_index :: "(int \<times> nat) list"
  sm_boot_level_key_cache :: "boot_level_key_cache option"
  sm_next_object :: nat
  sm_held :: "super_key list"

record 'k ks_world = "'k mig_world" +
  kw_skm :: skm_state

fun reachable_keys :: "super_key \<Rightarrow> super_key list" where
  "reachable_keys (SuperKey obj alg key i None) = [SuperKey obj alg key i None]"
| "reachable_keys (SuperKey obj alg key i (Some k)) = SuperKey obj alg key i (Some k) # reachable_keys k"

definition user_objects :: "user_super_keys \<Rightarrow> super_key list" where
  "user_objects u =
     concat (map reachable_keys (List.map_filter id [us_per_boot u, us_screen_lock_bound u, us_screen_lock_bound_private u]))"

definition live_objects :: "skm_state \<Rightarrow> super_key list" where
  "live_objects s = concat (map (user_objects \<circ> snd) (sm_user_keys s)) @ concat (map reachable_keys (sm_held s))"

definition upgrade :: "nat \<Rightarrow> skm_state \<Rightarrow> super_key option" where
  "upgrade obj s = List.find (\<lambda>k. sk_obj k = obj) (live_objects s)"

definition user_keys_of :: "nat \<Rightarrow> skm_state \<Rightarrow> user_super_keys" where
  "user_keys_of user s = (case map_of (sm_user_keys s) user of Some u \<Rightarrow> u | None \<Rightarrow> no_user_keys)"

definition set_user_keys :: "nat \<Rightarrow> user_super_keys \<Rightarrow> skm_state \<Rightarrow> skm_state" where
  "set_user_keys user u s = s\<lparr>sm_user_keys := hash_insert user u (sm_user_keys s)\<rparr>"

definition get_skm :: "(skm_state \<Rightarrow> 'a) \<Rightarrow> (('k, 'z) ks_world_scheme, 'a) st" where
  "get_skm f = st_gets (\<lambda>w. f (kw_skm w))"

definition modify_skm :: "(skm_state \<Rightarrow> skm_state) \<Rightarrow> (('k, 'z) ks_world_scheme, unit) st" where
  "modify_skm f = st_modify (\<lambda>w. w\<lparr>kw_skm := f (kw_skm w)\<rparr>)"

definition new_object :: "(('k, 'z) ks_world_scheme, nat) st" where
  "new_object =
     st_bind (get_skm sm_next_object) (\<lambda>n.
     st_bind (modify_skm (\<lambda>s. s\<lparr>sm_next_object := n + 1\<rparr>)) (\<lambda>_. st_ok n))"

definition add_key_to_key_index :: "super_key \<Rightarrow> (('k, 'z) ks_world_scheme, unit) st" where
  "add_key_to_key_index super_key =
     (case sk_id super_key of
        DatabaseId i \<Rightarrow> modify_skm (\<lambda>s. s\<lparr>sm_key_index := hash_insert i (sk_obj super_key) (sm_key_index s)\<rparr>)
      | BootLevelId _ \<Rightarrow> st_err sys)"

text \<open>\<open>Option::get_or_try_to_insert_with\<close>, with the option in the state.\<close>

definition get_or_try_to_insert_with ::
    "('s \<Rightarrow> 'a option) \<Rightarrow> ('a \<Rightarrow> 's \<Rightarrow> 's) \<Rightarrow> ('s, 'a) st \<Rightarrow> ('s, 'a) st" where
  "get_or_try_to_insert_with get put f =
     st_bind (st_gets get) (\<lambda>opt.
       case opt of
         Some v \<Rightarrow> st_ok v
       | None \<Rightarrow> st_bind f (\<lambda>v. st_bind (st_modify (put v)) (\<lambda>_. st_ok v)))"

section \<open>Boot levels\<close>

definition MAX_MAX_BOOT_LEVEL :: nat where
  "MAX_MAX_BOOT_LEVEL = 1000000000"

definition set_up_boot_level_cache :: "('e, 'p, 'k) ks_env \<Rightarrow> (('k, 'z) ks_world_scheme, unit) st" where
  "set_up_boot_level_cache E =
     st_bind (get_skm sm_boot_level_key_cache) (\<lambda>cache.
       if cache \<noteq> None then st_ok ()
       else
         st_bind (get_level_zero_key E) (\<lambda>level_zero_key.
           modify_skm (\<lambda>s. s\<lparr>sm_boot_level_key_cache := Some (BootLevelKeyCache_new level_zero_key)\<rparr>)))"

definition parse_usize :: "string \<Rightarrow> nat option" where
  "parse_usize s =
     (let digits = (case s of c # cs \<Rightarrow> if c = CHR ''+'' then cs else s | [] \<Rightarrow> [])
      in if digits \<noteq> [] \<and> list_all is_digit digits \<and> string_to_nat_acc 0 digits < 2 ^ 64
         then Some (string_to_nat_acc 0 digits) else None)"

text \<open>A call of the boot level cache, which is there.\<close>

definition on_cache ::
    "(boot_level_key_cache \<Rightarrow> 'a res \<times> boot_level_key_cache) \<Rightarrow> (('k, 'z) ks_world_scheme, 'a) st" where
  "on_cache f w =
     (case sm_boot_level_key_cache (kw_skm w) of
        None \<Rightarrow> (Inl Panicked, w)
      | Some c \<Rightarrow> (let (r, c) = f c in (r, w\<lparr>kw_skm := (kw_skm w)\<lparr>sm_boot_level_key_cache := Some c\<rparr>\<rparr>)))"

text \<open>
  The watcher thread on the values that reading the property gives, one after the other.  The
  answer is whether it has finished; it still waits for a change when the values are used up.
\<close>

fun watch_boot_level :: "('e, 'p, 'k) ks_env \<Rightarrow> string res list \<Rightarrow> (('k, 'z) ks_world_scheme, bool) st" where
  "watch_boot_level E [] = st_ok False"
| "watch_boot_level E (value # values) =
     st_bind (st_lift (and_then value (\<lambda>v. ok_or (parse_usize v) (OtherErr ''ParseIntError'')))) (\<lambda>level.
       if level < MAX_MAX_BOOT_LEVEL then
         st_bind (on_cache (advance_boot_level (hkdf_expand (nv_ssl E)) level)) (\<lambda>_. watch_boot_level E values)
       else st_bind (on_cache (\<lambda>c. (Inr (), BootLevelKeyCache_finish c))) (\<lambda>_. st_ok True))"

text \<open>\<open>level as usize\<close>: the sign is extended.\<close>

definition i32_as_usize :: "i32 \<Rightarrow> nat" where
  "i32_as_usize level = nat (sint level mod 2 ^ 64)"

definition SuperKeyManager_level_accessible :: "i32 \<Rightarrow> skm_state \<Rightarrow> bool" where
  "SuperKeyManager_level_accessible boot_level s \<longleftrightarrow>
     (case sm_boot_level_key_cache s of
        None \<Rightarrow> False
      | Some c \<Rightarrow> BootLevelKeyCache_level_accessible (i32_as_usize boot_level) c)"

section \<open>Keys in memory\<close>

definition forget_all_keys_for_user :: "nat \<Rightarrow> skm_state \<Rightarrow> skm_state" where
  "forget_all_keys_for_user user s = s\<lparr>sm_user_keys := filter (\<lambda>(u, _). u \<noteq> user) (sm_user_keys s)\<rparr>"

definition install_per_boot_key_for_user :: "nat \<Rightarrow> super_key \<Rightarrow> (('k, 'z) ks_world_scheme, unit) st" where
  "install_per_boot_key_for_user user super_key =
     st_bind (add_key_to_key_index super_key) (\<lambda>_.
       modify_skm (\<lambda>s. set_user_keys user ((user_keys_of user s)\<lparr>us_per_boot := Some super_key\<rparr>) s))"

definition lookup_key ::
    "('e, 'p, 'k) ks_env \<Rightarrow> super_key_identifier \<Rightarrow> (('k, 'z) ks_world_scheme, super_key option) st" where
  "lookup_key E key_id =
     (case key_id of
        DatabaseId i \<Rightarrow> get_skm (\<lambda>s. Option.bind (map_of (sm_key_index s) i) (\<lambda>obj. upgrade obj s))
      | BootLevelId level \<Rightarrow>
          st_bind (get_skm sm_boot_level_key_cache) (\<lambda>cache.
            if cache = None then st_ok None
            else
              st_bind (on_cache (aes_key (hkdf_expand (nv_ssl E)) (i32_as_usize level))) (\<lambda>key.
                case key of
                  None \<Rightarrow> st_ok None
                | Some key \<Rightarrow> st_bind new_object (\<lambda>obj. st_ok (Some (SuperKey obj Aes256Gcm key key_id None))))))"

definition get_per_boot_key_by_user_id :: "nat \<Rightarrow> skm_state \<Rightarrow> super_key option" where
  "get_per_boot_key_by_user_id user_id s = Option.bind (map_of (sm_user_keys s) user_id) us_per_boot"

definition populate_cache_from_super_key_blob ::
    "('e, 'p, 'k) ks_env \<Rightarrow> nat \<Rightarrow> super_encryption_algorithm \<Rightarrow> key_entry \<Rightarrow> password
     \<Rightarrow> (('k, 'z) ks_world_scheme, super_key) st" where
  "populate_cache_from_super_key_blob E user_id algorithm entry pw =
     st_bind new_object (\<lambda>obj.
     st_bind (st_lift (extract_super_key_from_key_entry (nv_ssl E) obj algorithm entry pw None)) (\<lambda>super_key.
     st_bind (install_per_boot_key_for_user user_id super_key) (\<lambda>_. st_ok super_key)))"

text \<open>The callback: a legacy super key is taken over, otherwise a new one is made.\<close>

definition create_new_key ::
    "('e, 'p, 'k) ks_env \<Rightarrow> nat \<Rightarrow> nat \<Rightarrow> password \<Rightarrow> legacy_fs \<Rightarrow> (bytes \<times> blob_meta_data) res" where
  "create_new_key E r user pw fs =
     and_then (LegacyBlobLoader_load_super_key (nv_ssl E) user pw fs) (\<lambda>super_key.
     and_then (case super_key of None \<Rightarrow> generate_aes256_key (nv_ssl E) r | Some key \<Rightarrow> Inr key) (\<lambda>super_key.
       encrypt_with_password (nv_ssl E) (r + 1) super_key pw))"

definition unlock_user_key :: "('e, 'p, 'k) ks_env \<Rightarrow> nat \<Rightarrow> password \<Rightarrow> (('k, 'z) ks_world_scheme, unit) st" where
  "unlock_user_key E user pw =
     st_bind (draw 4) (\<lambda>r.
     st_bind (st_gets kw_fs) (\<lambda>fs.
     st_bind (on_db (get_or_create_key_with (nv_ids E (r + 3)) APP (int user) (skt_alias USER_SUPER_KEY) KEYSTORE_UUID
                (create_new_key E r user pw fs))) (\<lambda>(g, entry).
     st_bind (drop_guard g) (\<lambda>_.
     st_bind (populate_cache_from_super_key_blob E user (skt_algorithm USER_SUPER_KEY) entry pw) (\<lambda>_. st_ok ())))))"

definition unwrap_key_if_required ::
    "('e, 'p, 'k) ks_env \<Rightarrow> blob_meta_data \<Rightarrow> bytes \<Rightarrow> (('k, 'z) ks_world_scheme, key_blob) st" where
  "unwrap_key_if_required E metadata blob =
     (case SuperKeyIdentifier_from_metadata metadata of
        Some key_id \<Rightarrow>
          st_bind (lookup_key E key_id) (\<lambda>found.
          st_bind (st_lift (ok_or found (Ks (Rc RC_LOCKED)))) (\<lambda>super_key.
          st_bind (st_lift (unwrap_key_with_key (nv_ssl E) blob metadata super_key)) (\<lambda>key.
            st_ok (sensitive_blob key super_key))))
      | None \<Rightarrow> st_ok (KB_Ref blob))"

section \<open>Setting up and unlocking\<close>

datatype user_state = LskfUnlocked super_key | LskfLocked | Uninitialized

definition super_key_exists_in_db_for_user :: "nat \<Rightarrow> (('k, 'z) ks_world_scheme, bool) st" where
  "super_key_exists_in_db_for_user user_id =
     st_bind (st_gets (\<lambda>w. key_exists APP (int user_id) (skt_alias USER_SUPER_KEY) Super (kw_db w))) (\<lambda>r.
     st_bind (st_lift r) (\<lambda>key_in_db.
       if key_in_db then st_ok key_in_db else LegacyMigrator_has_super_key user_id))"

definition check_and_unlock_super_key ::
    "('e, 'p, 'k) ks_env \<Rightarrow> nat \<Rightarrow> password \<Rightarrow> (('k, 'z) ks_world_scheme, user_state) st" where
  "check_and_unlock_super_key E user_id pw =
     st_bind (with_try_migrate_super_key E user_id pw (on_db (load_super_key (skt_alias USER_SUPER_KEY) user_id))) (\<lambda>result.
       case result of
         Some (g, entry) \<Rightarrow>
           with_guard g
             (st_bind (populate_cache_from_super_key_blob E user_id (skt_algorithm USER_SUPER_KEY) entry pw) (\<lambda>super_key.
               st_ok (LskfUnlocked super_key)))
       | None \<Rightarrow> st_ok Uninitialized)"

definition check_and_initialize_super_key ::
    "('e, 'p, 'k) ks_env \<Rightarrow> nat \<Rightarrow> password option \<Rightarrow> (('k, 'z) ks_world_scheme, user_state) st" where
  "check_and_initialize_super_key E user_id pw =
     st_bind (super_key_exists_in_db_for_user user_id) (\<lambda>super_key_exists_in_db.
       if super_key_exists_in_db then st_ok LskfLocked
       else
         (case pw of
            None \<Rightarrow> st_ok Uninitialized
          | Some pw \<Rightarrow>
              st_bind (draw 4) (\<lambda>r.
              st_bind (st_lift (generate_aes256_key (nv_ssl E) r)) (\<lambda>super_key.
              st_bind (st_lift (encrypt_with_password (nv_ssl E) (r + 1) super_key pw)) (\<lambda>(encrypted_super_key, blob_metadata).
              st_bind (on_db (store_super_key (nv_ids E (r + 3)) user_id (skt_alias USER_SUPER_KEY) encrypted_super_key
                         blob_metadata KeyMetaData_new)) (\<lambda>key_entry.
              st_bind (populate_cache_from_super_key_blob E user_id (skt_algorithm USER_SUPER_KEY) key_entry pw) (\<lambda>super_key.
                st_ok (LskfUnlocked super_key))))))))"

section \<open>The state of a user\<close>

definition UserState_get :: "nat \<Rightarrow> (('k, 'z) ks_world_scheme, user_state) st" where
  "UserState_get user_id =
     st_bind (get_skm (get_per_boot_key_by_user_id user_id)) (\<lambda>k.
       case k of
         Some super_key \<Rightarrow> st_ok (LskfUnlocked super_key)
       | None \<Rightarrow>
           st_bind (super_key_exists_in_db_for_user user_id) (\<lambda>b. st_ok (if b then LskfLocked else Uninitialized)))"

definition reset_user :: "('e, 'p, 'k) ks_env \<Rightarrow> nat \<Rightarrow> bool \<Rightarrow> (('k, 'z) ks_world_scheme, unit) st" where
  "reset_user E user_id keep_non_super_encrypted_keys =
     st_bind (bulk_delete_user E user_id keep_non_super_encrypted_keys) (\<lambda>_.
     st_bind (on_db (unbind_keys_for_user (nv_aid_user_offset E) (skt_alias USER_SUPER_KEY) user_id
                keep_non_super_encrypted_keys)) (\<lambda>_.
       modify_skm (forget_all_keys_for_user user_id)))"

definition get_with_password_changed ::
    "('e, 'p, 'k) ks_env \<Rightarrow> nat \<Rightarrow> password option \<Rightarrow> (('k, 'z) ks_world_scheme, user_state) st" where
  "get_with_password_changed E user_id password =
     st_bind (get_skm (get_per_boot_key_by_user_id user_id)) (\<lambda>k.
       case k of
         Some super_key \<Rightarrow>
           (if password = None then st_bind (reset_user E user_id True) (\<lambda>_. st_ok Uninitialized)
            else st_ok (LskfUnlocked super_key))
       | None \<Rightarrow> check_and_initialize_super_key E user_id password)"

definition get_with_password_unlock ::
    "('e, 'p, 'k) ks_env \<Rightarrow> nat \<Rightarrow> password \<Rightarrow> (('k, 'z) ks_world_scheme, user_state) st" where
  "get_with_password_unlock E user_id password =
     st_bind (get_skm (get_per_boot_key_by_user_id user_id)) (\<lambda>k.
       case k of
         Some super_key \<Rightarrow> st_ok (LskfUnlocked super_key)
       | None \<Rightarrow> check_and_unlock_super_key E user_id password)"

section \<open>Super encryption of new keys\<close>

definition super_encrypt_on_key_init ::
    "('e, 'p, 'k) ks_env \<Rightarrow> nat \<Rightarrow> bytes \<Rightarrow> (('k, 'z) ks_world_scheme, bytes \<times> blob_meta_data) st" where
  "super_encrypt_on_key_init E user_id key_blob =
     st_bind (UserState_get user_id) (\<lambda>state.
       case state of
         LskfUnlocked super_key \<Rightarrow>
           st_bind (draw 1) (\<lambda>r. st_lift (encrypt_with_aes_super_key (nv_ssl E) r key_blob super_key))
       | LskfLocked \<Rightarrow> st_err (Ks (Rc RC_LOCKED))
       | Uninitialized \<Rightarrow> st_err (Ks (Rc RC_UNINITIALIZED)))"

text \<open>
  The branch for keys that are bound to the screen lock: the symmetric key when it is in memory,
  otherwise the public key from the database.
\<close>

definition screen_lock_bound_encrypt ::
    "('e, 'p, 'k) ks_env \<Rightarrow> nat \<Rightarrow> bytes \<Rightarrow> (('k, 'z) ks_world_scheme, bytes \<times> blob_meta_data) st" where
  "screen_lock_bound_encrypt E user_id key_blob =
     st_bind (get_skm (user_keys_of user_id)) (\<lambda>entry.
     st_bind (modify_skm (set_user_keys user_id entry)) (\<lambda>_.
       case us_screen_lock_bound entry of
         Some super_key \<Rightarrow>
           st_bind (draw 1) (\<lambda>r. st_lift (encrypt_with_aes_super_key (nv_ssl E) r key_blob super_key))
       | None \<Rightarrow>
           st_bind (on_db (load_super_key (skt_alias USER_SCREEN_LOCK_BOUND_P521_KEY) user_id)) (\<lambda>loaded.
             case loaded of
               None \<Rightarrow> st_err sys
             | Some (key_id_guard, key_entry) \<Rightarrow>
                 with_guard key_id_guard
                   (st_bind (st_lift (ok_or (KeyMetaData_sec1_public_key (e_metadata key_entry)) sys)) (\<lambda>public_key.
                    st_bind (draw 3) (\<lambda>r.
                      st_lift (encrypt_with_public_super_key (nv_ssl E) r key_id_guard public_key key_blob)))))))"

definition handle_super_encryption_on_key_init ::
    "('e, 'p, 'k) ks_env \<Rightarrow> aidl_consts \<Rightarrow> domain \<Rightarrow> key_parameter list \<Rightarrow> i32 option \<Rightarrow> nat \<Rightarrow> bytes
     \<Rightarrow> (('k, 'z) ks_world_scheme, bytes \<times> blob_meta_data) st" where
  "handle_super_encryption_on_key_init E C domain key_parameters flags user_id key_blob =
     (case super_encryption_required C domain key_parameters flags of
        SE_None \<Rightarrow> st_ok (key_blob, BlobMetaData_new)
      | LskfBound \<Rightarrow> super_encrypt_on_key_init E user_id key_blob
      | ScreenLockBound \<Rightarrow> screen_lock_bound_encrypt E user_id key_blob
      | BootLevel level \<Rightarrow>
          st_bind (lookup_key E (BootLevelId level)) (\<lambda>found.
          st_bind (st_lift (ok_or found (Ks (Rc RC_LOCKED)))) (\<lambda>super_key.
          st_bind (draw 1) (\<lambda>r. st_lift (encrypt_with_aes_super_key (nv_ssl E) r key_blob super_key)))))"

section \<open>The screen lock\<close>

definition get_or_create_super_key ::
    "('e, 'p, 'k) ks_env \<Rightarrow> nat \<Rightarrow> super_key_type \<Rightarrow> password \<Rightarrow> super_key option
     \<Rightarrow> (('k, 'z) ks_world_scheme, super_key) st" where
  "get_or_create_super_key E user_id key_type password reencrypt_with =
     st_bind (on_db (load_super_key (skt_alias key_type) user_id)) (\<lambda>loaded_key.
     st_bind new_object (\<lambda>obj.
       case loaded_key of
         Some (g, key_entry) \<Rightarrow>
           with_guard g (st_lift (extract_super_key_from_key_entry (nv_ssl E) obj (skt_algorithm key_type) key_entry
             password reencrypt_with))
       | None \<Rightarrow>
           st_bind (draw 4) (\<lambda>r.
           st_bind (case skt_algorithm key_type of
                      Aes256Gcm \<Rightarrow> st_lift (map_res (\<lambda>k. (k, None)) (generate_aes256_key (nv_ssl E) r))
                    | EcdhP521 \<Rightarrow>
                        st_lift (and_then (ECDHPrivateKey_generate (nv_ssl E) r) (\<lambda>key.
                          and_then (ECDHPrivateKey_private_key (nv_ssl E) key) (\<lambda>private_key.
                          map_res (\<lambda>public_key. (private_key, Some public_key)) (ECDHPrivateKey_public_key (nv_ssl E) key)))))
             (\<lambda>(super_key, public_key).
           st_bind (st_lift (encrypt_with_password (nv_ssl E) (r + 1) super_key password)) (\<lambda>(encrypted_super_key, blob_metadata).
           st_bind (on_db (store_super_key (nv_ids E (r + 3)) user_id (skt_alias key_type) encrypted_super_key blob_metadata
                      (case public_key of Some pk \<Rightarrow> KeyMetaData_add (Sec1PublicKey pk) KeyMetaData_new
                       | None \<Rightarrow> KeyMetaData_new))) (\<lambda>key_entry.
             st_ok (SuperKey obj (skt_algorithm key_type) super_key (DatabaseId (e_id key_entry)) reencrypt_with)))))))"

definition unlock_screen_lock_bound_key ::
    "('e, 'p, 'k) ks_env \<Rightarrow> nat \<Rightarrow> password \<Rightarrow> (('k, 'z) ks_world_scheme, unit) st" where
  "unlock_screen_lock_bound_key E user_id password =
     (let put = (\<lambda>f w. w\<lparr>kw_skm := set_user_keys user_id (f (user_keys_of user_id (kw_skm w))) (kw_skm w)\<rparr>) in
     st_bind (st_modify (put id)) (\<lambda>_.
     st_bind (get_or_try_to_insert_with (\<lambda>w. us_screen_lock_bound (user_keys_of user_id (kw_skm w)))
                (\<lambda>k. put (\<lambda>u. u\<lparr>us_screen_lock_bound := Some k\<rparr>))
                (get_or_create_super_key E user_id USER_SCREEN_LOCK_BOUND_KEY password None)) (\<lambda>aes.
     st_bind (get_or_try_to_insert_with (\<lambda>w. us_screen_lock_bound_private (user_keys_of user_id (kw_skm w)))
                (\<lambda>k. put (\<lambda>u. u\<lparr>us_screen_lock_bound_private := Some k\<rparr>))
                (get_or_create_super_key E user_id USER_SCREEN_LOCK_BOUND_P521_KEY password (Some aes))) (\<lambda>ecdh.
     st_bind (add_key_to_key_index aes) (\<lambda>_. add_key_to_key_index ecdh)))))"

definition biometric_key_params :: "key_consts \<Rightarrow> i64 list \<Rightarrow> km_key_parameter list" where
  "biometric_key_params K unlocking_sids =
     map KeyParameterValue_into_km
       ([KpAlgorithm (KC_ALGORITHM_AES K), KpKeySize 256, KpBlockMode (KC_BLOCK_MODE_GCM K),
         KpPaddingMode (KC_PADDING_NONE K), KpCallerNonce, KpKeyPurpose (KC_PURPOSE_DECRYPT K), KpMinMacLength 128,
         KpAuthTimeout BIOMETRIC_AUTH_TIMEOUT_S, KpHardwareAuthenticatorType (KC_FINGERPRINT K)]
        @ map KpUserSecureID unlocking_sids)"

definition set_up_biometric_unlock ::
    "('e, 'p, 'k) ks_env \<Rightarrow> nat \<Rightarrow> i64 list \<Rightarrow> super_key \<Rightarrow> super_key \<Rightarrow> (('k, 'z) ks_world_scheme, unit) st" where
  "set_up_biometric_unlock E user_id unlocking_sids aes ecdh =
     (let key_desc = internal_descriptor E (''biometric_unlock_key_'' @ nat_to_string user_id) in
      st_bind (draw 3) (\<lambda>r.
      st_bind (st_lift (generate_aes256_key (nv_ssl E) r)) (\<lambda>encrypting_key.
      st_bind (st_lift (nv_keymint E (KC_TRUSTED_ENVIRONMENT (nv_consts E)))) (\<lambda>km_dev.
      st_bind (create_and_store_key E km_dev key_desc Client
                 (kmi_importKey km_dev (biometric_key_params (nv_consts E) unlocking_sids) (KC_FORMAT_RAW (nv_consts E))
                    encrypting_key None)) (\<lambda>_.
      st_bind (st_lift (LockedKey_new (nv_ssl E) (r + 1) encrypting_key aes)) (\<lambda>slb.
      st_bind (st_lift (LockedKey_new (nv_ssl E) (r + 2) encrypting_key ecdh)) (\<lambda>slbp.
        modify_skm (\<lambda>s. set_user_keys user_id ((user_keys_of user_id s)
          \<lparr>us_biometric_unlock := Some \<lparr>bu_sids = unlocking_sids, bu_key_desc = key_desc, bu_screen_lock_bound = slb,
             bu_screen_lock_bound_private = slbp\<rparr>\<rparr>) s))))))))"

definition lock_screen_lock_bound_key ::
    "('e, 'p, 'k) ks_env \<Rightarrow> nat \<Rightarrow> i64 list \<Rightarrow> (('k, 'z) ks_world_scheme, unit) st" where
  "lock_screen_lock_bound_key E user_id unlocking_sids =
     st_bind (get_skm (user_keys_of user_id)) (\<lambda>entry.
     st_bind (if unlocking_sids \<noteq> [] then
                (case (us_screen_lock_bound entry, us_screen_lock_bound_private entry) of
                   (Some aes, Some ecdh) \<Rightarrow>
                     st_bind (st_try (set_up_biometric_unlock E user_id unlocking_sids aes ecdh)) (\<lambda>_. st_ok ())
                 | _ \<Rightarrow> st_ok ())
              else st_ok ()) (\<lambda>_.
       modify_skm (\<lambda>s. set_user_keys user_id ((user_keys_of user_id s)
         \<lparr>us_screen_lock_bound := None, us_screen_lock_bound_private := None\<rparr>) s)))"

definition locked_key_params :: "key_consts \<Rightarrow> bytes \<Rightarrow> km_key_parameter list" where
  "locked_key_params K nonce =
     map KeyParameterValue_into_km
       [KpAlgorithm (KC_ALGORITHM_AES K), KpKeySize 256, KpBlockMode (KC_BLOCK_MODE_GCM K),
        KpPaddingMode (KC_PADDING_NONE K), KpNonce nonce, KpMacLength 128]"

definition LockedKey_decrypt ::
    "('e, 'p, 'k) ks_env \<Rightarrow> 'k keymint \<Rightarrow> int \<Rightarrow> key_entry \<Rightarrow> hardware_auth_token \<Rightarrow> super_key option \<Rightarrow> locked_key
     \<Rightarrow> (('k, 'z) ks_world_scheme, super_key) st" where
  "LockedKey_decrypt E km_dev key_id_guard key_entry auth_token reencrypt_with lk =
     st_bind (st_lift (ok_or (map_option fst (e_key_blob_info key_entry)) (Ks (Rc RC_KEY_NOT_FOUND)))) (\<lambda>key_blob.
     st_bind (use_key_in_one_step E km_dev key_id_guard key_blob (KC_PURPOSE_DECRYPT (nv_consts E))
                (locked_key_params (nv_consts E) (lk_nonce lk)) (Some auth_token) (lk_ciphertext lk)) (\<lambda>key.
     st_bind new_object (\<lambda>obj.
       st_ok (SuperKey obj (lk_algorithm lk) key (lk_id lk) reencrypt_with))))"

fun unlock_with_sids ::
    "('e, 'p, 'k) ks_env \<Rightarrow> nat \<Rightarrow> biometric_unlock \<Rightarrow> 'k keymint \<Rightarrow> int \<Rightarrow> key_entry \<Rightarrow> i64 list
     \<Rightarrow> (('k, 'z) ks_world_scheme, unit) st" where
  "unlock_with_sids E user_id biometric km_dev g key_entry [] = st_ok ()"
| "unlock_with_sids E user_id biometric km_dev g key_entry (sid # sids) =
     st_bind (st_gets (\<lambda>w. KeystoreDB_find_auth_token_entry
       (\<lambda>e. hat_user_id (ate_auth_token e) = sid \<or> hat_authenticator_id (ate_auth_token e) = sid) (kw_perboot w))) (\<lambda>found.
       case found of
         None \<Rightarrow> unlock_with_sids E user_id biometric km_dev g key_entry sids
       | Some (auth_token_entry, _) \<Rightarrow>
           st_bind (st_try
             (st_bind (LockedKey_decrypt E km_dev g key_entry (ate_auth_token auth_token_entry) None
                         (bu_screen_lock_bound biometric)) (\<lambda>slb.
              st_bind (LockedKey_decrypt E km_dev g key_entry (ate_auth_token auth_token_entry) (Some slb)
                         (bu_screen_lock_bound_private biometric)) (\<lambda>slbp. st_ok (slb, slbp))))) (\<lambda>res.
             case res of
               Inl _ \<Rightarrow> unlock_with_sids E user_id biometric km_dev g key_entry sids
             | Inr (slb, slbp) \<Rightarrow>
                 st_bind (modify_skm (\<lambda>s. set_user_keys user_id ((user_keys_of user_id s)
                   \<lparr>us_screen_lock_bound := Some slb, us_screen_lock_bound_private := Some slbp\<rparr>) s)) (\<lambda>_.
                 st_bind (add_key_to_key_index slb) (\<lambda>_. add_key_to_key_index slbp))))"

definition try_unlock_user_with_biometric :: "('e, 'p, 'k) ks_env \<Rightarrow> nat \<Rightarrow> (('k, 'z) ks_world_scheme, unit) st" where
  "try_unlock_user_with_biometric E user_id =
     st_bind (get_skm (user_keys_of user_id)) (\<lambda>entry.
     st_bind (modify_skm (set_user_keys user_id entry)) (\<lambda>_.
       case us_biometric_unlock entry of
         None \<Rightarrow> st_ok ()
       | Some biometric \<Rightarrow>
           st_bind (on_db (load_key_entry (nv_wait E) (bu_key_desc biometric) Client LB_KM (nv_aid_keystore E)
                      (\<lambda>_ _. Inr ()))) (\<lambda>(key_id_guard, key_entry).
             with_guard key_id_guard
               (st_bind (st_lift (nv_keymint E (KC_TRUSTED_ENVIRONMENT (nv_consts E)))) (\<lambda>km_dev.
                  unlock_with_sids E user_id biometric km_dev key_id_guard key_entry (bu_sids biometric))))))"

end
