(* ===== verification/Ks_SuperKeyLife.thy ===== *)
theory Ks_SuperKeyLife
  imports Ks_SuperKey Ks_DbInvariant
begin

text \<open>
  What the super key manager guarantees over the life of a user: a password set up once gives the
  same super key after a reboot, so that keys bound to the lock screen come back with it; and
  locking the screen takes the keys that are bound to it out of reach.
\<close>

lemma skm_ops [simp]:
  "get_skm f w = (Inr (f (kw_skm w)), w)"
  "modify_skm h w = (Inr (), w\<lparr>kw_skm := h (kw_skm w)\<rparr>)"
  "new_object w = (Inr (sm_next_object (kw_skm w)), w\<lparr>kw_skm := (kw_skm w)\<lparr>sm_next_object := sm_next_object (kw_skm w) + 1\<rparr>\<rparr>)"
  by (simp_all add: get_skm_def modify_skm_def new_object_def st_bind_def)

lemma skm_binds [simp]:
  "st_bind (get_skm f) k w = k (f (kw_skm w)) w"
  "st_bind (modify_skm h) k' w = k' () (w\<lparr>kw_skm := h (kw_skm w)\<rparr>)"
  "st_bind new_object k'' w =
     k'' (sm_next_object (kw_skm w)) (w\<lparr>kw_skm := (kw_skm w)\<lparr>sm_next_object := sm_next_object (kw_skm w) + 1\<rparr>\<rparr>)"
  by (simp_all add: st_bind_def)

section \<open>A super key survives a reboot\<close>

definition skm_init :: skm_state where
  "skm_init = \<lparr>sm_user_keys = [], sm_key_index = [], sm_boot_level_key_cache = None, sm_next_object = 0, sm_held = []\<rparr>"

text \<open>What is in memory is lost; what is on flash, and the state of the devices, stays.\<close>

definition reboot :: "('k, 'z) ks_world_scheme \<Rightarrow> ('k, 'z) ks_world_scheme" where
  "reboot w =
     w\<lparr>kw_skm := skm_init, kw_db := (kw_db w)\<lparr>db_locked_keys := {}\<rparr>, kw_perboot := PerbootDB_new,
       kw_mig := LegacyMigrator_new\<rparr>"

lemma load_key_components_locks [simp]:
  "load_key_components bits i (db\<lparr>db_locked_keys := L\<rparr>) = load_key_components bits i db"
  by (simp add: load_key_components_def KeyMetaData_load_from_db_def load_blob_components_def load_key_parameters_def
      get_key_km_uuid_def BlobMetaData_load_from_db_def Let_def cong: option.case_cong)

lemma store_super_key_row:
  assumes "store_super_key rnd u a blob md km db = (Inr entry, db')"
  shows "db_keyentry db' = db_keyentry db @ [\<lparr>ke_id = e_id entry, ke_key_type = Super, ke_domain = Some APP,
           ke_namespace = Some (int u), ke_alias = Some a, ke_state = Live, ke_km_uuid = KEYSTORE_UUID\<rparr>] \<and>
         load_key_components LB_KM (e_id entry) db' = Inr entry"
proof -
  from assms obtain i tx tx' where ins: "insert_with_retry rnd (\<lambda>i. insert_keyentry
       \<lparr>ke_id = i, ke_key_type = Super, ke_domain = Some APP, ke_namespace = Some (int u),
            ke_alias = Some a, ke_state = Live, ke_km_uuid = KEYSTORE_UUID\<rparr> db) = Inr (i, tx)"
    and blob: "set_blob_internal i KEY_BLOB (Some blob) (Some md) (KeyMetaData_store_in_db km i tx) = Inr ((), tx')"
    and load: "load_key_components LB_KM i db' = Inr entry" and db': "db' = tx'"
    by (auto simp: store_super_key_def with_transaction_def res_iffs split: sum.splits if_splits)
  have "e_id entry = i" using load by (auto simp: load_key_components_def res_iffs)
  moreover have "db_keyentry db' = db_keyentry tx"
    using set_blob_internal_keys [OF blob] by (simp add: db' KeyMetaData_store_in_db_def)
  ultimately show ?thesis using load new_keyentry(4) [OF ins] by simp
qed

lemma load_super_key_after_store:
  assumes "key_exists APP (int u) a Super db = Inr False"
    and "store_super_key rnd u a blob md km db = (Inr entry, db')"
  shows "load_super_key a u (db'\<lparr>db_locked_keys := {}\<rparr>) =
           (Inr (Some (e_id entry, entry)), db'\<lparr>db_locked_keys := {e_id entry}\<rparr>)"
proof -
  note row = store_super_key_row [OF assms(2)]
  let ?p = "\<lambda>k. ke_key_type k = Super \<and> ke_domain k = Some APP \<and> ke_namespace k = Some (int u) \<and> ke_alias k = Some a \<and>
    ke_state k = Live"
  have "filter ?p (db_keyentry db) = []"
  proof (cases "filter ?p (db_keyentry db)")
    case (Cons r rs)
    with assms(1) show ?thesis by (cases rs) (simp_all add: key_exists_def load_key_entry_id_def)
  qed simp
  with row have "load_key_entry_id \<lparr>kd_domain = APP, kd_nspace = int u, kd_alias = Some a, kd_blob = None\<rparr> Super
      (db'\<lparr>db_locked_keys := {}\<rparr>) = Inr (e_id entry)"
    by (simp add: load_key_entry_id_def)
  then show ?thesis using row by (simp add: load_super_key_def with_transaction_def KeyIdLockDb_get_def)
qed

text \<open>The number of the object is all that differs when an entry is decrypted again.\<close>

lemma extract_super_key_obj:
  assumes "extract_super_key_from_key_entry L obj alg entry pw re = Inr k"
  shows "k = SuperKey obj alg (sk_key k) (DatabaseId (e_id entry)) re \<and>
         extract_super_key_from_key_entry L obj' alg entry pw re = Inr (SuperKey obj' alg (sk_key k) (DatabaseId (e_id entry)) re)"
  using assms
  by (auto simp: extract_super_key_from_key_entry_def res_iffs
      split: option.splits prod.splits encrypted_by.splits)

definition installed :: "nat \<Rightarrow> super_key \<Rightarrow> skm_state \<Rightarrow> skm_state" where
  "installed user k s =
     (let s = s\<lparr>sm_next_object := sm_next_object s + 1,
                sm_key_index := (case sk_id k of DatabaseId i \<Rightarrow> hash_insert i (sk_obj k) (sm_key_index s) | _ \<Rightarrow> sm_key_index s)\<rparr>
      in set_user_keys user ((user_keys_of user s)\<lparr>us_per_boot := Some k\<rparr>) s)"

lemma populate_cache_eq:
  "populate_cache_from_super_key_blob E user alg entry pw w =
     (case extract_super_key_from_key_entry (nv_ssl E) (sm_next_object (kw_skm w)) alg entry pw None of
        Inl e \<Rightarrow> (Inl e, w\<lparr>kw_skm := (kw_skm w)\<lparr>sm_next_object := sm_next_object (kw_skm w) + 1\<rparr>\<rparr>)
      | Inr k \<Rightarrow> (Inr k, w\<lparr>kw_skm := installed user k (kw_skm w)\<rparr>))"
proof (cases "extract_super_key_from_key_entry (nv_ssl E) (sm_next_object (kw_skm w)) alg entry pw None")
  case (Inr k)
  from extract_super_key_obj [OF Inr] have "sk_id k = DatabaseId (e_id entry)" by (metis super_key.sel(4))
  then show ?thesis
    using Inr by (simp add: populate_cache_from_super_key_blob_def install_per_boot_key_for_user_def
        add_key_to_key_index_def st_bind_assoc installed_def Let_def user_keys_of_def)
qed (simp add: populate_cache_from_super_key_blob_def)

lemma installed_per_boot [simp]: "get_per_boot_key_by_user_id user (installed user k s) = Some k"
  by (simp add: get_per_boot_key_by_user_id_def installed_def set_user_keys_def Let_def)

text \<open>After a reboot, the installed key is the only one.\<close>

lemma lookup_installed_init:
  assumes "sk_id k = DatabaseId i" and "kw_skm w = installed user k skm_init" and "sk_reencrypt_with k = None"
  shows "lookup_key E (DatabaseId i) w = (Inr (Some k), w)"
proof -
  have "reachable_keys k = [k]" using assms(3) by (cases k rule: reachable_keys.cases) auto
  then show ?thesis
    using assms(1,2)
    by (simp add: lookup_key_def installed_def skm_init_def set_user_keys_def hash_insert_def Let_def upgrade_def
        live_objects_def user_objects_def user_keys_of_def no_user_keys_def map_filter_simps)
qed

lemma has_super_key_frame:
  fixes w :: "('k, 'z) ks_world_scheme"
  assumes "LegacyMigrator_has_super_key u w = (r, w')"
  shows "kw_db w' = kw_db w \<and> kw_skm w' = kw_skm w"
  using assms
  by (auto simp: LegacyMigrator_has_super_key_def serialized_or_def do_serialized_def check_state_def migrator_job_def
      finish_request_def set_status_def Let_def
      split: prod.splits sum.splits migrator_status.splits if_splits bool.splits option.splits)

lemma super_key_exists_False:
  fixes w :: "('k, 'z) ks_world_scheme"
  assumes "super_key_exists_in_db_for_user u w = (Inr False, w')"
  shows "key_exists APP (int u) (skt_alias USER_SUPER_KEY) Super (kw_db w) = Inr False \<and>
         kw_db w' = kw_db w \<and> kw_skm w' = kw_skm w"
proof (cases "key_exists APP (int u) (skt_alias USER_SUPER_KEY) Super (kw_db w)")
  case (Inr b)
  with assms have "\<not> b" "LegacyMigrator_has_super_key u w = (Inr False, w')"
    by (simp_all add: super_key_exists_in_db_for_user_def st_bind_gets split: if_splits)
  with Inr show ?thesis using has_super_key_frame by simp
qed (use assms in \<open>simp add: super_key_exists_in_db_for_user_def st_bind_gets\<close>)

text \<open>Setting up a password stores a super key that was not there and puts it into memory.\<close>

lemma check_and_initialize_Inr:
  fixes w :: "('k, 'z) ks_world_scheme"
  assumes "check_and_initialize_super_key E u (Some pw) w = (Inr (LskfUnlocked k), w')"
  shows "\<exists>rnd blob md entry s.
    key_exists APP (int u) (skt_alias USER_SUPER_KEY) Super (kw_db w) = Inr False \<and>
    store_super_key rnd u (skt_alias USER_SUPER_KEY) blob md KeyMetaData_new (kw_db w) = (Inr entry, kw_db w') \<and>
    extract_super_key_from_key_entry (nv_ssl E) (sm_next_object s) Aes256Gcm entry pw None = Inr k \<and>
    kw_skm w' = installed u k s"
proof -
  from assms obtain b w1 where ex: "super_key_exists_in_db_for_user u w = (Inr b, w1)" and "\<not> b"
    by (auto simp: check_and_initialize_super_key_def st_bind_Inr_iff split: if_splits)
  then have ex: "super_key_exists_in_db_for_user u w = (Inr False, w1)" by simp
  note same = super_key_exists_False [OF ex]
  let ?r = "kw_rng w1"
  from assms ex obtain key blob md where
    "generate_aes256_key (nv_ssl E) ?r = Inr key" "encrypt_with_password (nv_ssl E) (?r + 1) key pw = Inr (blob, md)"
    by (auto simp: check_and_initialize_super_key_def st_bind_Inr_iff)
  moreover obtain x db where st: "store_super_key (nv_ids E (?r + 3)) u (skt_alias USER_SUPER_KEY) blob md KeyMetaData_new
      (kw_db w1) = (x, db)" by fastforce
  ultimately have m: "st_bind (on_db (store_super_key (nv_ids E (?r + 3)) u (skt_alias USER_SUPER_KEY) blob md KeyMetaData_new))
      (\<lambda>key_entry. st_bind (populate_cache_from_super_key_blob E u (skt_algorithm USER_SUPER_KEY) key_entry pw) (\<lambda>super_key.
        st_ok (LskfUnlocked super_key))) (w1\<lparr>kw_rng := ?r + 4\<rparr>) = (Inr (LskfUnlocked k), w')"
    using assms ex by (simp add: check_and_initialize_super_key_def st_bind_def [of "super_key_exists_in_db_for_user u"]
        st_bind_def [of "draw 4"])
  with st obtain entry where x: "x = Inr entry"
    and p: "populate_cache_from_super_key_blob E u Aes256Gcm entry pw (w1\<lparr>kw_rng := ?r + 4, kw_db := db\<rparr>) = (Inr k, w')"
    by (auto simp: st_bind_Inr_iff USER_SUPER_KEY_def on_db_def)
  from p have "extract_super_key_from_key_entry (nv_ssl E) (sm_next_object (kw_skm w1)) Aes256Gcm entry pw None = Inr k"
    and "kw_skm w' = installed u k (kw_skm w1)" and "kw_db w' = db"
    by (auto simp: populate_cache_eq split: sum.splits)
  with st x same show ?thesis by metis
qed

lemma unlock_after_reboot:
  fixes w :: "('k, 'z) ks_world_scheme"
  assumes "key_exists APP (int u) (skt_alias USER_SUPER_KEY) Super db = Inr False"
    and "store_super_key rnd u (skt_alias USER_SUPER_KEY) blob md KeyMetaData_new db = (Inr entry, kw_db w)"
    and ext: "extract_super_key_from_key_entry (nv_ssl E) obj Aes256Gcm entry pw None = Inr k"
  shows "fst (get_with_password_unlock E u pw (reboot w)) = Inr (LskfUnlocked (SuperKey 0 Aes256Gcm (sk_key k) (sk_id k) None)) \<and>
         kw_skm (snd (get_with_password_unlock E u pw (reboot w))) =
           installed u (SuperKey 0 Aes256Gcm (sk_key k) (sk_id k) None) skm_init"
proof -
  have id: "sk_id k = DatabaseId (e_id entry)" using extract_super_key_obj [OF ext] by (metis super_key.sel(4))
  have load: "on_db (load_super_key (skt_alias USER_SUPER_KEY) u) (reboot w) =
      (Inr (Some (e_id entry, entry)), (reboot w)\<lparr>kw_db := (kw_db w)\<lparr>db_locked_keys := {e_id entry}\<rparr>\<rparr>)"
    using load_super_key_after_store [OF assms(1,2)] by (simp add: reboot_def on_db_def)
  have "get_per_boot_key_by_user_id u (kw_skm (reboot w)) = None" "sm_next_object (kw_skm (reboot w)) = 0"
    "kw_skm (reboot w) = skm_init"
    by (simp_all add: reboot_def skm_init_def get_per_boot_key_by_user_id_def)
  then show ?thesis
    using extract_super_key_obj [OF ext, of 0] load id
    by (simp add: get_with_password_unlock_def check_and_unlock_super_key_def with_try_migrate_super_key_def st_bind_def
        with_guard_def populate_cache_eq USER_SUPER_KEY_def skm_init_def)
qed

text \<open>C5. A user sets up a password; a key bound to the lock screen is created and super encrypted; the device
  reboots.  Until the user enters the password the key blob cannot be unwrapped; entering the
  password unlocks the user, and from then on the stored blob is unwrapped to the very blob that was
  super encrypted.\<close>

theorem lskf_bound_key_survives_reboot:
  fixes w :: "('k, 'z) ks_world_scheme"
  assumes laws: "random_law (nv_ssl E)" "gcm_law (nv_ssl E)"
    and new: "get_per_boot_key_by_user_id u (kw_skm w) = None"
    and set_up: "get_with_password_changed E u (Some pw) w = (Inr (LskfUnlocked k), w1)"
    and bound: "super_encryption_required C domain params flags = LskfBound"
    and created: "handle_super_encryption_on_key_init E C domain params flags u key_blob w1 = (Inr (blob, md), w2)"
  shows "fst (unwrap_key_if_required E md blob (reboot w2)) = Inl (Ks (Rc RC_LOCKED)) \<and>
         (\<exists>k' w3. get_with_password_unlock E u pw (reboot w2) = (Inr (LskfUnlocked k'), w3) \<and>
            unwrap_key_if_required E md blob w3 = (Inr (Sensitive key_blob k' False), w3))"
proof -
  from set_up new have "check_and_initialize_super_key E u (Some pw) w = (Inr (LskfUnlocked k), w1)"
    by (simp add: get_with_password_changed_def)
  from check_and_initialize_Inr [OF this] obtain rnd sblob smd entry s where
    st: "key_exists APP (int u) (skt_alias USER_SUPER_KEY) Super (kw_db w) = Inr False"
      "store_super_key rnd u (skt_alias USER_SUPER_KEY) sblob smd KeyMetaData_new (kw_db w) = (Inr entry, kw_db w1)"
    and ext: "extract_super_key_from_key_entry (nv_ssl E) (sm_next_object s) Aes256Gcm entry pw None = Inr k"
    and inst: "kw_skm w1 = installed u k s" by blast
  have k: "sk_id k = DatabaseId (e_id entry)" "sk_algorithm k = Aes256Gcm"
    using extract_super_key_obj [OF ext] by (metis super_key.sel)+
  let ?k = "SuperKey 0 Aes256Gcm (sk_key k) (sk_id k) None"
  from created bound inst have enc: "encrypt_with_aes_super_key (nv_ssl E) (kw_rng w1) key_blob k = Inr (blob, md)"
    and w2: "w2 = w1\<lparr>kw_rng := kw_rng w1 + 1\<rparr>"
    by (auto simp: handle_super_encryption_on_key_init_def super_encrypt_on_key_init_def UserState_get_def st_bind_def)
  from encrypt_with_aes_super_key_unwraps(1) [OF laws enc] encrypt_with_aes_super_key_unwraps(2) [OF laws enc, of ?k] k
  have md: "SuperKeyIdentifier_from_metadata md = Some (DatabaseId (e_id entry))"
    and unwrap: "unwrap_key_with_key (nv_ssl E) blob md ?k = Inr key_blob" by simp_all
  have db: "kw_db w2 = kw_db w1" by (simp add: w2)
  obtain r w3 where g: "get_with_password_unlock E u pw (reboot w2) = (r, w3)" by fastforce
  from unlock_after_reboot [OF st(1) st(2) [folded db] ext] g
  have r: "r = Inr (LskfUnlocked ?k)" and skm: "kw_skm w3 = installed u ?k skm_init" by simp_all
  have "lookup_key E (DatabaseId (e_id entry)) w3 = (Inr (Some ?k), w3)"
    using k by (intro lookup_installed_init [OF _ skm]) simp_all
  then have "unwrap_key_if_required E md blob w3 = (Inr (Sensitive key_blob ?k False), w3)"
    by (simp add: unwrap_key_if_required_def md st_bind_def unwrap sensitive_blob_def)
  moreover have "fst (unwrap_key_if_required E md blob (reboot w2)) = Inl (Ks (Rc RC_LOCKED))"
    by (simp add: unwrap_key_if_required_def md lookup_key_def st_bind_def reboot_def skm_init_def)
  ultimately show ?thesis using g r by blast
qed

subsection \<open>Example\<close>

definition ex_ks_world :: "unit ks_world" where
  "ex_ks_world =
     \<lparr>kw_db = init_tables None, kw_perboot = PerbootDB_new, kw_rng = 5, kw_km = (),
      kw_fs = \<lparr>lf_dirs = [], lf_fault = (\<lambda>_ _ _. False)\<rparr>,
      kw_mig = \<lparr>lm_status = STATE_EMPTY, lm_initializer = False, lm_shelf = None\<rparr>, kw_skm = skm_init\<rparr>"

lemma ex_set_up_blob:
  "case encrypt_with_password ex_ssl 6 (replicate 32 5) (Ref [1]) of
     Inr (blob, md) \<Rightarrow>
       (case fst (store_super_key [8] 0 ''USER_SUPER_KEY'' blob md KeyMetaData_new (init_tables None)) of
          Inr entry \<Rightarrow>
            map_res sk_key (extract_super_key_from_key_entry ex_ssl 0 Aes256Gcm entry (Ref [1]) None) = Inr (replicate 32 5)
        | Inl _ \<Rightarrow> False)
   | Inl _ \<Rightarrow> False"
  by code_simp

lemma ex_key_new: "key_exists APP 0 ''USER_SUPER_KEY'' Super (init_tables None) = Inr False" "generate_aes256_key ex_ssl 5 = Inr (replicate 32 5)"
  by code_simp+

text \<open>Setting up the password ends with an unlocked user.\<close>

lemma ex_set_up: "\<exists>k w1. get_with_password_changed ex_ks_env 0 (Some (Ref [1])) ex_ks_world = (Inr (LskfUnlocked k), w1) \<and>
    sk_key k = replicate 32 5 \<and> sk_algorithm k = Aes256Gcm \<and> get_per_boot_key_by_user_id 0 (kw_skm w1) = Some k"
proof -
  have e: "super_key_exists_in_db_for_user 0 ex_ks_world = (Inr False, ex_ks_world)"
    by (simp add: super_key_exists_in_db_for_user_def st_bind_gets ex_ks_world_def ex_key_new USER_SUPER_KEY_def
        LegacyMigrator_has_super_key_def serialized_or_def do_serialized_def check_state_def)
  have f: "get_per_boot_key_by_user_id 0 (kw_skm ex_ks_world) = None" "kw_rng ex_ks_world = 5"
    "kw_db ex_ks_world = init_tables None" "sm_next_object (kw_skm ex_ks_world) = 0" "nv_ssl ex_ks_env = ex_ssl" "nv_ids ex_ks_env 8 = [8]"
    by (simp_all add: ex_ks_world_def skm_init_def get_per_boot_key_by_user_id_def ex_ks_env_def)
  obtain blob md where b: "encrypt_with_password ex_ssl 6 (replicate 32 5) (Ref [1]) = Inr (blob, md)"
    using ex_set_up_blob by (cases "encrypt_with_password ex_ssl 6 (replicate 32 5) (Ref [1])") auto
  obtain x db where s: "store_super_key [8] 0 ''USER_SUPER_KEY'' blob md KeyMetaData_new (init_tables None) = (x, db)" by fastforce
  from ex_set_up_blob b s obtain entry where x: "x = Inr entry"
    and "map_res sk_key (extract_super_key_from_key_entry ex_ssl 0 Aes256Gcm entry (Ref [1]) None) = Inr (replicate 32 5)"
    by (cases x) auto
  then obtain k where k: "extract_super_key_from_key_entry ex_ssl 0 Aes256Gcm entry (Ref [1]) None = Inr k" "sk_key k = replicate 32 5"
    by (auto simp: res_iffs)
  with extract_super_key_obj have "sk_algorithm k = Aes256Gcm" by (metis super_key.sel(2))
  with b s x k show ?thesis
    by (simp add: get_with_password_changed_def check_and_initialize_super_key_def st_bind_def f e ex_key_new
        USER_SUPER_KEY_def on_db_def populate_cache_eq)
qed

definition ex_lskf_params :: "key_parameter list" where
  "ex_lskf_params = [\<lparr>kp_value = KpUserSecureID 7, kp_security_level = 1\<rparr>]"

definition ex_aidl :: aidl_consts where
  "ex_aidl = \<lparr>KP_ENCRYPT = 0, KP_DECRYPT = 1, KP_SIGN = 2, KP_VERIFY = 3, KP_WRAP_KEY = 5, KP_AGREE_KEY = 6, ALG_RSA = 1,
     ALG_EC = 3, HAT_ANY = - 1, FLAG_AUTH_BOUND_WITHOUT_CRYPTOGRAPHIC_LSKF_BINDING = 1\<rparr>"

theorem lskf_bound_key_survives_reboot_witness:
  "\<exists>k w1 blob md w2 k' w3.
     get_with_password_changed ex_ks_env 0 (Some (Ref [1])) ex_ks_world = (Inr (LskfUnlocked k), w1) \<and>
     handle_super_encryption_on_key_init ex_ks_env ex_aidl APP ex_lskf_params None 0 [9] w1 = (Inr (blob, md), w2) \<and>
     fst (unwrap_key_if_required ex_ks_env md blob (reboot w2)) = Inl (Ks (Rc RC_LOCKED)) \<and>
     get_with_password_unlock ex_ks_env 0 (Ref [1]) (reboot w2) = (Inr (LskfUnlocked k'), w3) \<and>
     fst (unwrap_key_if_required ex_ks_env md blob w3) = Inr (Sensitive [9] k' False)"
proof -
  obtain k w1 where g: "get_with_password_changed ex_ks_env 0 (Some (Ref [1])) ex_ks_world = (Inr (LskfUnlocked k), w1)"
    and k: "sk_key k = replicate 32 5" "sk_algorithm k = Aes256Gcm" "get_per_boot_key_by_user_id 0 (kw_skm w1) = Some k"
    using ex_set_up by blast
  have f: "random_law (nv_ssl ex_ks_env)" "gcm_law (nv_ssl ex_ks_env)" "get_per_boot_key_by_user_id 0 (kw_skm ex_ks_world) = None"
    using ex_ssl_laws by (simp_all add: ex_ks_env_def ex_ks_world_def skm_init_def get_per_boot_key_by_user_id_def)
  have b: "super_encryption_required ex_aidl APP ex_lskf_params None = LskfBound"
    by (simp add: super_encryption_required_def ex_lskf_params_def super_encryption_candidate_def)
  have "is_ok (encrypt_with_aes_super_key ex_ssl (kw_rng w1) [9] k)"
    by (simp add: encrypt_with_aes_super_key_def k ex_crypto_simps ex_ssl_def is_ok_def)
  then obtain blob md where "encrypt_with_aes_super_key ex_ssl (kw_rng w1) [9] k = Inr (blob, md)"
    by (cases "encrypt_with_aes_super_key ex_ssl (kw_rng w1) [9] k") (auto simp: is_ok_def)
  then have h: "\<exists>w2. handle_super_encryption_on_key_init ex_ks_env ex_aidl APP ex_lskf_params None 0 [9] w1 = (Inr (blob, md), w2)"
    by (simp add: handle_super_encryption_on_key_init_def b super_encrypt_on_key_init_def UserState_get_def st_bind_def k
        ex_ks_env_def)
  then obtain w2 where h: "handle_super_encryption_on_key_init ex_ks_env ex_aidl APP ex_lskf_params None 0 [9] w1 = (Inr (blob, md), w2)" ..
  from lskf_bound_key_survives_reboot [OF f g b h] g h show ?thesis by fastforce
qed

end
