(* ===== verification/Ks_Frames.thy ===== *)
theory Ks_Frames
  imports Ks_RawDevice Ks_LegacyMigrator
begin

text \<open>
  What the legacy migrator and the raw KeyMint device leave alone: everything that other components
  add to the state they work on.  \<open>upper P\<close> is a property of that part of the state.  The
  collection \<open>upper_frames\<close> holds one rule per operation.
\<close>

named_theorems upper_frames \<open>what keeps a property of the state above the legacy migrator\<close>

abbreviation upper :: "('z \<Rightarrow> bool) \<Rightarrow> ('k, 'z) mig_world_scheme \<Rightarrow> bool" where
  "upper P w \<equiv> P (mig_world.more w)"

lemma upper_basic [upper_frames]:
  "preserves (upper P) (on_db f)"
  "preserves (upper P) (draw n)"
  "preserves (upper P) (drop_guard g)"
  "preserves (upper P) (on_fs h)"
  "preserves (upper P) (km_device_call E c)"
  "preserves (upper P) (st_modify (map_shelf t))"
  "preserves (upper P) (st_modify (\<lambda>w. w\<lparr>kw_fs := k w\<rparr>))"
  by (simp_all add: preserves_def on_db_def on_fs_eq km_device_call_def map_shelf_def split: prod.split)

lemma upper_with_guard [upper_frames]: "preserves (upper P) m \<Longrightarrow> preserves (upper P) (with_guard g m)"
  by (auto simp: preserves_def with_guard_def split: prod.split)

section \<open>The legacy migrator\<close>

lemma upper_super_key_entry [upper_frames]: "preserves (upper P) (super_key_entry kt u)"
  unfolding super_key_entry_def by (intro upper_frames st_preserves)

lemma upper_migrate_blob [upper_frames]: "preserves (upper P) (migrate_blob E uid alias v)"
  unfolding migrate_blob_def Let_def by (cases v) (auto intro!: upper_frames st_preserves)

lemma upper_migrate [upper_frames]:
  "preserves (upper P) (migrate_key E uid alias key km_blob params user_cert ca_cert)"
  "preserves (upper P) (migrate_certificate E key ca_cert)"
  unfolding migrate_key_def migrate_certificate_def by (intro upper_frames st_preserves)+

lemma upper_check_and_migrate [upper_frames]:
  "preserves (upper P) (check_and_migrate E uid key)"
  "preserves (upper P) (check_and_migrate_super_key E u pw)"
  unfolding check_and_migrate_def check_and_migrate_super_key_def Let_def by (intro upper_frames st_preserves)+

lemma upper_bulk_delete_entries [upper_frames]: "preserves (upper P) (bulk_delete_entries E sk keep entries)"
proof (induction entries)
  case (Cons e entries)
  show ?case
    by (cases e) (simp only: bulk_delete_entries.simps Let_def; intro Cons.IH upper_frames st_preserves)
qed (simp only: bulk_delete_entries.simps st_preserves)

lemma upper_bulk_delete [upper_frames]: "preserves (upper P) (bulk_delete E request keep)"
  unfolding bulk_delete_def by (intro upper_frames st_preserves)

lemma upper_do_serialized:
  fixes w :: "('k, 'z) mig_world_scheme"
  assumes "preserves (upper P) m" and "P (mig_world.more w)"
  shows "P (mig_world.more (snd (do_serialized m w)))"
proof -
  obtain c w1 where c: "check_state w = (c, w1)" by fastforce
  then have w1: "P (mig_world.more w1)"
    using assms(2) by (auto simp: check_state_def Let_def set_status_def
        split: migrator_status.splits if_splits sum.splits bool.splits)
  obtain r w2 where m: "m w1 = (r, w2)" by fastforce
  have w2: "P (mig_world.more w2)" using preservesD [OF assms(1) w1 m] .
  show ?thesis
    using c w1 w2 m
    by (auto simp: do_serialized_def migrator_job_def finish_request_def set_status_def Let_def
        split: sum.splits migrator_status.splits option.splits)
qed

lemma upper_serialized_or [upper_frames]: "preserves (upper P) m \<Longrightarrow> preserves (upper P) (serialized_or v m)"
  using upper_do_serialized [of P m]
  by (fastforce simp: preserves_def serialized_or_def split: prod.splits option.splits)

text \<open>A migration between two attempts to access a key.\<close>

lemma upper_retry:
  fixes acc :: "(('k, 'z) mig_world_scheme, 'a) st"
  assumes "preserves (upper P) acc" and "preserves (upper P) m" and "P (mig_world.more w)"
  shows "P (mig_world.more (snd (acc w))) \<and>
    P (mig_world.more (snd (do_serialized m (snd (acc w))))) \<and>
    P (mig_world.more (snd (acc (snd (do_serialized m (snd (acc w)))))))"
  using assms upper_do_serialized [OF assms(2)] by (simp add: preserves_def)

lemma upper_with_try_migrate_super_key [upper_frames]:
  fixes acc :: "(('k, 'z) mig_world_scheme, 'a option) st"
  assumes "preserves (upper P) acc"
  shows "preserves (upper P) (with_try_migrate_super_key E u pw acc)"
  unfolding preserves_def
proof (intro allI impI)
  fix w :: "('k, 'z) mig_world_scheme" assume "upper P w"
  note R = upper_retry [OF assms upper_check_and_migrate(2) [of P E u "try_clone pw"] this]
  obtain r w1 where a: "acc w = (r, w1)" by fastforce
  obtain x w2 where d: "do_serialized (check_and_migrate_super_key E u (try_clone pw)) w1 = (x, w2)" by fastforce
  show "upper P (snd (with_try_migrate_super_key E u pw acc w))"
    using R by (auto simp: with_try_migrate_super_key_def a d split: sum.splits option.splits)
qed

lemma upper_with_try_migrate [upper_frames]:
  fixes acc :: "(('k, 'z) mig_world_scheme, 'a) st"
  assumes "preserves (upper P) acc"
  shows "preserves (upper P) (with_try_migrate E key caller_uid acc)"
  unfolding preserves_def
proof (intro allI impI)
  fix w :: "('k, 'z) mig_world_scheme" assume P: "upper P w"
  obtain r w1 where a: "acc w = (r, w1)" by fastforce
  show "upper P (snd (with_try_migrate E key caller_uid acc w))"
  proof (cases "migration_uid key caller_uid")
    case None
    then show ?thesis using preservesD [OF assms P a] by (auto simp: with_try_migrate_def a split: sum.splits)
  next
    case (Some uid)
    note R = upper_retry [OF assms upper_check_and_migrate(1) [of P E uid key] P]
    obtain x w2 where d: "do_serialized (check_and_migrate E uid key) w1 = (x, w2)" by fastforce
    from Some show ?thesis using R by (auto simp: with_try_migrate_def a d split: sum.splits option.splits)
  qed
qed

lemma upper_interface [upper_frames]:
  "preserves (upper P) (LegacyMigrator_has_super_key u)"
  "preserves (upper P) (bulk_delete_uid E d n)"
  "preserves (upper P) (bulk_delete_user E u keep)"
  "preserves (upper P) (list_uid E d n)"
  unfolding LegacyMigrator_has_super_key_def bulk_delete_uid_def bulk_delete_user_def list_uid_def
  by (intro upper_frames st_preserves)+

section \<open>The raw device\<close>

lemma upper_upgrade_keyblob [upper_frames]:
  "(\<And>b. preserves (upper P) (f b)) \<Longrightarrow> preserves (upper P) (upgrade_keyblob_if_required_with E dev g kb f)"
  unfolding upgrade_keyblob_if_required_with_def by (intro upper_frames st_preserves)

lemma upper_raw_device [upper_frames]:
  "preserves (upper P) (create_and_store_key E dev kd kt c)"
  "preserves (upper P) (lookup_from_desc E kd kt)"
  "preserves (upper P) (use_key_in_one_step E dev g kb purpose ps tok data)"
  unfolding create_and_store_key_def lookup_from_desc_def use_key_in_one_step_def by (intro upper_frames st_preserves)+

lemma upper_lookup_or_generate_key [upper_frames]: "preserves (upper P) (lookup_or_generate_key E dev kd kt ps v)"
  unfolding lookup_or_generate_key_def Let_def by (intro upper_frames st_preserves)

lemma upper_get_level_zero_key [upper_frames]: "preserves (upper P) (get_level_zero_key E)"
  unfolding get_level_zero_key_def Let_def by (intro upper_frames st_preserves)

end
