(* ===== verification/Ks_ScreenLock.thy ===== *)
theory Ks_ScreenLock
  imports Ks_SuperKeyLife Ks_Frames
begin

text \<open>
  Locking the screen (\<open>lock_screen_lock_bound_key\<close> of \<open>src/keystore2/src/super_key.rs\<close>).

  The keys of all users are objects that can share references: the private screen lock bound key
  refers to the symmetric one.  \<open>skm_step\<close> says what the operations of the manager do to the
  objects in memory; its invariant is that no object is shared between users, or between the
  per-boot key of a user and the screen lock bound ones.  Every operation of the manager is a
  sequence of such steps.
\<close>

section \<open>Objects in memory\<close>

definition objs :: "super_key option \<Rightarrow> nat set" where
  "objs k = (case k of None \<Rightarrow> {} | Some k \<Rightarrow> sk_obj ` set (reachable_keys k))"

definition screen_objs :: "user_super_keys \<Rightarrow> nat set" where
  "screen_objs u = objs (us_screen_lock_bound u) \<union> objs (us_screen_lock_bound_private u)"

definition user_objs :: "user_super_keys \<Rightarrow> nat set" where
  "user_objs u = objs (us_per_boot u) \<union> screen_objs u"

lemma objs_simps [simp]: "objs None = {}"
  by (simp add: objs_def)

lemma objs_Some: "objs (Some k) = insert (sk_obj k) (objs (sk_reencrypt_with k))"
  by (cases k rule: reachable_keys.cases) (auto simp: objs_def)

lemma user_objects_objs: "sk_obj ` set (user_objects u) = user_objs u"
  by (auto simp: user_objects_def user_objs_def screen_objs_def objs_def map_filter_def image_iff split: option.splits)

lemma no_user_objs [simp]: "user_objs no_user_keys = {}" "screen_objs no_user_keys = {}"
  by (simp_all add: user_objs_def screen_objs_def no_user_keys_def)

definition skm_inv :: "skm_state \<Rightarrow> bool" where
  "skm_inv s \<longleftrightarrow>
     distinct (map fst (sm_user_keys s)) \<and>
     (\<forall>u. (\<forall>n\<in>user_objs (user_keys_of u s). n < sm_next_object s) \<and>
          objs (us_per_boot (user_keys_of u s)) \<inter> screen_objs (user_keys_of u s) = {}) \<and>
     (\<forall>u v. u \<noteq> v \<longrightarrow> user_objs (user_keys_of u s) \<inter> user_objs (user_keys_of v s) = {})"

text \<open>A new object: its number has been handed out, and no key of a user refers to it.\<close>

definition fresh_key :: "super_key \<Rightarrow> skm_state \<Rightarrow> bool" where
  "fresh_key k s \<longleftrightarrow> sk_obj k < sm_next_object s \<and> (\<forall>u. sk_obj k \<notin> user_objs (user_keys_of u s))"

definition update_user :: "nat \<Rightarrow> (user_super_keys \<Rightarrow> user_super_keys) \<Rightarrow> skm_state \<Rightarrow> skm_state" where
  "update_user u f s = set_user_keys u (f (user_keys_of u s)) s"

inductive skm_step :: "skm_state \<Rightarrow> skm_state \<Rightarrow> bool" where
  number: "skm_step s (s\<lparr>sm_next_object := sm_next_object s + 1\<rparr>)"
| index: "skm_step s (s\<lparr>sm_key_index := ix\<rparr>)"
| cache: "skm_step s (s\<lparr>sm_boot_level_key_cache := c\<rparr>)"
| held: "skm_step s (s\<lparr>sm_held := ks\<rparr>)"
| per_boot: "fresh_key k s \<Longrightarrow> sk_reencrypt_with k = None \<Longrightarrow> skm_step s (update_user u (\<lambda>x. x\<lparr>us_per_boot := Some k\<rparr>) s)"
| symmetric: "fresh_key k s \<Longrightarrow> sk_reencrypt_with k = None \<Longrightarrow>
    skm_step s (update_user u (\<lambda>x. x\<lparr>us_screen_lock_bound := Some k\<rparr>) s)"
| asymmetric: "fresh_key k s \<Longrightarrow> sk_reencrypt_with k = us_screen_lock_bound (user_keys_of u s) \<Longrightarrow>
    skm_step s (update_user u (\<lambda>x. x\<lparr>us_screen_lock_bound_private := Some k\<rparr>) s)"
| biometric: "skm_step s (update_user u (\<lambda>x. x\<lparr>us_biometric_unlock := b\<rparr>) s)"
| lock: "skm_step s (update_user u (\<lambda>x. x\<lparr>us_screen_lock_bound := None, us_screen_lock_bound_private := None\<rparr>) s)"
| forget: "skm_step s (forget_all_keys_for_user u s)"

lemma user_keys_of_update [simp]:
  "user_keys_of v (update_user u f s) = (if v = u then f (user_keys_of u s) else user_keys_of v s)"
  by (simp add: user_keys_of_def update_user_def set_user_keys_def)

lemma update_user_twice: "update_user u f (update_user u g s) = update_user u (\<lambda>x. f (g x)) s"
proof -
  have "set_user_keys u a (set_user_keys u b s) = set_user_keys u a s" for a b
    by (simp add: set_user_keys_def hash_insert_def)
  then show ?thesis unfolding update_user_def [of u f] user_keys_of_update by (simp add: update_user_def)
qed

lemma update_user_fields [simp]:
  "sm_next_object (update_user u f s) = sm_next_object s"
  "sm_held (update_user u f s) = sm_held s"
  "sm_key_index (update_user u f s) = sm_key_index s"
  by (simp_all add: update_user_def set_user_keys_def)

lemma user_keys_of_forget [simp]:
  "user_keys_of v (forget_all_keys_for_user u s) = (if v = u then no_user_keys else user_keys_of v s)"
  by (simp add: user_keys_of_def forget_all_keys_for_user_def map_of_filter_key)

lemma user_keys_of_fields [simp]:
  "user_keys_of u (s\<lparr>sm_next_object := n\<rparr>) = user_keys_of u s"
  "user_keys_of u (s\<lparr>sm_key_index := ix\<rparr>) = user_keys_of u s"
  "user_keys_of u (s\<lparr>sm_boot_level_key_cache := c\<rparr>) = user_keys_of u s"
  "user_keys_of u (s\<lparr>sm_held := ks\<rparr>) = user_keys_of u s"
  by (simp_all add: user_keys_of_def)

lemma distinct_update_user: "distinct (map fst (sm_user_keys s)) \<Longrightarrow> distinct (map fst (sm_user_keys (update_user u f s)))"
  by (auto simp: update_user_def set_user_keys_def hash_insert_def distinct_map_filter)

text \<open>A user's keys may be replaced by some whose objects were the user's before or are new.\<close>

lemma skm_inv_update:
  assumes "skm_inv s"
    and objs: "user_objs (f (user_keys_of u s)) \<subseteq> user_objs (user_keys_of u s) \<union> N"
    and new: "\<And>n v. n \<in> N \<Longrightarrow> n < sm_next_object s \<and> n \<notin> user_objs (user_keys_of v s)"
    and disj: "objs (us_per_boot (f (user_keys_of u s))) \<inter> screen_objs (f (user_keys_of u s)) = {}"
  shows "skm_inv (update_user u f s)"
proof -
  let ?g = "\<lambda>v. user_keys_of v (update_user u f s)"
  have old: "n < sm_next_object s" if "n \<in> user_objs (?g v)" for n v
    using that assms(1) objs new unfolding skm_inv_def by (cases "v = u") (auto simp: subset_iff)
  have "user_objs (?g v) \<inter> user_objs (?g w) = {}" if "v \<noteq> w" for v w
  proof -
    have "user_objs (user_keys_of v s) \<inter> user_objs (user_keys_of w s) = {}" if "v \<noteq> w" for v w :: nat
      using that assms(1) unfolding skm_inv_def by blast
    with \<open>v \<noteq> w\<close> objs new show ?thesis by (cases "v = u"; cases "w = u") (simp_all, blast+)
  qed
  moreover have "objs (us_per_boot (?g v)) \<inter> screen_objs (?g v) = {}" for v
    using assms(1) disj unfolding skm_inv_def by (cases "v = u") auto
  ultimately show ?thesis
    using assms(1) old unfolding skm_inv_def by (auto intro: distinct_update_user)
qed

lemma skm_step_inv: "skm_step s s' \<Longrightarrow> skm_inv s \<Longrightarrow> skm_inv s'"
proof (induction rule: skm_step.induct)
  case (per_boot k s u)
  then have "sk_obj k \<notin> screen_objs (user_keys_of u s)" by (simp add: fresh_key_def user_objs_def)
  with per_boot show ?case
    by (intro skm_inv_update [of s _ u "{sk_obj k}"])
      (auto simp: fresh_key_def user_objs_def screen_objs_def objs_Some)
next
  case (symmetric k s u)
  then have "sk_obj k \<notin> objs (us_per_boot (user_keys_of u s))" by (simp add: fresh_key_def user_objs_def)
  moreover have "objs (us_per_boot (user_keys_of u s)) \<inter> screen_objs (user_keys_of u s) = {}"
    using symmetric.prems by (simp add: skm_inv_def)
  ultimately show ?case using symmetric
    by (intro skm_inv_update [of s _ u "{sk_obj k}"])
      (auto simp: fresh_key_def user_objs_def screen_objs_def objs_Some)
next
  case (asymmetric k s u)
  then have "sk_obj k \<notin> objs (us_per_boot (user_keys_of u s))" by (simp add: fresh_key_def user_objs_def)
  moreover have "objs (us_per_boot (user_keys_of u s)) \<inter> screen_objs (user_keys_of u s) = {}"
    using asymmetric.prems by (simp add: skm_inv_def)
  ultimately show ?case using asymmetric
    by (intro skm_inv_update [of s _ u "{sk_obj k}"])
      (auto simp: fresh_key_def user_objs_def screen_objs_def objs_Some)
next
  case (forget s u)
  have "distinct (map fst (filter (\<lambda>(v, _). v \<noteq> u) (sm_user_keys s)))"
    using forget by (simp add: skm_inv_def distinct_map_filter)
  moreover have "sm_user_keys (forget_all_keys_for_user u s) = filter (\<lambda>(v, _). v \<noteq> u) (sm_user_keys s)"
    "sm_next_object (forget_all_keys_for_user u s) = sm_next_object s" "objs (us_per_boot no_user_keys) = {}"
    by (simp_all add: forget_all_keys_for_user_def no_user_keys_def)
  ultimately show ?case using forget by (simp add: skm_inv_def)
next
  case (number s)
  then show ?case by (auto simp: skm_inv_def less_SucI)
next
  case (biometric s u b)
  then show ?case
    by (intro skm_inv_update [of s _ u "{}"]) (auto simp: skm_inv_def user_objs_def screen_objs_def)
next
  case (lock s u)
  then show ?case
    by (intro skm_inv_update [of s _ u "{}"]) (auto simp: user_objs_def screen_objs_def)
qed (simp_all add: skm_inv_def)

lemma skm_inv_init: "skm_inv skm_init"
  by (simp add: skm_inv_def skm_init_def user_keys_of_def objs_def no_user_keys_def user_objs_def screen_objs_def)

text \<open>After the lock, the screen lock bound keys that were in memory are out of reach.\<close>

lemma lock_upgrade:
  assumes inv: "skm_inv s" and "sm_held s = []"
    and n: "n \<in> screen_objs (user_keys_of u s)"
  shows "upgrade n (update_user u (\<lambda>x. x\<lparr>us_screen_lock_bound := None, us_screen_lock_bound_private := None\<rparr>) s) = None"
proof -
  let ?s = "update_user u (\<lambda>x. x\<lparr>us_screen_lock_bound := None, us_screen_lock_bound_private := None\<rparr>) s"
  have inv': "skm_inv ?s" using inv by (intro skm_step_inv [OF skm_step.lock])
  have "n \<notin> user_objs uk" if "(v, uk) \<in> set (sm_user_keys ?s)" for v uk
  proof -
    have "map_of (sm_user_keys ?s) v = Some uk"
      using that inv' by (simp add: skm_inv_def)
    then have uk: "uk = user_keys_of v ?s" by (simp add: user_keys_of_def)
    show ?thesis
    proof (cases "v = u")
      case True
      have "n \<notin> objs (us_per_boot (user_keys_of u s))" using inv n unfolding skm_inv_def by blast
      then show ?thesis by (simp add: uk True user_objs_def screen_objs_def)
    next
      case False
      moreover have "n \<in> user_objs (user_keys_of u s)" using n by (simp add: user_objs_def)
      moreover have "user_objs (user_keys_of u s) \<inter> user_objs (user_keys_of v s) = {}"
        using inv False unfolding skm_inv_def by simp
      ultimately show ?thesis by (auto simp: uk)
    qed
  qed
  then have "sk_obj k \<noteq> n" if "k \<in> set (live_objects ?s)" for k
    using that assms(2) user_objects_objs by (fastforce simp: live_objects_def)
  then show ?thesis by (simp add: upgrade_def find_None_iff)
qed

section \<open>What leaves the manager alone\<close>

text \<open>\<open>P\<close> is any property of the manager's state.\<close>

named_theorems skm_frames \<open>what keeps a property of the state of the super key manager\<close>

abbreviation on_skm :: "(skm_state \<Rightarrow> bool) \<Rightarrow> ('k, 'z) ks_world_scheme \<Rightarrow> bool" where
  "on_skm P w \<equiv> P (kw_skm w)"

text \<open>The state of the manager is a part of what the components below leave alone.\<close>

definition skm_of :: "'z ks_world_ext \<Rightarrow> skm_state" where
  "skm_of m = kw_skm (mig_world.extend (undefined :: unit mig_world) m)"

lemma kw_skm_more: "kw_skm w = skm_of (mig_world.more w)"
  by (cases w) (simp add: skm_of_def mig_world.defs)

lemmas skm_below [skm_frames] = upper_frames [where P = "\<lambda>m. P (skm_of m)" for P, folded kw_skm_more]

lemma get_skm_frame [skm_frames]: "preserves (on_skm P) (get_skm i)"
  by (simp add: preserves_def get_skm_def)

lemma super_key_exists_skm [skm_frames]: "preserves (on_skm P) (super_key_exists_in_db_for_user u)"
  unfolding super_key_exists_in_db_for_user_def by (intro skm_frames st_preserves)

section \<open>What changes the manager\<close>

definition numbered :: "skm_state \<Rightarrow> skm_state" where
  "numbered s = s\<lparr>sm_next_object := sm_next_object s + 1\<rparr>"

lemma numbered_simps [simp]:
  "sm_next_object (numbered s) = sm_next_object s + 1"
  "user_keys_of u (numbered s) = user_keys_of u s"
  by (simp_all add: numbered_def user_keys_of_def)

lemma numbered_inv: "skm_inv s \<Longrightarrow> skm_inv (numbered s)"
  unfolding numbered_def by (rule skm_step_inv [OF skm_step.number])

lemma numbered_fresh: "skm_inv s \<Longrightarrow> sk_obj k = sm_next_object s \<Longrightarrow> fresh_key k (numbered s)"
  by (auto simp: skm_inv_def fresh_key_def)

text \<open>Making a super key takes one number, and nothing else of the manager's state changes.\<close>

definition makes_key :: "super_key option \<Rightarrow> (('k, 'z) ks_world_scheme, super_key) st \<Rightarrow> bool" where
  "makes_key re m \<longleftrightarrow>
     (\<forall>w r w'. m w = (r, w') \<longrightarrow>
        (case r of
           Inl _ \<Rightarrow> kw_skm w' = kw_skm w \<or> kw_skm w' = numbered (kw_skm w)
         | Inr k \<Rightarrow> kw_skm w' = numbered (kw_skm w) \<and> sk_obj k = sm_next_object (kw_skm w) \<and> sk_reencrypt_with k = re))"

text \<open>It does some work, takes the number, does more work, and the key has that number.\<close>

lemma makes_keyI:
  fixes m :: "(('k, 'z) ks_world_scheme, 'a) st"
  assumes m: "\<And>P. preserves (on_skm P) m" and f: "\<And>v obj P. preserves (on_skm P) (f v obj)"
    and k: "\<And>v obj w k w'. f v obj w = (Inr k, w') \<Longrightarrow> sk_obj k = obj \<and> sk_reencrypt_with k = re"
  shows "makes_key re (st_bind m (\<lambda>v. st_bind new_object (f v)))"
  unfolding makes_key_def
proof (intro allI impI)
  fix w r w' assume eq: "st_bind m (\<lambda>v. st_bind new_object (f v)) w = (r, w')"
  obtain x w1 where 1: "m w = (x, w1)" by fastforce
  have w1: "kw_skm w1 = kw_skm w" using preservesD [OF m [of "\<lambda>s. s = kw_skm w"] _ 1] by simp
  show "case r of Inl _ \<Rightarrow> kw_skm w' = kw_skm w \<or> kw_skm w' = numbered (kw_skm w)
    | Inr k \<Rightarrow> kw_skm w' = numbered (kw_skm w) \<and> sk_obj k = sm_next_object (kw_skm w) \<and> sk_reencrypt_with k = re"
  proof (cases x)
    case (Inl e)
    then show ?thesis using eq 1 w1 by (auto simp: st_bind_def)
  next
    case (Inr v)
    let ?w = "w1\<lparr>kw_skm := numbered (kw_skm w)\<rparr>"
    from eq 1 Inr have 2: "f v (sm_next_object (kw_skm w)) ?w = (r, w')" by (simp add: st_bind_def w1 numbered_def)
    have "kw_skm w' = numbered (kw_skm w)"
      using preservesD [OF f [of "\<lambda>s. s = numbered (kw_skm w)"] _ 2] by simp
    then show ?thesis using 2 by (cases r) (auto dest: k)
  qed
qed

lemma extract_super_key_fields:
  "extract_super_key_from_key_entry L obj alg entry pw re = Inr k \<Longrightarrow> sk_obj k = obj \<and> sk_reencrypt_with k = re"
  using extract_super_key_obj by (metis super_key.sel(1,5))

lemma get_or_create_super_key_makes: "makes_key re (get_or_create_super_key E u kt pw re)"
  unfolding get_or_create_super_key_def
proof (rule makes_keyI, goal_cases)
  case (1 P)
  show ?case by (intro skm_frames)
next
  case (2 v obj P)
  show ?case by (intro skm_frames st_preserves) (auto intro!: st_preserves split: super_encryption_algorithm.splits)
next
  case (3 v obj w k w')
  then show ?case
    by (auto simp: st_bind_Inr_iff with_guard_def dest!: extract_super_key_fields split: option.splits prod.splits)
qed

lemma LockedKey_decrypt_makes: "makes_key re (LockedKey_decrypt E dev g entry tok re lk)"
proof -
  have assoc: "st_bind m (\<lambda>v. st_bind (f v) h) = st_bind (st_bind m f) h" for m f h
    by (rule ext) (simp add: st_bind_assoc)
  show ?thesis
    unfolding LockedKey_decrypt_def
    by (subst assoc, rule makes_keyI) (auto intro!: skm_frames st_preserves)
qed

text \<open>Every operation of the manager keeps the invariant.\<close>

lemma populate_inv [skm_frames]:
  fixes E :: "('e, 'p, 'k) ks_env"
  shows "preserves (on_skm skm_inv) (populate_cache_from_super_key_blob E u alg entry pw)"
  unfolding preserves_def
proof (intro allI impI)
  fix w :: "('k, 'z) ks_world_scheme" assume inv: "skm_inv (kw_skm w)"
  let ?s = "kw_skm w"
  show "skm_inv (kw_skm (snd (populate_cache_from_super_key_blob E u alg entry pw w)))"
  proof (cases "extract_super_key_from_key_entry (nv_ssl E) (sm_next_object ?s) alg entry pw None")
    case (Inl e)
    then show ?thesis using numbered_inv [OF inv] by (simp add: populate_cache_eq numbered_def)
  next
    case (Inr k)
    let ?ix = "case sk_id k of DatabaseId i \<Rightarrow> hash_insert i (sk_obj k) (sm_key_index ?s) | _ \<Rightarrow> sm_key_index ?s"
    note f = extract_super_key_fields [OF Inr]
    have "fresh_key k ((numbered ?s)\<lparr>sm_key_index := ?ix\<rparr>)"
      using numbered_fresh [OF inv, of k] f by (simp add: fresh_key_def)
    from skm_step.per_boot [OF this, of u] f
    have "skm_step ((numbered ?s)\<lparr>sm_key_index := ?ix\<rparr>) (installed u k ?s)"
      by (simp add: installed_def numbered_def Let_def update_user_def)
    then show ?thesis
      using Inr numbered_inv [OF inv] by (simp add: populate_cache_eq) (metis skm_step.index skm_step_inv)
  qed
qed

lemma modify_inv [skm_frames]:
  "(\<And>s. skm_inv s \<Longrightarrow> skm_step s (f s)) \<Longrightarrow> preserves (on_skm skm_inv) (modify_skm f)"
  using skm_step_inv by (fastforce simp: preserves_def)

lemma add_key_inv [skm_frames]: "preserves (on_skm skm_inv) (add_key_to_key_index k)"
  unfolding add_key_to_key_index_def
  by (cases "sk_id k") (auto intro!: skm_frames st_preserves skm_step.intros)

lemma st_bind_after:
  assumes "m w = (r, w')" and "\<And>v. r = Inr v \<Longrightarrow> Q (snd (f v w'))" and "\<And>e. r = Inl e \<Longrightarrow> Q w'"
  shows "Q (snd (st_bind m f w))"
  using assms by (cases r) (simp_all add: st_bind_def)

lemma touch_step: "skm_step s (set_user_keys u (user_keys_of u s) s)"
  using skm_step.biometric [of s u "us_biometric_unlock (user_keys_of u s)"] by (simp add: update_user_def)

lemma touch_inv [skm_frames]:
  "(\<And>entry. preserves (on_skm skm_inv) (k entry)) \<Longrightarrow>
   preserves (on_skm skm_inv)
     (st_bind (get_skm (user_keys_of u)) (\<lambda>entry. st_bind (modify_skm (set_user_keys u entry)) (\<lambda>_. k entry)))"
  by (simp add: preserves_def skm_step_inv [OF touch_step])

lemma makes_key_inv:
  fixes m :: "(('k, 'z) ks_world_scheme, super_key) st"
  assumes "makes_key re m"
  shows "preserves (on_skm skm_inv) m"
  unfolding preserves_def
proof (intro allI impI)
  fix w :: "('k, 'z) ks_world_scheme" assume inv: "skm_inv (kw_skm w)"
  obtain r w' where m: "m w = (r, w')" by fastforce
  with assms have "case r of Inl _ \<Rightarrow> kw_skm w' = kw_skm w \<or> kw_skm w' = numbered (kw_skm w)
      | Inr k \<Rightarrow> kw_skm w' = numbered (kw_skm w) \<and> sk_obj k = sm_next_object (kw_skm w) \<and> sk_reencrypt_with k = re"
    unfolding makes_key_def by blast
  then show "skm_inv (kw_skm (snd (m w)))" using inv numbered_inv m by (auto split: sum.splits)
qed

lemma insert_made:
  fixes w :: "('k, 'z) ks_world_scheme"
  assumes m: "makes_key re m" and inv: "skm_inv (kw_skm w)"
    and step: "\<And>k s. fresh_key k s \<Longrightarrow> sk_reencrypt_with k = re \<Longrightarrow> user_keys_of u s = user_keys_of u (kw_skm w) \<Longrightarrow>
      skm_step s (update_user u (upd k) s)"
    and get: "\<And>k x. get (upd k x) = Some k"
    and eq: "get_or_try_to_insert_with (\<lambda>w. get (user_keys_of u (kw_skm w)))
      (\<lambda>k w. w\<lparr>kw_skm := set_user_keys u (upd k (user_keys_of u (kw_skm w))) (kw_skm w)\<rparr>) m w = (r, w')"
  shows "skm_inv (kw_skm w') \<and> (\<forall>k. r = Inr k \<longrightarrow> get (user_keys_of u (kw_skm w')) = Some k)"
proof (cases "get (user_keys_of u (kw_skm w))")
  case None
  obtain x w1 where x: "m w = (x, w1)" by fastforce
  show ?thesis
  proof (cases x)
    case (Inl e)
    then have "r = Inl e" "w' = w1"
      using eq None x by (simp_all add: get_or_try_to_insert_with_def st_bind_def)
    then show ?thesis using preservesD [OF makes_key_inv [OF m] inv x] by simp
  next
    case (Inr k)
    then have w1: "kw_skm w1 = numbered (kw_skm w)" "sk_obj k = sm_next_object (kw_skm w)" "sk_reencrypt_with k = re"
      using m x unfolding makes_key_def by fastforce+
    have "r = Inr k" "kw_skm w' = update_user u (upd k) (numbered (kw_skm w))"
      using eq None x Inr by (auto simp: get_or_try_to_insert_with_def st_bind_def w1 update_user_def)
    moreover have "skm_step (numbered (kw_skm w)) (update_user u (upd k) (numbered (kw_skm w)))"
      using numbered_fresh [OF inv w1(2)] w1(3) by (intro step) simp_all
    ultimately show ?thesis using skm_step_inv numbered_inv [OF inv] by (simp add: get)
  qed
next
  case (Some k)
  then show ?thesis using eq inv by (auto simp: get_or_try_to_insert_with_def st_bind_def)
qed

lemma unlock_screen_lock_bound_key_inv [skm_frames]:
  fixes E :: "('e, 'p, 'k) ks_env"
  shows "preserves (on_skm skm_inv) (unlock_screen_lock_bound_key E u pw)"
  unfolding preserves_def
proof (intro allI impI)
  fix w :: "('k, 'z) ks_world_scheme" assume inv: "skm_inv (kw_skm w)"
  define put :: "(user_super_keys \<Rightarrow> user_super_keys) \<Rightarrow> ('k, 'z) ks_world_scheme \<Rightarrow> ('k, 'z) ks_world_scheme" where
    "put = (\<lambda>f w. w\<lparr>kw_skm := set_user_keys u (f (user_keys_of u (kw_skm w))) (kw_skm w)\<rparr>)"
  let ?sym = "get_or_try_to_insert_with (\<lambda>w. us_screen_lock_bound (user_keys_of u (kw_skm w)))
    (\<lambda>k. put (\<lambda>x. x\<lparr>us_screen_lock_bound := Some k\<rparr>)) (get_or_create_super_key E u USER_SCREEN_LOCK_BOUND_KEY pw None)"
  let ?asym = "\<lambda>aes. get_or_try_to_insert_with (\<lambda>w. us_screen_lock_bound_private (user_keys_of u (kw_skm w)))
    (\<lambda>k. put (\<lambda>x. x\<lparr>us_screen_lock_bound_private := Some k\<rparr>))
    (get_or_create_super_key E u USER_SCREEN_LOCK_BOUND_P521_KEY pw (Some aes))"
  define w1 where "w1 = put id w"
  have w1: "skm_inv (kw_skm w1)" using skm_step_inv [OF touch_step inv] by (simp add: put_def w1_def)
  obtain r w2 where sym: "?sym w1 = (r, w2)" by fastforce
  have 2: "skm_inv (kw_skm w2) \<and> (\<forall>k. r = Inr k \<longrightarrow> us_screen_lock_bound (user_keys_of u (kw_skm w2)) = Some k)"
    by (rule insert_made [where get = us_screen_lock_bound and upd = "\<lambda>k x. x\<lparr>us_screen_lock_bound := Some k\<rparr>",
          OF get_or_create_super_key_makes w1 _ _ sym [unfolded put_def]]) (simp_all add: skm_step.symmetric)
  have 3: "skm_inv (kw_skm w3)" if "r = Inr aes" "?asym aes w2 = (r', w3)" for aes r' w3
    using 2 that(1)
    by (intro insert_made [where get = us_screen_lock_bound_private and upd = "\<lambda>k x. x\<lparr>us_screen_lock_bound_private := Some k\<rparr>",
          OF get_or_create_super_key_makes _ _ _ that(2) [unfolded put_def], THEN conjunct1])
      (simp_all add: skm_step.asymmetric)
  have idx: "preserves (on_skm skm_inv) (st_bind (add_key_to_key_index aes) (\<lambda>_. add_key_to_key_index ecdh) :: (('k, 'z) ks_world_scheme, unit) st)" for aes ecdh
    by (intro skm_frames st_preserves)
  have "unlock_screen_lock_bound_key E u pw w =
      st_bind ?sym (\<lambda>aes. st_bind (?asym aes) (\<lambda>ecdh. st_bind (add_key_to_key_index aes) (\<lambda>_. add_key_to_key_index ecdh))) w1"
    by (simp add: unlock_screen_lock_bound_key_def Let_def put_def w1_def)
  moreover have "skm_inv (kw_skm (snd (st_bind ?sym (\<lambda>aes. st_bind (?asym aes) (\<lambda>ecdh.
      st_bind (add_key_to_key_index aes) (\<lambda>_. add_key_to_key_index ecdh))) w1)))"
  proof (rule st_bind_after [where m = ?sym and w = w1 and Q = "\<lambda>w. skm_inv (kw_skm w)", OF sym])
    fix aes assume r: "r = Inr aes"
    obtain r' w3 where a: "?asym aes w2 = (r', w3)" by fastforce
    show "skm_inv (kw_skm (snd (st_bind (?asym aes) (\<lambda>ecdh.
        st_bind (add_key_to_key_index aes) (\<lambda>_. add_key_to_key_index ecdh)) w2)))"
      by (rule st_bind_after [where m = "?asym aes" and w = w2 and Q = "\<lambda>w. skm_inv (kw_skm w)", OF a]) (use 3 [OF r a] idx in \<open>simp_all add: preserves_def\<close>)
  qed (use 2 in simp)
  ultimately show "skm_inv (kw_skm (snd (unlock_screen_lock_bound_key E u pw w)))" by simp
qed

lemma decrypt_both:
  fixes w :: "('k, 'z) ks_world_scheme"
  assumes "st_bind (LockedKey_decrypt E dev g entry tok None a) (\<lambda>slb.
      st_bind (LockedKey_decrypt E dev g entry tok (Some slb) b) (\<lambda>slbp. st_ok (slb, slbp))) w = (r, w')"
    and inv: "skm_inv (kw_skm w)"
  shows "skm_inv (kw_skm w') \<and> (\<forall>slb slbp. r = Inr (slb, slbp) \<longrightarrow> kw_skm w' = numbered (numbered (kw_skm w)) \<and>
    sk_obj slb = sm_next_object (kw_skm w) \<and> sk_reencrypt_with slb = None \<and>
    sk_obj slbp = sm_next_object (kw_skm w) + 1 \<and> sk_reencrypt_with slbp = Some slb)"
proof -
  obtain x w1 where 1: "LockedKey_decrypt E dev g entry tok None a w = (x, w1)" by fastforce
  note m1 = LockedKey_decrypt_makes [unfolded makes_key_def, rule_format, OF 1]
  show ?thesis
  proof (cases x)
    case (Inl e)
    then show ?thesis using assms(1) 1 m1 inv numbered_inv by (auto simp: st_bind_def)
  next
    case (Inr slb)
    obtain y w2 where 2: "LockedKey_decrypt E dev g entry tok (Some slb) b w1 = (y, w2)" by fastforce
    note m2 = LockedKey_decrypt_makes [unfolded makes_key_def, rule_format, OF 2]
    have "w' = w2" "r = map_res (Pair slb) y"
      using assms(1) 1 2 Inr by (auto simp: st_bind_def split: sum.splits)
    then show ?thesis using m1 m2 inv numbered_inv Inr by (cases y) auto
  qed
qed

lemma install_both_inv:
  assumes inv: "skm_inv s" and "sk_obj slb = sm_next_object s" "sk_reencrypt_with slb = None"
    and "sk_obj slbp = sm_next_object s + 1" "sk_reencrypt_with slbp = Some slb"
  shows "skm_inv (update_user u (\<lambda>x. x\<lparr>us_screen_lock_bound := Some slb, us_screen_lock_bound_private := Some slbp\<rparr>)
    (numbered (numbered s)))"
proof -
  let ?s = "numbered (numbered s)"
  let ?t = "update_user u (\<lambda>x. x\<lparr>us_screen_lock_bound := Some slb\<rparr>) ?s"
  have lt: "n < sm_next_object s" if "n \<in> user_objs (user_keys_of v s)" for n v
    using inv that unfolding skm_inv_def by blast
  have "fresh_key slb ?s" using lt assms(2) by (fastforce simp: fresh_key_def)
  from skm_step_inv [OF skm_step.symmetric [OF this assms(3), of u]]
  have t: "skm_inv ?t" using inv numbered_inv by blast
  have sub: "user_objs (user_keys_of v ?t) \<subseteq> insert (sk_obj slb) (user_objs (user_keys_of v s))" for v
    using assms(3) by (auto simp: user_objs_def screen_objs_def objs_Some)
  have "sk_obj slbp \<notin> user_objs (user_keys_of v ?t)" for v
  proof
    assume "sk_obj slbp \<in> user_objs (user_keys_of v ?t)"
    with sub have "sk_obj slbp \<in> insert (sk_obj slb) (user_objs (user_keys_of v s))" by blast
    with lt [of "sk_obj slbp" v] assms(2,4) show False by simp
  qed
  then have "fresh_key slbp ?t" using assms(4) unfolding fresh_key_def by simp
  from skm_step_inv [OF skm_step.asymmetric [OF this, of u] t] assms(5)
  have "skm_inv (update_user u (\<lambda>x. x\<lparr>us_screen_lock_bound_private := Some slbp\<rparr>) ?t)" by simp
  moreover have "update_user u (\<lambda>x. x\<lparr>us_screen_lock_bound_private := Some slbp\<rparr>) ?t =
      update_user u (\<lambda>x. x\<lparr>us_screen_lock_bound := Some slb, us_screen_lock_bound_private := Some slbp\<rparr>) ?s"
    by (simp add: update_user_twice)
  ultimately show ?thesis by simp
qed

lemma unlock_attempt_inv:
  fixes E :: "('e, 'p, 'k) ks_env" and rest :: "(('k, 'z) ks_world_scheme, unit) st"
  assumes "preserves (on_skm skm_inv) rest"
  shows "preserves (on_skm skm_inv)
      (st_bind (st_try
         (st_bind (LockedKey_decrypt E dev g entry tok None a) (\<lambda>slb.
          st_bind (LockedKey_decrypt E dev g entry tok (Some slb) b) (\<lambda>slbp. st_ok (slb, slbp))))) (\<lambda>res.
         case res of
           Inl _ \<Rightarrow> rest
         | Inr (slb, slbp) \<Rightarrow>
             st_bind (modify_skm (\<lambda>s. set_user_keys u ((user_keys_of u s)
               \<lparr>us_screen_lock_bound := Some slb, us_screen_lock_bound_private := Some slbp\<rparr>) s)) (\<lambda>_.
             st_bind (add_key_to_key_index slb) (\<lambda>_. add_key_to_key_index slbp))))"
    (is "preserves _ (st_bind (st_try ?dec) ?cont)")
  unfolding preserves_def
proof (intro allI impI)
  fix w :: "('k, 'z) ks_world_scheme" assume inv: "skm_inv (kw_skm w)"
  obtain r w' where d: "?dec w = (r, w')" by fastforce
  note out = decrypt_both [OF d inv]
  have idx: "preserves (on_skm skm_inv)
      (st_bind (add_key_to_key_index slb) (\<lambda>_. add_key_to_key_index slbp) :: (('k, 'z) ks_world_scheme, unit) st)" for slb slbp
    by (intro skm_frames st_preserves)
  show "skm_inv (kw_skm (snd (st_bind (st_try ?dec) ?cont w)))"
  proof (cases r)
    case (Inl e)
    then show ?thesis using assms out d by (simp add: preserves_def)
  next
    case (Inr p)
    obtain slb slbp where p: "p = (slb, slbp)" by (cases p)
    note out = out [unfolded Inr p, simplified]
    have "skm_inv (set_user_keys u ((user_keys_of u (kw_skm w'))
        \<lparr>us_screen_lock_bound := Some slb, us_screen_lock_bound_private := Some slbp\<rparr>) (kw_skm w'))"
      using install_both_inv [OF inv, of slb slbp u] out by (simp add: update_user_def)
    then show ?thesis using d Inr p idx by (simp add: preserves_def)
  qed
qed

lemma unlock_with_sids_inv [skm_frames]: "preserves (on_skm skm_inv) (unlock_with_sids E u b dev g entry sids)"
proof (induction sids)
  case Nil
  show ?case by (simp only: unlock_with_sids.simps st_preserves)
next
  case (Cons sid sids)
  show ?case
    unfolding unlock_with_sids.simps by (intro unlock_attempt_inv Cons.IH skm_frames st_preserves)
qed

lemma try_unlock_user_with_biometric_inv [skm_frames]:
  "preserves (on_skm skm_inv) (try_unlock_user_with_biometric E u)"
  unfolding try_unlock_user_with_biometric_def by (intro skm_frames st_preserves)

lemma set_up_biometric_unlock_inv [skm_frames]:
  "preserves (on_skm skm_inv) (set_up_biometric_unlock E u sids aes ecdh)"
  unfolding set_up_biometric_unlock_def Let_def
  by (intro skm_frames st_preserves) (use skm_step.biometric in \<open>simp add: update_user_def\<close>)

text \<open>The lock itself: whatever setting up the biometric unlock does, the keys are dropped at the end.\<close>

lemma lock_screen_lock_bound_key_eq:
  "\<exists>w1. snd (lock_screen_lock_bound_key E u sids w) =
       w1\<lparr>kw_skm := update_user u (\<lambda>x. x\<lparr>us_screen_lock_bound := None, us_screen_lock_bound_private := None\<rparr>) (kw_skm w1)\<rparr> \<and>
     fst (lock_screen_lock_bound_key E u sids w) = Inr () \<and>
     (w1 = w \<or> (\<exists>aes ecdh. w1 = snd (set_up_biometric_unlock E u sids aes ecdh w)))"
  by (auto simp: lock_screen_lock_bound_key_def st_bind_def update_user_def split: option.split)

lemma lock_screen_lock_bound_key_inv [skm_frames]:
  "preserves (on_skm skm_inv) (lock_screen_lock_bound_key E u sids)"
  unfolding lock_screen_lock_bound_key_def
  by (intro skm_frames st_preserves) (use skm_step.lock in \<open>auto simp: update_user_def intro!: skm_frames st_preserves split: option.split\<close>)

text \<open>The parts of the state that setting up the biometric unlock does not touch.\<close>

lemma set_up_biometric_unlock_keeps:
  "preserves (on_skm (\<lambda>s. sm_held s = h \<and> sm_key_index s = ix \<and> us_screen_lock_bound (user_keys_of u s) = a \<and>
     us_screen_lock_bound_private (user_keys_of u s) = b)) (set_up_biometric_unlock E u sids aes ecdh)"
  unfolding set_up_biometric_unlock_def Let_def
  by (intro skm_below st_preserves) (auto simp: preserves_def simp flip: update_user_def)

lemma new_object_inv [skm_frames]: "preserves (on_skm skm_inv) new_object"
  using numbered_inv by (simp add: preserves_def numbered_def)

lemma on_cache_inv [skm_frames]: "preserves (on_skm skm_inv) (on_cache f)"
  using skm_step_inv [OF skm_step.cache] by (auto simp: preserves_def on_cache_def split: option.split prod.split)

lemma lookup_key_inv [skm_frames]: "preserves (on_skm skm_inv) (lookup_key E i)"
  unfolding lookup_key_def by (cases i) (auto intro!: skm_frames st_preserves)

lemma super_encryption_inv [skm_frames]:
  "preserves (on_skm skm_inv) (unwrap_key_if_required E md blob)"
  "preserves (on_skm skm_inv) (UserState_get u)"
  "preserves (on_skm skm_inv) (screen_lock_bound_encrypt E u kb)"
  unfolding unwrap_key_if_required_def UserState_get_def screen_lock_bound_encrypt_def
  by (intro skm_frames st_preserves)+

lemma super_encrypt_on_key_init_inv [skm_frames]: "preserves (on_skm skm_inv) (super_encrypt_on_key_init E u kb)"
  unfolding super_encrypt_on_key_init_def
  by (intro skm_frames st_preserves) (auto intro!: skm_frames st_preserves split: user_state.split)

lemma handle_super_encryption_inv [skm_frames]:
  "preserves (on_skm skm_inv) (handle_super_encryption_on_key_init E C d ps fl u kb)"
  unfolding handle_super_encryption_on_key_init_def
  by (cases "super_encryption_required C d ps fl") (auto intro!: skm_frames st_preserves)

lemma user_operations_inv [skm_frames]:
  "preserves (on_skm skm_inv) (unlock_user_key E u pw)"
  "preserves (on_skm skm_inv) (check_and_unlock_super_key E u pw)"
  "preserves (on_skm skm_inv) (check_and_initialize_super_key E u pw')"
  "preserves (on_skm skm_inv) (reset_user E u keep)"
  unfolding unlock_user_key_def check_and_unlock_super_key_def check_and_initialize_super_key_def reset_user_def
    bulk_delete_user_def
  by (intro skm_frames st_preserves skm_step.forget)+

lemma user_state_inv [skm_frames]:
  "preserves (on_skm skm_inv) (get_with_password_changed E u pw')"
  "preserves (on_skm skm_inv) (get_with_password_unlock E u pw)"
  unfolding get_with_password_changed_def get_with_password_unlock_def by (intro skm_frames st_preserves)+

lemma boot_level_inv [skm_frames]:
  "preserves (on_skm skm_inv) (set_up_boot_level_cache E)"
  "preserves (on_skm skm_inv) (watch_boot_level E values)"
  unfolding set_up_boot_level_cache_def
  by (intro skm_frames st_preserves skm_step.cache)
    (induction "values", simp_all only: watch_boot_level.simps, (intro skm_frames st_preserves; assumption?)+)

section \<open>After the screen is locked\<close>

text \<open>The calls of the manager, and what the rest of the system does: it holds and drops references.\<close>

inductive skm_call :: "('e, 'p, 'k) ks_env \<Rightarrow> ('k, 'z) ks_world_scheme \<Rightarrow> ('k, 'z) ks_world_scheme \<Rightarrow> bool" for E where
  "skm_call E w (snd (get_with_password_changed E u pw' w))"
| "skm_call E w (snd (get_with_password_unlock E u pw w))"
| "skm_call E w (snd (unlock_user_key E u pw w))"
| "skm_call E w (snd (reset_user E u keep w))"
| "skm_call E w (snd (unlock_screen_lock_bound_key E u pw w))"
| "skm_call E w (snd (lock_screen_lock_bound_key E u sids w))"
| "skm_call E w (snd (try_unlock_user_with_biometric E u w))"
| "skm_call E w (snd (handle_super_encryption_on_key_init E C d ps fl u kb w))"
| "skm_call E w (snd (unwrap_key_if_required E md blob w))"
| "skm_call E w (snd (set_up_boot_level_cache E w))"
| "skm_call E w (snd (watch_boot_level E values w))"
| "kw_skm w' = (kw_skm w)\<lparr>sm_held := ks\<rparr> \<Longrightarrow> skm_call E w w'"

inductive_cases skm_callE: "skm_call E w w'"

lemma skm_call_inv:
  assumes "skm_call E w w'" and "skm_inv (kw_skm w)"
  shows "skm_inv (kw_skm w')"
  using assms(1)
proof cases
  case (12 ks)
  then show ?thesis using skm_step_inv [OF skm_step.held assms(2)] by simp
qed (use assms(2) in \<open>simp_all add: skm_frames [unfolded preserves_def, rule_format]\<close>)

interpretation screen_lock: transition_system "\<lambda>w. kw_skm w = skm_init" "skm_call E" "on_skm skm_inv"
  by unfold_locales (simp add: skm_inv_init, rule skm_call_inv)

lemma locked_blob_refused:
  fixes w :: "('k, 'z) ks_world_scheme"
  assumes inv: "skm_inv (kw_skm w)" and held: "sm_held (kw_skm w) = []"
    and k: "us_screen_lock_bound (user_keys_of u (kw_skm w)) = Some k \<or>
            us_screen_lock_bound_private (user_keys_of u (kw_skm w)) = Some k"
    and idx: "map_of (sm_key_index (kw_skm w)) i = Some (sk_obj k)"
    and md: "SuperKeyIdentifier_from_metadata md = Some (DatabaseId i)"
    and lock: "lock_screen_lock_bound_key E u sids w = (r, w')"
  shows "r = Inr () \<and> unwrap_key_if_required E md blob w' = (Inl (Ks (Rc RC_LOCKED)), w')"
proof -
  obtain w1 where w': "w' = w1\<lparr>kw_skm := update_user u
        (\<lambda>x. x\<lparr>us_screen_lock_bound := None, us_screen_lock_bound_private := None\<rparr>) (kw_skm w1)\<rparr>"
    and r: "r = Inr ()" and cases: "w1 = w \<or> (\<exists>aes ecdh. w1 = snd (set_up_biometric_unlock E u sids aes ecdh w))"
    using lock_screen_lock_bound_key_eq [of E u sids w] lock by auto
  let ?same = "\<lambda>s. sm_held s = [] \<and> sm_key_index s = sm_key_index (kw_skm w) \<and>
    us_screen_lock_bound (user_keys_of u s) = us_screen_lock_bound (user_keys_of u (kw_skm w)) \<and>
    us_screen_lock_bound_private (user_keys_of u s) = us_screen_lock_bound_private (user_keys_of u (kw_skm w))"
  have "skm_inv (kw_skm (snd (set_up_biometric_unlock E u sids aes ecdh w))) \<and>
      ?same (kw_skm (snd (set_up_biometric_unlock E u sids aes ecdh w)))" for aes ecdh
    using inv held set_up_biometric_unlock_inv [of E u sids aes ecdh]
      set_up_biometric_unlock_keeps [of "[]" "sm_key_index (kw_skm w)" u "us_screen_lock_bound (user_keys_of u (kw_skm w))"
        "us_screen_lock_bound_private (user_keys_of u (kw_skm w))" E sids aes ecdh]
    unfolding preserves_def by blast
  with cases inv held have "skm_inv (kw_skm w1) \<and> ?same (kw_skm w1)" by auto
  then have inv1: "skm_inv (kw_skm w1)" and same: "?same (kw_skm w1)" by blast+
  have "sk_obj k \<in> screen_objs (user_keys_of u (kw_skm w1))"
    using k same by (auto simp: screen_objs_def objs_Some)
  from lock_upgrade [OF inv1 _ this] same have "upgrade (sk_obj k) (kw_skm w') = None" by (simp add: w')
  moreover have "map_of (sm_key_index (kw_skm w')) i = Some (sk_obj k)" using same idx by (simp add: w')
  ultimately show ?thesis
    by (simp add: r unwrap_key_if_required_def md lookup_key_def st_bind_def)
qed

text \<open>C6. Whatever the manager has done since the start, and whether or not setting up the biometric unlock works:
  after the screen of a user is locked, and when no request in progress holds a reference, a key blob
  that is encrypted with one of the user's screen lock bound keys cannot be unwrapped.\<close>

theorem screen_lock_takes_keys_away:
  fixes w :: "('k, 'z) ks_world_scheme"
  assumes "kw_skm w0 = skm_init" and "(skm_call E)\<^sup>*\<^sup>* w0 w" and "sm_held (kw_skm w) = []"
    and k: "us_screen_lock_bound (user_keys_of u (kw_skm w)) = Some k \<or>
            us_screen_lock_bound_private (user_keys_of u (kw_skm w)) = Some k"
    and "map_of (sm_key_index (kw_skm w)) i = Some (sk_obj k)"
    and md: "SuperKeyIdentifier_from_metadata md = Some (DatabaseId i)"
    and lock: "lock_screen_lock_bound_key E u sids w = (r, w')"
  shows "r = Inr () \<and> unwrap_key_if_required E md blob w' = (Inl (Ks (Rc RC_LOCKED)), w')"
  using locked_blob_refused [OF screen_lock.invariant_reachable [OF assms(1,2)] assms(3,4,5,6,7)] .

subsection \<open>Example\<close>

definition ex_aes_blob :: "bytes \<times> blob_meta_data" where
  "ex_aes_blob = (case encrypt_with_password ex_ssl 6 (replicate 32 5) (Ref [1]) of Inr x \<Rightarrow> x | Inl _ \<Rightarrow> ([], []))"

definition ex_aes_stored :: "key_entry res \<times> keystore_db" where
  "ex_aes_stored = store_super_key [8] 0 ''USER_SCREEN_LOCK_BOUND_KEY'' (fst ex_aes_blob) (snd ex_aes_blob) KeyMetaData_new
     (init_tables None)"

definition ex_ecdh_key :: "(bytes \<times> bytes option) res" where
  "ex_ecdh_key = and_then (ECDHPrivateKey_generate ex_ssl 9) (\<lambda>key.
     and_then (ECDHPrivateKey_private_key ex_ssl key) (\<lambda>private_key.
     map_res (\<lambda>public_key. (private_key, Some public_key)) (ECDHPrivateKey_public_key ex_ssl key)))"

definition ex_ecdh_pair :: "bytes \<times> bytes" where
  "ex_ecdh_pair = (case ex_ecdh_key of Inr (k, Some p) \<Rightarrow> (k, p) | _ \<Rightarrow> ([], []))"

definition ex_ecdh_blob :: "bytes \<times> blob_meta_data" where
  "ex_ecdh_blob = (case encrypt_with_password ex_ssl 10 (fst ex_ecdh_pair) (Ref [1]) of Inr x \<Rightarrow> x | Inl _ \<Rightarrow> ([], []))"

lemma ex_screen_lock_eval:
  "encrypt_with_password ex_ssl 6 (replicate 32 5) (Ref [1]) = Inr ex_aes_blob"
  "map_res e_id (fst ex_aes_stored) = Inr 8"
  "fst (load_super_key ''USER_SCREEN_LOCK_BOUND_KEY'' 0 (init_tables None)) = Inr None"
  "fst (load_super_key ''USER_SCREEN_LOCK_BOUND_P521_KEY'' 0 (snd ex_aes_stored)) = Inr None"
  "ex_ecdh_key = Inr (fst ex_ecdh_pair, Some (snd ex_ecdh_pair))"
  "encrypt_with_password ex_ssl 10 (fst ex_ecdh_pair) (Ref [1]) = Inr ex_ecdh_blob"
  "map_res e_id (fst (store_super_key [12] 0 ''USER_SCREEN_LOCK_BOUND_P521_KEY'' (fst ex_ecdh_blob) (snd ex_ecdh_blob)
     (KeyMetaData_add (Sec1PublicKey (snd ex_ecdh_pair)) KeyMetaData_new) (snd ex_aes_stored))) = Inr 12"
  by code_simp+
lemma ex_screen_unlocked:
  fixes w :: "unit ks_world"
  defines "w \<equiv> snd (unlock_screen_lock_bound_key ex_ks_env 0 (Ref [1]) ex_ks_world)"
  shows "us_screen_lock_bound (user_keys_of 0 (kw_skm w)) = Some (SuperKey 0 Aes256Gcm (replicate 32 5) (DatabaseId 8) None) \<and>
         map_of (sm_key_index (kw_skm w)) 8 = Some 0 \<and> sm_held (kw_skm w) = []"
proof -
  obtain e1 where "fst ex_aes_stored = Inr e1" and id1: "e_id e1 = 8"
    using ex_screen_lock_eval(2) by (auto simp: res_iffs)
  then obtain db1 where stored: "ex_aes_stored = (Inr e1, db1)" by (metis prod.collapse)
  note e1 = stored [unfolded ex_aes_stored_def]
  note eval = ex_screen_lock_eval [unfolded stored snd_conv]
  obtain e2 db2 where e2: "store_super_key [12] 0 ''USER_SCREEN_LOCK_BOUND_P521_KEY'' (fst ex_ecdh_blob) (snd ex_ecdh_blob)
     (KeyMetaData_add (Sec1PublicKey (snd ex_ecdh_pair)) KeyMetaData_new) (db1) = (Inr e2, db2)" "e_id e2 = 12"
    using eval(7) by (cases "store_super_key [12] 0 ''USER_SCREEN_LOCK_BOUND_P521_KEY'' (fst ex_ecdh_blob)
     (snd ex_ecdh_blob) (KeyMetaData_add (Sec1PublicKey (snd ex_ecdh_pair)) KeyMetaData_new) (db1)")
      (auto simp: res_iffs)
  have load: "load_super_key a 0 db = (Inr None, db)" if "fst (load_super_key a 0 db) = Inr None" for a db
    using that load_super_key_same [of a 0 db] by (cases "load_super_key a 0 db") auto
  note l1 = load [OF eval(3)] and l2 = load [OF eval(4)]
  have f: "nv_ssl ex_ks_env = ex_ssl" "nv_ids ex_ks_env 8 = [8]" "nv_ids ex_ks_env 12 = [12]" by (simp_all add: ex_ks_env_def)
  have g: "generate_aes256_key ex_ssl 5 = Inr (replicate 32 5)" by (rule ex_key_new(2))
  have 1: "get_or_create_super_key ex_ks_env 0 USER_SCREEN_LOCK_BOUND_KEY (Ref [1]) None v =
      (Inr (SuperKey 0 Aes256Gcm (replicate 32 5) (DatabaseId 8) None),
       v\<lparr>kw_skm := (kw_skm v)\<lparr>sm_next_object := 1\<rparr>, kw_rng := 9, kw_db := db1\<rparr>)"
    if "kw_db v = init_tables None" "kw_rng v = 5" "sm_next_object (kw_skm v) = 0" for v :: "unit ks_world"
    using that l1 e1 id1 eval(1)
    by (simp add: split_beta get_or_create_super_key_def USER_SCREEN_LOCK_BOUND_KEY_def st_bind_def on_db_def f g)
  have 2: "get_or_create_super_key ex_ks_env 0 USER_SCREEN_LOCK_BOUND_P521_KEY (Ref [1]) (Some aes) v =
      (Inr (SuperKey 1 EcdhP521 (fst ex_ecdh_pair) (DatabaseId 12) (Some aes)),
       v\<lparr>kw_skm := (kw_skm v)\<lparr>sm_next_object := 2\<rparr>, kw_rng := 13, kw_db := db2\<rparr>)"
    if "kw_db v = db1" "kw_rng v = 9" "sm_next_object (kw_skm v) = 1" for v :: "unit ks_world" and aes
    using that l2 e2 eval(5,6)
    by (simp add: split_beta get_or_create_super_key_def USER_SCREEN_LOCK_BOUND_P521_KEY_def st_bind_def on_db_def f ex_ecdh_key_def)
  show ?thesis
    unfolding w_def
    by (simp add: unlock_screen_lock_bound_key_def Let_def get_or_try_to_insert_with_def st_bind_def 1 2 ex_ks_world_def
        skm_init_def set_user_keys_def user_keys_of_def no_user_keys_def add_key_to_key_index_def)
qed

theorem screen_lock_takes_keys_away_witness:
  "fst (unwrap_key_if_required ex_ks_env (BlobMetaData_add (EncryptedBy (KeyId 8)) BlobMetaData_new) [1, 2]
     (snd (lock_screen_lock_bound_key ex_ks_env 0 [7]
       (snd (unlock_screen_lock_bound_key ex_ks_env 0 (Ref [1]) ex_ks_world))))) = Inl (Ks (Rc RC_LOCKED))"
proof -
  let ?w = "snd (unlock_screen_lock_bound_key ex_ks_env 0 (Ref [1]) ex_ks_world)"
  obtain r w' where l: "lock_screen_lock_bound_key ex_ks_env 0 [7] ?w = (r, w')" by fastforce
  have i: "kw_skm ex_ks_world = skm_init" by (simp add: ex_ks_world_def)
  have s: "(skm_call ex_ks_env)\<^sup>*\<^sup>* ex_ks_world ?w" by (intro r_into_rtranclp skm_call.intros)
  have m: "SuperKeyIdentifier_from_metadata (BlobMetaData_add (EncryptedBy (KeyId 8)) BlobMetaData_new) = Some (DatabaseId 8)"
    by (simp add: blob_meta_data_simps)
  from screen_lock_takes_keys_away [OF i s _ disjI1 _ m l, of "SuperKey 0 Aes256Gcm (replicate 32 5) (DatabaseId 8) None" "[1, 2]"]
    ex_screen_unlocked show ?thesis by (simp add: l)
qed

end
