(* ===== verification/Ks_Authorization.thy ===== *)
theory Ks_Authorization
  imports Ks_ScreenLock Ks_AuthProperties
begin

text \<open>
  The authorization service (\<open>src/keystore2/src/authorization.rs\<close>): auth tokens from the
  authenticators, the events of the lock screen, and tokens for the credential store.

  State.  \<open>service_world\<close> adds the enforcements to the world of the super key manager: it is
  the state behind the globals \<open>DB\<close>, \<open>SUPER_KEY\<close>, \<open>LEGACY_MIGRATOR\<close> and
  \<open>ENFORCEMENTS\<close> of \<open>src/keystore2/src/globals.rs\<close>.  \<open>service_env\<close> collects what the
  services use of the system: libselinux, the secure clock and the numbers of AIDL constants.
  The caller of a request, with the security context and the uid binder reports, is an argument,
  and so are the readings of the clocks.
\<close>

section \<open>State and environment\<close>

record 'k service_world = "'k ks_world" +
  kw_enf :: enforcements

record ('e, 'p, 'k) service_env =
  sv_env :: "('e, 'p, 'k) ks_env"
  sv_selinux :: libselinux
  sv_key_perms :: key_permission
  sv_aidl :: aidl_consts
  sv_secure_clock :: secure_clock
  sv_authz_value :: "authz_response_code \<Rightarrow> int"

datatype lock_screen_event = LSE_UNLOCK | LSE_LOCK | OtherEvent i32

definition require_perm :: "('e, 'p, 'k) service_env \<Rightarrow> caller \<Rightarrow> keystore_perm \<Rightarrow> ('w, unit) st" where
  "require_perm S c perm = st_lift (utils_check_keystore_permission (sv_selinux S) c perm)"

definition modify_enf :: "(enforcements \<Rightarrow> enforcements) \<Rightarrow> (('k, 'z) service_world_scheme, unit) st" where
  "modify_enf f = st_modify (\<lambda>w. w\<lparr>kw_enf := f (kw_enf w)\<rparr>)"

section \<open>Errors\<close>

text \<open>
  \<open>map_or_log_err\<close> of this service.  Every error is logged; the response codes of Keystore
  become those of \<open>android.security.authorization\<close>.
\<close>

definition authz_of_keystore :: "response_code \<Rightarrow> authz_response_code" where
  "authz_of_keystore ks_rcode =
     (case ks_rcode of
        RC_SYSTEM_ERROR \<Rightarrow> AZ_SYSTEM_ERROR
      | RC_KEY_NOT_FOUND \<Rightarrow> AZ_KEY_NOT_FOUND
      | RC_VALUE_CORRUPTED \<Rightarrow> AZ_VALUE_CORRUPTED
      | RC_INVALID_ARGUMENT \<Rightarrow> AZ_INVALID_ARGUMENT
      | _ \<Rightarrow> AZ_SYSTEM_ERROR)"

definition authz_error_code :: "err \<Rightarrow> authz_response_code" where
  "authz_error_code root_cause =
     (case root_cause of
        Ks (Rc ks_rcode) \<Rightarrow> authz_of_keystore ks_rcode
      | Authz rcode \<Rightarrow> rcode
      | Selinux PermissionDenied \<Rightarrow> AZ_PERMISSION_DENIED
      | _ \<Rightarrow> AZ_SYSTEM_ERROR)"

definition authz_map_or_log_err ::
    "('e, 'p, 'k) service_env \<Rightarrow> 'u res \<Rightarrow> ('u \<Rightarrow> 't binder_result) \<Rightarrow> 't binder_result" where
  "authz_map_or_log_err S result handle_ok =
     (case result of
        Inl e \<Rightarrow> Inl (new_service_specific_error (sv_authz_value S (authz_error_code e)))
      | Inr v \<Rightarrow> handle_ok v)"

section \<open>The authorization manager\<close>

definition AuthorizationManager_add_auth_token ::
    "('e, 'p, 'k) service_env \<Rightarrow> caller \<Rightarrow> monotonic_raw_time \<Rightarrow> hardware_auth_token
     \<Rightarrow> (('k, 'z) service_world_scheme, unit) st" where
  "AuthorizationManager_add_auth_token S c now auth_token =
     st_bind (require_perm S c AddAuth) (\<lambda>_.
       st_modify (\<lambda>w. let (pb, enf) = Enforcements_add_auth_token now auth_token (kw_perboot w, kw_enf w)
                      in w\<lparr>kw_perboot := pb, kw_enf := enf\<rparr>))"

text \<open>The cast \<open>user_id as u32\<close> is \<open>unat\<close>.\<close>

definition on_lock_screen_event ::
    "('e, 'p, 'k) service_env \<Rightarrow> caller \<Rightarrow> lock_screen_event \<Rightarrow> i32 \<Rightarrow> password option \<Rightarrow> i64 list option
     \<Rightarrow> (('k, 'z) service_world_scheme, unit) st" where
  "on_lock_screen_event S c lock_screen_event user_id password unlocking_sids =
     (case (lock_screen_event, password) of
        (LSE_UNLOCK, Some password) \<Rightarrow>
          st_bind (require_perm S c Unlock) (\<lambda>_.
          st_bind (modify_enf (set_device_locked user_id False)) (\<lambda>_.
          st_bind (unlock_screen_lock_bound_key (sv_env S) (unat user_id) password) (\<lambda>_.
          st_bind (get_with_password_unlock (sv_env S) (unat user_id) password) (\<lambda>_.
            st_ok ()))))
      | (LSE_UNLOCK, None) \<Rightarrow>
          st_bind (require_perm S c Unlock) (\<lambda>_.
          st_bind (modify_enf (set_device_locked user_id False)) (\<lambda>_.
            try_unlock_user_with_biometric (sv_env S) (unat user_id)))
      | (LSE_LOCK, None) \<Rightarrow>
          st_bind (require_perm S c Lock) (\<lambda>_.
          st_bind (modify_enf (set_device_locked user_id True)) (\<lambda>_.
            lock_screen_lock_bound_key (sv_env S) (unat user_id)
              (case unlocking_sids of Some sids \<Rightarrow> sids | None \<Rightarrow> [])))
      | _ \<Rightarrow> st_err (Authz AZ_INVALID_ARGUMENT))"

definition get_auth_tokens_for_credstore ::
    "('e, 'p, 'k) service_env \<Rightarrow> caller \<Rightarrow> clock_env \<Rightarrow> i64 \<Rightarrow> i64 \<Rightarrow> i64
     \<Rightarrow> (('k, 'z) service_world_scheme, hardware_auth_token \<times> time_stamp_token) st" where
  "get_auth_tokens_for_credstore S c env challenge secure_user_id auth_token_max_age_millis =
     st_bind (require_perm S c GetAuthToken) (\<lambda>_.
       if challenge = 0 then st_err (Authz AZ_INVALID_ARGUMENT)
       else (\<lambda>w. (Enforcements_get_auth_tokens (sv_aidl S) env (sv_secure_clock S) (kw_perboot w) challenge
                    secure_user_id auth_token_max_age_millis, w)))"

section \<open>Example\<close>

definition ex_service_env :: "(u8, u8, unit) service_env" where
  "ex_service_env = \<lparr>sv_env = ex_ks_env, sv_selinux = ex_selinux, sv_key_perms = ex_kp, sv_aidl = ex_consts,
     sv_secure_clock = ex_clock, sv_authz_value = (\<lambda>_. 2)\<rparr>"

definition ex_caller :: caller where
  "ex_caller = \<lparr>calling_sid = Some ''system_server'', calling_uid = 10\<rparr>"

lemma ex_permission:
  "require_perm ex_service_env ex_caller perm w = (Inr (), w)"
  "kd_domain key = APP \<Longrightarrow> kd_nspace key = 10 \<Longrightarrow>
     utils_check_key_permission (sv_selinux ex_service_env) (sv_key_perms ex_service_env) ex_caller p key None = Inr ()"
  by (cases perm; simp add: check_key_permission_def utils_check_key_permission_def ex_caller_def
      ex_service_env_def check_access_def CString_new_def KeyPerm_to_selinux_no_nul ex_selinux_def getcon_def
      require_perm_def utils_check_keystore_permission_def check_keystore_permission_def)+

end
