(* ===== verification/Ks_Maintenance.thy ===== *)
theory Ks_Maintenance
  imports Ks_Authorization
begin

text \<open>
  The maintenance service (\<open>src/keystore2/src/maintenance.rs\<close>): users that come and go,
  changes of the lock screen password, clearing the namespace of an app, the end of early boot,
  and moving keys between namespaces.

  The delete listener (\<open>trait DeleteListener\<close>) is an argument of the operations that invoke
  it; the legacy keystore service provides it.
\<close>

section \<open>The operations\<close>

record 'w delete_listener =
  dl_delete_namespace :: "domain \<Rightarrow> int \<Rightarrow> ('w, unit) st"
  dl_delete_user :: "nat \<Rightarrow> ('w, unit) st"

datatype aidl_user_state = AUS_UNINITIALIZED | AUS_LSKF_UNLOCKED | AUS_LSKF_LOCKED

definition require_key_perm ::
    "('e, 'p, 'k) service_env \<Rightarrow> caller \<Rightarrow> (key_permission \<Rightarrow> i32) \<Rightarrow> key_descriptor \<Rightarrow> key_perm_set option \<Rightarrow> unit res" where
  "require_key_perm S c perm key access_vector =
     utils_check_key_permission (sv_selinux S) (sv_key_perms S) c (perm (sv_key_perms S)) key access_vector"

definition on_user_password_changed ::
    "('e, 'p, 'k) service_env \<Rightarrow> caller \<Rightarrow> i32 \<Rightarrow> password option \<Rightarrow> (('k, 'z) service_world_scheme, unit) st" where
  "on_user_password_changed S c user_id password =
     st_bind (require_perm S c ChangePassword) (\<lambda>_.
     st_bind (case password of
                Some pw \<Rightarrow> unlock_screen_lock_bound_key (sv_env S) (unat user_id) pw
              | None \<Rightarrow> st_ok ()) (\<lambda>_.
     st_bind (get_with_password_changed (sv_env S) (unat user_id) password) (\<lambda>state.
       case state of
         LskfLocked \<Rightarrow> st_err (Ks (Rc RC_LOCKED))
       | _ \<Rightarrow> st_ok ())))"

definition add_or_remove_user ::
    "('e, 'p, 'k) service_env \<Rightarrow> ('k, 'z) service_world_scheme delete_listener \<Rightarrow> caller \<Rightarrow> i32
     \<Rightarrow> (('k, 'z) service_world_scheme, unit) st" where
  "add_or_remove_user S delete_listener c user_id =
     st_bind (require_perm S c ChangeUser) (\<lambda>_.
     st_bind (reset_user (sv_env S) (unat user_id) False) (\<lambda>_.
       dl_delete_user delete_listener (unat user_id)))"

definition clear_namespace ::
    "('e, 'p, 'k) service_env \<Rightarrow> ('k, 'z) service_world_scheme delete_listener \<Rightarrow> caller \<Rightarrow> domain \<Rightarrow> int
     \<Rightarrow> (('k, 'z) service_world_scheme, unit) st" where
  "clear_namespace S delete_listener c domain nspace =
     st_bind (require_perm S c ClearUID) (\<lambda>_.
     st_bind (bulk_delete_uid (sv_env S) domain nspace) (\<lambda>_.
     st_bind (on_db (unbind_keys_for_namespace domain nspace)) (\<lambda>_.
       dl_delete_namespace delete_listener domain nspace)))"

definition get_state :: "('e, 'p, 'k) service_env \<Rightarrow> caller \<Rightarrow> i32 \<Rightarrow> (('k, 'z) service_world_scheme, aidl_user_state) st" where
  "get_state S c user_id =
     st_bind (require_perm S c GetState) (\<lambda>_.
     st_bind (UserState_get (unat user_id)) (\<lambda>state.
       st_ok (case state of
                Uninitialized \<Rightarrow> AUS_UNINITIALIZED
              | LskfUnlocked _ \<Rightarrow> AUS_LSKF_UNLOCKED
              | LskfLocked \<Rightarrow> AUS_LSKF_LOCKED)))"

definition call_with_watchdog ::
    "('e, 'p, 'k) service_env \<Rightarrow> i32 \<Rightarrow> ('k keymint \<Rightarrow> 'k \<Rightarrow> unit binder_result \<times> 'k)
     \<Rightarrow> (('k, 'z) service_world_scheme, unit) st" where
  "call_with_watchdog S sec_level op =
     st_bind (st_lift (nv_keymint (sv_env S) sec_level)) (\<lambda>km_dev. km_device_call (sv_env S) (op km_dev))"

text \<open>The fold over the security levels: every device is called, the first error is returned.\<close>

fun call_on_levels ::
    "('e, 'p, 'k) service_env \<Rightarrow> ('k keymint \<Rightarrow> 'k \<Rightarrow> unit binder_result \<times> 'k) \<Rightarrow> i32 list \<Rightarrow> unit res
     \<Rightarrow> (('k, 'z) service_world_scheme, unit) st" where
  "call_on_levels S op [] result w = (result, w)"
| "call_on_levels S op (sec_level # sec_levels) result w =
     (let (curr_result, w') = call_with_watchdog S sec_level op w
      in call_on_levels S op sec_levels (and_then result (\<lambda>_. curr_result)) w')"

definition call_on_all_security_levels ::
    "('e, 'p, 'k) service_env \<Rightarrow> ('k keymint \<Rightarrow> 'k \<Rightarrow> unit binder_result \<times> 'k)
     \<Rightarrow> (('k, 'z) service_world_scheme, unit) st" where
  "call_on_all_security_levels S op =
     call_on_levels S op
       [KC_TRUSTED_ENVIRONMENT (nv_consts (sv_env S)), KC_STRONGBOX (nv_consts (sv_env S))] (Inr ())"

definition early_boot_ended :: "('e, 'p, 'k) service_env \<Rightarrow> caller \<Rightarrow> (('k, 'z) service_world_scheme, unit) st" where
  "early_boot_ended S c =
     st_bind (require_perm S c EarlyBootEnded) (\<lambda>_.
     st_bind (st_try (set_up_boot_level_cache (sv_env S))) (\<lambda>_.
       call_on_all_security_levels S kmi_earlyBootEnded))"

definition on_device_off_body ::
    "('e, 'p, 'k) service_env \<Rightarrow> caller \<Rightarrow> monotonic_raw_time \<Rightarrow> (('k, 'z) service_world_scheme, unit) st" where
  "on_device_off_body S c now =
     st_bind (require_perm S c ReportOffBody) (\<lambda>_.
       st_modify (\<lambda>w. w\<lparr>kw_perboot := set_last_off_body now (kw_perboot w)\<rparr>))"

definition Maintenance_migrate_key_namespace ::
    "('e, 'p, 'k) service_env \<Rightarrow> caller \<Rightarrow> key_descriptor \<Rightarrow> key_descriptor
     \<Rightarrow> (('k, 'z) service_world_scheme, unit) st" where
  "Maintenance_migrate_key_namespace S c source destination =
     (let caller_uid = calling_uid c in
      st_bind (if kd_domain source = APP \<or> kd_domain source = SELINUX \<or> kd_domain source = KEY_ID then
                 with_try_migrate (sv_env S) source caller_uid
                   (on_db (load_key_entry (nv_wait (sv_env S)) source Client LB_NONE caller_uid
                      (\<lambda>k av. and_then (require_key_perm S c KP_USE k av) (\<lambda>_.
                              and_then (require_key_perm S c KP_DELETE k av) (\<lambda>_.
                                require_key_perm S c KP_GRANT k av)))))
               else st_err (Ks (Rc RC_INVALID_ARGUMENT))) (\<lambda>(key_id_guard, _).
        on_db (migrate_key_namespace key_id_guard destination caller_uid
                 (\<lambda>k. require_key_perm S c KP_REBIND k None))))"

definition Maintenance_delete_all_keys :: "('e, 'p, 'k) service_env \<Rightarrow> caller \<Rightarrow> (('k, 'z) service_world_scheme, unit) st" where
  "Maintenance_delete_all_keys S c =
     st_bind (require_perm S c DeleteAllKeys) (\<lambda>_.
       call_on_all_security_levels S kmi_deleteAllKeys)"

end
