(* ===== verification/Ks_AuditLog.thy ===== *)
theory Ks_AuditLog
  imports Ks_Maintenance
begin

text \<open>
  The audit log (\<open>src/keystore2/src/audit_log.rs\<close>).  \<open>kw_audit\<close> holds the events in the
  order in which they are queued for the log writer.  Whether liblog gives out a log context is the
  parameter \<open>log_context\<close>.
\<close>

record audit_event =
  ev_tag :: nat
  ev_success :: "bool option"
  ev_alias :: string
  ev_owner :: i32

record 'k audit_world = "'k service_world" +
  kw_audit :: "audit_event list"

definition TAG_KEY_GENERATED :: nat where "TAG_KEY_GENERATED = 210024"
definition TAG_KEY_IMPORTED :: nat where "TAG_KEY_IMPORTED = 210025"
definition TAG_KEY_DESTROYED :: nat where "TAG_KEY_DESTROYED = 210026"
definition TAG_KEY_INTEGRITY_VIOLATION :: nat where "TAG_KEY_INTEGRITY_VIOLATION = 210032"

definition FLAG_NAMESPACE :: int where "FLAG_NAMESPACE = 0x80000000"

definition key_owner :: "domain \<Rightarrow> int \<Rightarrow> i32 \<Rightarrow> i32" where
  "key_owner domain nspace uid =
     (case domain of
        APP \<Rightarrow> uid
      | SELINUX \<Rightarrow> word_of_int (or nspace FLAG_NAMESPACE)
      | _ \<Rightarrow> 0)"

definition with_log_context :: "bool \<Rightarrow> audit_event \<Rightarrow> (('k, 'z) audit_world_scheme, unit) st" where
  "with_log_context log_context event =
     (if log_context then st_modify (\<lambda>w. w\<lparr>kw_audit := kw_audit w @ [event]\<rparr>) else st_ok ())"

definition alias_or_none :: "key_descriptor \<Rightarrow> string" where
  "alias_or_none key = (case kd_alias key of Some a \<Rightarrow> a | None \<Rightarrow> ''none'')"

definition log_key_event :: "bool \<Rightarrow> nat \<Rightarrow> key_descriptor \<Rightarrow> nat \<Rightarrow> bool \<Rightarrow> (('k, 'z) audit_world_scheme, unit) st" where
  "log_key_event log_context tag key calling_app success =
     with_log_context log_context
       \<lparr>ev_tag = tag, ev_success = Some success, ev_alias = alias_or_none key,
        ev_owner = key_owner (kd_domain key) (kd_nspace key) (word_of_nat calling_app)\<rparr>"

definition log_key_generated :: "bool \<Rightarrow> key_descriptor \<Rightarrow> nat \<Rightarrow> bool \<Rightarrow> (('k, 'z) audit_world_scheme, unit) st" where
  "log_key_generated log_context = log_key_event log_context TAG_KEY_GENERATED"

definition log_key_imported :: "bool \<Rightarrow> key_descriptor \<Rightarrow> nat \<Rightarrow> bool \<Rightarrow> (('k, 'z) audit_world_scheme, unit) st" where
  "log_key_imported log_context = log_key_event log_context TAG_KEY_IMPORTED"

definition log_key_deleted :: "bool \<Rightarrow> key_descriptor \<Rightarrow> nat \<Rightarrow> bool \<Rightarrow> (('k, 'z) audit_world_scheme, unit) st" where
  "log_key_deleted log_context = log_key_event log_context TAG_KEY_DESTROYED"

definition log_key_integrity_violation :: "bool \<Rightarrow> key_descriptor \<Rightarrow> (('k, 'z) audit_world_scheme, unit) st" where
  "log_key_integrity_violation log_context key =
     with_log_context log_context
       \<lparr>ev_tag = TAG_KEY_INTEGRITY_VIOLATION, ev_success = None, ev_alias = alias_or_none key,
        ev_owner = key_owner (kd_domain key) (kd_nspace key) (word_of_int (kd_nspace key))\<rparr>"

text \<open>A request whose result is logged, whatever it is.\<close>

definition logged ::
    "(key_descriptor \<Rightarrow> nat \<Rightarrow> bool \<Rightarrow> (('k, 'z) audit_world_scheme, unit) st) \<Rightarrow> key_descriptor \<Rightarrow> caller
     \<Rightarrow> (('k, 'z) audit_world_scheme, 'a) st \<Rightarrow> (('k, 'z) audit_world_scheme, 'a) st" where
  "logged log key c m w = (let (r, w') = m w in (r, snd (log key (calling_uid c) (is_ok r) w')))"

end
