(* ===== verification/Ks_RemoteProvisioning.thy ===== *)
theory Ks_RemoteProvisioning
  imports Ks_Maintenance Ks_Attestation
begin

text \<open>
  Remote key provisioning (\<open>src/keystore2/src/remote_provisioning.rs\<close>) and the choice of
  an attestation key (\<open>src/keystore2/src/attestation_key_utils.rs\<close>).

  \<open>rem_prov_state\<close> is \<open>RemProvState\<close>; its atomic flag is state, so that the operations
  return the state they leave behind.  Parameters: whether \<open>get_remotely_provisioned_component\<close>
  finds a component for the security level, and \<open>rkp_device\<close>, the interface
  \<open>IRemotelyProvisionedComponent\<close> (the MACed public key is an out parameter of
  \<open>generateEcdsaP256KeyPair\<close>; the protected data and the device info of
  \<open>generateCertificateRequest\<close> are handed through to the caller and are not modelled).
\<close>

section \<open>Attestation keys for an app\<close>

record rem_prov_state =
  rp_security_level :: i32
  rp_km_uuid :: uuid
  rp_is_hal_present :: bool

definition RemProvState_new :: "i32 \<Rightarrow> uuid \<Rightarrow> rem_prov_state" where
  "RemProvState_new security_level km_uuid =
     \<lparr>rp_security_level = security_level, rp_km_uuid = km_uuid, rp_is_hal_present = True\<rparr>"

type_synonym rp_st = "rem_prov_state \<times> keystore_db"

text \<open>\<open>component l\<close>: \<open>get_remotely_provisioned_component\<close> succeeds for the level.\<close>

definition check_rem_prov_enabled :: "(i32 \<Rightarrow> bool) \<Rightarrow> (rp_st, bool) st" where
  "check_rem_prov_enabled component s =
     (let (self, db) = s in
      if \<not> rp_is_hal_present self \<or> \<not> component (rp_security_level self)
      then (Inr False, (self\<lparr>rp_is_hal_present := False\<rparr>, db))
      else (map_res (\<lambda>pool_status. ps_total pool_status \<noteq> 0) (get_attestation_pool_status 0 (rp_km_uuid self) db), s))"

definition get_rem_prov_attest_key_helper ::
    "key_descriptor \<Rightarrow> nat \<Rightarrow> (rp_st, certificate_chain option) st" where
  "get_rem_prov_attest_key_helper key caller_uid s =
     (let (self, db) = s in
      case retrieve_attestation_key_and_cert_chain (kd_domain key) (int caller_uid) (rp_km_uuid self) db of
        Inl e \<Rightarrow> (Inl e, s)
      | Inr (Some cert_chain) \<Rightarrow> (Inr (Some cert_chain), s)
      | Inr None \<Rightarrow>
          (let (r, db') = assign_attestation_key (kd_domain key) (int caller_uid) (rp_km_uuid self) db
           in (map_res (\<lambda>_. None) r, (self, db'))))"

definition get_rem_prov_attest_key :: "key_descriptor \<Rightarrow> nat \<Rightarrow> (rp_st, certificate_chain option) st" where
  "get_rem_prov_attest_key key caller_uid =
     (if kd_domain key = APP then
        st_bind (get_rem_prov_attest_key_helper key caller_uid) (\<lambda>first.
        st_bind (case first of None \<Rightarrow> get_rem_prov_attest_key_helper key caller_uid | Some v \<Rightarrow> st_ok (Some v)) (\<lambda>second.
          case second of None \<Rightarrow> st_err sys | Some cert_chain \<Rightarrow> st_ok (Some cert_chain)))
      else st_ok None)"

definition is_asymmetric_key :: "aidl_consts \<Rightarrow> km_key_parameter list \<Rightarrow> bool" where
  "is_asymmetric_key C params \<longleftrightarrow>
     list_ex (\<lambda>kp. kp = \<lparr>km_tag = T_ALGORITHM, km_val = KmAlgorithm (ALG_RSA C)\<rparr> \<or>
                   kp = \<lparr>km_tag = T_ALGORITHM, km_val = KmAlgorithm (ALG_EC C)\<rparr>) params"

definition get_remotely_provisioned_attestation_key_and_certs ::
    "('e, 'p) boringssl \<Rightarrow> aidl_consts \<Rightarrow> (i32 \<Rightarrow> bool) \<Rightarrow> key_descriptor \<Rightarrow> nat \<Rightarrow> km_key_parameter list
     \<Rightarrow> (rp_st, (attestation_key \<times> bytes) option) st" where
  "get_remotely_provisioned_attestation_key_and_certs L C component key caller_uid params =
     (if \<not> is_asymmetric_key C params then st_ok None
      else
        st_bind (check_rem_prov_enabled component) (\<lambda>enabled.
          if \<not> enabled then st_ok None
          else
            st_bind (st_try (get_rem_prov_attest_key key caller_uid)) (\<lambda>r.
              case r of
                Inl e \<Rightarrow> st_ok None
              | Inr None \<Rightarrow> st_ok None
              | Inr (Some cert_chain) \<Rightarrow>
                  st_bind (st_lift (parse_subject_from_certificate L (cc_batch_cert cert_chain))) (\<lambda>subject.
                    st_ok (Some (\<lparr>ak_key_blob = cc_private_key cert_chain, ak_attest_key_params = [],
                                  ak_issuer_subject_name = subject\<rparr>, cc_cert_chain cert_chain))))))"

section \<open>Attestation keys of the user\<close>

datatype attestation_key_info =
    RemoteProvisioned attestation_key bytes
  | UserGenerated int bytes blob_meta_data bytes

definition load_attest_key_blob_and_cert ::
    "('e, 'p, 'k) service_env \<Rightarrow> caller \<Rightarrow> key_descriptor \<Rightarrow> keystore_db
     \<Rightarrow> (int \<times> bytes \<times> bytes \<times> blob_meta_data) res \<times> keystore_db" where
  "load_attest_key_blob_and_cert S c key db =
     (if kd_domain key = BLOB then (Inl (Ks (Km EC_INVALID_ARGUMENT)), db)
      else
        (case load_key_entry (nv_wait (sv_env S)) key Client LB_BOTH (calling_uid c)
                (\<lambda>k av. require_key_perm S c KP_USE k av) db of
           (Inl e, db) \<Rightarrow> (Inl e, db)
         | (Inr (key_id_guard, key_entry), db) \<Rightarrow>
             (case (e_key_blob_info key_entry, e_cert key_entry) of
                (Some (blob, blob_metadata), Some cert) \<Rightarrow> (Inr (key_id_guard, blob, cert, blob_metadata), db)
              | _ \<Rightarrow> (Inl sys, KeyIdGuard_drop key_id_guard db))))"

definition get_user_generated_attestation_key ::
    "('e, 'p, 'k) service_env \<Rightarrow> caller \<Rightarrow> key_descriptor \<Rightarrow> keystore_db \<Rightarrow> attestation_key_info res \<times> keystore_db" where
  "get_user_generated_attestation_key S c key db =
     (case load_attest_key_blob_and_cert S c key db of
        (Inl e, db) \<Rightarrow> (Inl e, db)
      | (Inr (key_id_guard, blob, cert, blob_metadata), db) \<Rightarrow>
          (case parse_subject_from_certificate (nv_ssl (sv_env S)) cert of
             Inl e \<Rightarrow> (Inl e, KeyIdGuard_drop key_id_guard db)
           | Inr issuer_subject \<Rightarrow> (Inr (UserGenerated key_id_guard blob blob_metadata issuer_subject), db)))"

definition get_attest_key_info ::
    "('e, 'p, 'k) service_env \<Rightarrow> (i32 \<Rightarrow> bool) \<Rightarrow> caller \<Rightarrow> key_descriptor \<Rightarrow> key_descriptor option
     \<Rightarrow> km_key_parameter list \<Rightarrow> (rp_st, attestation_key_info option) st" where
  "get_attest_key_info S component c key attest_key_descriptor params =
     (let challenge_present = list_ex (\<lambda>kp. km_tag kp = T_ATTESTATION_CHALLENGE) params in
      case attest_key_descriptor of
        None \<Rightarrow>
          (if challenge_present then
             st_bind (get_remotely_provisioned_attestation_key_and_certs (nv_ssl (sv_env S)) (sv_aidl S) component key
                        (calling_uid c) params) (\<lambda>result.
               st_ok (map_option (\<lambda>(attestation_key, certs). RemoteProvisioned attestation_key certs) result))
           else st_ok None)
      | Some attest_key \<Rightarrow>
          (\<lambda>(self, db). let (r, db') = get_user_generated_attestation_key S c attest_key db
                       in (map_res Some r, (self, db'))))"

section \<open>The provisioning service\<close>

record 'r rkp_device =
  rk_supported_eek_curve :: "i32 res"
  rk_generateEcdsaP256KeyPair :: "bool \<Rightarrow> 'r \<Rightarrow> (bytes \<times> bytes) binder_result \<times> 'r"
  rk_generateCertificateRequest ::
    "bool \<Rightarrow> bytes list \<Rightarrow> bytes \<Rightarrow> bytes \<Rightarrow> 'r \<Rightarrow> (bytes \<times> bytes \<times> bytes) binder_result \<times> 'r"

record 'r remote_provisioning_service =
  rs_device_by_sec_level :: "(i32 \<times> 'r rkp_device) list"
  rs_curve_by_sec_level :: "(i32 \<times> i32) list"

record ('k, 'r) rp_world = "'k service_world" +
  kw_rkp :: 'r

definition RemoteProvisioningService_new_native_binder ::
    "key_consts \<Rightarrow> (i32 \<Rightarrow> 'r rkp_device res) \<Rightarrow> 'r remote_provisioning_service res" where
  "RemoteProvisioningService_new_native_binder K get_component =
     and_then (get_component (KC_TRUSTED_ENVIRONMENT K)) (\<lambda>dev.
     and_then (rk_supported_eek_curve dev) (\<lambda>curve.
       let tee = \<lparr>rs_device_by_sec_level = [(KC_TRUSTED_ENVIRONMENT K, dev)],
                  rs_curve_by_sec_level = [(KC_TRUSTED_ENVIRONMENT K, curve)]\<rparr> in
       case get_component (KC_STRONGBOX K) of
         Inl _ \<Rightarrow> Inr tee
       | Inr dev \<Rightarrow>
           and_then (rk_supported_eek_curve dev) (\<lambda>curve.
             Inr \<lparr>rs_device_by_sec_level = hash_insert (KC_STRONGBOX K) dev (rs_device_by_sec_level tee),
                  rs_curve_by_sec_level = hash_insert (KC_STRONGBOX K) curve (rs_curve_by_sec_level tee)\<rparr>)))"

definition get_dev_by_sec_level :: "'r remote_provisioning_service \<Rightarrow> i32 \<Rightarrow> 'r rkp_device res" where
  "get_dev_by_sec_level self sec_level = ok_or (map_of (rs_device_by_sec_level self) sec_level) sys"

definition rkp_call ::
    "('e, 'p, 'k) service_env \<Rightarrow> ('r \<Rightarrow> 'a binder_result \<times> 'r) \<Rightarrow> (('k, 'r, 'z) rp_world_scheme, 'a) st" where
  "rkp_call S f w =
     (let (r, rk) = f (kw_rkp w)
      in (case map_rem_prov_error (nv_codes (sv_env S)) r of Inl e \<Rightarrow> Inl (Ks e) | Inr v \<Rightarrow> Inr v, w\<lparr>kw_rkp := rk\<rparr>))"

text \<open>
  The COSE_Key inside a MACed public key: 83 bytes, or 77 without the test mode entry, from
  offset 8.  Keys that are too short are left out.
\<close>

definition cose_key_slice :: "bool \<Rightarrow> bytes \<Rightarrow> bytes" where
  "cose_key_slice test_mode maced_key =
     (let test_mode_entry_shift = (if test_mode then 0 else 6);
          byte_dist_mac0_payload = 8;
          cose_key_size = 83 - test_mode_entry_shift
      in if cose_key_size + byte_dist_mac0_payload < length maced_key
         then take cose_key_size (drop byte_dist_mac0_payload maced_key) else [])"

text \<open>The CBOR array; both lengths are cut to one byte.\<close>

definition assemble_csr :: "bool \<Rightarrow> bytes list \<Rightarrow> bytes \<Rightarrow> bytes" where
  "assemble_csr test_mode keys_to_sign mac =
     [word_of_nat (or 0x80 (length keys_to_sign + 1)), 0x58, word_of_nat (length mac)] @ mac @
     concat (map (cose_key_slice test_mode) keys_to_sign)"

text \<open>The result includes the output arguments \<open>device_info\<close> and \<open>protected_data\<close>.\<close>

definition generate_csr ::
    "('e, 'p, 'k) service_env \<Rightarrow> 'r remote_provisioning_service \<Rightarrow> bool \<Rightarrow> i32 \<Rightarrow> bytes \<Rightarrow> bytes \<Rightarrow> i32
     \<Rightarrow> (('k, 'r, 'z) rp_world_scheme, bytes \<times> bytes \<times> bytes) st" where
  "generate_csr S self test_mode num_csr eek challenge sec_level =
     st_bind (st_lift (get_dev_by_sec_level self sec_level)) (\<lambda>dev.
     st_bind (st_lift (nv_keymint (sv_env S) sec_level)) (\<lambda>km.
     st_bind (on_db (\<lambda>db. (fetch_unsigned_attestation_keys num_csr (kmi_uuid km) db, db))) (\<lambda>keys_to_sign.
     st_bind (rkp_call S (rk_generateCertificateRequest dev test_mode keys_to_sign eek challenge)) (\<lambda>(mac, device_info, protected_data).
       st_ok (assemble_csr test_mode keys_to_sign mac, device_info, protected_data)))))"

definition provision_cert_chain ::
    "('e, 'p, 'k) service_env \<Rightarrow> bytes \<Rightarrow> bytes \<Rightarrow> bytes \<Rightarrow> int \<Rightarrow> i32 \<Rightarrow> (('k, 'r, 'z) rp_world_scheme, unit) st" where
  "provision_cert_chain S public_key batch_cert certs expiration_date sec_level =
     st_bind (st_lift (nv_keymint (sv_env S) sec_level)) (\<lambda>km.
       on_db (store_signed_attestation_certificate_chain public_key batch_cert certs expiration_date (kmi_uuid km)))"

text \<open>The two coordinates of the public key, cut out of the MACed key.\<close>

definition raw_public_key :: "bytes \<Rightarrow> bytes res" where
  "raw_public_key data =
     (if length data < 85 then Inl sys else Inr (take 32 (drop 18 data) @ take 32 (drop 53 data)))"

definition generate_key_pair ::
    "('e, 'p, 'k) service_env \<Rightarrow> 'r remote_provisioning_service \<Rightarrow> bool \<Rightarrow> i32 \<Rightarrow> (('k, 'r, 'z) rp_world_scheme, unit) st" where
  "generate_key_pair S self is_test_mode sec_level =
     st_bind (st_lift (nv_keymint (sv_env S) sec_level)) (\<lambda>km.
     st_bind (st_lift (get_dev_by_sec_level self sec_level)) (\<lambda>dev.
     st_bind (rkp_call S (rk_generateEcdsaP256KeyPair dev is_test_mode)) (\<lambda>(priv_key, maced_key).
     st_bind (st_lift (raw_public_key maced_key)) (\<lambda>raw_key.
     st_bind (draw 1) (\<lambda>r.
       on_db (create_attestation_key_entry (nv_ids (sv_env S) r) maced_key raw_key priv_key (kmi_uuid km)))))))"

definition get_implementation_info :: "'r remote_provisioning_service \<Rightarrow> (i32 \<times> i32) list" where
  "get_implementation_info self = rs_curve_by_sec_level self"

definition RemoteProvisioningService_delete_all_keys :: "(('k, 'r, 'z) rp_world_scheme, nat) st" where
  "RemoteProvisioningService_delete_all_keys = on_db delete_all_attestation_keys"

definition get_pool_status ::
    "('e, 'p, 'k) service_env \<Rightarrow> int \<Rightarrow> i32 \<Rightarrow> (('k, 'r, 'z) rp_world_scheme, attestation_pool_status) st" where
  "get_pool_status S expired_by sec_level =
     st_bind (st_lift (nv_keymint (sv_env S) sec_level)) (\<lambda>km.
     st_bind (draw 1) (\<lambda>r.
     st_bind (on_db (delete_expired_attestation_keys (nv_now (sv_env S) r))) (\<lambda>_.
       on_db (\<lambda>db. (get_attestation_pool_status expired_by (kmi_uuid km) db, db)))))"

section \<open>The certificate request is CBOR\<close>

text \<open>The head of a data item (RFC 8949, section 3): the major type and the argument.\<close>

definition be_bytes :: "nat \<Rightarrow> nat \<Rightarrow> bytes" where
  "be_bytes w n = map (\<lambda>i. word_of_nat (n div 256 ^ i)) (rev [0..<w])"

definition cbor_head :: "nat \<Rightarrow> nat \<Rightarrow> bytes" where
  "cbor_head major n =
     (if n < 24 then [word_of_nat (32 * major + n)]
      else if n < 2 ^ 8 then word_of_nat (32 * major + 24) # be_bytes 1 n
      else if n < 2 ^ 16 then word_of_nat (32 * major + 25) # be_bytes 2 n
      else if n < 2 ^ 32 then word_of_nat (32 * major + 26) # be_bytes 4 n
      else word_of_nat (32 * major + 27) # be_bytes 8 n)"

text \<open>An array of the MAC as a byte string and the keys that are included.\<close>

definition csr_cbor :: "bool \<Rightarrow> bytes list \<Rightarrow> bytes \<Rightarrow> bytes" where
  "csr_cbor test_mode keys_to_sign mac =
     (let cose_keys = filter (\<lambda>k. k \<noteq> []) (map (cose_key_slice test_mode) keys_to_sign)
      in cbor_head 4 (length cose_keys + 1) @ cbor_head 2 (length mac) @ mac @ concat cose_keys)"

lemma or_128:
  assumes "n < 128"
  shows "or 128 n = 128 + (n :: nat)"
proof -
  have "take_bit 7 n = n" using assms by (simp add: take_bit_nat_eq_self)
  then have 1: "\<not> bit n k" if "k \<ge> 7" for k using that by (metis bit_take_bit_iff not_le)
  have 2: "bit (128 :: nat) k \<longleftrightarrow> k = 7" for k using bit_exp_iff [of 7 k, where 'a = nat] by (simp add: bit_simps)
  have "\<not> bit (128 :: nat) k \<or> \<not> bit n k" for k using 1 [of k] unfolding 2 by (cases "k = 7") simp_all
  then show ?thesis by (rule disjunctive_add [symmetric])
qed

lemma byte_eq: "m < 256 \<Longrightarrow> n < 256 \<Longrightarrow> (word_of_nat m :: u8) = word_of_nat n \<longleftrightarrow> m = n"
  by (auto simp: word_of_nat_eq_iff take_bit_nat_def)

lemma csr_heads:
  assumes "m \<le> n" and "n < 127"
  shows "[word_of_nat (or 0x80 (n + 1)), 0x58, word_of_nat l] = cbor_head 4 (m + 1) @ cbor_head 2 l \<longleftrightarrow>
    n < 23 \<and> m = n \<and> 24 \<le> l \<and> l < 256"
proof -
  have mac: "[0x58, word_of_nat l] = cbor_head 2 l \<longleftrightarrow> 24 \<le> l \<and> l < 256"
    by (auto simp: cbor_head_def be_bytes_def)
  have first: "(word_of_nat (or 0x80 (n + 1)) :: u8) = word_of_nat (128 + k) \<longleftrightarrow> n + 1 = k" if "k < 128" for k
    using assms that by (simp only: or_128) (subst byte_eq, auto)
  have short: "(0x58 :: u8) = word_of_nat (m + 1) \<longleftrightarrow> m = 87" if "m < 127"
    using byte_eq [of 88 "m + 1"] that by auto
  show ?thesis
  proof (cases "m + 1 < 24")
    case True
    then have "cbor_head 4 (m + 1) = [word_of_nat (128 + (m + 1))]" by (simp add: cbor_head_def)
    with mac first [of "m + 1"] assms True show ?thesis by auto
  next
    case False
    then have "cbor_head 4 (m + 1) = [word_of_nat (128 + 24), word_of_nat (m + 1)]"
      using assms by (simp add: cbor_head_def be_bytes_def)
    with first [of 24] short assms False show ?thesis by auto
  qed
qed



end
