(* ===== verification/Ks_SecurityLevel.thy ===== *)
theory Ks_SecurityLevel
  imports Ks_AuditLog Ks_RemoteProvisioning Ks_OpLife
begin

text \<open>
  A security level (\<open>src/keystore2/src/security_level.rs\<close>): creating operations,
  generating and importing keys, and the requests for keys whose blob the client keeps.  Also
  \<open>src/keystore2/src/id_rotation.rs\<close> and the helpers of \<open>src/keystore2/src/utils.rs\<close> for
  device ids, which only a security level uses.

  State.  \<open>level_world\<close> adds the operation database of the security level, the state of
  remote provisioning and the timestamp file of the id rotation.  The operation database works on
  \<open>op_world\<close>; \<open>on_ops\<close> runs its code with the enforcements, the database and the KeyMint state
  of the world.

  Parameters.  \<open>level_env\<close> has the KeyMint device of the level, the attestation application id
  service, the permission controller and liblog; \<open>op_env\<close> the clock readings of one request
  and what other threads do to the operations while it prunes.
\<close>

section \<open>State and environment\<close>

datatype timestamp_file = TF_NotFound | TF_OtherError | TF_NoModified | TF_Modified int

record 'k level_world = "'k audit_world" +
  kw_ops :: "'k op_world"
  kw_rem_prov :: rem_prov_state
  kw_timestamp :: timestamp_file

record ('e, 'p, 'k) level_env =
  lv_sv :: "('e, 'p, 'k) service_env"
  lv_security_level :: i32
  lv_keymint :: "'k keymint"
  lv_km_op :: "'k km_operation"
  lv_component :: "i32 \<Rightarrow> bool"
  lv_get_aaid :: "nat \<Rightarrow> int + bytes"
  lv_check_permission :: "caller \<Rightarrow> bool binder_result res"
  lv_device_unique_attestation :: tag
  lv_log_context :: bool

record 'k op_env =
  oe_clock :: clock_env
  oe_now :: int
  oe_prune_now :: "nat \<Rightarrow> nat \<Rightarrow> int"
  oe_others :: "nat \<Rightarrow> nat \<Rightarrow> 'k op_world \<Rightarrow> 'k op_world"

abbreviation lv_ks :: "('e, 'p, 'k) level_env \<Rightarrow> ('e, 'p, 'k) ks_env" where
  "lv_ks V \<equiv> sv_env (lv_sv V)"

definition to_ops :: "('k, 'z) level_world_scheme \<Rightarrow> 'k op_world" where
  "to_ops w = (kw_ops w)\<lparr>ow_km := kw_km w, ow_enf := kw_enf w, ow_db := kw_db w\<rparr>"

definition from_ops :: "'k op_world \<Rightarrow> ('k, 'z) level_world_scheme \<Rightarrow> ('k, 'z) level_world_scheme" where
  "from_ops x w = w\<lparr>kw_ops := x, kw_km := ow_km x, kw_enf := ow_enf x, kw_db := ow_db x\<rparr>"

definition on_rp :: "(rp_st, 'a) st \<Rightarrow> (('k, 'z) level_world_scheme, 'a) st" where
  "on_rp m w = (let (r, (self, db)) = m (kw_rem_prov w, kw_db w) in (r, w\<lparr>kw_rem_prov := self, kw_db := db\<rparr>))"

definition level_perm ::
    "('e, 'p, 'k) level_env \<Rightarrow> caller \<Rightarrow> (key_permission \<Rightarrow> i32) \<Rightarrow> key_descriptor \<Rightarrow> ('w, unit) st" where
  "level_perm V c perm key = st_lift (require_key_perm (lv_sv V) c perm key None)"

section \<open>Id rotation\<close>

text \<open>Times in nanoseconds; \<open>create_ok\<close> tells whether the file can be created.\<close>

definition ID_ROTATION_PERIOD :: int where
  "ID_ROTATION_PERIOD = 30 * 24 * 60 * 60 * 1000000000"

definition had_factory_reset_since_id_rotation :: "int \<Rightarrow> bool \<Rightarrow> (timestamp_file, bool) st" where
  "had_factory_reset_since_id_rotation now create_ok f =
     (case f of
        TF_Modified t \<Rightarrow>
          (if now < t then Inl (OtherErr ''SystemTimeError'') else Inr (now - t < ID_ROTATION_PERIOD), f)
      | TF_NoModified \<Rightarrow> (Inl IoError, f)
      | TF_NotFound \<Rightarrow> if create_ok then (Inr True, TF_Modified now) else (Inl IoError, f)
      | TF_OtherError \<Rightarrow> (Inl IoError, f))"

definition on_timestamp :: "(timestamp_file, 'a) st \<Rightarrow> (('k, 'z) level_world_scheme, 'a) st" where
  "on_timestamp m w = (let (r, f) = m (kw_timestamp w) in (r, w\<lparr>kw_timestamp := f\<rparr>))"

section \<open>Storing a new key\<close>

record key_metadata =
  mt_key :: key_descriptor
  mt_key_security_level :: i32
  mt_authorizations :: "authorization list"
  mt_certificate :: "bytes option"
  mt_certificate_chain :: "bytes option"
  mt_modification_time_ms :: int

text \<open>The first certificate, and the others joined.\<close>

fun split_certificates :: "bytes list \<Rightarrow> certificate_info" where
  "split_certificates [] = \<lparr>ci_cert = None, ci_cert_chain = None\<rparr>"
| "split_certificates [cert] = \<lparr>ci_cert = Some cert, ci_cert_chain = None\<rparr>"
| "split_certificates (cert # certs) = \<lparr>ci_cert = Some cert, ci_cert_chain = Some (concat certs)\<rparr>"

definition blob_descriptor :: "bytes \<Rightarrow> key_descriptor" where
  "blob_descriptor blob = \<lparr>kd_domain = BLOB, kd_nspace = 0, kd_alias = None, kd_blob = Some blob\<rparr>"

definition KeystoreSecurityLevel_store_new_key ::
    "('e, 'p, 'k) level_env \<Rightarrow> key_descriptor \<Rightarrow> key_creation_result \<Rightarrow> nat \<Rightarrow> i32 option
     \<Rightarrow> (('k, 'z) level_world_scheme, key_metadata) st" where
  "KeystoreSecurityLevel_store_new_key V key creation_result user_id flags =
     (let E = lv_ks V;
          key_blob = kcr_key_blob creation_result;
          cert_info = split_certificates (kcr_certificate_chain creation_result);
          key_parameters = key_characteristics_to_internal (kcr_characteristics creation_result) @
            [KeyParameter_new (KpUserID (word_of_nat user_id)) (KC_SOFTWARE (nv_consts E))];
          km_uuid = kmi_uuid (lv_keymint V) in
      st_bind (draw 1) (\<lambda>t.
      st_bind (st_lift (nv_now E t)) (\<lambda>creation_date.
      st_bind
        (if kd_domain key = BLOB then st_ok (blob_descriptor key_blob)
         else
           st_bind (handle_super_encryption_on_key_init E (sv_aidl (lv_sv V)) (kd_domain key) key_parameters flags user_id
                      key_blob) (\<lambda>(key_blob, blob_metadata).
           st_bind (draw 1) (\<lambda>r.
           st_bind (on_db (store_new_key (nv_ids E r) key Client key_parameters
                      (key_blob, BlobMetaData_add (KmUuid km_uuid) blob_metadata) cert_info
                      (KeyMetaData_add (CreationDate creation_date) KeyMetaData_new) km_uuid)) (\<lambda>key_id.
           st_bind (drop_guard key_id) (\<lambda>_.
             st_ok (key_id_descriptor key_id)))))) (\<lambda>key.
        st_ok \<lparr>mt_key = key, mt_key_security_level = lv_security_level V,
               mt_authorizations = key_parameters_to_authorizations key_parameters,
               mt_certificate = ci_cert cert_info, mt_certificate_chain = ci_cert_chain cert_info,
               mt_modification_time_ms = creation_date\<rparr>))))"

section \<open>Upgrading key blobs\<close>

definition store_upgraded_keyblob ::
    "('e, 'p, 'k) level_env \<Rightarrow> int \<Rightarrow> uuid option \<Rightarrow> key_blob \<Rightarrow> bytes \<Rightarrow> (('k, 'z) level_world_scheme, unit) st" where
  "store_upgraded_keyblob V key_id_guard km_uuid key_blob upgraded_blob =
     st_bind (draw 1) (\<lambda>r.
     st_bind (st_lift (reencrypt_if_required (nv_ssl (lv_ks V)) r key_blob upgraded_blob)) (\<lambda>(to_be_stored, metadata).
       let new_blob_metadata = (case metadata of Some m \<Rightarrow> m | None \<Rightarrow> BlobMetaData_new);
           new_blob_metadata = (case km_uuid of
               Some uuid \<Rightarrow> BlobMetaData_add (KmUuid uuid) new_blob_metadata | None \<Rightarrow> new_blob_metadata)
       in on_db (set_blob key_id_guard KEY_BLOB (Some (KeyBlob_deref to_be_stored)) (Some new_blob_metadata))))"

definition for_guard :: "int option \<Rightarrow> (int \<Rightarrow> ('w, unit) st) \<Rightarrow> ('w, unit) st" where
  "for_guard key_id_guard f = (case key_id_guard of Some kid \<Rightarrow> f kid | None \<Rightarrow> st_ok ())"

definition with_guard_opt :: "int option \<Rightarrow> (('k, 'z) level_world_scheme, 'a) st \<Rightarrow> (('k, 'z) level_world_scheme, 'a) st" where
  "with_guard_opt key_id_guard m = (case key_id_guard of Some kid \<Rightarrow> with_guard kid m | None \<Rightarrow> m)"

definition level_upgrade_keyblob_if_required_with ::
    "('e, 'p, 'k) level_env \<Rightarrow> int option \<Rightarrow> key_blob \<Rightarrow> blob_meta_data \<Rightarrow> km_key_parameter list
     \<Rightarrow> (bytes \<Rightarrow> (('k, 'z) level_world_scheme, 'a) st) \<Rightarrow> (('k, 'z) level_world_scheme, 'a \<times> bytes option) st" where
  "level_upgrade_keyblob_if_required_with V key_id_guard key_blob blob_metadata params f =
     st_bind (st_try (f (KeyBlob_deref key_blob))) (\<lambda>result.
       if result = Inl (Ks (Km EC_KEY_REQUIRES_UPGRADE)) then
         st_bind (km_device_call (lv_ks V) (kmi_upgradeKey (lv_keymint V) (KeyBlob_deref key_blob) params)) (\<lambda>upgraded_blob.
         st_bind (for_guard key_id_guard (\<lambda>kid.
                    store_upgraded_keyblob V kid (BlobMetaData_km_uuid blob_metadata) key_blob upgraded_blob)) (\<lambda>_.
         st_bind (f upgraded_blob) (\<lambda>v. st_ok (v, Some upgraded_blob))))
       else
         st_bind (for_guard key_id_guard (\<lambda>kid.
                    if KeyBlob_force_reencrypt key_blob
                    then store_upgraded_keyblob V kid (BlobMetaData_km_uuid blob_metadata) key_blob (KeyBlob_deref key_blob)
                    else st_ok ())) (\<lambda>_.
         st_bind (st_lift result) (\<lambda>v. st_ok (v, None))))"

section \<open>Creating an operation\<close>

record create_operation_response =
  cor_i_operation :: nat
  cor_operation_challenge :: "i64 option"
  cor_parameters :: "km_key_parameter list option"
  cor_upgraded_blob :: "bytes option"

definition purpose_of :: "km_key_parameter list \<Rightarrow> i32 res" where
  "purpose_of operation_parameters =
     (case List.find (\<lambda>p. km_tag p = T_PURPOSE) operation_parameters of
        None \<Rightarrow> Inl (Ks (Km EC_INVALID_ARGUMENT))
      | Some kp \<Rightarrow>
          (case km_val kp of
             KmKeyPurpose p \<Rightarrow> Inr p
           | _ \<Rightarrow> Inl (Ks (Km EC_INVALID_ARGUMENT))))"

text \<open>
  The key to be used: its blob, the key id and the parameters, the guard, and the metadata of the
  blob.  Permission to use the key is checked here, and permission for a forced operation.
\<close>

type_synonym loaded_key = "bytes \<times> (int \<times> key_parameter list) option \<times> int option \<times> blob_meta_data"

definition load_key_for_operation ::
    "('e, 'p, 'k) level_env \<Rightarrow> caller \<Rightarrow> key_descriptor \<Rightarrow> bool \<Rightarrow> (('k, 'z) level_world_scheme, loaded_key) st" where
  "load_key_for_operation V c key forced =
     (if kd_domain key = BLOB then
        st_bind (level_perm V c KP_USE key) (\<lambda>_.
        st_bind (if forced then level_perm V c KP_REQ_FORCED_OP key else st_ok ()) (\<lambda>_.
          case kd_blob key of
            Some blob \<Rightarrow> st_ok (blob, None, None, BlobMetaData_new)
          | None \<Rightarrow> st_err sys))
      else
        st_bind (with_try_migrate (lv_ks V) key (calling_uid c)
                   (on_db (load_key_entry (nv_wait (lv_ks V)) key Client LB_KM (calling_uid c)
                      (\<lambda>k av. and_then (require_key_perm (lv_sv V) c KP_USE k av) (\<lambda>_.
                              if forced then require_key_perm (lv_sv V) c KP_REQ_FORCED_OP k av else Inr ()))))) (\<lambda>(g, key_entry).
          case e_key_blob_info key_entry of
            Some (blob, blob_metadata) \<Rightarrow> st_ok (blob, Some (g, e_parameters key_entry), Some g, blob_metadata)
          | None \<Rightarrow> st_bind (drop_guard g) (\<lambda>_. st_err sys)))"

definition level_prune ::
    "('e, 'p, 'k) level_env \<Rightarrow> 'k op_env \<Rightarrow> nat \<Rightarrow> bool \<Rightarrow> nat \<Rightarrow> ('k, 'z) level_world_scheme
     \<Rightarrow> (unit res \<times> ('k, 'z) level_world_scheme) option" where
  "level_prune V Q caller_uid forced n w =
     map_option (\<lambda>(r, x). (case r of Inl e \<Rightarrow> Inl (Ks e) | Inr v \<Rightarrow> Inr v, from_ops x w))
       (OperationDb_prune (nv_codes (lv_ks V)) (lv_km_op V) (oe_prune_now Q n) (oe_others Q n) caller_uid forced 0 (to_ops w))"

definition report_integrity_violation ::
    "('e, 'p, 'k) level_env \<Rightarrow> (int \<times> key_parameter list) option \<Rightarrow> (('k, 'z) level_world_scheme, unit) st" where
  "report_integrity_violation V key_properties w =
     (case key_properties of
        None \<Rightarrow> (Inr (), w)
      | Some (key_id, _) \<Rightarrow>
          (case load_key_descriptor key_id (kw_db w) of
             Inr (Some key) \<Rightarrow> log_key_integrity_violation (lv_log_context V) key w
           | _ \<Rightarrow> (Inr (), w)))"

text \<open>
  The closure that calls \<open>begin\<close>: while the device has too many operations, one is pruned and
  the call is repeated.  \<open>n\<close> counts the rounds.  The value \<open>None\<close> is a loop that does not end.
\<close>

partial_function (option) begin_loop ::
    "('e, 'p, 'k) level_env \<Rightarrow> 'k op_env \<Rightarrow> nat \<Rightarrow> bool \<Rightarrow> (int \<times> key_parameter list) option
     \<Rightarrow> (bytes \<Rightarrow> 'k \<Rightarrow> begin_result binder_result \<times> 'k) \<Rightarrow> bytes \<Rightarrow> nat \<Rightarrow> 'k level_world
     \<Rightarrow> (begin_result res \<times> 'k level_world) option" where
  "begin_loop V Q caller_uid forced key_properties begin_call blob n w =
     (case km_device_call (lv_ks V) (begin_call blob) w of
        (r, w1) \<Rightarrow>
          if r = Inl (Ks (Km EC_TOO_MANY_OPERATIONS)) then
            (case level_prune V Q caller_uid forced n w1 of
               None \<Rightarrow> None
             | Some (Inl e, w2) \<Rightarrow> Some (Inl e, w2)
             | Some (Inr _, w2) \<Rightarrow> begin_loop V Q caller_uid forced key_properties begin_call blob (Suc n) w2)
          else if r = Inl (Ks (Km EC_INVALID_KEY_BLOB)) then
            Some (r, snd (report_integrity_violation V key_properties w1))
          else Some (r, w1))"

declare begin_loop.simps [code]

definition begin_operation ::
    "('e, 'p, 'k) level_env \<Rightarrow> 'k op_env \<Rightarrow> nat \<Rightarrow> bool \<Rightarrow> (int \<times> key_parameter list) option
     \<Rightarrow> (bytes \<Rightarrow> 'k \<Rightarrow> begin_result binder_result \<times> 'k) \<Rightarrow> bytes \<Rightarrow> ('k level_world, begin_result) st" where
  "begin_operation V Q caller_uid forced key_properties begin_call blob w =
     (case begin_loop V Q caller_uid forced key_properties begin_call blob 0 w of
        None \<Rightarrow> (Inl Blocked, w)
      | Some x \<Rightarrow> x)"

definition register_operation ::
    "('e, 'p, 'k) level_env \<Rightarrow> 'k op_env \<Rightarrow> nat \<Rightarrow> auth_info \<Rightarrow> bool \<Rightarrow> logging_info \<Rightarrow> nat option
     \<Rightarrow> (('k, 'z) level_world_scheme, nat) st" where
  "register_operation V Q caller_uid auth_info forced logging_info operation =
     (case operation of
        None \<Rightarrow> st_bind (modify_enf (AuthInfo_drop auth_info)) (\<lambda>_. st_err sys)
      | Some km_op \<Rightarrow> (\<lambda>w.
          let (oid, x) = OperationDb_create_operation (oe_now Q) km_op caller_uid auth_info forced logging_info (to_ops w)
          in (Inr oid, from_ops (KeystoreOperation_new_native_binder oid oid x) w)))"

definition authorize_level ::
    "('e, 'p, 'k) level_env \<Rightarrow> 'k op_env \<Rightarrow> i32 \<Rightarrow> (int \<times> key_parameter list) option \<Rightarrow> km_key_parameter list
     \<Rightarrow> (('k, 'z) level_world_scheme, hardware_auth_token option \<times> auth_info) st" where
  "authorize_level V Q purpose key_properties op_params w =
     (authorize_create (sv_aidl (lv_sv V)) (oe_clock Q) (\<lambda>l. SuperKeyManager_level_accessible l (kw_skm w)) (kw_perboot w)
        (kw_enf w) purpose key_properties op_params (kmi_timestamp_token_required (lv_keymint V)), w)"

definition finalize_level :: "i64 \<Rightarrow> auth_info \<Rightarrow> (('k, 'z) level_world_scheme, i64 option \<times> auth_info) st" where
  "finalize_level challenge auth_info w =
     (let (operation_challenge, auth_info, enf) = finalize_create_authorization challenge auth_info (kw_enf w)
      in (Inr (operation_challenge, auth_info), w\<lparr>kw_enf := enf\<rparr>))"

definition create_operation ::
    "('e, 'p, 'k) level_env \<Rightarrow> 'k op_env \<Rightarrow> caller \<Rightarrow> key_descriptor \<Rightarrow> km_key_parameter list \<Rightarrow> bool
     \<Rightarrow> ('k level_world, create_operation_response) st" where
  "create_operation V Q c key operation_parameters forced =
     st_bind (load_key_for_operation V c key forced) (\<lambda>(km_blob, key_properties, key_id_guard, blob_metadata).
     let op_params = filter (\<lambda>p. km_tag p \<noteq> T_PURPOSE) operation_parameters in
     st_bind (with_guard_opt key_id_guard
       (st_bind (st_lift (purpose_of operation_parameters)) (\<lambda>purpose.
        st_bind (authorize_level V Q purpose key_properties op_params) (\<lambda>(immediate_hat, auth_info).
        st_bind (unwrap_key_if_required (lv_ks V) blob_metadata km_blob) (\<lambda>km_blob.
        st_bind (level_upgrade_keyblob_if_required_with V key_id_guard km_blob blob_metadata op_params
                   (begin_operation V Q (calling_uid c) forced key_properties
                      (\<lambda>blob. kmi_begin (lv_keymint V) purpose blob op_params immediate_hat))) (\<lambda>(begin_result, upgraded_blob).
          st_ok (purpose, auth_info, begin_result, upgraded_blob))))))) (\<lambda>(purpose, auth_info, begin_result, upgraded_blob).
     st_bind (finalize_level (br_challenge begin_result) auth_info) (\<lambda>(operation_challenge, auth_info).
     st_bind (register_operation V Q (calling_uid c) auth_info forced
                \<lparr>li_sec_level = lv_security_level V, li_purpose = purpose, li_op_params = op_params,
                 li_key_upgraded = (upgraded_blob \<noteq> None)\<rparr> (br_operation begin_result)) (\<lambda>operation.
       st_ok \<lparr>cor_i_operation = operation, cor_operation_challenge = operation_challenge,
              cor_parameters = (if br_params begin_result = [] then None else Some (br_params begin_result)),
              cor_upgraded_blob = (if kd_domain key = BLOB then upgraded_blob else None)\<rparr>))))"

section \<open>Generating and importing keys\<close>

definition is_device_id_attestation_tag :: "('e, 'p, 'k) level_env \<Rightarrow> tag \<Rightarrow> bool" where
  "is_device_id_attestation_tag V t \<longleftrightarrow>
     t = T_ATTESTATION_ID_IMEI \<or> t = T_ATTESTATION_ID_MEID \<or> t = T_ATTESTATION_ID_SERIAL \<or>
     t = lv_device_unique_attestation V"

text \<open>The permission controller is looked up and asked.\<close>

definition check_device_attestation_permissions :: "('e, 'p, 'k) level_env \<Rightarrow> caller \<Rightarrow> unit res" where
  "check_device_attestation_permissions V c =
     and_then (lv_check_permission V c) (\<lambda>binder_result.
       case map_binder_status binder_result of
         Inl e \<Rightarrow> Inl (Ks e)
       | Inr has_permissions \<Rightarrow> if has_permissions then Inr () else Inl (Ks (Km EC_CANNOT_ATTEST_IDS)))"

definition UNDEFINED_NOT_AFTER :: i64 where
  "UNDEFINED_NOT_AFTER = 253402300799000"

definition has_tag :: "tag \<Rightarrow> km_key_parameter list \<Rightarrow> bool" where
  "has_tag t params \<longleftrightarrow> list_ex (\<lambda>kp. km_tag kp = t) params"

text \<open>The validity period of the certificate of an asymmetric key.\<close>

definition certificate_validity :: "aidl_consts \<Rightarrow> km_key_parameter list \<Rightarrow> km_key_parameter list" where
  "certificate_validity C params =
     (case List.find (\<lambda>kp. km_tag kp = T_ALGORITHM) params of
        Some kp \<Rightarrow>
          if km_val kp = KmAlgorithm (ALG_RSA C) \<or> km_val kp = KmAlgorithm (ALG_EC C) then
            (if has_tag T_CERTIFICATE_NOT_BEFORE params then []
             else [\<lparr>km_tag = T_CERTIFICATE_NOT_BEFORE, km_val = KmDateTime 0\<rparr>]) @
            (if has_tag T_CERTIFICATE_NOT_AFTER params then []
             else [\<lparr>km_tag = T_CERTIFICATE_NOT_AFTER, km_val = KmDateTime UNDEFINED_NOT_AFTER\<rparr>])
          else []
      | None \<Rightarrow> [])"

definition add_certificate_parameters ::
    "('e, 'p, 'k) level_env \<Rightarrow> int \<times> bool \<Rightarrow> caller \<Rightarrow> km_key_parameter list \<Rightarrow> key_descriptor
     \<Rightarrow> (('k, 'z) level_world_scheme, km_key_parameter list) st" where
  "add_certificate_parameters V ts c params key =
     st_bind (if has_tag T_ATTESTATION_CHALLENGE params then
                (case lv_get_aaid V (calling_uid c) of
                   Inl _ \<Rightarrow> st_err (OtherErr ''get_aaid'')
                 | Inr aaid \<Rightarrow> st_ok [\<lparr>km_tag = T_ATTESTATION_APPLICATION_ID, km_val = KmBlob aaid\<rparr>])
              else st_ok []) (\<lambda>application_id.
     st_bind (if has_tag T_INCLUDE_UNIQUE_ID params then
                st_bind (level_perm V c KP_GEN_UNIQUE_ID key) (\<lambda>_.
                st_bind (on_timestamp (had_factory_reset_since_id_rotation (fst ts) (snd ts))) (\<lambda>reset.
                  st_ok (if reset then [\<lparr>km_tag = T_RESET_SINCE_ID_ROTATION, km_val = KmBoolValue True\<rparr>] else [])))
              else st_ok []) (\<lambda>reset_since.
     st_bind (if list_ex (\<lambda>kp. is_device_id_attestation_tag V (km_tag kp)) params
              then st_lift (check_device_attestation_permissions V c) else st_ok ()) (\<lambda>_.
       st_ok (params @ application_id @ reset_since @ certificate_validity (sv_aidl (lv_sv V)) params))))"

text \<open>The descriptor of a key of the caller: an app can only name its own keys.\<close>

definition own_descriptor :: "caller \<Rightarrow> key_descriptor \<Rightarrow> key_descriptor" where
  "own_descriptor c key =
     (if kd_domain key = APP
      then \<lparr>kd_domain = APP, kd_nspace = int (calling_uid c), kd_alias = kd_alias key, kd_blob = None\<rparr>
      else key)"

definition require_alias :: "key_descriptor \<Rightarrow> ('w, unit) st" where
  "require_alias key =
     (if kd_domain key \<noteq> BLOB \<and> kd_alias key = None then st_err (Ks (Km EC_INVALID_ARGUMENT)) else st_ok ())"

definition android_user :: "('e, 'p, 'k) level_env \<Rightarrow> caller \<Rightarrow> nat" where
  "android_user V c = le_uid_to_android_user (nv_legacy (lv_ks V)) (calling_uid c)"

text \<open>The attestation key decides how KeyMint is called.\<close>

definition generate_with_attestation ::
    "('e, 'p, 'k) level_env \<Rightarrow> attestation_key_info option \<Rightarrow> km_key_parameter list
     \<Rightarrow> (('k, 'z) level_world_scheme, key_creation_result) st" where
  "generate_with_attestation V attestation_key_info params =
     (let generate = (\<lambda>attest_key. km_device_call (lv_ks V) (kmi_generateKey (lv_keymint V) params attest_key)) in
      case attestation_key_info of
        Some (UserGenerated key_id_guard blob blob_metadata issuer_subject) \<Rightarrow>
          with_guard key_id_guard
            (st_bind (level_upgrade_keyblob_if_required_with V (Some key_id_guard) (KB_Ref blob) blob_metadata params
                        (\<lambda>blob. generate (Some \<lparr>ak_key_blob = blob, ak_attest_key_params = [],
                                            ak_issuer_subject_name = issuer_subject\<rparr>))) (\<lambda>(result, _).
               st_ok result))
      | Some (RemoteProvisioned attestation_key attestation_certs) \<Rightarrow>
          st_bind (generate (Some attestation_key)) (\<lambda>creation_result.
            st_ok (creation_result\<lparr>kcr_certificate_chain := kcr_certificate_chain creation_result @ [attestation_certs]\<rparr>))
      | None \<Rightarrow> generate None)"

definition drop_attestation_key :: "attestation_key_info option \<Rightarrow> (('k, 'z) level_world_scheme, unit) st" where
  "drop_attestation_key info =
     (case info of Some (UserGenerated g _ _ _) \<Rightarrow> drop_guard g | _ \<Rightarrow> st_ok ())"

definition generate_key ::
    "('e, 'p, 'k) level_env \<Rightarrow> int \<times> bool \<Rightarrow> caller \<Rightarrow> key_descriptor \<Rightarrow> key_descriptor option \<Rightarrow> km_key_parameter list
     \<Rightarrow> i32 \<Rightarrow> (('k, 'z) level_world_scheme, key_metadata) st" where
  "generate_key V ts c key attest_key_descriptor params flags =
     st_bind (require_alias key) (\<lambda>_.
     let key = own_descriptor c key in
     st_bind (level_perm V c KP_REBIND key) (\<lambda>_.
     st_bind (if kd_domain key = BLOB then st_ok None
              else on_rp (get_attest_key_info (lv_sv V) (lv_component V) c key attest_key_descriptor params)) (\<lambda>attestation_key_info.
     st_bind (st_try (add_certificate_parameters V ts c params key)) (\<lambda>r.
     st_bind (case r of
                Inl e \<Rightarrow> st_bind (drop_attestation_key attestation_key_info) (\<lambda>_. st_err e)
              | Inr params \<Rightarrow> st_ok params) (\<lambda>params.
     st_bind (generate_with_attestation V attestation_key_info params) (\<lambda>creation_result.
       KeystoreSecurityLevel_store_new_key V key creation_result (android_user V c) (Some flags)))))))"

definition import_format :: "('e, 'p, 'k) level_env \<Rightarrow> km_key_parameter list \<Rightarrow> i32 res" where
  "import_format V params =
     (let K = nv_consts (lv_ks V); C = sv_aidl (lv_sv V) in
      and_then (ok_or (List.find (\<lambda>p. km_tag p = T_ALGORITHM) params) (Ks (Km EC_INVALID_ARGUMENT))) (\<lambda>p.
        if km_val p \<in> set (map KmAlgorithm [KC_ALGORITHM_AES K, KC_ALGORITHM_HMAC K, KC_ALGORITHM_TRIPLE_DES K])
        then Inr (KC_FORMAT_RAW K)
        else if km_val p \<in> set (map KmAlgorithm [ALG_RSA C, ALG_EC C]) then Inr (KC_FORMAT_PKCS8 K)
        else Inl (Ks (Km EC_INVALID_ARGUMENT))))"

definition import_key ::
    "('e, 'p, 'k) level_env \<Rightarrow> int \<times> bool \<Rightarrow> caller \<Rightarrow> key_descriptor \<Rightarrow> km_key_parameter list \<Rightarrow> i32 \<Rightarrow> bytes
     \<Rightarrow> (('k, 'z) level_world_scheme, key_metadata) st" where
  "import_key V ts c key params flags key_data =
     st_bind (require_alias key) (\<lambda>_.
     let key = own_descriptor c key in
     st_bind (level_perm V c KP_REBIND key) (\<lambda>_.
     st_bind (add_certificate_parameters V ts c params key) (\<lambda>params.
     st_bind (st_lift (import_format V params)) (\<lambda>format.
     st_bind (km_device_call (lv_ks V) (kmi_importKey (lv_keymint V) params format key_data None)) (\<lambda>creation_result.
       KeystoreSecurityLevel_store_new_key V key creation_result (android_user V c) (Some flags))))))"

section \<open>Importing wrapped keys\<close>

record authenticator_spec =
  as_authenticator_type :: i32
  as_authenticator_id :: i64

definition authenticator_sid :: "i32 \<Rightarrow> authenticator_spec list \<Rightarrow> i64" where
  "authenticator_sid t authenticators =
     (case List.find (\<lambda>a. as_authenticator_type a = t) authenticators of
        Some a \<Rightarrow> as_authenticator_id a | None \<Rightarrow> - 1)"

definition ZERO_BLOB_32 :: bytes where
  "ZERO_BLOB_32 = replicate 32 0"

definition wrapped_data :: "key_descriptor \<Rightarrow> bytes res" where
  "wrapped_data key =
     (case (kd_blob key, kd_alias key) of
        (Some blob, Some _) \<Rightarrow>
          if kd_domain key = APP \<or> kd_domain key = SELINUX then Inr blob else Inl (Ks (Km EC_INVALID_ARGUMENT))
      | _ \<Rightarrow> Inl (Ks (Km EC_INVALID_ARGUMENT)))"

text \<open>The legacy migrator is given the descriptor of the new key, not that of the wrapping key.\<close>

definition import_wrapped_key ::
    "('e, 'p, 'k) level_env \<Rightarrow> caller \<Rightarrow> key_descriptor \<Rightarrow> key_descriptor \<Rightarrow> bytes option \<Rightarrow> km_key_parameter list
     \<Rightarrow> authenticator_spec list \<Rightarrow> (('k, 'z) level_world_scheme, key_metadata) st" where
  "import_wrapped_key V c key wrapping_key masking_key params authenticators =
     st_bind (st_lift (wrapped_data key)) (\<lambda>wrapped.
     st_bind (if kd_domain wrapping_key = BLOB then st_err (Ks (Km EC_INVALID_ARGUMENT)) else st_ok ()) (\<lambda>_.
     let K = nv_consts (lv_ks V); key = (own_descriptor c key)\<lparr>kd_blob := None\<rparr> in
     st_bind (level_perm V c KP_REBIND key) (\<lambda>_.
     st_bind (with_try_migrate (lv_ks V) key (calling_uid c)
                (on_db (load_key_entry (nv_wait (lv_ks V)) wrapping_key Client LB_KM (calling_uid c)
                   (\<lambda>k av. require_key_perm (lv_sv V) c KP_USE k av)))) (\<lambda>(g, wrapping_key_entry).
     st_bind (with_guard g
       (st_bind (st_lift (ok_or (e_key_blob_info wrapping_key_entry) sys)) (\<lambda>(wrapping_key_blob, blob_metadata).
        st_bind (unwrap_key_if_required (lv_ks V) blob_metadata wrapping_key_blob) (\<lambda>wrapping_key_blob.
          level_upgrade_keyblob_if_required_with V (Some g) wrapping_key_blob blob_metadata []
            (\<lambda>wrapping_blob. km_device_call (lv_ks V)
               (kmi_importWrappedKey (lv_keymint V) wrapped wrapping_blob
                  (case masking_key of Some m \<Rightarrow> m | None \<Rightarrow> ZERO_BLOB_32) params
                  (authenticator_sid (KC_PASSWORD K) authenticators)
                  (authenticator_sid (KC_FINGERPRINT K) authenticators)))))) ) (\<lambda>(creation_result, _).
       KeystoreSecurityLevel_store_new_key V key creation_result (android_user V c) None)))))"

section \<open>Keys that the client keeps\<close>

definition blob_of_key :: "key_descriptor \<Rightarrow> bytes res" where
  "blob_of_key key =
     (if kd_domain key \<noteq> BLOB then Inl (Ks (Km EC_INVALID_ARGUMENT))
      else ok_or (kd_blob key) (Ks (Km EC_INVALID_ARGUMENT)))"

definition convert_storage_key_to_ephemeral ::
    "('e, 'p, 'k) level_env \<Rightarrow> caller \<Rightarrow> key_descriptor \<Rightarrow> (('k, 'z) level_world_scheme, bytes \<times> bytes option) st" where
  "convert_storage_key_to_ephemeral V c storage_key =
     (let convert = (\<lambda>blob. km_device_call (lv_ks V) (kmi_convertStorageKeyToEphemeral (lv_keymint V) blob)) in
      st_bind (st_lift (blob_of_key storage_key)) (\<lambda>key_blob.
      st_bind (level_perm V c KP_CONVERT_STORAGE_KEY_TO_EPHEMERAL storage_key) (\<lambda>_.
      st_bind (st_try (convert key_blob)) (\<lambda>result.
        case result of
          Inr ephemeral_key \<Rightarrow> st_ok (ephemeral_key, None)
        | Inl e \<Rightarrow>
            if e = Ks (Km EC_KEY_REQUIRES_UPGRADE) then
              st_bind (km_device_call (lv_ks V) (kmi_upgradeKey (lv_keymint V) key_blob [])) (\<lambda>upgraded_blob.
              st_bind (convert upgraded_blob) (\<lambda>ephemeral_key.
                st_ok (ephemeral_key, Some upgraded_blob)))
            else st_err e))))"

definition KeystoreSecurityLevel_delete_key ::
    "('e, 'p, 'k) level_env \<Rightarrow> caller \<Rightarrow> key_descriptor \<Rightarrow> (('k, 'z) level_world_scheme, unit) st" where
  "KeystoreSecurityLevel_delete_key V c key =
     st_bind (st_lift (blob_of_key key)) (\<lambda>key_blob.
     st_bind (level_perm V c KP_DELETE key) (\<lambda>_.
       km_device_call (lv_ks V) (kmi_deleteKey (lv_keymint V) key_blob)))"

section \<open>The binder interface\<close>

text \<open>The requests that create or delete keys leave an event in the audit log.\<close>

definition generateKey ::
    "('e, 'p, 'k) level_env \<Rightarrow> int \<times> bool \<Rightarrow> caller \<Rightarrow> key_descriptor \<Rightarrow> key_descriptor option \<Rightarrow> km_key_parameter list
     \<Rightarrow> i32 \<Rightarrow> (('k, 'z) level_world_scheme, key_metadata) st" where
  "generateKey V ts c key attestation_key params flags =
     logged (log_key_generated (lv_log_context V)) key c (generate_key V ts c key attestation_key params flags)"

definition importKey ::
    "('e, 'p, 'k) level_env \<Rightarrow> int \<times> bool \<Rightarrow> caller \<Rightarrow> key_descriptor \<Rightarrow> km_key_parameter list \<Rightarrow> i32 \<Rightarrow> bytes
     \<Rightarrow> (('k, 'z) level_world_scheme, key_metadata) st" where
  "importKey V ts c key params flags key_data =
     logged (log_key_imported (lv_log_context V)) key c (import_key V ts c key params flags key_data)"

definition importWrappedKey ::
    "('e, 'p, 'k) level_env \<Rightarrow> caller \<Rightarrow> key_descriptor \<Rightarrow> key_descriptor \<Rightarrow> bytes option \<Rightarrow> km_key_parameter list
     \<Rightarrow> authenticator_spec list \<Rightarrow> (('k, 'z) level_world_scheme, key_metadata) st" where
  "importWrappedKey V c key wrapping_key masking_key params authenticators =
     logged (log_key_imported (lv_log_context V)) key c
       (import_wrapped_key V c key wrapping_key masking_key params authenticators)"

definition level_deleteKey ::
    "('e, 'p, 'k) level_env \<Rightarrow> caller \<Rightarrow> key_descriptor \<Rightarrow> (('k, 'z) level_world_scheme, unit) st" where
  "level_deleteKey V c key =
     logged (log_key_deleted (lv_log_context V)) key c (KeystoreSecurityLevel_delete_key V c key)"

end
