(* ===== verification/Ks_LevelProperties.thy ===== *)
theory Ks_LevelProperties
  imports Ks_SecurityLevel Ks_DbRoundtrip Ks_DbProperties
begin

text \<open>
  What a security level guarantees: a locked device refuses keys that need an unlocked one before
  KeyMint is asked, the loop around \<open>begin\<close> ends, and an upgraded key blob is saved.
\<close>

section \<open>Frames\<close>

text \<open>What keeps the enforcements.\<close>

named_theorems enf_frames \<open>what keeps a property of the enforcements\<close>

definition enf_of :: "'z service_world_ext ks_world_ext \<Rightarrow> enforcements" where
  "enf_of m = kw_enf (mig_world.extend (undefined :: unit mig_world) m)"

lemma kw_enf_more: "kw_enf w = enf_of (mig_world.more w)"
  by (cases w) (simp add: enf_of_def mig_world.defs)

lemmas enf_below [enf_frames] = upper_frames [where P = "\<lambda>m. P (enf_of m)" for P, folded kw_enf_more]

abbreviation on_enf :: "(enforcements \<Rightarrow> bool) \<Rightarrow> ('k, 'z) service_world_scheme \<Rightarrow> bool" where
  "on_enf P w \<equiv> P (kw_enf w)"

lemma skm_enf [enf_frames]:
  "preserves (on_enf P) (get_skm f)"
  "preserves (on_enf P) (modify_skm g)"
  by (simp_all add: preserves_def get_skm_def modify_skm_def)

lemma lock_enf [enf_frames]:
  "preserves (on_enf P) (set_up_biometric_unlock E u sids aes ecdh)"
  "preserves (on_enf P) (lock_screen_lock_bound_key E u sids)"
  unfolding set_up_biometric_unlock_def lock_screen_lock_bound_key_def Let_def
  by (intro enf_frames st_preserves)+

lemma load_key_enf [enf_frames]: "preserves (on_enf P) (load_key_for_operation V c key forced)"
  unfolding load_key_for_operation_def level_perm_def by (intro enf_frames st_preserves)

section \<open>The locked device\<close>

lemma locked_device_unauthorized:
  assumes "is_device_locked E u" and "has_param KpUnlockedDeviceRequired ps" and "last_value sel_user_id ps = Some u"
  obtains e where "authorize_create C env lvl pb E purpose (Some (id', ps)) op_params ts = Inl e"
    and "\<And>hat ai. authorize_create C env lvl pb (set_device_locked u False E) purpose (Some (id', ps)) op_params ts =
            Inr (hat, ai) \<Longrightarrow> e = Ks (Km EC_DEVICE_LOCKED)"
proof (cases "authorize_create C env lvl pb E purpose (Some (id', ps)) op_params ts")
  case (Inr r)
  obtain hat ai where "r = (hat, ai)" by (cases r)
  from authorize_create_stages(3) [OF Inr [unfolded this]] have False
    using assms by (auto simp: check_key_auth_def split: if_splits)
  then show thesis ..
next
  case (Inl e)
  show thesis
  proof (rule that [OF Inl])
    fix hat ai
    assume ok: "authorize_create C env lvl pb (set_device_locked u False E) purpose (Some (id', ps)) op_params ts = Inr (hat, ai)"
    note S = authorize_create_stages [OF ok]
    have scan: "scan_key_params C env purpose id' ps key_auth_init = Inr (key_auth_of purpose id' ps)"
      using S(2) by (simp add: scan_key_params_eq no_time_errors [symmetric])
    have "check_key_auth C lvl E purpose op_params (key_auth_of purpose id' ps) = Inl (Ks (Km EC_DEVICE_LOCKED))"
      using S(3) assms by (auto simp: check_key_auth_def split: if_splits)
    with Inl S(1) scan show "e = Ks (Km EC_DEVICE_LOCKED)" by (simp add: authorize_create_def)
  qed
qed

text \<open>C7. A locked device refuses keys that need an unlocked one.  After the lock event of a user has been
  handled, a request to create an operation with a key of this user that requires an unlocked device
  fails: KeyMint is not called, no operation is created, and nothing changes but that the key id lock
  is free again.  If nothing else stands in the way, the error is \<open>DEVICE_LOCKED\<close>.\<close>

theorem locked_device_refuses_operations:
  fixes w :: "'k level_world"
  assumes lock: "on_lock_screen_event (lv_sv V) c LSE_LOCK user None sids w = (Inr (), w1)"
    and load: "load_key_for_operation V c' key forced w1 = (Inr (blob, Some (id', ps), Some g, md), w2)"
    and ps: "has_param KpUnlockedDeviceRequired ps" "last_value sel_user_id ps = Some user"
  shows "\<exists>e. create_operation V Q c' key ops forced w1 = (Inl e, w2\<lparr>kw_db := KeyIdGuard_drop g (kw_db w2)\<rparr>) \<and>
    (\<forall>purpose hat ai. purpose_of ops = Inr purpose \<and>
       authorize_create (sv_aidl (lv_sv V)) (oe_clock Q) (\<lambda>l. SuperKeyManager_level_accessible l (kw_skm w2)) (kw_perboot w2)
         (set_device_locked user False (kw_enf w2)) purpose (Some (id', ps)) (filter (\<lambda>p. km_tag p \<noteq> T_PURPOSE) ops)
         (kmi_timestamp_token_required (lv_keymint V)) = Inr (hat, ai) \<longrightarrow> e = Ks (Km EC_DEVICE_LOCKED))"
proof -
  have "is_device_locked (kw_enf w1) user"
  proof -
    obtain w0 where w0: "lock_screen_lock_bound_key (sv_env (lv_sv V)) (unat user) (case sids of Some s \<Rightarrow> s | None \<Rightarrow> []) w0 = (Inr (), w1)"
      and "kw_enf w0 = set_device_locked user True (kw_enf w)"
      using lock by (auto simp: on_lock_screen_event_def st_bind_Inr_iff modify_enf_def require_perm_def)
    then show ?thesis
      using preservesD [OF lock_enf(2) [of "\<lambda>x. x = kw_enf w0"] refl w0]
      by (simp add: is_device_locked_def set_device_locked_def)
  qed
  with preservesD [OF load_key_enf [of "\<lambda>x. x = kw_enf w1"] refl load] have locked: "is_device_locked (kw_enf w2) user" by simp
  show ?thesis
  proof (cases "purpose_of ops")
    case (Inl e)
    then show ?thesis
      by (simp add: create_operation_def st_bind_def load with_guard_opt_def with_guard_def Let_def)
  next
    case (Inr purpose)
    from locked_device_unauthorized [OF locked ps] obtain e
      where e: "fst (authorize_level V Q purpose (Some (id', ps)) (filter (\<lambda>p. km_tag p \<noteq> T_PURPOSE) ops) w2) = Inl e"
        and "\<And>hat ai. authorize_create (sv_aidl (lv_sv V)) (oe_clock Q) (\<lambda>l. SuperKeyManager_level_accessible l (kw_skm w2)) (kw_perboot w2)
         (set_device_locked user False (kw_enf w2)) purpose (Some (id', ps)) (filter (\<lambda>p. km_tag p \<noteq> T_PURPOSE) ops)
         (kmi_timestamp_token_required (lv_keymint V)) = Inr (hat, ai) \<Longrightarrow> e = Ks (Km EC_DEVICE_LOCKED)"
      unfolding authorize_level_def fst_conv by metis
    moreover have "authorize_level V Q purpose (Some (id', ps)) (filter (\<lambda>p. km_tag p \<noteq> T_PURPOSE) ops) w2 = (Inl e, w2)"
      using e by (simp add: authorize_level_def)
    ultimately show ?thesis
      using Inr by (auto simp: create_operation_def st_bind_def load with_guard_opt_def with_guard_def Let_def)
  qed
qed

section \<open>The loop around begin\<close>

lemma candidate_active:
  assumes inv: "op_inv w" and "ow_busy w = {}" and c: "prune_candidate t caller forced w = Some c"
  obtains oid x where "OperationDb_get (cand_index c) w = Some oid" and "ow_ops w oid = Some x"
    and "op_outcome x = Unknown" and "op_last_usage x = cand_last_usage c"
proof -
  from candidate_pruning_info [OF c] obtain p where "p \<in> set (collect_pruning_info w)"
    and i: "cand_index c = pi_index p" "cand_last_usage c = pi_last_usage p" by metis
  then obtain oid x where x: "ow_ops w oid = Some x" and p: "get_pruning_info w oid x = Some p"
    by (metis pruning_info_of)
  with assms(2) i have "op_outcome x = Unknown" "op_last_usage x = cand_last_usage c" "cand_index c = op_index x"
    by (auto simp: get_pruning_info_def split: if_splits)
  moreover from this op_invD(2,3) [OF inv x] x have "OperationDb_get (cand_index c) w = Some oid"
    by (simp add: OperationDb_get_def Weak_upgrade_def)
  ultimately show thesis using x by (intro that)
qed

text \<open>While no request holds an operation and nobody interferes, pruning makes progress or gives up.\<close>

lemma prune_alone:
  assumes "op_inv w" and "ow_busy w = {}"
  shows "\<exists>r w'. OperationDb_prune A K now (\<lambda>_ v. v) caller forced n w = Some (r, w') \<and> op_inv w' \<and> ow_busy w' = {} \<and>
    active_ops w' \<subseteq> active_ops w \<and> (r = Inr () \<and> active_ops w' \<subset> active_ops w \<or> r = Inl (Rc RC_BACKEND_BUSY))"
  using finite_active_ops [OF assms(1)] assms
proof (induction "active_ops w" arbitrary: n w rule: finite_psubset_induct)
  case psubset
  show ?case
  proof (cases "prune_candidate (now n) caller forced w")
    case None
    then show ?thesis using psubset.prems by (simp add: OperationDb_prune.simps)
  next
    case (Some c)
    from candidate_active [OF psubset.prems Some] obtain oid x where x: "OperationDb_get (cand_index c) w = Some oid"
      "ow_ops w oid = Some x" "op_outcome x = Unknown" "op_last_usage x = cand_last_usage c" by blast
    obtain r w' where pr: "Operation_prune A K (cand_last_usage c) oid w = (r, w')" by fastforce
    have busy: "oid \<notin> ow_busy w" using psubset.prems(2) by simp
    from pr x busy psubset.prems(2) have "oid \<notin> active_ops w'" and "ow_busy w' = {}" and "r = Inr () \<or> r = Inl (Rc RC_SYSTEM_ERROR)"
      by (auto simp: Operation_prune_def set_op_def km_call_def active_ops_def active_def Let_def
          split: sum.splits prod.splits if_splits)
    moreover have "oid \<in> active_ops w" using x by (simp add: active_ops_def active_def)
    moreover have "active_ops w' \<subseteq> active_ops w" using Operation_prune_active [of A K "cand_last_usage c" oid w] pr by simp
    ultimately have w': "active_ops w' \<subset> active_ops w" "ow_busy w' = {}" "r = Inr () \<or> r = Inl (Rc RC_SYSTEM_ERROR)"
      by blast+
    have inv: "op_inv w'" using op_inv_evolves [OF psubset.prems(1) Operation_prune_evolves [of w A K "cand_last_usage c" oid]] pr by simp
    from w'(3) show ?thesis
    proof
      assume "r = Inr ()"
      then show ?thesis using Some x(1) pr w' inv by (simp add: OperationDb_prune.simps)
    next
      assume r: "r = Inl (Rc RC_SYSTEM_ERROR)"
      from psubset.hyps(2) [OF w'(1) inv w'(2), of "Suc n"] obtain r2 w2
        where "OperationDb_prune A K now (\<lambda>_ v. v) caller forced (Suc n) w' = Some (r2, w2)" "op_inv w2" "ow_busy w2 = {}" "active_ops w2 \<subseteq> active_ops w'"
          "r2 = Inr () \<and> active_ops w2 \<subset> active_ops w' \<or> r2 = Inl (Rc RC_BACKEND_BUSY)" by blast
      then show ?thesis using Some x(1) pr r w'(1) by (subst OperationDb_prune.simps) auto
    qed
  qed
qed

lemma ops_frame [simp]:
  "op_inv (to_ops w) \<longleftrightarrow> op_inv (kw_ops w)" "ow_busy (to_ops w) = ow_busy (kw_ops w)"
  "active_ops (to_ops w) = active_ops (kw_ops w)" "kw_ops (from_ops x w) = x"
  by (simp_all add: to_ops_def from_ops_def op_inv_frame active_ops_def active_def)

text \<open>C13. The loop around \<open>begin\<close> ends.  While no other thread uses or creates operations, the request returns
  whatever the KeyMint device answers: each round finalizes one more operation, and when nobody is left
  whom the caller may prune, the request fails with \<open>BACKEND_BUSY\<close>.  The answer is never
  \<open>TOO_MANY_OPERATIONS\<close>.\<close>

theorem begin_loop_returns:
  fixes w :: "'k level_world"
  assumes "op_inv (kw_ops w)" and "ow_busy (kw_ops w) = {}" and "\<And>i j v. oe_others Q i j v = v"
  shows "\<exists>r w'. begin_loop V Q caller forced props begin_call blob n w = Some (r, w') \<and>
    r \<noteq> Inl (Ks (Km EC_TOO_MANY_OPERATIONS)) \<and> active_ops (kw_ops w') \<subseteq> active_ops (kw_ops w)"
  using finite_active_ops [OF assms(1)] assms(1,2)
proof (induction "active_ops (kw_ops w)" arbitrary: n w rule: finite_psubset_induct)
  case psubset
  obtain r w1 where km: "km_device_call (lv_ks V) (begin_call blob) w = (r, w1)" by fastforce
  then have ops: "kw_ops w1 = kw_ops w" by (auto simp: km_device_call_def split: prod.splits)
  have report: "kw_ops (snd (report_integrity_violation V props w1)) = kw_ops w1"
    by (simp add: report_integrity_violation_def log_key_integrity_violation_def with_log_context_def
        split: option.split sum.split prod.split)
  show ?case
  proof (cases "r = Inl (Ks (Km EC_TOO_MANY_OPERATIONS))")
    case False
    then show ?thesis by (subst begin_loop.simps) (simp add: km ops report)
  next
    case True
    have env: "oe_others Q n = (\<lambda>_ v. v)" by (intro ext assms(3))
    have "op_inv (to_ops w1)" "ow_busy (to_ops w1) = {}" using psubset.prems by (simp_all add: ops)
    from prune_alone [OF this, of "nv_codes (lv_ks V)" "lv_km_op V" "oe_prune_now Q n" caller forced 0] obtain p x
      where p: "level_prune V Q caller forced n w1 = Some (case p of Inl e \<Rightarrow> Inl (Ks e) | Inr v \<Rightarrow> Inr v, from_ops x w1)"
        and x: "op_inv x" "ow_busy x = {}" and sub: "active_ops x \<subseteq> active_ops (kw_ops w)" and cases:
          "p = Inr () \<and> active_ops x \<subset> active_ops (kw_ops w) \<or> p = Inl (Rc RC_BACKEND_BUSY)"
      by (auto simp: level_prune_def env ops)
    from cases show ?thesis
    proof (elim disjE conjE)
      assume ok: "p = Inr ()" and less: "active_ops x \<subset> active_ops (kw_ops w)"
      from psubset.hyps(2) [of "from_ops x w1" "Suc n"] less x(1,2) obtain r' w'
        where "begin_loop V Q caller forced props begin_call blob (Suc n) (from_ops x w1) = Some (r', w')"
          "r' \<noteq> Inl (Ks (Km EC_TOO_MANY_OPERATIONS))" "active_ops (kw_ops w') \<subseteq> active_ops x" by auto
      then show ?thesis using less by (subst begin_loop.simps) (auto simp: km True p ok)
    next
      assume "p = Inl (Rc RC_BACKEND_BUSY)"
      then show ?thesis using sub by (subst begin_loop.simps) (simp add: km True p)
    qed
  qed
qed

section \<open>Upgrades\<close>

lemma fold_latest_mem: "fold (\<lambda>x m. if be_id m < be_id x then x else m) bs b \<in> insert b (set bs)"
proof (induction bs arbitrary: b)
  case (Cons x bs)
  show ?case using Cons.IH [of "if be_id b < be_id x then x else b"] by (auto split: if_splits)
qed simp

lemma latest_blob_snoc:
  assumes "\<forall>x\<in>set rows. be_id x < be_id b" and "be_subcomponent_type b = sc"
  shows "latest_blob sc (rows @ [b]) = Some b"
proof (cases "filter (\<lambda>b. be_subcomponent_type b = sc) rows")
  case Nil
  then show ?thesis using assms(2) by (simp add: latest_blob_def)
next
  case (Cons c cs)
  have "set (c # cs) \<subseteq> set rows" unfolding Cons [symmetric] by (rule filter_is_subset)
  then have "fold (\<lambda>x m. if be_id m < be_id x then x else m) cs c \<in> set rows" using fold_latest_mem [of cs c] by auto
  then show ?thesis using assms Cons by (simp add: latest_blob_def)
qed

lemma load_blob_components_gc [simp]: "load_blob_components i b (notify_gc db) = load_blob_components i b db"
  by (simp add: load_blob_components_def notify_gc_def BlobMetaData_load_from_db_def Let_def split: option.split)

lemma set_blob_current:
  assumes inv: "db_inv db" and m: "wf_blob_meta m" and old: "load_blob_components i LB_KM db = Inr x"
  obtains db' where "set_blob i KEY_BLOB (Some b) (Some m) db = (Inr (), db')"
    and "load_blob_components i LB_KM db' = Inr (True, Some (b, m), None, None)"
proof -
  let ?n = "next_blob_id (db_blobentry db)"
  let ?row = "\<lparr>be_id = ?n, be_subcomponent_type = KEY_BLOB, be_keyentryid = i, be_blob = b\<rparr>"
  let ?db = "BlobMetaData_store_in_db m ?n (db\<lparr>db_blobentry := db_blobentry db @ [?row]\<rparr>)"
  let ?rows = "filter (\<lambda>b. be_keyentryid b = i) (db_blobentry db)"
  have "\<forall>r\<in>set (db_blobmetadata db). bm_blobentryid r \<noteq> ?n"
    using inv next_blob_id_fresh [of "db_blobentry db"] unfolding db_inv_def blobs_inv_def by (metis image_eqI)
  then have load: "BlobMetaData_load_from_db ?n ?db = Inr m"
    using BlobMetaData_roundtrip [OF m, of "db\<lparr>db_blobentry := db_blobentry db @ [?row]\<rparr>" ?n] by simp
  have "be_id c < ?n" if "c \<in> set (db_blobentry db)" for c
    using that Max_ge [of "be_id ` set (db_blobentry db)" "be_id c"] by (auto simp: next_blob_id_def)
  then have latest: "latest_blob KEY_BLOB (?rows @ [?row]) = Some ?row" by (intro latest_blob_snoc) auto
  have blobs: "filter (\<lambda>b. be_keyentryid b = i) (db_blobentry ?db) = ?rows @ [?row]"
    by (simp add: BlobMetaData_store_in_db_def)
  have none: "\<not> list_ex (\<lambda>b. is_other_subcomponent (be_subcomponent_type b)) (?rows @ [?row])"
    using old by (auto simp: load_blob_components_def is_other_subcomponent_def Let_def split: if_splits)
  have bits: "KeyEntryLoadBits_load_km LB_KM" "\<not> KeyEntryLoadBits_load_public LB_KM" by code_simp+
  show thesis
  proof (rule that)
    show "set_blob i KEY_BLOB (Some b) (Some m) db = (Inr (), notify_gc ?db)"
      by (simp add: set_blob_def with_transaction_def set_blob_internal_some)
    show "load_blob_components i LB_KM (notify_gc ?db) = Inr (True, Some (b, m), None, None)"
      unfolding load_blob_components_gc unfolding load_blob_components_def blobs
      using none by (simp add: Let_def latest load bits)
  qed
qed

text \<open>What the stored blob must be so that the next use of the key sees \<open>up\<close>.\<close>

fun opens_to :: "('e, 'p) boringssl \<Rightarrow> key_blob \<Rightarrow> bytes \<Rightarrow> bytes \<times> blob_meta_data \<Rightarrow> bool" where
  "opens_to L (Sensitive _ super_key _) up (blob, md) \<longleftrightarrow>
     SuperKeyIdentifier_from_metadata md = Some (sk_id super_key) \<and> unwrap_key_with_key L blob md super_key = Inr up"
| "opens_to L _ up (blob, md) \<longleftrightarrow> SuperKeyIdentifier_from_metadata md = None \<and> blob = up"

definition new_blob_metadata :: "uuid option \<Rightarrow> blob_meta_data option \<Rightarrow> blob_meta_data" where
  "new_blob_metadata km_uuid metadata =
     (let m = (case metadata of Some m \<Rightarrow> m | None \<Rightarrow> BlobMetaData_new)
      in case km_uuid of Some uuid \<Rightarrow> BlobMetaData_add (KmUuid uuid) m | None \<Rightarrow> m)"

lemma add_km_uuid [simp]:
  "BlobMetaData_iv (BlobMetaData_add (KmUuid u) m) = BlobMetaData_iv m"
  "BlobMetaData_salt (BlobMetaData_add (KmUuid u) m) = BlobMetaData_salt m"
  "BlobMetaData_aead_tag (BlobMetaData_add (KmUuid u) m) = BlobMetaData_aead_tag m"
  "BlobMetaData_public_key (BlobMetaData_add (KmUuid u) m) = BlobMetaData_public_key m"
  "SuperKeyIdentifier_from_metadata (BlobMetaData_add (KmUuid u) m) = SuperKeyIdentifier_from_metadata m"
  "BlobMetaData_km_uuid (BlobMetaData_add (KmUuid u) m) = Some u"
proof -
  have "BlobMetaData_max_boot_level (BlobMetaData_add (KmUuid u) m) = BlobMetaData_max_boot_level m"
    "BlobMetaData_encrypted_by (BlobMetaData_add (KmUuid u) m) = BlobMetaData_encrypted_by m"
    by (simp_all add: blob_meta_data_simps)
  then show "SuperKeyIdentifier_from_metadata (BlobMetaData_add (KmUuid u) m) = SuperKeyIdentifier_from_metadata m"
    by (simp only: SuperKeyIdentifier_from_metadata_def)
qed (simp_all add: blob_meta_data_simps)

lemma no_metadata [simp]:
  "SuperKeyIdentifier_from_metadata BlobMetaData_new = None"
  "BlobMetaData_km_uuid BlobMetaData_new = None"
  by (simp_all add: SuperKeyIdentifier_from_metadata_def blob_meta_data_simps)

lemma reencrypted_opens:
  assumes laws: "random_law L" "gcm_law L" and enc: "reencrypt_if_required L r kb up = Inr (stored, metadata)"
    and uuid: "\<And>u. km_uuid = Some u \<Longrightarrow> length u = 16"
  shows "opens_to L kb up (KeyBlob_deref stored, new_blob_metadata km_uuid metadata) \<and>
    wf_blob_meta (new_blob_metadata km_uuid metadata) \<and> BlobMetaData_km_uuid (new_blob_metadata km_uuid metadata) = km_uuid"
proof (cases kb)
  case (Sensitive key k force)
  with enc obtain b m where e: "encrypt_with_aes_super_key L r up k = Inr (b, m)"
    and sm: "stored = NonSensitive b" "metadata = Some m"
    by (auto simp: reencrypt_if_required_def res_iffs)
  from e obtain iv tag where m: "m = SuperKeyIdentifier_add_to_metadata (sk_id k)
        (BlobMetaData_add (AeadTag tag) (BlobMetaData_add (Iv iv) BlobMetaData_new))"
    by (auto simp: encrypt_with_aes_super_key_def res_iffs split: if_splits)
  have wf: "wf_blob_meta m" unfolding m by (cases "sk_id k") (simp_all add: wf_blob_meta_entry_def)
  have "BlobMetaData_km_uuid m = None" unfolding m by (cases "sk_id k") (simp_all add: blob_meta_data_simps)
  moreover have "unwrap_key_with_key L b (BlobMetaData_add (KmUuid u) m) k = unwrap_key_with_key L b m k" for u
    by (simp only: unwrap_key_with_key_def add_km_uuid)
  ultimately show ?thesis
    using encrypt_with_aes_super_key_unwraps [OF laws e] wf uuid
    by (cases km_uuid)
      (simp_all add: Sensitive sm new_blob_metadata_def KeyBlob_deref_def wf_blob_meta_entry_def)
qed (use enc uuid in \<open>auto simp: reencrypt_if_required_def new_blob_metadata_def KeyBlob_deref_def wf_blob_meta_entry_def
      split: option.split\<close>)

text \<open>C8. An upgraded key blob is never lost.  If KeyMint asks for an upgrade of the blob of a stored key and upgrades
  it, then before the operation is tried again the upgraded blob is the current blob of the key: encrypted
  with the super key the old one was encrypted with, if any, so that the next use of the key opens it, and
  with the same KeyMint instance.  The result of the request is that of the second try, whether it works
  or not.\<close>

theorem upgraded_blob_is_saved:
  fixes w :: "'k level_world"
  assumes laws: "random_law (nv_ssl (lv_ks V))" "gcm_law (nv_ssl (lv_ks V))"
    and first: "f (KeyBlob_deref kb) w = (Inl (Ks (Km EC_KEY_REQUIRES_UPGRADE)), w1)"
    and up: "kmi_upgradeKey (lv_keymint V) (KeyBlob_deref kb) params (kw_km w1) = (Inr up, k)"
    and enc: "reencrypt_if_required (nv_ssl (lv_ks V)) (kw_rng w1) kb up = Inr p"
    and db: "db_inv (kw_db w1)" "load_blob_components g LB_KM (kw_db w1) = Inr x"
    and uuid: "\<And>u. BlobMetaData_km_uuid md = Some u \<Longrightarrow> length u = 16"
  shows "\<exists>w2 blob md'. load_blob_components g LB_KM (kw_db w2) = Inr (True, Some (blob, md'), None, None) \<and>
    opens_to (nv_ssl (lv_ks V)) kb up (blob, md') \<and> BlobMetaData_km_uuid md' = BlobMetaData_km_uuid md \<and>
    level_upgrade_keyblob_if_required_with V (Some g) kb md params f w =
      (map_res (\<lambda>v. (v, Some up)) (fst (f up w2)), snd (f up w2))"
proof -
  obtain stored metadata where p: "p = (stored, metadata)" by (cases p)
  let ?md = "new_blob_metadata (BlobMetaData_km_uuid md) metadata"
  note R = reencrypted_opens [OF laws enc [unfolded p] uuid]
  from set_blob_current [OF db(1) _ db(2), of ?md "KeyBlob_deref stored"] R obtain db'
    where s: "set_blob g KEY_BLOB (Some (KeyBlob_deref stored)) (Some ?md) (kw_db w1) = (Inr (), db')"
      and l: "load_blob_components g LB_KM db' = Inr (True, Some (KeyBlob_deref stored, ?md), None, None)" by blast
  define w2 where "w2 = w1\<lparr>kw_km := k, kw_rng := kw_rng w1 + 1, kw_db := db'\<rparr>"
  have "store_upgraded_keyblob V g (BlobMetaData_km_uuid md) kb up (w1\<lparr>kw_km := k\<rparr>) = (Inr (), w2)"
    using s enc by (simp add: store_upgraded_keyblob_def st_bind_def p on_db_def w2_def new_blob_metadata_def Let_def)
  moreover have "km_device_call (lv_ks V) (kmi_upgradeKey (lv_keymint V) (KeyBlob_deref kb) params) w1 = (Inr up, w1\<lparr>kw_km := k\<rparr>)"
    using up by (simp add: km_device_call_def)
  ultimately have "level_upgrade_keyblob_if_required_with V (Some g) kb md params f w =
      (map_res (\<lambda>v. (v, Some up)) (fst (f up w2)), snd (f up w2))"
    using first by (simp add: level_upgrade_keyblob_if_required_with_def for_guard_def st_bind_def split: prod.split sum.split)
  moreover have "kw_db w2 = db'" by (simp add: w2_def)
  ultimately show ?thesis using l R by metis
qed

section \<open>Examples\<close>

text \<open>A device that always has too many operations, and that wants the blob \<open>[1, 2]\<close> to be upgraded.\<close>

definition ex_too_many :: "bytes \<Rightarrow> unit \<Rightarrow> begin_result binder_result \<times> unit" where
  "ex_too_many _ k = (Inl (new_service_specific_error (ex_ec_value EC_TOO_MANY_OPERATIONS)), k)"

definition ex_creation :: key_creation_result where
  "ex_creation = \<lparr>kcr_key_blob = [1, 2], kcr_characteristics = [], kcr_certificate_chain = [[3], [4], [5]]\<rparr>"

definition ex_device :: "unit keymint" where
  "ex_device = \<lparr>kmi_uuid = replicate 16 1, kmi_version = 100, kmi_security_level = 1, kmi_timestamp_token_required = False,
     kmi_generateKey = (\<lambda>_ _ k. (Inr ex_creation, k)), kmi_importKey = (\<lambda>_ _ _ _ k. (Inr ex_creation, k)),
     kmi_importWrappedKey = (\<lambda>_ _ _ _ _ _ k. (Inr ex_creation, k)), kmi_upgradeKey = (\<lambda>b _ k. (Inr (b @ [9]), k)),
     kmi_deleteKey = (\<lambda>_ k. (Inr (), k)), kmi_deleteAllKeys = (\<lambda>k. (Inr (), k)), kmi_earlyBootEnded = (\<lambda>k. (Inr (), k)),
     kmi_convertStorageKeyToEphemeral = (\<lambda>b k. (Inr b, k)), kmi_getKeyCharacteristics = (\<lambda>_ k. (Inr [], k)),
     kmi_begin = (\<lambda>_ _ _ _ k. (Inr \<lparr>br_challenge = 5, br_params = [], br_operation = Some 3\<rparr>, k)),
     kmi_finish = (\<lambda>_ b k. (Inr b, k))\<rparr>"

definition ex_km_op :: "unit km_operation" where
  "ex_km_op =
     \<lparr>ko_get_interface = (\<lambda>_. Inr ()), ko_update_aad = (\<lambda>_ _ _ _ k. (Inr (), k)),
      ko_update = (\<lambda>_ b _ _ k. (Inr b, k)), ko_finish = (\<lambda>_ _ _ _ _ _ k. (Inr [], k)),
      ko_abort = (\<lambda>h k. (Inr (), k))\<rparr>"

definition ex_level_env :: "(u8, u8, unit) level_env" where
  "ex_level_env = \<lparr>lv_sv = ex_service_env, lv_security_level = 1, lv_keymint = ex_device, lv_km_op = ex_km_op,
     lv_component = (\<lambda>_. True), lv_get_aaid = (\<lambda>_. Inr [1]), lv_check_permission = (\<lambda>_. Inr (Inr True)),
     lv_device_unique_attestation = T_INVALID, lv_log_context = True\<rparr>"

definition ex_op_env :: "unit op_env" where
  "ex_op_env = \<lparr>oe_clock = ex_env, oe_now = 0, oe_prune_now = (\<lambda>_ _. 10000000000), oe_others = (\<lambda>_ _ v. v)\<rparr>"

definition ex_unlocked_params :: "key_parameter list" where
  "ex_unlocked_params = ex_auth_params @ map (\<lambda>v. KeyParameter_new v 1) [KpUnlockedDeviceRequired, KpUserID 0]"

definition ex_level_db :: keystore_db where
  "ex_level_db = KeyIdGuard_drop 7 (snd (store_new_key [7] ex_key Client ex_unlocked_params ex_blob Ks_DbProperties.ex_cert KeyMetaData_new
     KEYSTORE_UUID (init_tables (Some 0))))"

definition ex_level_world :: "unit level_world" where
  "ex_level_world = \<lparr>kw_db = ex_level_db, kw_perboot = ex_perboot, kw_rng = 5, kw_km = (),
      kw_fs = \<lparr>lf_dirs = [], lf_fault = (\<lambda>_ _ _. False)\<rparr>,
      kw_mig = \<lparr>lm_status = STATE_EMPTY, lm_initializer = False, lm_shelf = None\<rparr>, kw_skm = skm_init,
      kw_enf = Enforcements_default, kw_audit = [],
      kw_ops = snd (new_operation 0 1 101 10 ex_no_auth False ex_log_info (empty_world ())),
      kw_rem_prov = RemProvState_new 1 (replicate 16 1), kw_timestamp = TF_NotFound\<rparr>"

lemma ex_level_eval:
  "load_access_tuple ex_key Client 10 ex_level_db = Inr (7, ex_key, None)"
  "map_res (\<lambda>e. (e_parameters e, e_key_blob_info e = Some ex_blob))
     (load_key_components LB_KM 7 ex_level_db) = Inr (ex_unlocked_params, True)"
  "db_locked_keys ex_level_db = {}"
  "authorize_create ex_consts ex_env (\<lambda>_. False) ex_perboot (set_device_locked 0 False Enforcements_default) 2
     (Some (7, ex_unlocked_params)) [] False = Inr (Some (ex_hat 5), ex_no_auth)"
  by code_simp+

lemma ex_level_load:
  fixes w :: "unit level_world"
  assumes "kw_db w = ex_level_db"
  shows "load_key_for_operation ex_level_env ex_caller ex_key False w =
    (Inr (fst ex_blob, Some (7, ex_unlocked_params), Some 7, snd ex_blob), w\<lparr>kw_db := ex_level_db\<lparr>db_locked_keys := {7}\<rparr>\<rparr>)"
proof -
  let ?check = "\<lambda>k av. and_then (require_key_perm ex_service_env ex_caller KP_USE k av) (\<lambda>_. Inr ())"
  let ?db = "ex_level_db\<lparr>db_locked_keys := {7}\<rparr>"
  from ex_level_eval(2) obtain e where e: "load_key_components LB_KM 7 ex_level_db = Inr e"
    "e_parameters e = ex_unlocked_params" "e_key_blob_info e = Some ex_blob"
    by (auto simp: res_iffs)
  have dom: "kd_domain ex_key = APP" "kd_nspace ex_key = 10" by (simp_all add: ex_key_def)
  have "load_key_entry (\<lambda>_ db. db) ex_key Client LB_KM 10 ?check ex_level_db = (Inr (7, e), ?db)"
    by (simp add: load_key_entry_def load_key_entry_internal_def load_key_entry_guard_def load_key_entry_check_def
        load_key_entry_lock_def ex_level_eval require_key_perm_def ex_permission e KeyIdLockDb_try_get_def dom)
  moreover have "nv_wait ex_ks_env = (\<lambda>_ db. db)" "lv_sv ex_level_env = ex_service_env" "sv_env ex_service_env = ex_ks_env"
    "calling_uid ex_caller = 10"
    by (simp_all add: ex_ks_env_def ex_level_env_def ex_service_env_def ex_caller_def)
  ultimately show ?thesis
    using assms dom by (simp add: load_key_for_operation_def st_bind_def with_try_migrate_def on_db_def e split_beta)
qed


theorem locked_device_refuses_operations_witness:
  "fst (create_operation ex_level_env ex_op_env ex_caller ex_key [\<lparr>km_tag = T_PURPOSE, km_val = KmKeyPurpose 2\<rparr>] False
     (snd (on_lock_screen_event ex_service_env ex_caller LSE_LOCK 0 None None ex_level_world))) = Inl (Ks (Km EC_DEVICE_LOCKED))"
proof -
  obtain w1 where lock: "on_lock_screen_event (lv_sv ex_level_env) ex_caller LSE_LOCK 0 None None ex_level_world = (Inr (), w1)"
    and w1: "kw_db w1 = ex_level_db" "kw_perboot w1 = ex_perboot" "sm_boot_level_key_cache (kw_skm w1) = None"
      "kw_enf w1 = set_device_locked 0 True Enforcements_default"
    by (simp add: on_lock_screen_event_def st_bind_def ex_level_env_def ex_permission modify_enf_def
        lock_screen_lock_bound_key_def get_skm_def modify_skm_def ex_level_world_def set_user_keys_def skm_init_def)
  have [simp]: "set_device_locked 0 False (set_device_locked 0 True Enforcements_default) = set_device_locked 0 False Enforcements_default"
    by (simp add: set_device_locked_def)
  have a: "has_param KpUnlockedDeviceRequired ex_unlocked_params" "last_value sel_user_id ex_unlocked_params = Some 0"
    by code_simp+
  show ?thesis
    using locked_device_refuses_operations [OF lock ex_level_load [OF w1(1)] a, of ex_op_env "[\<lparr>km_tag = T_PURPOSE, km_val = KmKeyPurpose 2\<rparr>]"]
    ex_level_eval(4)
    by (simp add: purpose_of_def ex_level_env_def ex_op_env_def w1 SuperKeyManager_level_accessible_def ex_service_env_def ex_device_def
        lock [unfolded ex_level_env_def, simplified, unfolded ex_service_env_def])
qed


theorem begin_loop_returns_witness:
  "\<exists>r w'. begin_loop ex_level_env ex_op_env 10 False None ex_too_many [1] 0 ex_level_world = Some (r, w') \<and>
     r \<noteq> Inl (Ks (Km EC_TOO_MANY_OPERATIONS)) \<and> active_ops (kw_ops w') \<subseteq> active_ops (kw_ops ex_level_world)"
proof (rule begin_loop_returns)
  show "op_inv (kw_ops ex_level_world)"
    unfolding ex_level_world_def level_world.simps
    by (rule op_inv_new_operation(1) [OF empty_world_inv]) (simp_all add: prod_eq_iff empty_world_def)
  show "ow_busy (kw_ops ex_level_world) = {}"
    by (simp add: ex_level_world_def new_operation_def OperationDb_create_operation_def
      KeystoreOperation_new_native_binder_def Let_def empty_world_def)
qed (simp add: ex_op_env_def)

text \<open>The example for upgrades: the operation wants the blob with the mark \<open>9\<close>.\<close>

definition ex_wants_upgrade :: "bytes \<Rightarrow> (unit level_world, unit) st" where
  "ex_wants_upgrade blob = (if last blob = 9 then st_ok () else st_err (Ks (Km EC_KEY_REQUIRES_UPGRADE)))"

lemma ex_level_components: "load_blob_components 7 LB_KM ex_level_db = Inr (True, Some ex_blob, None, None)"
  by code_simp

theorem upgraded_blob_is_saved_witness:
  "\<exists>w2 blob md. load_blob_components 7 LB_KM (kw_db w2) = Inr (True, Some (blob, md), None, None) \<and>
     opens_to ex_ssl (Sensitive [1, 2] ex_super_key False) [1, 2, 9] (blob, md) \<and>
     level_upgrade_keyblob_if_required_with ex_level_env (Some 7) (Sensitive [1, 2] ex_super_key False) (snd ex_blob) []
       ex_wants_upgrade ex_level_world = (Inr ((), Some [1, 2, 9]), w2)"
proof -
  let ?kb = "Sensitive [1, 2] ex_super_key False"
  have e: "nv_ssl (lv_ks ex_level_env) = ex_ssl" "lv_keymint ex_level_env = ex_device" "KeyBlob_deref ?kb = [1, 2]"
    by (simp_all add: ex_level_env_def ex_service_env_def ex_ks_env_def KeyBlob_deref_def)
  obtain p where p: "reencrypt_if_required ex_ssl 5 ?kb [1, 2, 9] = Inr p"
  proof -
    have "is_ok (reencrypt_if_required ex_ssl 5 ?kb [1, 2, 9])" by code_simp
    then show thesis using that by (cases "reencrypt_if_required ex_ssl 5 ?kb [1, 2, 9]") (auto simp: is_ok_def)
  qed
  have "db_step\<^sup>*\<^sup>* (init_tables (Some 0)) ex_level_db"
    unfolding ex_level_db_def by (meson db_step.store_key db_step.drop_guard r_into_rtranclp rtranclp_trans)
  then have "db_inv ex_level_db" using db.invariant_reachable by blast
  moreover have "BlobMetaData_km_uuid (snd ex_blob) = Some KEYSTORE_UUID" by code_simp
  ultimately show ?thesis
    using upgraded_blob_is_saved [of ex_level_env ex_wants_upgrade ?kb ex_level_world ex_level_world "[]" "[1, 2, 9]" "()" p 7
        "(True, Some ex_blob, None, None)" "snd ex_blob"] ex_ssl_laws p ex_level_components
    unfolding e
    by (auto simp: ex_wants_upgrade_def ex_device_def ex_level_world_def KEYSTORE_UUID_def)
qed

end
