(* ===== verification/Ks_KeyService.thy ===== *)
theory Ks_KeyService
  imports Ks_SecurityLevel "HOL-Library.List_Lexorder" "HOL-Library.Char_ord" "HOL-Library.Option_ord"
    "HOL-Library.Product_Lexorder"
begin

text \<open>
  The Keystore service (\<open>src/keystore2/src/service.rs\<close>): looking up, updating, listing,
  deleting and granting keys.

  The maps of \<open>KeystoreService\<close> are association lists in the order in which the hash map is
  iterated.  The proxy of a security level is represented by the level; it is an object of this
  process, so that \<open>get_interface\<close> always succeeds on it.
\<close>

section \<open>The service\<close>

record keystore_service =
  kss_i_sec_level_by_uuid :: "(uuid \<times> i32) list"
  kss_uuid_by_sec_level :: "(i32 \<times> uuid) list"

definition KeystoreSecurityLevel_new_native_binder :: "('e, 'p, 'k) service_env \<Rightarrow> i32 \<Rightarrow> (i32 \<times> uuid) res" where
  "KeystoreSecurityLevel_new_native_binder S security_level =
     map_res (\<lambda>dev. (security_level, kmi_uuid dev)) (nv_keymint (sv_env S) security_level)"

definition KeystoreService_new_native_binder ::
    "('e, 'p, 'k) service_env \<Rightarrow> (('k, 'z) service_world_scheme, keystore_service) st" where
  "KeystoreService_new_native_binder S =
     (let K = nv_consts (sv_env S) in
      st_bind (st_lift (KeystoreSecurityLevel_new_native_binder S (KC_TRUSTED_ENVIRONMENT K))) (\<lambda>(dev, uuid).
      let result = \<lparr>kss_i_sec_level_by_uuid = [(uuid, dev)], kss_uuid_by_sec_level = [(KC_TRUSTED_ENVIRONMENT K, uuid)]\<rparr>;
          result = (case KeystoreSecurityLevel_new_native_binder S (KC_STRONGBOX K) of
             Inl _ \<Rightarrow> result
           | Inr (dev, uuid) \<Rightarrow>
               \<lparr>kss_i_sec_level_by_uuid = hash_insert uuid dev (kss_i_sec_level_by_uuid result),
                kss_uuid_by_sec_level = hash_insert (KC_STRONGBOX K) uuid (kss_uuid_by_sec_level result)\<rparr>) in
      st_bind (st_modify (\<lambda>w. w\<lparr>kw_mig := set_init (kw_mig w)\<rparr>)) (\<lambda>_. st_ok result)))"

definition uuid_to_sec_level :: "key_consts \<Rightarrow> keystore_service \<Rightarrow> uuid \<Rightarrow> i32" where
  "uuid_to_sec_level K self uuid =
     (case List.find (\<lambda>(_, v). v = uuid) (kss_uuid_by_sec_level self) of
        Some (s, _) \<Rightarrow> s | None \<Rightarrow> KC_SOFTWARE K)"

definition get_i_sec_level_by_uuid :: "keystore_service \<Rightarrow> uuid \<Rightarrow> i32 res" where
  "get_i_sec_level_by_uuid self uuid = ok_or (map_of (kss_i_sec_level_by_uuid self) uuid) sys"

definition get_security_level :: "keystore_service \<Rightarrow> i32 \<Rightarrow> i32 res" where
  "get_security_level self sec_level =
     ok_or (Option.bind (map_of (kss_uuid_by_sec_level self) sec_level) (map_of (kss_i_sec_level_by_uuid self)))
       (Ks (Km EC_HARDWARE_TYPE_UNAVAILABLE))"

record key_entry_response =
  ker_i_security_level :: "i32 option"
  ker_metadata :: key_metadata

definition KeyMetaData_creation_date :: "key_meta_data \<Rightarrow> date_time option" where
  "KeyMetaData_creation_date m = (case map_of m 0 of Some (CreationDate v) \<Rightarrow> Some v | _ \<Rightarrow> None)"

definition get_key_entry ::
    "('e, 'p, 'k) service_env \<Rightarrow> keystore_service \<Rightarrow> caller \<Rightarrow> key_descriptor
     \<Rightarrow> (('k, 'z) service_world_scheme, key_entry_response) st" where
  "get_key_entry S self c key =
     st_bind (with_try_migrate (sv_env S) key (calling_uid c)
                (on_db (load_key_entry (nv_wait (sv_env S)) key Client LB_PUBLIC (calling_uid c)
                   (\<lambda>k av. require_key_perm S c KP_GET_INFO k av)))) (\<lambda>(key_id_guard, key_entry).
     with_guard key_id_guard
       (st_bind (if e_pure_cert key_entry then st_ok None
                 else st_lift (map_res Some (get_i_sec_level_by_uuid self (e_km_uuid key_entry)))) (\<lambda>i_sec_level.
        st_bind (st_lift (ok_or (KeyMetaData_creation_date (e_metadata key_entry)) (Ks (Rc RC_VALUE_CORRUPTED)))) (\<lambda>modification_time.
          st_ok \<lparr>ker_i_security_level = i_sec_level,
                 ker_metadata =
                   \<lparr>mt_key = key_id_descriptor key_id_guard,
                    mt_key_security_level = uuid_to_sec_level (nv_consts (sv_env S)) self (e_km_uuid key_entry),
                    mt_authorizations = key_parameters_to_authorizations (e_parameters key_entry),
                    mt_certificate = e_cert key_entry, mt_certificate_chain = e_cert_chain key_entry,
                    mt_modification_time_ms = modification_time\<rparr>\<rparr>))))"

text \<open>The descriptor under which a certificate without a key is stored.\<close>

definition certificate_descriptor :: "caller \<Rightarrow> key_descriptor \<Rightarrow> key_descriptor res" where
  "certificate_descriptor c key =
     (case (kd_domain key, kd_alias key) of
        (APP, Some alias) \<Rightarrow> Inr \<lparr>kd_domain = APP, kd_nspace = int (calling_uid c), kd_alias = Some alias, kd_blob = None\<rparr>
      | (SELINUX, Some _) \<Rightarrow> Inr key
      | _ \<Rightarrow> Inl (Ks (Rc RC_INVALID_ARGUMENT)))"

definition update_subcomponent ::
    "('e, 'p, 'k) service_env \<Rightarrow> caller \<Rightarrow> key_descriptor \<Rightarrow> bytes option \<Rightarrow> bytes option
     \<Rightarrow> (('k, 'z) service_world_scheme, unit) st" where
  "update_subcomponent S c key public_cert certificate_chain =
     st_bind (st_try (with_try_migrate (sv_env S) key (calling_uid c)
                (on_db (load_key_entry (nv_wait (sv_env S)) key Client LB_NONE (calling_uid c)
                   (\<lambda>k av. require_key_perm S c KP_UPDATE k av))))) (\<lambda>loaded.
       case loaded of
         Inr (key_id_guard, _) \<Rightarrow>
           with_guard key_id_guard
             (st_bind (on_db (set_blob key_id_guard CERT public_cert None)) (\<lambda>_.
                on_db (set_blob key_id_guard CERT_CHAIN certificate_chain None)))
       | Inl e \<Rightarrow>
           if e \<noteq> Ks (Rc RC_KEY_NOT_FOUND) then st_err e
           else
             (case (public_cert, certificate_chain) of
                (None, Some chain) \<Rightarrow>
                  st_bind (st_lift (certificate_descriptor c key)) (\<lambda>key.
                  st_bind (st_lift (require_key_perm S c KP_REBIND key None)) (\<lambda>_.
                  st_bind (draw 1) (\<lambda>r.
                  st_bind (on_db (store_new_certificate (nv_ids (sv_env S) r) (nv_now (sv_env S) r) key Client chain KEYSTORE_UUID))
                    drop_guard)))
              | _ \<Rightarrow> st_err (Ks (Rc RC_KEY_NOT_FOUND))))"

text \<open>
  Which namespace a request to list keys is about.  A caller without permission for its own choice
  may still list any namespace with the permission to list.
\<close>

definition list_namespace :: "('e, 'p, 'k) service_env \<Rightarrow> caller \<Rightarrow> domain \<Rightarrow> int \<Rightarrow> key_descriptor res" where
  "list_namespace S c domain namespace =
     and_then (case domain of
                 APP \<Rightarrow> Inr \<lparr>kd_domain = APP, kd_nspace = int (calling_uid c), kd_alias = None, kd_blob = None\<rparr>
               | SELINUX \<Rightarrow> Inr \<lparr>kd_domain = SELINUX, kd_nspace = namespace, kd_alias = None, kd_blob = None\<rparr>
               | _ \<Rightarrow> Inl perm_denied) (\<lambda>k.
       case require_key_perm S c KP_GET_INFO k None of
         Inr _ \<Rightarrow> Inr k
       | Inl e \<Rightarrow>
           if e = selinux_perm then
             and_then (utils_check_keystore_permission (sv_selinux S) c List) (\<lambda>_.
               Inr (if namespace \<noteq> - 1 then k\<lparr>kd_nspace := namespace\<rparr> else k))
           else Inl e)"

text \<open>
  The derived order of descriptors: domain, namespace, alias and blob, where the descriptors of a
  list share domain and namespace and have no blob, so that the alias decides.
\<close>

definition dedup :: "'a list \<Rightarrow> 'a list" where
  "dedup = remdups_adj"

definition list_entries ::
    "('e, 'p, 'k) service_env \<Rightarrow> caller \<Rightarrow> domain \<Rightarrow> int \<Rightarrow> (('k, 'z) service_world_scheme, key_descriptor list) st" where
  "list_entries S c domain namespace =
     st_bind (st_lift (list_namespace S c domain namespace)) (\<lambda>k.
     st_bind (list_uid (sv_env S) (kd_domain k) (kd_nspace k)) (\<lambda>legacy.
     st_bind (on_db (\<lambda>db. (list_keys (kd_domain k) (kd_nspace k) Client db, db))) (\<lambda>keys.
       st_ok (dedup (sort_key kd_alias (legacy @ keys))))))"

definition KeystoreService_delete_key ::
    "('e, 'p, 'k) service_env \<Rightarrow> caller \<Rightarrow> key_descriptor \<Rightarrow> (('k, 'z) service_world_scheme, unit) st" where
  "KeystoreService_delete_key S c key =
     with_try_migrate (sv_env S) key (calling_uid c)
       (on_db (unbind_key key Client (calling_uid c) (\<lambda>k av. require_key_perm S c KP_DELETE k av)))"

definition KeystoreService_grant ::
    "('e, 'p, 'k) service_env \<Rightarrow> caller \<Rightarrow> key_descriptor \<Rightarrow> i32 \<Rightarrow> key_perm_set
     \<Rightarrow> (('k, 'z) service_world_scheme, key_descriptor) st" where
  "KeystoreService_grant S c key grantee_uid access_vector =
     st_bind (draw 1) (\<lambda>r.
       with_try_migrate (sv_env S) key (calling_uid c)
         (on_db (grant (nv_ids (sv_env S) r) key (calling_uid c) (unat grantee_uid) access_vector
            (\<lambda>k av. utils_check_grant_permission (sv_selinux S) (sv_key_perms S) c av k))))"

definition KeystoreService_ungrant ::
    "('e, 'p, 'k) service_env \<Rightarrow> caller \<Rightarrow> key_descriptor \<Rightarrow> i32 \<Rightarrow> (('k, 'z) service_world_scheme, unit) st" where
  "KeystoreService_ungrant S c key grantee_uid =
     on_db (ungrant key (calling_uid c) (unat grantee_uid) (\<lambda>k. require_key_perm S c KP_GRANT k None))"

definition deleteKey :: "('e, 'p, 'k) service_env \<Rightarrow> bool \<Rightarrow> caller \<Rightarrow> key_descriptor \<Rightarrow> (('k, 'z) audit_world_scheme, unit) st" where
  "deleteKey S log_context c key =
     logged (log_key_deleted log_context) key c (KeystoreService_delete_key S c key)"

end
