(* ===== verification/Ks_LegacyKeystore.thy ===== *)
theory Ks_LegacyKeystore
  imports Ks_Maintenance
begin

text \<open>
  The legacy keystore service (\<open>src/keystore2/legacykeystore/lib.rs\<close>): unstructured entries by
  uid and alias, in a database of its own, with entries of the old key store imported when they
  are asked for.  It is also the delete listener of the maintenance service.

  State.  \<open>legacy_keystore\<close> has the table \<open>profiles\<close>, the set \<open>recently_imported\<close> on the shelf
  of the worker, and whether the worker is alive.  A job that panics ends the worker, and the
  requester receives an error; the state of the task stays \<open>Running\<close>, so that jobs queued later
  wait for ever.  Opening the database is assumed to succeed.  The legacy files are those of
  \<open>mig_world\<close>.
\<close>

section \<open>The database\<close>

record profile_row =
  pr_owner :: nat
  pr_alias :: string
  pr_profile :: bytes

type_synonym profiles = "profile_row list"

definition profile_key :: "nat \<Rightarrow> string \<Rightarrow> profile_row \<Rightarrow> bool" where
  "profile_key owner alias r \<longleftrightarrow> pr_owner r = owner \<and> pr_alias r = alias"

definition DB_list :: "nat \<Rightarrow> profiles \<Rightarrow> string list" where
  "DB_list caller_uid rows = sort (map pr_alias (filter (\<lambda>r. pr_owner r = caller_uid) rows))"

text \<open>\<open>INSERT OR REPLACE\<close> on the unique pair of owner and alias.\<close>

definition DB_put :: "nat \<Rightarrow> string \<Rightarrow> bytes \<Rightarrow> profiles \<Rightarrow> profiles" where
  "DB_put caller_uid alias entry rows =
     filter (\<lambda>r. \<not> profile_key caller_uid alias r) rows @
     [\<lparr>pr_owner = caller_uid, pr_alias = alias, pr_profile = entry\<rparr>]"

definition DB_get :: "nat \<Rightarrow> string \<Rightarrow> profiles \<Rightarrow> bytes option" where
  "DB_get caller_uid alias rows = map_option pr_profile (List.find (profile_key caller_uid alias) rows)"

definition DB_remove :: "nat \<Rightarrow> string \<Rightarrow> profiles \<Rightarrow> bool \<times> profiles" where
  "DB_remove caller_uid alias rows =
     (length (filter (profile_key caller_uid alias) rows) = 1, filter (\<lambda>r. \<not> profile_key caller_uid alias r) rows)"

definition DB_remove_uid :: "nat \<Rightarrow> profiles \<Rightarrow> profiles" where
  "DB_remove_uid uid rows = filter (\<lambda>r. pr_owner r \<noteq> uid) rows"

definition DB_remove_user :: "int \<Rightarrow> nat \<Rightarrow> profiles \<Rightarrow> profiles" where
  "DB_remove_user aid_user_offset user_id rows =
     filter (\<lambda>r. sql_div (int (pr_owner r)) aid_user_offset \<noteq> int user_id) rows"

section \<open>State\<close>

record legacy_keystore =
  lk_profiles :: profiles
  lk_recently_imported :: "(nat \<times> string) list"
  lk_worker :: bool

record 'k lk_world = "'k service_world" +
  kw_lk :: legacy_keystore

definition set_profiles :: "profiles \<Rightarrow> ('k, 'z) lk_world_scheme \<Rightarrow> ('k, 'z) lk_world_scheme" where
  "set_profiles rows w = w\<lparr>kw_lk := (kw_lk w)\<lparr>lk_profiles := rows\<rparr>\<rparr>"

definition LegacyKeystore_do_serialized :: "(('k, 'z) lk_world_scheme, 'a) st \<Rightarrow> (('k, 'z) lk_world_scheme, 'a) st" where
  "LegacyKeystore_do_serialized f w =
     (if \<not> lk_worker (kw_lk w) then (Inl Blocked, w)
      else (case f w of
              (Inl e, w') \<Rightarrow>
                if e = Panicked
                then (Inl (OtherErr ''RecvError''), w'\<lparr>kw_lk := (kw_lk w')\<lparr>lk_worker := False\<rparr>\<rparr>)
                else (Inl e, w')
            | (Inr v, w') \<Rightarrow> (Inr v, w')))"

text \<open>
  A result that is only logged.  A call that does not return is not a result.
\<close>

definition log_only :: "('w, 'a) st \<Rightarrow> ('w, unit) st" where
  "log_only m = st_bind (st_try m) (\<lambda>r. if r = Inl Blocked then st_err Blocked else st_ok ())"

section \<open>Legacy entries\<close>

definition list_legacy :: "legacy_env \<Rightarrow> nat \<Rightarrow> (('k, 'z) lk_world_scheme, string list) st" where
  "list_legacy E uid =
     LegacyKeystore_do_serialized
       (st_bind (st_gets (\<lambda>w. list_legacy_keystore_entries_for_uid E uid (kw_fs w))) st_lift)"

definition migrate_one_legacy_entry :: "legacy_env \<Rightarrow> nat \<Rightarrow> string \<Rightarrow> (('k, 'z) lk_world_scheme, bool) st" where
  "migrate_one_legacy_entry E uid alias =
     st_bind (st_bind (st_gets (\<lambda>w. read_legacy_keystore_entry E uid alias (kw_fs w))) st_lift) (\<lambda>blob.
       case blob of
         Some entry \<Rightarrow>
           st_bind (st_modify (\<lambda>w. set_profiles (DB_put uid alias entry (lk_profiles (kw_lk w))) w)) (\<lambda>_.
           st_bind (on_fs (remove_legacy_keystore_entry E uid alias)) (\<lambda>_. st_ok True))
       | None \<Rightarrow> st_ok False)"

definition recently_imported :: "nat \<Rightarrow> string \<Rightarrow> ('k, 'z) lk_world_scheme \<Rightarrow> bool" where
  "recently_imported uid alias w \<longleftrightarrow> (uid, alias) \<in> set (lk_recently_imported (kw_lk w))"

definition add_recently_imported :: "nat \<Rightarrow> string \<Rightarrow> ('k, 'z) lk_world_scheme \<Rightarrow> ('k, 'z) lk_world_scheme" where
  "add_recently_imported uid alias w =
     w\<lparr>kw_lk := (kw_lk w)\<lparr>lk_recently_imported := List.insert (uid, alias) (lk_recently_imported (kw_lk w))\<rparr>\<rparr>"

definition get_legacy :: "legacy_env \<Rightarrow> nat \<Rightarrow> string \<Rightarrow> (('k, 'z) lk_world_scheme, bool) st" where
  "get_legacy E uid alias =
     LegacyKeystore_do_serialized
       (st_bind (st_gets (recently_imported uid alias)) (\<lambda>recent.
          if recent then st_ok True
          else
            st_bind (migrate_one_legacy_entry E uid alias) (\<lambda>migrated.
            st_bind (st_modify (if migrated then add_recently_imported uid alias else id)) (\<lambda>_.
              st_ok migrated))))"

text \<open>The loop over the entries of a uid; a failure is logged and the loop goes on.\<close>

fun remove_legacy_entries :: "legacy_env \<Rightarrow> nat \<Rightarrow> string list \<Rightarrow> legacy_fs \<Rightarrow> legacy_fs" where
  "remove_legacy_entries E uid [] fs = fs"
| "remove_legacy_entries E uid (alias # entries) fs =
     remove_legacy_entries E uid entries (snd (remove_legacy_keystore_entry E uid alias fs))"

definition LegacyKeystore_bulk_delete_uid :: "legacy_env \<Rightarrow> nat \<Rightarrow> (('k, 'z) lk_world_scheme, unit) st" where
  "LegacyKeystore_bulk_delete_uid E uid =
     LegacyKeystore_do_serialized
       (st_bind (st_bind (st_gets (\<lambda>w. list_legacy_keystore_entries_for_uid E uid (kw_fs w))) st_lift) (\<lambda>entries.
          on_fs (st_modify (remove_legacy_entries E uid entries))))"

definition LegacyKeystore_bulk_delete_user :: "legacy_env \<Rightarrow> nat \<Rightarrow> (('k, 'z) lk_world_scheme, unit) st" where
  "LegacyKeystore_bulk_delete_user E user_id =
     LegacyKeystore_do_serialized
       (st_bind (st_bind (st_gets (\<lambda>w. list_legacy_keystore_entries_for_user user_id (kw_fs w))) st_lift) (\<lambda>entries.
          on_fs (st_modify (fold (\<lambda>(uid, aliases). remove_legacy_entries E uid aliases) entries))))"

section \<open>The service\<close>

definition UID_SELF :: i32 where "UID_SELF = - 1"

definition AID_SYSTEM :: nat where "AID_SYSTEM = 1000"

definition get_effective_uid :: "caller \<Rightarrow> i32 \<Rightarrow> nat res" where
  "get_effective_uid c uid =
     (if unat uid = unat UID_SELF \<or> unat uid = calling_uid c then Inr (calling_uid c)
      else if calling_uid c = AID_SYSTEM \<and> unat uid = AID_WIFI then Inr AID_WIFI
      else Inl (LegacyKs LK_PERMISSION_DENIED))"

definition LegacyKeystore_get :: "legacy_env \<Rightarrow> caller \<Rightarrow> string \<Rightarrow> i32 \<Rightarrow> (('k, 'z) lk_world_scheme, bytes) st" where
  "LegacyKeystore_get E c alias uid =
     st_bind (st_lift (get_effective_uid c uid)) (\<lambda>uid.
     st_bind (st_gets (\<lambda>w. DB_get uid alias (lk_profiles (kw_lk w)))) (\<lambda>found.
       case found of
         Some entry \<Rightarrow> st_ok entry
       | None \<Rightarrow>
           st_bind (get_legacy E uid alias) (\<lambda>migrated.
             if migrated then
               st_bind (st_gets (\<lambda>w. DB_get uid alias (lk_profiles (kw_lk w)))) (\<lambda>found.
                 st_lift (ok_or found (LegacyKs LK_ENTRY_NOT_FOUND)))
             else st_err (LegacyKs LK_ENTRY_NOT_FOUND))))"

definition LegacyKeystore_put ::
    "legacy_env \<Rightarrow> caller \<Rightarrow> string \<Rightarrow> i32 \<Rightarrow> bytes \<Rightarrow> (('k, 'z) lk_world_scheme, unit) st" where
  "LegacyKeystore_put E c alias uid entry =
     st_bind (st_lift (get_effective_uid c uid)) (\<lambda>uid.
     st_bind (log_only (get_legacy E uid alias)) (\<lambda>_.
       st_modify (\<lambda>w. set_profiles (DB_put uid alias entry (lk_profiles (kw_lk w))) w)))"

definition LegacyKeystore_remove :: "legacy_env \<Rightarrow> caller \<Rightarrow> string \<Rightarrow> i32 \<Rightarrow> (('k, 'z) lk_world_scheme, unit) st" where
  "LegacyKeystore_remove E c alias uid =
     st_bind (st_lift (get_effective_uid c uid)) (\<lambda>uid.
     st_bind (log_only (get_legacy E uid alias)) (\<lambda>_. \<lambda>w.
       let (removed, rows) = DB_remove uid alias (lk_profiles (kw_lk w))
       in (if removed then Inr () else Inl (LegacyKs LK_ENTRY_NOT_FOUND), set_profiles rows w)))"

definition LegacyKeystore_delete_namespace ::
    "legacy_env \<Rightarrow> domain \<Rightarrow> int \<Rightarrow> (('k, 'z) lk_world_scheme, unit) st" where
  "LegacyKeystore_delete_namespace E domain namespace =
     (case legacy_uid domain namespace of
        None \<Rightarrow> st_ok ()
      | Some uid \<Rightarrow>
          st_bind (log_only (LegacyKeystore_bulk_delete_uid E uid)) (\<lambda>_.
            st_modify (\<lambda>w. set_profiles (DB_remove_uid uid (lk_profiles (kw_lk w))) w)))"

definition LegacyKeystore_delete_user :: "legacy_env \<Rightarrow> int \<Rightarrow> nat \<Rightarrow> (('k, 'z) lk_world_scheme, unit) st" where
  "LegacyKeystore_delete_user E aid_user_offset user_id =
     st_bind (log_only (LegacyKeystore_bulk_delete_user E user_id)) (\<lambda>_.
       st_modify (\<lambda>w. set_profiles (DB_remove_user aid_user_offset user_id (lk_profiles (kw_lk w))) w))"

definition LegacyKeystore_list ::
    "legacy_env \<Rightarrow> caller \<Rightarrow> string \<Rightarrow> i32 \<Rightarrow> (('k, 'z) lk_world_scheme, string list) st" where
  "LegacyKeystore_list E c prefix uid =
     st_bind (st_lift (get_effective_uid c uid)) (\<lambda>uid.
     st_bind (list_legacy E uid) (\<lambda>result.
     st_bind (st_gets (\<lambda>w. DB_list uid (lk_profiles (kw_lk w)))) (\<lambda>entries.
       st_ok (remdups_adj (sort (filter (starts_with prefix) (result @ entries)))))))"

definition LegacyKeystoreDeleteListener :: "('e, 'p, 'k) ks_env \<Rightarrow> ('k, 'z) lk_world_scheme delete_listener" where
  "LegacyKeystoreDeleteListener E =
     \<lparr>dl_delete_namespace = LegacyKeystore_delete_namespace (nv_legacy E),
      dl_delete_user = LegacyKeystore_delete_user (nv_legacy E) (nv_aid_user_offset E)\<rparr>"

section \<open>Errors\<close>

fun legacy_keystore_value :: "legacy_keystore_code \<Rightarrow> int" where
  "legacy_keystore_value LK_SYSTEM_ERROR = 4"
| "legacy_keystore_value LK_PERMISSION_DENIED = 6"
| "legacy_keystore_value LK_ENTRY_NOT_FOUND = 7"

text \<open>The second component tells whether the error is logged.\<close>

definition lk_error_code :: "err \<Rightarrow> int \<times> bool" where
  "lk_error_code root_cause =
     (case root_cause of
        LegacyKs code \<Rightarrow> (legacy_keystore_value code, code \<noteq> LK_ENTRY_NOT_FOUND)
      | _ \<Rightarrow> (legacy_keystore_value LK_SYSTEM_ERROR, True))"

definition lk_map_or_log_err :: "'u res \<Rightarrow> ('u \<Rightarrow> 't binder_result) \<Rightarrow> 't binder_result" where
  "lk_map_or_log_err result handle_ok =
     (case result of Inl e \<Rightarrow> Inl (new_service_specific_error (fst (lk_error_code e))) | Inr v \<Rightarrow> handle_ok v)"

section \<open>The store the clients see\<close>

text \<open>
  The contract: a map from uid and alias to entries.  \<open>lk_view\<close> is the map a state stands for: an
  entry of the database hides a legacy entry.
\<close>

datatype lk_request = LkGet string | LkPut string bytes | LkRemove string

fun lk_run :: "legacy_env \<Rightarrow> caller \<Rightarrow> i32 \<Rightarrow> lk_request \<Rightarrow> (('k, 'z) lk_world_scheme, bytes option) st" where
  "lk_run E c uid (LkGet alias) = st_bind (LegacyKeystore_get E c alias uid) (\<lambda>v. st_ok (Some v))"
| "lk_run E c uid (LkPut alias entry) = st_bind (LegacyKeystore_put E c alias uid entry) (\<lambda>_. st_ok None)"
| "lk_run E c uid (LkRemove alias) = st_bind (LegacyKeystore_remove E c alias uid) (\<lambda>_. st_ok None)"

fun lk_spec :: "nat \<Rightarrow> lk_request \<Rightarrow> (nat \<times> string \<rightharpoonup> bytes) \<Rightarrow> bytes option res \<times> (nat \<times> string \<rightharpoonup> bytes)" where
  "lk_spec uid (LkGet alias) m =
     (case m (uid, alias) of Some e \<Rightarrow> Inr (Some e) | None \<Rightarrow> Inl (LegacyKs LK_ENTRY_NOT_FOUND), m)"
| "lk_spec uid (LkPut alias entry) m = (Inr None, m((uid, alias) \<mapsto> entry))"
| "lk_spec uid (LkRemove alias) m =
     (case m (uid, alias) of Some _ \<Rightarrow> Inr None | None \<Rightarrow> Inl (LegacyKs LK_ENTRY_NOT_FOUND), m((uid, alias) := None))"

definition db_entries :: "profiles \<Rightarrow> nat \<times> string \<rightharpoonup> bytes" where
  "db_entries rows = (\<lambda>(uid, alias). DB_get uid alias rows)"

definition legacy_entries :: "legacy_env \<Rightarrow> legacy_fs \<Rightarrow> nat \<times> string \<rightharpoonup> bytes" where
  "legacy_entries E fs = (\<lambda>(uid, alias). case read_legacy_keystore_entry E uid alias fs of Inr v \<Rightarrow> v | Inl _ \<Rightarrow> None)"

definition lk_view :: "legacy_env \<Rightarrow> ('k, 'z) lk_world_scheme \<Rightarrow> nat \<times> string \<rightharpoonup> bytes" where
  "lk_view E w = legacy_entries E (kw_fs w) ++ db_entries (lk_profiles (kw_lk w))"

text \<open>
  The files can be read, an imported entry has left them, the worker is alive, and the pair of
  owner and alias is unique.
\<close>

definition lk_inv :: "legacy_env \<Rightarrow> ('k, 'z) lk_world_scheme \<Rightarrow> bool" where
  "lk_inv E w \<longleftrightarrow>
     no_faults (kw_fs w) \<and> lk_worker (kw_lk w) \<and>
     (\<forall>uid alias. \<exists>v. read_legacy_keystore_entry E uid alias (kw_fs w) = Inr v \<and> (recently_imported uid alias w \<longrightarrow> v = None)) \<and>
     distinct (map (\<lambda>r. (pr_owner r, pr_alias r)) (lk_profiles (kw_lk w)))"

lemma find_others:
  "List.find (profile_key u a) (filter (\<lambda>r. \<not> profile_key v b r) rows) =
     (if (u, a) = (v, b) then None else List.find (profile_key u a) rows)"
  unfolding profile_key_def [abs_def] by (induction rows) auto

lemma find_append: "List.find P (xs @ ys) = (case List.find P xs of Some x \<Rightarrow> Some x | None \<Rightarrow> List.find P ys)"
  by (induction xs) auto

lemma DB_get_put: "DB_get u a (DB_put v b e rows) = (if (u, a) = (v, b) then Some e else DB_get u a rows)"
  by (simp add: DB_get_def DB_put_def find_append find_others) (auto simp: profile_key_def split: option.split)

lemma DB_get_remove: "DB_get u a (snd (DB_remove v b rows)) = (if (u, a) = (v, b) then None else DB_get u a rows)"
  by (simp add: DB_get_def DB_remove_def find_others)

lemma DB_remove_found:
  "distinct (map (\<lambda>r. (pr_owner r, pr_alias r)) rows) \<Longrightarrow> fst (DB_remove u a rows) \<longleftrightarrow> DB_get u a rows \<noteq> None"
proof (induction rows)
  case (Cons r rows)
  have "filter (profile_key u a) rows = []" if "profile_key u a r"
    using that Cons.prems by (auto simp: filter_empty_conv profile_key_def image_iff)
  then show ?case using Cons by (auto simp: DB_remove_def DB_get_def)
qed (simp add: DB_remove_def DB_get_def)

lemma DB_distinct:
  assumes "distinct (map (\<lambda>r. (pr_owner r, pr_alias r)) rows)"
  shows "distinct (map (\<lambda>r. (pr_owner r, pr_alias r)) (DB_put u a e rows))"
    and "distinct (map (\<lambda>r. (pr_owner r, pr_alias r)) (snd (DB_remove u a rows)))"
  using assms by (auto simp: DB_put_def DB_remove_def profile_key_def distinct_map_filter)

lemma legacy_filename_inj:
  "make_legacy_keystore_entry_filename E u a = Some p \<Longrightarrow> make_legacy_keystore_entry_filename E v b = Some p \<Longrightarrow> u = v \<and> a = b"
  by (auto simp: make_legacy_keystore_entry_filename_def split_at_underscore encode_alias_inj split: if_splits)


text \<open>Removing the file of an entry.\<close>

lemma remove_legacy_entry:
  assumes "no_faults fs" and e: "read_legacy_keystore_entry E u a fs = Inr (Some e)"
  obtains fs' where "remove_legacy_keystore_entry E u a fs = (Inr (), fs')" and "no_faults fs'"
    and "\<And>v b. read_legacy_keystore_entry E v b fs' =
           (if (v, b) = (u, a) then Inr None else read_legacy_keystore_entry E v b fs)"
proof -
  from e obtain p where p: "make_legacy_keystore_entry_filename E u a = Some p" and f: "fs_file fs p \<noteq> None"
    by (cases "make_legacy_keystore_entry_filename E u a"; cases "fs_file fs (the (make_legacy_keystore_entry_filename E u a))")
      (auto simp: read_legacy_keystore_entry_def read_generic_blob_def fs_open_no_faults [OF assms(1)])
  from fs_remove_file_removed [OF assms(1), of p] f obtain fs1
    where 1: "fs_remove_file p fs = (Inr (), fs1)" "removed {p} fs fs1" by (cases "fs_remove_file p fs") simp
  let ?r = "remove_user_dir_if_empty (le_uid_to_android_user E u) fs1"
  from 1(2) have nf: "no_faults fs1" by (simp add: removed_def)
  from removed_trans [OF 1(2) remove_user_dir_removed(2) [OF nf, of "le_uid_to_android_user E u"]] have rm: "removed {p} fs (snd ?r)" by simp
  show thesis
  proof (rule that [of "snd ?r"])
    show "remove_legacy_keystore_entry E u a fs = (Inr (), snd ?r)"
      using remove_user_dir_removed(1) [OF nf, of "le_uid_to_android_user E u"]
      by (simp add: remove_legacy_keystore_entry_def p 1(1) prod_eq_iff)
    show nf': "no_faults (snd ?r)" using rm by (simp add: removed_def)
    show "read_legacy_keystore_entry E v b (snd ?r) =
        (if (v, b) = (u, a) then Inr None else read_legacy_keystore_entry E v b fs)" for v b
    proof (cases "make_legacy_keystore_entry_filename E v b")
      case None
      then show ?thesis using p by (auto simp: read_legacy_keystore_entry_def)
    next
      case (Some q)
      have q: "q = p \<longleftrightarrow> (v, b) = (u, a)" using p Some legacy_filename_inj [OF p, of v b] by auto
      have "fs_file (snd ?r) q = (if q = p then None else fs_file fs q)" using rm by (simp add: removed_def)
      then show ?thesis unfolding read_legacy_keystore_entry_def read_generic_blob_def Some option.case
          fs_open_no_faults [OF nf'] fs_open_no_faults [OF assms(1)] by (simp add: q)
    qed
  qed
qed

text \<open>
  Asking for a legacy entry: it is imported if there is one, and the answer tells whether it was
  imported now or before.
\<close>

lemma get_legacy_effect:
  assumes inv: "lk_inv E w" and e: "read_legacy_keystore_entry E u a (kw_fs w) = Inr v"
  obtains w' where "get_legacy E u a w = (Inr (recently_imported u a w \<or> v \<noteq> None), w')" and "lk_inv E w'"
    and "lk_profiles (kw_lk w') = (case v of None \<Rightarrow> lk_profiles (kw_lk w) | Some e \<Rightarrow> DB_put u a e (lk_profiles (kw_lk w)))"
    and "\<And>u' b. read_legacy_keystore_entry E u' b (kw_fs w') =
           (if (u', b) = (u, a) then Inr None else read_legacy_keystore_entry E u' b (kw_fs w))"
proof (cases v)
  case None
  have "get_legacy E u a w = (Inr (recently_imported u a w \<or> v \<noteq> None), w)"
    using inv e None
    by (simp add: get_legacy_def LegacyKeystore_do_serialized_def lk_inv_def migrate_one_legacy_entry_def st_bind_def split: if_split)
  then show thesis using inv e None by (intro that [of w]) auto
next
  case (Some x)
  from inv have nf: "no_faults (kw_fs w)" and alive: "lk_worker (kw_lk w)"
    and dist: "distinct (map (\<lambda>r. (pr_owner r, pr_alias r)) (lk_profiles (kw_lk w)))" by (simp_all add: lk_inv_def)
  from inv e Some have fresh: "\<not> recently_imported u a w" unfolding lk_inv_def by (metis Inr_inject option.discI)
  from remove_legacy_entry [OF nf e [unfolded Some]] obtain fs' where rm: "remove_legacy_keystore_entry E u a (kw_fs w) = (Inr (), fs')"
    and nf': "no_faults fs'" and rd: "\<And>v b. read_legacy_keystore_entry E v b fs' =
           (if (v, b) = (u, a) then Inr None else read_legacy_keystore_entry E v b (kw_fs w))" by blast
  define w' where "w' = add_recently_imported u a ((set_profiles (DB_put u a x (lk_profiles (kw_lk w))) w)\<lparr>kw_fs := fs'\<rparr>)"
  have w': "kw_fs w' = fs'" "kw_lk w' = \<lparr>lk_profiles = DB_put u a x (lk_profiles (kw_lk w)),
      lk_recently_imported = List.insert (u, a) (lk_recently_imported (kw_lk w)), lk_worker = True\<rparr>"
    using alive by (simp_all add: w'_def add_recently_imported_def set_profiles_def)
  have "get_legacy E u a w = (Inr True, w')"
    using rm e Some fresh alive
    by (simp add: get_legacy_def LegacyKeystore_do_serialized_def migrate_one_legacy_entry_def st_bind_def on_fs_def
        w'_def set_profiles_def)
  moreover have "lk_inv E w'"
    using inv nf' DB_distinct(1) [OF dist] by (auto simp: lk_inv_def w' rd recently_imported_def)
  ultimately show thesis using rd by (intro that [of w']) (auto simp: w' Some)
qed


lemma lk_inv_set_profiles:
  assumes "lk_inv E w" and "distinct (map (\<lambda>r. (pr_owner r, pr_alias r)) rows)"
  shows "lk_inv E (set_profiles rows w)"
  using assms by (simp add: lk_inv_def set_profiles_def recently_imported_def)

lemma db_entries_simps [simp]:
  "db_entries (DB_put u a e rows) = (db_entries rows)((u, a) \<mapsto> e)"
  "db_entries (snd (DB_remove u a rows)) = (db_entries rows)((u, a) := None)"
  "db_entries rows (u, a) = DB_get u a rows"
  by (auto simp: db_entries_def DB_get_put DB_get_remove fun_eq_iff)

text \<open>C17. The legacy keystore is a map.  While its files can be read, what \<open>get\<close>, \<open>put\<close> and \<open>remove\<close> answer and
  do is what the contract says of the map from uid and alias to entries that clients see; that an entry
  is imported from the old key store on the way cannot be noticed.\<close>

theorem legacy_keystore_refines:
  assumes inv: "lk_inv E w" and uid: "get_effective_uid c uid = Inr u"
  shows "\<exists>r w'. lk_run E c uid req w = (r, w') \<and> lk_inv E w' \<and> lk_spec u req (lk_view E w) = (r, lk_view E w')"
proof -
  define a where "a = (case req of LkGet a \<Rightarrow> a | LkPut a _ \<Rightarrow> a | LkRemove a \<Rightarrow> a)"
  let ?rows = "lk_profiles (kw_lk w)"
  from inv obtain v where v: "read_legacy_keystore_entry E u a (kw_fs w) = Inr v" "recently_imported u a w \<longrightarrow> v = None"
    unfolding lk_inv_def by blast
  from get_legacy_effect [OF inv v(1)] obtain w1 where g: "get_legacy E u a w = (Inr (recently_imported u a w \<or> v \<noteq> None), w1)"
    and inv1: "lk_inv E w1" and rows1: "lk_profiles (kw_lk w1) = (case v of None \<Rightarrow> ?rows | Some e \<Rightarrow> DB_put u a e ?rows)"
    and rd1: "\<And>u' b. read_legacy_keystore_entry E u' b (kw_fs w1) =
           (if (u', b) = (u, a) then Inr None else read_legacy_keystore_entry E u' b (kw_fs w))" by blast
  have leg: "legacy_entries E (kw_fs w) (u, a) = v" by (simp add: legacy_entries_def v)
  have leg1: "legacy_entries E (kw_fs w1) = (legacy_entries E (kw_fs w))((u, a) := None)"
    by (auto simp: legacy_entries_def rd1 fun_eq_iff)
  have db1: "db_entries (lk_profiles (kw_lk w1)) = db_entries ?rows ++ (if v = None then Map.empty else [(u, a) \<mapsto> the v])"
    unfolding rows1 by (cases v) simp_all
  have dist1: "distinct (map (\<lambda>r. (pr_owner r, pr_alias r)) (lk_profiles (kw_lk w1)))" using inv1 by (simp add: lk_inv_def)
  show ?thesis
  proof (cases req)
    case (LkGet b)
    have get1: "DB_get u a (lk_profiles (kw_lk w1)) = (if v = None then DB_get u a ?rows else v)"
      using db1 by (cases v) (auto simp flip: db_entries_simps(3))
    show ?thesis
    proof (cases "DB_get u a ?rows")
      case None
      then have "lk_view E w1 = lk_view E w"
        using leg by (cases v) (auto simp: lk_view_def fun_eq_iff db1 leg1 map_add_def split: option.split)
      moreover have "lk_view E w (u, a) = v" using None leg by (simp add: lk_view_def map_add_def)
      moreover have "lk_run E c uid req w = (case v of Some e \<Rightarrow> Inr (Some e) | None \<Rightarrow> Inl (LegacyKs LK_ENTRY_NOT_FOUND), w1)"
        using g get1 None v(2) LkGet a_def uid
        by (cases v; cases "recently_imported u a w") (simp_all add: LegacyKeystore_get_def st_bind_def)
      ultimately show ?thesis using inv1 LkGet a_def by simp
    next
      case (Some e)
      then show ?thesis using inv LkGet a_def uid by (simp add: LegacyKeystore_get_def st_bind_def lk_view_def map_add_def)
    qed
  next
    case (LkPut b e)
    let ?w = "set_profiles (DB_put u a e (lk_profiles (kw_lk w1))) w1"
    have "lk_run E c uid req w = (Inr None, ?w)"
      using g uid LkPut a_def by (simp add: LegacyKeystore_put_def log_only_def st_bind_def)
    moreover have "lk_view E ?w = (lk_view E w)((u, a) \<mapsto> e)"
      by (auto simp: lk_view_def set_profiles_def db1 leg1 fun_eq_iff map_add_def split: option.split)
    ultimately show ?thesis using lk_inv_set_profiles [OF inv1 DB_distinct(1) [OF dist1]] LkPut a_def by simp
  next
    case (LkRemove b)
    let ?w = "set_profiles (snd (DB_remove u a (lk_profiles (kw_lk w1)))) w1"
    have "lk_run E c uid req w = (if lk_view E w (u, a) \<noteq> None then Inr None else Inl (LegacyKs LK_ENTRY_NOT_FOUND), ?w)"
      using g uid LkRemove a_def DB_remove_found [OF dist1, of u a] leg db1
      by (auto simp: LegacyKeystore_remove_def log_only_def st_bind_def split_beta lk_view_def map_add_def
          simp flip: db_entries_simps(3) split: option.split)
    moreover have "lk_view E ?w = (lk_view E w)((u, a) := None)"
      by (auto simp: lk_view_def set_profiles_def db1 leg1 fun_eq_iff map_add_def split: option.split)
    ultimately show ?thesis
      using lk_inv_set_profiles [OF inv1 DB_distinct(2) [OF dist1]] LkRemove a_def by (auto split: option.split)
  qed
qed

subsection \<open>Example\<close>

text \<open>One entry of uid 10, still in a legacy file.\<close>

definition ex_lk_fs :: legacy_fs where
  "ex_lk_fs = \<lparr>lf_dirs = [(''user_0'', [(''10_b'', Ks_LegacyFiles.ex_cert)])], lf_fault = (\<lambda>_ _ _. False)\<rparr>"

definition ex_lk_world :: "keystore_db \<Rightarrow> unit lk_world" where
  "ex_lk_world db =
     \<lparr>kw_db = db, kw_perboot = PerbootDB_new, kw_rng = 5, kw_km = (), kw_fs = ex_lk_fs,
      kw_mig = \<lparr>lm_status = STATE_EMPTY, lm_initializer = False, lm_shelf = None\<rparr>, kw_skm = skm_init,
      kw_enf = Enforcements_default,
      kw_lk = \<lparr>lk_profiles = [\<lparr>pr_owner = 10, pr_alias = ''c'', pr_profile = [3]\<rparr>], lk_recently_imported = [], lk_worker = True\<rparr>\<rparr>"

lemma ex_lk_content: "map_res bl_value (new_from_stream Ks_LegacyFiles.ex_cert) = Inr (Generic [1, 2])"
  using new_from_stream_parts [of Ks_LegacyFiles.ex_cert SUPPORTED_LEGACY_BLOB_VERSION GENERIC 0 0 "replicate 16 0" "replicate 16 0" "Suc (Suc 0)" "[1, 2]"]
  by (simp add: Ks_LegacyFiles.ex_cert_def blob_file_def salt_of_def blob_of_type_def)

lemma nat_to_string_10: "nat_to_string 10 = ''10''"
  by code_simp

lemma ex_lk_filename: "make_legacy_keystore_entry_filename ex_legacy_env 10 ''b'' = Some (''user_0'', ''10_b'')"
  by (simp add: make_legacy_keystore_entry_filename_def make_user_path_name_def ex_legacy_env_def nat_to_string_7 nat_to_string_10
      encode_alias_plain is_keystore_alias_def KNOWN_KEYSTORE_PREFIXES_def starts_with_def)

lemma ex_lk_read:
  "read_legacy_keystore_entry ex_legacy_env u a ex_lk_fs = Inr (if (u, a) = (10, ''b'') then Some [1, 2] else None)"
proof (cases "make_legacy_keystore_entry_filename ex_legacy_env u a")
  case None
  then show ?thesis using ex_lk_filename by (auto simp: read_legacy_keystore_entry_def)
next
  case (Some p)
  have p: "p = (''user_0'', ''10_b'') \<longleftrightarrow> (u, a) = (10, ''b'')"
    using Some ex_lk_filename legacy_filename_inj [OF Some, of 10 "''b''"] by auto
  have content: "fs_file ex_lk_fs p = (if p = (''user_0'', ''10_b'') then Some Ks_LegacyFiles.ex_cert else None)"
    by (cases p) (auto simp: ex_lk_fs_def fs_file_def)
  obtain b where "new_from_stream Ks_LegacyFiles.ex_cert = Inr b" "bl_value b = Generic [1, 2]"
    using ex_lk_content by (auto simp: res_iffs)
  moreover have "no_faults ex_lk_fs" by (simp add: ex_lk_fs_def no_faults_def)
  ultimately show ?thesis
    by (simp add: read_legacy_keystore_entry_def Some read_generic_blob_def fs_open_no_faults content p)
qed

theorem legacy_keystore_refines_witness:
  "\<exists>w'. lk_run ex_legacy_env ex_caller UID_SELF (LkGet ''b'') (ex_lk_world (init_tables None)) = (Inr (Some [1, 2]), w') \<and>
     lk_inv ex_legacy_env w'"
proof -
  let ?w = "ex_lk_world (init_tables None)"
  have "lk_inv ex_legacy_env ?w"
    by (simp add: lk_inv_def ex_lk_world_def ex_lk_read recently_imported_def) (simp add: ex_lk_fs_def no_faults_def)
  moreover have "get_effective_uid ex_caller UID_SELF = Inr 10" by (simp add: get_effective_uid_def ex_caller_def)
  moreover have "lk_view ex_legacy_env ?w (10, ''b'') = Some [1, 2]"
    by (simp add: lk_view_def legacy_entries_def ex_lk_world_def ex_lk_read map_add_def DB_get_def profile_key_def)
  ultimately show ?thesis
    using legacy_keystore_refines [of ex_legacy_env ?w ex_caller UID_SELF 10 "LkGet ''b''"]
    by (simp del: lk_run.simps) blast
qed

text \<open>
  A file name that is shorter than the uid with its underscore ends the worker of the legacy
  keystore: the request fails, and the requests after it never return.
\<close>

lemma short_file_name_ends_worker:
  fixes w :: "('k, 'z) lk_world_scheme"
  assumes "kw_fs w = \<lparr>lf_dirs = [(''user_0'', [(''x'', [])])], lf_fault = (\<lambda>_ _ _. False)\<rparr>" and "lk_worker (kw_lk w)"
  shows "\<exists>w'. LegacyKeystore_list ex_legacy_env ex_caller [] UID_SELF w = (Inl (OtherErr ''RecvError''), w') \<and>
    LegacyKeystore_list ex_legacy_env ex_caller [] UID_SELF w' = (Inl Blocked, w')"
proof -
  have "list_legacy_keystore_entries_for_uid ex_legacy_env 10 (kw_fs w) = Inl Panicked"
    unfolding assms(1)
    by (simp add: list_legacy_keystore_entries_for_uid_def fs_read_dir_def ex_legacy_env_def make_user_path_name_def
        nat_to_string_7 nat_to_string_10 legacy_entry_of_def str_slice_from_def)
  moreover have "get_effective_uid ex_caller UID_SELF = Inr 10" by (simp add: get_effective_uid_def ex_caller_def)
  ultimately show ?thesis
    using assms(2) by (simp add: LegacyKeystore_list_def list_legacy_def LegacyKeystore_do_serialized_def st_bind_def)
qed

end
