(* ===== verification/Ks_MaintenanceProperties.thy ===== *)
theory Ks_MaintenanceProperties
  imports Ks_LegacyKeystore Ks_DbRoundtrip Ks_DbProperties
begin

text \<open>
  What is left of a user or a namespace that is gone.  The delete listener is a locale: whoever
  listens keeps the key database and the super keys in memory as they are.  The legacy keystore
  listens.
\<close>

section \<open>What keeps the key entries\<close>

named_theorems row_frames \<open>what keeps a property of the key entries\<close>

abbreviation on_rows :: "(keyentry_row list \<Rightarrow> bool) \<Rightarrow> ('k, 'z) base_world_scheme \<Rightarrow> bool" where
  "on_rows P w \<equiv> P (db_keyentry (kw_db w))"

lemma rows_basic [row_frames]:
  "preserves (on_rows P) (on_fs h)"
  "preserves (on_rows P) (drop_guard g)"
  "preserves (on_rows P) (on_db (set_deleted_blob b m))"
proof -
  have "db_keyentry (snd (set_deleted_blob b m db)) = db_keyentry db" for db
    by (simp add: set_deleted_blob_def with_transaction_def set_blob_internal_some notify_gc_def BlobMetaData_store_in_db_def
        split: sum.split)
  then show "preserves (on_rows P) (on_db (set_deleted_blob b m))" by (simp add: preserves_def on_db_def split_beta)
qed (simp_all add: preserves_def on_fs_eq KeyIdGuard_drop_def)

lemma rows_super_key_entry [row_frames]: "preserves (on_rows P) (super_key_entry kt u)"
proof -
  have "db_keyentry (snd (load_super_key a u db)) = db_keyentry db" for a db
    using load_super_key_same [of a u db] 
    by (cases "load_super_key a u db"; cases "fst (load_super_key a u db)")
      (auto simp: KeyIdGuard_drop_def dest: arg_cong [of _ _ db_keyentry])
  then have "preserves (on_rows P) (on_db (load_super_key a u))" for a by (simp add: preserves_def on_db_def split_beta)
  then show ?thesis unfolding super_key_entry_def by (intro row_frames st_preserves)
qed

lemma rows_bulk_delete_entries [row_frames]: "preserves (on_rows P) (bulk_delete_entries E sk keep entries)"
proof (induction entries)
  case (Cons e entries)
  show ?case
    by (cases e) (simp only: bulk_delete_entries.simps Let_def; intro Cons.IH row_frames st_preserves)
qed (simp only: bulk_delete_entries.simps st_preserves)

lemma rows_bulk_delete [row_frames]: "preserves (on_rows P) (bulk_delete E request keep)"
  unfolding bulk_delete_def by (intro row_frames st_preserves)

lemma rows_serialized_or [row_frames]:
  fixes m :: "(('k, 'z) mig_world_scheme, 'a) st"
  assumes "preserves (on_rows P) m"
  shows "preserves (on_rows P) (serialized_or v m)"
  unfolding preserves_def
proof (intro allI impI)
  fix w :: "('k, 'z) mig_world_scheme" assume P: "on_rows P w"
  obtain c w1 where c: "check_state w = (c, w1)" by fastforce
  then have w1: "on_rows P w1"
    using P by (auto simp: check_state_def Let_def set_status_def split: migrator_status.splits if_splits sum.splits bool.splits)
  obtain r w2 where m: "m w1 = (r, w2)" by fastforce
  have w2: "on_rows P w2" using preservesD [OF assms w1 m] .
  show "on_rows P (snd (serialized_or v m w))"
    using c w1 w2 m
    by (auto simp: serialized_or_def do_serialized_def migrator_job_def finish_request_def set_status_def Let_def
        split: sum.splits migrator_status.splits option.splits)
qed

lemma rows_bulk [row_frames]:
  "preserves (on_rows P) (bulk_delete_user E u keep)" "preserves (on_rows P) (bulk_delete_uid E d n)"
  unfolding bulk_delete_user_def bulk_delete_uid_def by (intro row_frames st_preserves)+

section \<open>Removing the keys of a user\<close>

lemma unbind_user_keys_rows:
  "\<exists>n db'. unbind_user_keys False ids notify db = Inr ((n, ()), db') \<and>
     db_keyentry db' = filter (\<lambda>k. ke_id k \<notin> set ids) (db_keyentry db)"
proof (induction ids arbitrary: notify db)
  case (Cons i ids)
  from Cons.IH [of "fst (mark_unreferenced i db) \<or> notify" "snd (mark_unreferenced i db)"] show ?case
    by (auto simp: split_beta mark_unreferenced_def Let_def delete_where_def intro!: filter_cong)
qed simp

lemma unbind_keys_for_user_rows:
  assumes "distinct (map ke_id (db_keyentry db))"
  obtains db' where "unbind_keys_for_user off al u False db = (Inr (), db')"
    and "db_keyentry db' = filter (\<lambda>k. \<not> user_key_selected off al u k) (db_keyentry db)"
proof -
  let ?ids = "map ke_id (filter (user_key_selected off al u) (db_keyentry db))"
  from unbind_user_keys_rows [of ?ids False db] obtain n db' where
    u: "unbind_user_keys False ?ids False db = Inr ((n, ()), db')"
    and r: "db_keyentry db' = filter (\<lambda>k. ke_id k \<notin> set ?ids) (db_keyentry db)" by blast
  have "ke_id k \<notin> set ?ids \<longleftrightarrow> \<not> user_key_selected off al u k" if "k \<in> set (db_keyentry db)" for k
    using that assms by (auto simp: distinct_map inj_on_def)
  then have "db_keyentry db' = filter (\<lambda>k. \<not> user_key_selected off al u k) (db_keyentry db)"
    unfolding r by (intro filter_cong) auto
  with u show thesis
    by (intro that [of "if n then notify_gc db' else db'"]) (simp_all add: unbind_keys_for_user_def with_transaction_def notify_gc_def)
qed

section \<open>Listeners\<close>

locale delete_listener_laws =
  fixes L :: "('k, 'z) service_world_scheme delete_listener"
  assumes user_keeps: "preserves (\<lambda>w. P (kw_db w) (kw_skm w)) (dl_delete_user L u)"
    and namespace_keeps: "preserves (\<lambda>w. P (kw_db w) (kw_skm w)) (dl_delete_namespace L d n)"
begin

lemma user_forgotten:
  assumes inv: "db_inv (kw_db w)" and ok: "add_or_remove_user S L c user w = (Inr (), w')"
  shows "db_keyentry (kw_db w') =
      filter (\<lambda>k. \<not> user_key_selected (nv_aid_user_offset (sv_env S)) (skt_alias USER_SUPER_KEY) (unat user) k) (db_keyentry (kw_db w))"
    and "get_per_boot_key_by_user_id (unat user) (kw_skm w') = None"
    and "\<exists>w2. dl_delete_user L (unat user) w2 = (Inr (), w')"
proof -
  let ?E = "sv_env S"
  let ?sel = "user_key_selected (nv_aid_user_offset ?E) (skt_alias USER_SUPER_KEY) (unat user)"
  from ok obtain w1 where w1: "bulk_delete_user ?E (unat user) False w = (Inr (), w1)" and w2: 
    "(st_bind (on_db (unbind_keys_for_user (nv_aid_user_offset ?E) (skt_alias USER_SUPER_KEY) (unat user) False)) (\<lambda>_.
      st_bind (modify_skm (forget_all_keys_for_user (unat user))) (\<lambda>_. dl_delete_user L (unat user)))) w1 = (Inr (), w')"
    by (auto simp: add_or_remove_user_def reset_user_def require_perm_def st_bind_Inr_iff)
  have r1: "db_keyentry (kw_db w1) = db_keyentry (kw_db w)"
    using preservesD [OF rows_bulk(1) [of "\<lambda>x. x = db_keyentry (kw_db w)"] refl w1] .
  have "distinct (map ke_id (db_keyentry (kw_db w1)))" using inv by (simp add: r1 db_inv_def keys_inv_def)
  from unbind_keys_for_user_rows [OF this] obtain db2 where
    "unbind_keys_for_user (nv_aid_user_offset ?E) (skt_alias USER_SUPER_KEY) (unat user) False (kw_db w1) = (Inr (), db2)"
    and rows: "db_keyentry db2 = filter (\<lambda>k. \<not> ?sel k) (db_keyentry (kw_db w))" unfolding r1 by blast
  with w2 have l: "dl_delete_user L (unat user) (w1\<lparr>kw_db := db2, kw_skm := forget_all_keys_for_user (unat user) (kw_skm w1)\<rparr>) = (Inr (), w')"
    by (simp add: st_bind_def on_db_def modify_skm_def)
  from preservesD [OF user_keeps [of "\<lambda>db s. db = db2 \<and> s = forget_all_keys_for_user (unat user) (kw_skm w1)"] _ l]
  have "kw_db w' = db2" "kw_skm w' = forget_all_keys_for_user (unat user) (kw_skm w1)" by simp_all
  then show "db_keyentry (kw_db w') = filter (\<lambda>k. \<not> ?sel k) (db_keyentry (kw_db w))"
    and "get_per_boot_key_by_user_id (unat user) (kw_skm w') = None"
    by (simp_all add: rows get_per_boot_key_by_user_id_def forget_all_keys_for_user_def map_of_filter_key)
  show "\<exists>w2. dl_delete_user L (unat user) w2 = (Inr (), w')" using l by blast
qed

lemma namespace_forgotten:
  assumes ok: "clear_namespace S L c d n w = (Inr (), w')"
  shows "db_keyentry (kw_db w') =
      filter (\<lambda>k. \<not> (ke_domain k = Some d \<and> ke_namespace k = Some n \<and> ke_key_type k = Client)) (db_keyentry (kw_db w))"
    and "\<exists>w2. dl_delete_namespace L d n w2 = (Inr (), w')"
proof -
  from ok obtain w1 w2 where w1: "bulk_delete_uid (sv_env S) d n w = (Inr (), w1)"
    and w2: "on_db (unbind_keys_for_namespace d n) w1 = (Inr (), w2)" and l: "dl_delete_namespace L d n w2 = (Inr (), w')"
    by (auto simp: clear_namespace_def require_perm_def st_bind_Inr_iff)
  have "db_keyentry (kw_db w1) = db_keyentry (kw_db w)"
    using preservesD [OF rows_bulk(2) [of "\<lambda>x. x = db_keyentry (kw_db w)"] refl w1] .
  moreover from w2 have "db_keyentry (kw_db w2) =
      filter (\<lambda>k. \<not> (ke_domain k = Some d \<and> ke_namespace k = Some n \<and> ke_key_type k = Client)) (db_keyentry (kw_db w1))"
    by (auto simp: on_db_def unbind_keys_for_namespace_def with_transaction_def delete_keys_where_def delete_where_def
        notify_gc_def Let_def split: if_splits)
  moreover have "kw_db w' = kw_db w2" using preservesD [OF namespace_keeps [of "\<lambda>db s. db = kw_db w2"] refl l] .
  ultimately show "db_keyentry (kw_db w') =
      filter (\<lambda>k. \<not> (ke_domain k = Some d \<and> ke_namespace k = Some n \<and> ke_key_type k = Client)) (db_keyentry (kw_db w))" by simp
  show "\<exists>w2. dl_delete_namespace L d n w2 = (Inr (), w')" using l by blast
qed

end

section \<open>The legacy keystore listens\<close>

lemma lk_keeps:
  "preserves (\<lambda>w. P (kw_db w) (kw_skm w)) (on_fs h :: (('k, 'z) lk_world_scheme, 'a) st)"
  "preserves (\<lambda>w. P (kw_db w) (kw_skm w)) (m :: (('k, 'z) lk_world_scheme, 'b) st) \<Longrightarrow>
     preserves (\<lambda>w. P (kw_db w) (kw_skm w)) (LegacyKeystore_do_serialized m)"
  "preserves (\<lambda>w. P (kw_db w) (kw_skm w)) m \<Longrightarrow> preserves (\<lambda>w. P (kw_db w) (kw_skm w)) (log_only m)"
proof -
  assume m: "preserves (\<lambda>w. P (kw_db w) (kw_skm w)) m"
  show "preserves (\<lambda>w. P (kw_db w) (kw_skm w)) (LegacyKeystore_do_serialized m)"
    unfolding preserves_def
  proof (intro allI impI)
    fix w :: "('k, 'z) lk_world_scheme" assume "P (kw_db w) (kw_skm w)"
    with m have "P (kw_db (snd (m w))) (kw_skm (snd (m w)))" by (simp add: preserves_def)
    with \<open>P (kw_db w) (kw_skm w)\<close> show "P (kw_db (snd (LegacyKeystore_do_serialized m w))) (kw_skm (snd (LegacyKeystore_do_serialized m w)))"
      by (auto simp: LegacyKeystore_do_serialized_def split: prod.split sum.split)
  qed
  show "preserves (\<lambda>w. P (kw_db w) (kw_skm w)) (log_only m)" unfolding log_only_def by (intro m st_preserves)
qed (simp add: preserves_def on_fs_eq)

interpretation lk_listener: delete_listener_laws "LegacyKeystoreDeleteListener E" for E
proof
  have s: "preserves (\<lambda>w. P (kw_db w) (kw_skm w)) (st_modify (\<lambda>w. set_profiles (f w) w))" for P and f :: "('k, 'z) lk_world_scheme \<Rightarrow> _"
    by (simp add: preserves_def set_profiles_def)
  show "preserves (\<lambda>w. P (kw_db w) (kw_skm w)) (dl_delete_user (LegacyKeystoreDeleteListener E) u)" for P u
    unfolding LegacyKeystoreDeleteListener_def delete_listener.simps LegacyKeystore_delete_user_def LegacyKeystore_bulk_delete_user_def
    by (intro s lk_keeps preserves_bind preserves_basic)
  show "preserves (\<lambda>w. P (kw_db w) (kw_skm w)) (dl_delete_namespace (LegacyKeystoreDeleteListener E) d n)" for P d n
    unfolding LegacyKeystoreDeleteListener_def delete_listener.simps LegacyKeystore_delete_namespace_def LegacyKeystore_bulk_delete_uid_def
    by (intro s lk_keeps preserves_bind preserves_basic preserves_case_option)
qed

section \<open>Users and namespaces that are gone\<close>

lemma deleted_user_profiles:
  assumes "LegacyKeystore_delete_user E off u w = (Inr (), w')"
  shows "\<forall>r\<in>set (lk_profiles (kw_lk w')). sql_div (int (pr_owner r)) off \<noteq> int u"
  using assms by (auto simp: LegacyKeystore_delete_user_def st_bind_Inr_iff set_profiles_def DB_remove_user_def)



subsection \<open>Examples\<close>

text \<open>The user's directory can be listed or not; either way the listener answers while its worker is alive.\<close>

lemma delete_user_returns:
  assumes "lk_worker (kw_lk w)"
  obtains w' where "LegacyKeystore_delete_user E off u w = (Inr (), w')"
proof -
  have "list_legacy_keystore_entries_for_user u fs \<noteq> Inl Blocked" for fs
    by (auto simp: list_legacy_keystore_entries_for_user_def list_user_def split: sum.splits io_error_kind.splits)
  then have "fst (LegacyKeystore_bulk_delete_user E u w) \<noteq> Inl Blocked"
    using assms by (auto simp: LegacyKeystore_bulk_delete_user_def LegacyKeystore_do_serialized_def st_bind_def on_fs_def
        split: sum.split prod.split)
  then show thesis
    using that by (cases "LegacyKeystore_bulk_delete_user E u w")
      (simp add: LegacyKeystore_delete_user_def log_only_def st_bind_def)
qed

lemma ex_user_removed:
  obtains w' where "add_or_remove_user ex_service_env (LegacyKeystoreDeleteListener ex_ks_env) ex_caller 0 (ex_lk_world ex_db) = (Inr (), w')"
proof -
  have "distinct (map ke_id (db_keyentry ex_db))" using ex_db_inv by (simp add: db_inv_def keys_inv_def)
  from unbind_keys_for_user_rows [OF this] obtain db where
    u: "unbind_keys_for_user (nv_aid_user_offset ex_ks_env) (skt_alias USER_SUPER_KEY) 0 False ex_db = (Inr (), db)" by blast
  define w2 where "w2 = (ex_lk_world ex_db)\<lparr>kw_db := db, kw_skm := forget_all_keys_for_user 0 skm_init\<rparr>"
  have "lk_worker (kw_lk w2)" by (simp add: w2_def ex_lk_world_def)
  from delete_user_returns [OF this, of "nv_legacy ex_ks_env" "nv_aid_user_offset ex_ks_env" 0] obtain w'
    where l: "dl_delete_user (LegacyKeystoreDeleteListener ex_ks_env) 0 w2 = (Inr (), w')"
    by (auto simp: LegacyKeystoreDeleteListener_def)
  have e: "sv_env ex_service_env = ex_ks_env" by (simp add: ex_service_env_def)
  have "bulk_delete_user ex_ks_env 0 False (ex_lk_world ex_db) = (Inr (), ex_lk_world ex_db)"
    by (simp add: bulk_delete_user_def serialized_or_def do_serialized_def check_state_def ex_lk_world_def)
  moreover have "kw_db (ex_lk_world ex_db) = ex_db" "kw_skm (ex_lk_world ex_db) = skm_init" by (simp_all add: ex_lk_world_def)
  ultimately have "add_or_remove_user ex_service_env (LegacyKeystoreDeleteListener ex_ks_env) ex_caller 0 (ex_lk_world ex_db) = (Inr (), w')"
    using u l by (simp add: add_or_remove_user_def reset_user_def st_bind_def ex_permission e on_db_def modify_skm_def w2_def)
  then show thesis by (rule that)
qed


lemma ex_lk_list: "list_legacy_keystore_entries_for_uid ex_legacy_env 10 ex_lk_fs = Inr [''b'']"
  by (simp add: list_legacy_keystore_entries_for_uid_def fs_read_dir_def ex_legacy_env_def make_user_path_name_def ex_lk_fs_def
      nat_to_string_7 nat_to_string_10 legacy_entry_of_def str_slice_from_def starts_with_def is_keystore_alias_def
      KNOWN_KEYSTORE_PREFIXES_def decode_alias_def map_filter_simps)


end
