(* ===== verification/Spec2Isabelle.thy ===== *)
theory Spec2Isabelle
  imports Ks_DbProperties Ks_BootLevel Ks_Versioning Ks_AuthProperties Ks_OpLife Ks_Gc
    Ks_MigratorLife Ks_ScreenLock Ks_LevelProperties Ks_KeyService Ks_MaintenanceProperties
begin

text \<open>
  \<^bold>\<open>Keystore 2.0.\<close>  A verification of the Android key store daemon, the Rust code under
  \<open>src/keystore2\<close>.  A client names a key by a descriptor (domain, namespace, alias, or an id); the
  service resolves it in an SQL database, asks SELinux whether the caller may use it, decides from the
  parameters of the key whether this use is authorized now, unwraps the key blob with a super key of the
  user if it is bound to the lock screen, and starts an operation on the KeyMint device.

  \<^bold>\<open>Conventions.\<close>  A method \<open>m\<close> of a type \<open>T\<close> is \<open>T_m\<close> unless \<open>m\<close> is unique.  A \<open>Result\<close> is \<open>err + 'a\<close> with the
  error on the left and a panic as one of its values.  Code with \<open>&mut self\<close> is a function in the state
  monad of \<open>Ks_Stateful\<close>; the state survives an error, and a transaction restores the tables explicitly.
  What a component needs of the system around it (libselinux, KeyMint, BoringSSL, the clock, the file
  system's faults, binder's caller, SQLite's busy errors and random numbers) is a record of functions that
  its definitions take as an argument; the laws that a theorem needs of them are its hypotheses, and its
  witness has an instance.  The states of the components form an extensible record: \<open>base_world\<close>
  (database, tokens, legacy files), \<open>mig_world\<close>, \<open>ks_world\<close>, \<open>service_world\<close>, and on top \<open>audit_world\<close> with
  \<open>level_world\<close>, \<open>rp_world\<close>, and \<open>lk_world\<close>.

  \<^bold>\<open>Foundations.\<close>
  \<^item> \<open>Ks_Prelude\<close>, \<open>Ks_Stateful\<close>, \<open>Ks_Types\<close>, \<open>Ks_World\<close>, \<open>Ks_Frames\<close>: the vocabulary, the monads with their
    rules, the AIDL data, the shared state and what the lower components leave alone.
  \<^item> \<open>Ks_Error\<close> (\<open>error.rs\<close>): error codes and every translation between them.
  \<^item> \<open>Ks_Selinux\<close>, \<open>Ks_Permission\<close> (\<open>selinux/src/lib.rs\<close>, \<open>permission.rs\<close>, the checks of \<open>utils.rs\<close>):
    permission sets and the three checks; a key check succeeds exactly in the documented cases, and a
    grant never gives away more than the granting caller has.
  \<^item> \<open>Ks_KeyParameter\<close> (\<open>key_parameter.rs\<close>): the sixty parameters with their encodings.
  \<^item> \<open>Ks_Crypto\<close>, \<open>Ks_BootLevel\<close> (\<open>crypto\<close>, \<open>ec_crypto.rs\<close>, \<open>boot_level_keys.rs\<close>): zeroing vectors, the checks
    around BoringSSL, ECDH encryption, and the boot level key cache as a refinement of a one way chain.
  \<^item> \<open>Ks_AsyncTask\<close> (\<open>async_task.rs\<close>): the worker thread as a step relation.

  \<^bold>\<open>The database\<close> (\<open>database.rs\<close>, \<open>database/\<close>).  \<open>Ks_DbTypes\<close> has the columns and the metadata,
  \<open>Ks_Database\<close> the operations on the six tables, \<open>Ks_Attestation\<close> the attestation key pool, \<open>Ks_Perboot\<close> the
  authentication tokens, \<open>Ks_Versioning\<close> the schema upgrades.  \<open>Ks_DbInvariant\<close> proves that every operation
  keeps the well-formedness invariant, \<open>Ks_DbReach\<close> that it holds on every run, \<open>Ks_DbRoundtrip\<close> that what is
  stored is what is loaded.  \<open>Ks_DbKeys\<close> and \<open>Ks_DbProperties\<close> relate the tables to a map from names to keys
  and state what loading, storing, granting and unbinding do.  \<open>Ks_Gc\<close> (\<open>gc.rs\<close>) shows that the collector never
  takes a blob in use and, undisturbed, removes all others.

  \<^bold>\<open>Authorization and operations\<close> (\<open>enforcements.rs\<close>, \<open>operation.rs\<close>).  \<open>Ks_Enforcements\<close> and
  \<open>Ks_AuthProperties\<close> have the checks of a new operation and the requests for tokens that arrive later;
  \<open>Ks_Operation\<close>, \<open>Ks_OpProperties\<close> and \<open>Ks_OpLife\<close> the life of an operation and the pruning strategy.

  \<^bold>\<open>Super keys and legacy data\<close> (\<open>super_key.rs\<close>, \<open>raw_device.rs\<close>, \<open>legacy_blob.rs\<close>, \<open>legacy_migrator.rs\<close>).
  \<open>Ks_SuperKeyTypes\<close> has the encryption of blobs, \<open>Ks_RawDevice\<close> the keys that Keystore uses itself,
  \<open>Ks_SuperKey\<close> the manager and the user states; \<open>Ks_SuperKeyLife\<close> and \<open>Ks_ScreenLock\<close> show what a reboot and
  the screen lock do.  \<open>Ks_LegacyBlob\<close> and \<open>Ks_LegacyFiles\<close> model the files of the old key store, with a parser
  that agrees with a description of the format; \<open>Ks_LegacyMigrator\<close> and \<open>Ks_MigratorLife\<close> the migration,
  which never loses a key, also when requests overlap.

  \<^bold>\<open>The services.\<close>
  \<^item> \<open>Ks_Authorization\<close> (\<open>authorization.rs\<close>), \<open>Ks_Maintenance\<close> (\<open>maintenance.rs\<close>), \<open>Ks_AuditLog\<close>
    (\<open>audit_log.rs\<close>): every request with its permission check.
  \<^item> \<open>Ks_RemoteProvisioning\<close> (\<open>remote_provisioning.rs\<close>, \<open>attestation_key_utils.rs\<close>): the attestation key pool
    from the outside, and when the assembled certificate request is CBOR.
  \<^item> \<open>Ks_SecurityLevel\<close> (\<open>security_level.rs\<close>, \<open>id_rotation.rs\<close>, parts of \<open>utils.rs\<close>) and \<open>Ks_KeyService\<close>
    (\<open>service.rs\<close>).  \<open>Ks_LevelProperties\<close>: a locked device refuses operations before KeyMint is asked, an
    upgraded blob is saved before it is used, and the loop around \<open>begin\<close> returns.
  \<^item> \<open>Ks_LegacyKeystore\<close> (\<open>legacykeystore/lib.rs\<close>): get, put and remove implement a map, whether an entry is
    in the database or still in a file.  \<open>Ks_MaintenanceProperties\<close>: what is left of a removed user.

  \<^bold>\<open>Bounds, fuel and simplifications.\<close>
  \<^item> Loops over data are structural recursions, and no definition takes fuel.  The loops that need not end
    (\<open>prune\<close>, the loop around \<open>begin\<close>, the database upgrade) are partial functions into options, where None
    is not returning; theorems show when they return.  The first two take what other threads do between
    two rounds as an argument.  A call that waits for something that does not come has the value \<open>Blocked\<close>.
  \<^item> Integers keep their width where the code can wrap or convert; \<open>usize\<close> has 64 bits, and the native byte
    order is little endian.  The logarithm of the pruning strategy is the exact one instead of the one
    computed in floating point.
  \<^item> Choosing a fresh random id (\<open>insert_with_retry\<close>) takes the numbers of a list, and is \<open>Blocked\<close> when none
    of them is fresh; one fresh number is shown to be enough for storing a key.  The id of a deleted key
    whose blobs are still to be collected counts as fresh, as in the code.
  \<^item> Behaviour of the code that the model has and a reader may not expect: \<open>store_super_key\<close> does not look
    for an existing super key; a negative usage limit never runs out; \<open>super_encryption_required\<close> goes by the
    first boot level of a key and \<open>authorize_create\<close> by the last; a database error that persists makes the
    collector try for ever; when the ECDH key cannot be unlocked, the symmetric screen lock key stays with
    the user but is not in the index of keys.
  \<^item> Locking memory (\<open>mlock\<close>), opening the database of the legacy keystore and turning Keystore's own
    binder objects into interfaces succeed.  A system call interrupted by a signal is not told apart from
    one that was not.

  \<^bold>\<open>Not modelled.\<close>
  \<^item> \<open>keystore2_main.rs\<close>, \<open>globals.rs\<close>, \<open>lib.rs\<close>: creating the services and the binder threads; the glue
    that hands the arguments of a binder call to the method that is modelled.
  \<^item> \<open>metrics.rs\<close>, \<open>metrics_store.rs\<close>, \<open>watchdog.rs\<close>, logging: nothing the modelled code does depends on them.
  \<^item> \<open>entropy.rs\<close>, \<open>shared_secret_negotiation.rs\<close>, \<open>vintf\<close>, \<open>system_property\<close>, \<open>aaid\<close>: input and output of
    devices and C++ libraries; the values that other code takes from them are parameters.
  \<^item> \<open>apc.rs\<close>, \<open>apc_compat\<close>: protected confirmation is a dialogue with a HAL that calls back on its own thread;
    the token it ends with enters the model as the one the enforcements receive.
  \<^item> \<open>km_compat\<close> and \<open>crypto/*.cpp\<close>: C++ that the Rust code sees as a KeyMint device and as BoringSSL, which
    are parameters here.
  \<^item> \<open>identity\<close>, \<open>ondevice-signing\<close>, \<open>provisioner\<close>, \<open>fsverity_init\<close>, \<open>keystore\<close>, \<open>keystore-engine\<close>: separate C++
    programs, clients of Keystore.
\<close>

end
